(* ===== verification/Prelude.thy ===== *)
theory Prelude
  imports Main "HOL-Library.AList" "HOL-Library.Word"
begin

text \<open>
  The shared vocabulary of the development.

  \<^item> Machine integers and identifiers of the Rust sources (\<open>u8\<close>, \<open>u32\<close>, \<open>u64\<close>,
    \<open>usize\<close> on a 64-bit target, \<open>Uuid\<close> as its 128 bits).
  \<^item> \<open>prog\<close>: a Rust function that returns a \<open>Result\<close> and mutates what it borrows, as
    a function from the state to the result and the new state. \<open>try_bind\<close> is the
    \<^verbatim>\<open>?\<close> operator, \<open>map_err\<close> is \<^verbatim>\<open>Result::map_err\<close>, \<open>attempt\<close> hands the
    \<open>Result\<close> itself to the continuation, \<open>for_each\<close> and \<open>for_collect\<close> are loops
    with a \<^verbatim>\<open>?\<close> in the body, and \<open>zoom\<close> runs a method of a field on the owner.
  \<^item> A small program logic for \<open>prog\<close>: \<open>triple\<close> (with one postcondition for \<open>Ok\<close>
    and one for \<open>Err\<close>) and \<open>keeps\<close> (an invariant survives on every path), whose
    rules are collected in \<open>triple_rules\<close> and \<open>keeps_rules\<close>.
  \<^item> A \<open>HashMap\<close> is an association list with distinct keys; the position in the list
    is its iteration order, which no theorem fixes.
  \<^item> \<open>str::trim\<close> and decimal output of unsigned integers (\<open>to_string\<close> of the integer types).
\<close>

section \<open>Machine types\<close>

type_synonym u8 = "8 word"
type_synonym u32 = "32 word"
type_synonym u64 = "64 word"
type_synonym usize = "64 word"
type_synonym bytes = "u8 list"
type_synonym uuid = "128 word"
type_synonym path = string
type_synonym duration = nat

section \<open>Programs with errors\<close>

type_synonym ('s, 'e, 'a) prog = "'s \<Rightarrow> ('e + 'a) \<times> 's"

definition ok :: "'a \<Rightarrow> ('s, 'e, 'a) prog" where
  "ok x s = (Inr x, s)"

definition fail :: "'e \<Rightarrow> ('s, 'e, 'a) prog" where
  "fail e s = (Inl e, s)"

definition try_bind :: "('s, 'e, 'a) prog \<Rightarrow> ('a \<Rightarrow> ('s, 'e, 'b) prog) \<Rightarrow> ('s, 'e, 'b) prog" where
  "try_bind m f s = (case m s of (r, s') \<Rightarrow> (case r of Inl e \<Rightarrow> (Inl e, s') | Inr x \<Rightarrow> f x s'))"

definition attempt :: "('s, 'e, 'a) prog \<Rightarrow> ('e + 'a \<Rightarrow> ('s, 'f, 'b) prog) \<Rightarrow> ('s, 'f, 'b) prog" where
  "attempt m f s = (case m s of (r, s') \<Rightarrow> f r s')"

definition map_err :: "('e \<Rightarrow> 'f) \<Rightarrow> ('s, 'e, 'a) prog \<Rightarrow> ('s, 'f, 'a) prog" where
  "map_err g m s = (case m s of (r, s') \<Rightarrow> (case r of Inl e \<Rightarrow> (Inl (g e), s') | Inr x \<Rightarrow> (Inr x, s')))"

definition get :: "('s \<Rightarrow> 'a) \<Rightarrow> ('s, 'e, 'a) prog" where
  "get g s = (Inr (g s), s)"

definition upd :: "('s \<Rightarrow> 's) \<Rightarrow> ('s, 'e, unit) prog" where
  "upd h s = (Inr (), h s)"

definition of_result :: "'e + 'a \<Rightarrow> ('s, 'e, 'a) prog" where
  "of_result r s = (r, s)"

definition zoom :: "('s \<Rightarrow> 't) \<Rightarrow> ('t \<Rightarrow> 's \<Rightarrow> 's) \<Rightarrow> ('t, 'e, 'a) prog \<Rightarrow> ('s, 'e, 'a) prog" where
  "zoom g p m s = (case m (g s) of (r, t) \<Rightarrow> (r, p t s))"

primrec for_each :: "('a \<Rightarrow> ('s, 'e, unit) prog) \<Rightarrow> 'a list \<Rightarrow> ('s, 'e, unit) prog" where
  "for_each f [] = ok ()"
| "for_each f (x # xs) = try_bind (f x) (\<lambda>_. for_each f xs)"

primrec for_collect :: "('a \<Rightarrow> ('s, 'e, 'b) prog) \<Rightarrow> 'a list \<Rightarrow> ('s, 'e, 'b list) prog" where
  "for_collect f [] = ok []"
| "for_collect f (x # xs) = try_bind (f x) (\<lambda>y. try_bind (for_collect f xs) (\<lambda>ys. ok (y # ys)))"

definition ok_or :: "'e \<Rightarrow> 'a option \<Rightarrow> 'e + 'a" where
  "ok_or e x = (case x of None \<Rightarrow> Inl e | Some v \<Rightarrow> Inr v)"

lemmas prog_defs =
  ok_def fail_def try_bind_def attempt_def map_err_def get_def upd_def of_result_def zoom_def

lemma try_bind_ok [simp]: "try_bind (ok x) f = f x"
  by (simp add: fun_eq_iff prog_defs)

lemma try_bind_fail [simp]: "try_bind (fail e) f = fail e"
  by (simp add: fun_eq_iff prog_defs)

lemma try_bind_right [simp]: "try_bind m ok = m"
  by (simp add: fun_eq_iff prog_defs split: prod.split sum.split)

lemma try_bind_assoc: "try_bind (try_bind m f) g = try_bind m (\<lambda>x. try_bind (f x) g)"
  by (simp add: fun_eq_iff prog_defs split: prod.split sum.split)

lemma map_err_ok [simp]: "map_err g (ok x) = ok x"
  by (simp add: fun_eq_iff prog_defs)

lemma map_err_fail [simp]: "map_err g (fail e) = fail (g e)"
  by (simp add: fun_eq_iff prog_defs)

lemma ok_or_simps [simp]: "ok_or e None = Inl e" "ok_or e (Some v) = Inr v"
  by (simp_all add: ok_or_def)

lemma ok_or_Inr [simp]: "ok_or e x = Inr v \<longleftrightarrow> x = Some v"
  by (cases x) auto

lemma ok_or_Inl [simp]: "ok_or e x = Inl f \<longleftrightarrow> x = None \<and> f = e"
  by (cases x) auto

text \<open>Where a program ran to: the cases of a run, used to take a long chain apart.\<close>

lemma try_bind_InrE:
  assumes "try_bind m f s = (Inr y, t)"
  obtains x u where "m s = (Inr x, u)" "f x u = (Inr y, t)"
  using assms by (auto simp: try_bind_def split: prod.splits sum.splits)

lemma try_bind_InlE:
  assumes "try_bind m f s = (Inl e, t)"
  obtains (first) "m s = (Inl e, t)"
        | (second) x u where "m s = (Inr x, u)" "f x u = (Inl e, t)"
  using assms by (auto simp: try_bind_def split: prod.splits sum.splits)

lemma try_bind_Inr_iff:
  "try_bind m f s = (Inr y, t) \<longleftrightarrow> (\<exists>x u. m s = (Inr x, u) \<and> f x u = (Inr y, t))"
  by (auto simp: try_bind_def split: prod.splits sum.splits)

lemma try_bind_Inl_iff:
  "try_bind m f s = (Inl e, t) \<longleftrightarrow>
     m s = (Inl e, t) \<or> (\<exists>x u. m s = (Inr x, u) \<and> f x u = (Inl e, t))"
  by (auto simp: try_bind_def split: prod.splits sum.splits)

lemma attempt_iff: "attempt m f s = (r, t) \<longleftrightarrow> (\<exists>x u. m s = (x, u) \<and> f x u = (r, t))"
  by (auto simp: attempt_def split: prod.splits)

lemma ok_iff: "ok x s = (r, t) \<longleftrightarrow> r = Inr x \<and> t = s"
  by (auto simp: ok_def)

lemma fail_iff: "fail e s = (r, t) \<longleftrightarrow> r = Inl e \<and> t = s"
  by (auto simp: fail_def)

lemma get_iff: "get g s = (r, t) \<longleftrightarrow> r = Inr (g s) \<and> t = s"
  by (auto simp: get_def)

lemma upd_iff: "upd h s = (r, t) \<longleftrightarrow> r = Inr () \<and> t = h s"
  by (auto simp: upd_def)

lemma of_result_iff: "of_result x s = (r, t) \<longleftrightarrow> x = r \<and> t = s"
  by (auto simp: of_result_def)

lemma map_err_Inl_iff: "map_err g m s = (Inl e, t) \<longleftrightarrow> (\<exists>d. m s = (Inl d, t) \<and> e = g d)"
  by (auto simp: map_err_def split: prod.splits sum.splits)

lemmas run_iffs =
  try_bind_Inr_iff try_bind_Inl_iff attempt_iff ok_iff fail_iff get_iff upd_iff of_result_iff
  map_err_Inl_iff

lemma map_err_InrD: "map_err g m s = (Inr y, t) \<Longrightarrow> m s = (Inr y, t)"
  by (auto simp: map_err_def split: prod.splits sum.splits)

lemma map_err_Inr_iff [simp]: "map_err g m s = (Inr y, t) \<longleftrightarrow> m s = (Inr y, t)"
  by (auto simp: map_err_def split: prod.splits sum.splits)

lemma map_err_InlE:
  assumes "map_err g m s = (Inl e, t)"
  obtains d where "m s = (Inl d, t)" "e = g d"
  using assms by (auto simp: map_err_def split: prod.splits sum.splits)

lemma map_sum_Inl_iff [simp]:
  "map_sum f g y = Inl e \<longleftrightarrow> (\<exists>d. y = Inl d \<and> e = f d)"
  "Inl e = map_sum f g y \<longleftrightarrow> (\<exists>d. y = Inl d \<and> e = f d)"
  by (cases y; auto)+

lemma map_sum_Inr_iff [simp]:
  "map_sum f g y = Inr e \<longleftrightarrow> (\<exists>d. y = Inr d \<and> e = g d)"
  "Inr e = map_sum f g y \<longleftrightarrow> (\<exists>d. y = Inr d \<and> e = g d)"
  by (cases y; auto)+

lemma map_err_run: "map_err g m s = (x, t) \<Longrightarrow> \<exists>y. m s = (y, t) \<and> x = map_sum g id y"
  by (auto simp: map_err_def split: prod.splits sum.splits)

lemma zoom_Inr_iff: "zoom g p m s = (r, t) \<longleftrightarrow> (\<exists>u. m (g s) = (r, u) \<and> t = p u s)"
  by (auto simp: zoom_def split: prod.splits)

lemma snd_map_err [simp]: "snd (map_err g m s) = snd (m s)"
  by (simp add: map_err_def split: prod.split sum.split)

section \<open>A program logic\<close>

definition triple ::
  "('s \<Rightarrow> bool) \<Rightarrow> ('s, 'e, 'a) prog \<Rightarrow> ('a \<Rightarrow> 's \<Rightarrow> bool) \<Rightarrow> ('e \<Rightarrow> 's \<Rightarrow> bool) \<Rightarrow> bool" where
  "triple P m Q E \<longleftrightarrow>
     (\<forall>s. P s \<longrightarrow> (case m s of (r, t) \<Rightarrow> (case r of Inl e \<Rightarrow> E e t | Inr x \<Rightarrow> Q x t)))"

definition keeps :: "('s \<Rightarrow> bool) \<Rightarrow> ('s, 'e, 'a) prog \<Rightarrow> bool" where
  "keeps I m \<longleftrightarrow> (\<forall>s. I s \<longrightarrow> I (snd (m s)))"

named_theorems triple_rules "proof rules that take a program apart"
named_theorems keeps_rules "operations that keep an invariant"

lemma tripleI:
  assumes "\<And>s x t. P s \<Longrightarrow> m s = (Inr x, t) \<Longrightarrow> Q x t"
    and "\<And>s e t. P s \<Longrightarrow> m s = (Inl e, t) \<Longrightarrow> E e t"
  shows "triple P m Q E"
  using assms by (auto simp: triple_def split: prod.split sum.split)

lemma triple_okD: "triple P m Q E \<Longrightarrow> P s \<Longrightarrow> m s = (Inr x, t) \<Longrightarrow> Q x t"
  by (auto simp: triple_def)

lemma triple_errD: "triple P m Q E \<Longrightarrow> P s \<Longrightarrow> m s = (Inl e, t) \<Longrightarrow> E e t"
  by (auto simp: triple_def)

lemma triple_conseq:
  assumes "triple P' m Q' E'" "\<And>s. P s \<Longrightarrow> P' s"
    "\<And>x s. Q' x s \<Longrightarrow> Q x s" "\<And>e s. E' e s \<Longrightarrow> E e s"
  shows "triple P m Q E"
  using assms by (fastforce simp: triple_def split: prod.splits sum.splits)

lemma triple_ok [triple_rules]: "triple (Q x) (ok x) Q E"
  by (simp add: triple_def prog_defs)

lemma triple_fail [triple_rules]: "triple (E e) (fail e) Q E"
  by (simp add: triple_def prog_defs)

lemma triple_get [triple_rules]: "triple (\<lambda>s. Q (g s) s) (get g) Q E"
  by (simp add: triple_def prog_defs)

lemma triple_upd [triple_rules]: "triple (\<lambda>s. Q () (h s)) (upd h) Q E"
  by (simp add: triple_def prog_defs)

lemma triple_try_bind [triple_rules]:
  "triple P m R E \<Longrightarrow> (\<And>x. triple (R x) (f x) Q E) \<Longrightarrow> triple P (try_bind m f) Q E"
  by (fastforce simp: triple_def prog_defs split: prod.splits sum.splits)

lemma triple_map_err [triple_rules]:
  "triple P m Q (\<lambda>e. E (g e)) \<Longrightarrow> triple P (map_err g m) Q E"
  by (fastforce simp: triple_def prog_defs split: prod.splits sum.splits)

lemma keepsI: "(\<And>s r t. I s \<Longrightarrow> m s = (r, t) \<Longrightarrow> I t) \<Longrightarrow> keeps I m"
  by (metis keeps_def prod.collapse)

lemma keepsD: "keeps I m \<Longrightarrow> I s \<Longrightarrow> m s = (r, t) \<Longrightarrow> I t"
  by (metis keeps_def snd_conv)

lemma keeps_ok [keeps_rules]: "keeps I (ok x)"
  by (simp add: keeps_def prog_defs)

lemma keeps_fail [keeps_rules]: "keeps I (fail e)"
  by (simp add: keeps_def prog_defs)

lemma keeps_get [keeps_rules]: "keeps I (get g)"
  by (simp add: keeps_def prog_defs)

lemma keeps_of_result [keeps_rules]: "keeps I (of_result r)"
  by (simp add: keeps_def prog_defs)

lemma keeps_upd: "(\<And>s. I s \<Longrightarrow> I (h s)) \<Longrightarrow> keeps I (upd h)"
  by (simp add: keeps_def prog_defs)

lemma keeps_try_bind [keeps_rules]:
  "keeps I m \<Longrightarrow> (\<And>x. keeps I (f x)) \<Longrightarrow> keeps I (try_bind m f)"
  by (fastforce simp: keeps_def prog_defs split: prod.splits sum.splits)

lemma keeps_attempt [keeps_rules]:
  "keeps I m \<Longrightarrow> (\<And>x. keeps I (f x)) \<Longrightarrow> keeps I (attempt m f)"
  by (fastforce simp: keeps_def prog_defs split: prod.splits sum.splits)

lemma keeps_map_err [keeps_rules]: "keeps I m \<Longrightarrow> keeps I (map_err g m)"
  by (fastforce simp: keeps_def prog_defs split: prod.splits sum.splits)

lemma keeps_for_each [keeps_rules]:
  "(\<And>x. x \<in> set xs \<Longrightarrow> keeps I (f x)) \<Longrightarrow> keeps I (for_each f xs)"
  by (induction xs) (auto intro!: keeps_rules)

lemma keeps_for_collect [keeps_rules]:
  "(\<And>x. x \<in> set xs \<Longrightarrow> keeps I (f x)) \<Longrightarrow> keeps I (for_collect f xs)"
  by (induction xs) (auto intro!: keeps_rules)

lemma keeps_zoom:
  "(\<And>s r t. I s \<Longrightarrow> m (g s) = (r, t) \<Longrightarrow> I (p t s)) \<Longrightarrow> keeps I (zoom g p m)"
  by (fastforce simp: keeps_def prog_defs split: prod.splits)

text \<open>A loop that returned: an assertion on the elements still to come, carried to the end.\<close>

lemma for_each_rule:
  assumes "for_each f xs w = (Inr u, w')" and "P xs w"
    and "\<And>x ys v y v'. P (x # ys) v \<Longrightarrow> f x v = (Inr y, v') \<Longrightarrow> P ys v'"
  shows "P [] w'"
  using assms(1,2)
proof (induction xs arbitrary: w)
  case Nil
  then show ?case by (simp add: ok_iff)
next
  case (Cons x xs)
  then show ?case using assms(3) by (auto simp: try_bind_Inr_iff)
qed

lemma for_collect_length: "for_collect f xs s = (Inr ys, t) \<Longrightarrow> length ys = length xs"
  by (induction xs arbitrary: ys s t)
    (auto simp: ok_def elim!: try_bind_InrE)

lemma for_collect_pure:
  assumes "\<And>x s. x \<in> set xs \<Longrightarrow> f x s = (Inr (g x), s)"
  shows "for_collect f xs s = (Inr (map g xs), s)"
  using assms by (induction xs) (auto simp: prog_defs)

section \<open>Hash maps\<close>

definition hm_keys :: "('k \<times> 'v) list \<Rightarrow> 'k list" where
  "hm_keys m = map fst m"

definition hm_values :: "('k \<times> 'v) list \<Rightarrow> 'v list" where
  "hm_values m = map snd m"

definition hm_wf :: "('k \<times> 'v) list \<Rightarrow> bool" where
  "hm_wf m \<longleftrightarrow> distinct (map fst m)"

abbreviation hm_get :: "('k \<times> 'v) list \<Rightarrow> 'k \<Rightarrow> 'v option" where
  "hm_get \<equiv> map_of"

abbreviation hm_insert :: "'k \<Rightarrow> 'v \<Rightarrow> ('k \<times> 'v) list \<Rightarrow> ('k \<times> 'v) list" where
  "hm_insert \<equiv> AList.update"

abbreviation hm_remove :: "'k \<Rightarrow> ('k \<times> 'v) list \<Rightarrow> ('k \<times> 'v) list" where
  "hm_remove \<equiv> AList.delete"

definition hm_collect :: "('k \<times> 'v) list \<Rightarrow> ('k \<times> 'v) list" where
  "hm_collect ps = foldl (\<lambda>m (k, v). hm_insert k v m) [] ps"

lemma hm_wf_Nil [simp]: "hm_wf []"
  by (simp add: hm_wf_def)

lemma hm_wf_insert [simp]: "hm_wf m \<Longrightarrow> hm_wf (hm_insert k v m)"
  by (simp add: hm_wf_def distinct_update)

lemma hm_wf_remove [simp]: "hm_wf m \<Longrightarrow> hm_wf (hm_remove k m)"
  by (simp add: hm_wf_def distinct_delete)

lemma hm_get_insert [simp]: "hm_get (hm_insert k v m) = (hm_get m)(k \<mapsto> v)"
  by (rule update_conv')

lemma hm_get_remove [simp]: "hm_get (hm_remove k m) = (hm_get m)(k := None)"
  by (rule delete_conv')

lemma hm_keys_iff: "k \<in> set (hm_keys m) \<longleftrightarrow> hm_get m k \<noteq> None"
  by (simp add: hm_keys_def map_of_eq_None_iff)

lemma hm_keys_remove: "k \<notin> set (hm_keys (hm_remove k m))"
  by (simp add: hm_keys_iff)

lemma hm_wf_keys: "hm_wf m \<longleftrightarrow> distinct (hm_keys m)"
  by (simp add: hm_wf_def hm_keys_def)

lemma hm_collect_snoc: "hm_collect (ps @ [(k, v)]) = hm_insert k v (hm_collect ps)"
  by (simp add: hm_collect_def)

lemma hm_wf_collect [simp]: "hm_wf (hm_collect ps)"
proof (induction ps rule: rev_induct)
  case Nil
  show ?case by (simp add: hm_collect_def)
next
  case (snoc p ps)
  then show ?case by (cases p) (simp add: hm_collect_snoc)
qed

lemma hm_collect_get: "hm_get (hm_collect ps) k = Some v \<Longrightarrow> (k, v) \<in> set ps"
proof (induction ps rule: rev_induct)
  case Nil
  then show ?case by (simp add: hm_collect_def)
next
  case (snoc p ps)
  then show ?case by (cases p) (auto simp: hm_collect_snoc split: if_splits)
qed

lemma hm_collect_dom: "hm_get (hm_collect ps) k = None \<longleftrightarrow> k \<notin> fst ` set ps"
proof (induction ps rule: rev_induct)
  case Nil
  show ?case by (simp add: hm_collect_def)
next
  case (snoc p ps)
  then show ?case by (cases p) (auto simp: hm_collect_snoc)
qed

lemma hm_keys_insert_mem:
  "hm_get m k \<noteq> None \<Longrightarrow> hm_keys (hm_insert k v m) = hm_keys m"
  by (auto simp: hm_keys_def update_keys map_of_eq_None_iff)

section \<open>Paths\<close>

text \<open>
  \<^verbatim>\<open>PathBuf::push\<close> and \<^verbatim>\<open>Path::join\<close>: an absolute argument replaces the path, a
  relative one is appended after a separator unless the path is empty or ends in one.
\<close>

definition path_push :: "path \<Rightarrow> string \<Rightarrow> path" where
  "path_push p q =
     (if q \<noteq> [] \<and> hd q = CHR ''/'' then q
      else if p = [] \<or> last p = CHR ''/'' then p @ q
      else p @ ''/'' @ q)"

lemma path_push_inject:
  assumes "path_push p q = path_push p r"
    and "q \<noteq> []" "r \<noteq> []" "hd q \<noteq> CHR ''/''" "hd r \<noteq> CHR ''/''"
  shows "q = r"
  using assms by (auto simp: path_push_def split: if_splits)

section \<open>White space\<close>

text \<open>\<^verbatim>\<open>str::trim\<close> on the characters up to 127.\<close>

definition is_whitespace :: "char \<Rightarrow> bool" where
  "is_whitespace c \<longleftrightarrow> (9 \<le> (of_char c :: nat) \<and> (of_char c :: nat) \<le> 13) \<or> (of_char c :: nat) = 32"

definition trim :: "string \<Rightarrow> string" where
  "trim s = rev (dropWhile is_whitespace (rev (dropWhile is_whitespace s)))"

section \<open>Decimal numbers\<close>

fun nat_to_string :: "nat \<Rightarrow> string" where
  "nat_to_string n =
     (if n < 10 then [char_of (n + 48)] else nat_to_string (n div 10) @ [char_of (n mod 10 + 48)])"

declare nat_to_string.simps [simp del]

definition word_to_string :: "'a::len word \<Rightarrow> string" where
  "word_to_string w = nat_to_string (unat w)"

fun string_to_nat :: "nat \<Rightarrow> string \<Rightarrow> nat" where
  "string_to_nat acc [] = acc"
| "string_to_nat acc (c # cs) = string_to_nat (acc * 10 + (of_char c - 48)) cs"

lemma string_to_nat_append: "string_to_nat a (xs @ ys) = string_to_nat (string_to_nat a xs) ys"
  by (induction xs arbitrary: a) auto

lemma string_to_nat_to_string: "string_to_nat 0 (nat_to_string n) = n"
proof (induction n rule: nat_to_string.induct)
  case (1 n)
  show ?case
  proof (cases "n < 10")
    case True
    then show ?thesis by (simp add: nat_to_string.simps [of n])
  next
    case False
    with 1 show ?thesis
      by (simp add: nat_to_string.simps [of n] string_to_nat_append)
  qed
qed

lemma nat_to_string_inject [simp]: "nat_to_string m = nat_to_string n \<longleftrightarrow> m = n"
  by (metis string_to_nat_to_string)

lemma word_to_string_inject [simp]: "word_to_string v = word_to_string w \<longleftrightarrow> v = w"
  by (simp add: word_to_string_def word_unat_eq_iff)

end
