(* ===== verification/Protocol.thy ===== *)
theory Protocol
  imports Prelude
begin

text \<open>
  The two message protocols of the repository, type for type.

  \<^item> \<open>protocol/warden_client\<close>: what a client of the Warden daemon sends over the Unix
    socket and what it gets back. Its record fields carry the prefix \<open>c_\<close>, because the
    daemon has types of the same names with its own fields.
  \<^item> \<open>protocol/warden_realm\<close>: what the daemon sends to the application manager inside a
    realm over the vsock and what it gets back.
\<close>

section \<open>Client and Warden\<close>

datatype IpAddr = V4 "32 word" | V6 "128 word"

record C_ApplicationConfig =
  c_app_name :: string
  c_app_version :: string
  c_image_registry :: string
  c_image_storage_size_mb :: u32
  c_data_storage_size_mb :: u32

datatype C_State = CHalted | CProvisioning | CRunning | CNeedReboot

record C_RealmNetwork =
  c_ip :: IpAddr
  c_if_name :: string

record C_RealmDescription =
  c_uuid :: uuid
  c_state :: C_State
  c_applications :: "uuid list"
  c_network :: "C_RealmNetwork list"

record C_CpuConfig =
  c_cpu :: string
  c_cores_number :: usize

record C_MemoryConfig =
  c_ram_size :: usize

record C_NetworkConfig =
  c_vsock_cid :: u32
  c_tap_device :: string
  c_mac_address :: string
  c_hardware_device :: "string option"
  c_remote_terminal_uri :: "string option"

record C_KernelConfig =
  c_kernel_path :: path
  c_kernel_initramfs_path :: "path option"
  c_kernel_cmd_params :: "string option"

record C_RealmConfig =
  c_id :: "uuid option"
  c_machine :: string
  c_cpu_config :: C_CpuConfig
  c_memory :: C_MemoryConfig
  c_network_config :: C_NetworkConfig
  c_kernel :: C_KernelConfig
  c_metadata :: "path option"

datatype WardenCommand =
    CreateRealm C_RealmConfig
  | FetchToken uuid bytes
  | StartRealm uuid
  | StopRealm uuid
  | RebootRealm uuid
  | DestroyRealm uuid
  | InspectRealm uuid
  | ListRealms
  | CreateApplication uuid C_ApplicationConfig
  | StartApplication uuid uuid
  | StopApplication uuid uuid
  | UpdateApplication uuid uuid C_ApplicationConfig

datatype WardenDaemonError =
    ReadingRequestFail
  | UnknownCommand
  | WardenDaemonFail string
  | WSendingResponseFail

datatype WardenResponse =
    WOk
  | WAttestationToken bytes
  | WCreatedRealm uuid
  | WCreatedApplication uuid
  | WInspectedRealm C_RealmDescription
  | WListedRealms "C_RealmDescription list"
  | WError WardenDaemonError

fun warden_daemon_error_to_string :: "WardenDaemonError \<Rightarrow> string" where
  "warden_daemon_error_to_string ReadingRequestFail = ''Failed to read request.''"
| "warden_daemon_error_to_string UnknownCommand = ''Can't recognise a command.''"
| "warden_daemon_error_to_string (WardenDaemonFail message) = ''Error occured: '' @ message"
| "warden_daemon_error_to_string WSendingResponseFail = ''Failed to send response.''"

section \<open>Warden and realm\<close>

record ApplicationInfo =
  info_id :: uuid
  info_name :: string
  info_version :: string
  info_image_registry :: string
  info_image_part_uuid :: uuid
  info_data_part_uuid :: uuid

datatype Request =
    ProvisionInfo "ApplicationInfo list"
  | GetAttestationToken bytes
  | GetIfAddrs
  | CheckStatus uuid
  | StartApp uuid
  | StopApp uuid
  | KillApp uuid
  | Reboot
  | Shutdown

datatype ProtocolError =
    InvalidRequest string
  | ApplicationNotFound
  | ApplicationLaunchFailed string
  | ApplicationStopFailed string
  | ApplicationKillFailed string
  | ApplicationCheckStatusFailed string
  | SystemPowerActionFailed string
  | GetIfAddrsError string
  | ProvisioningError string
  | AttestationTokenReadingError string

record NetAddr =
  net_address :: IpAddr
  net_netmask :: "IpAddr option"
  net_destination :: "IpAddr option"

datatype Response =
    AttestationToken bytes
  | ApplicationExited "32 word"
  | ApplicationIsRunning
  | ApplicationNotStarted
  | IfAddrs "(string \<times> NetAddr) list"
  | Success
  | ResponseError ProtocolError

end
