(* ===== verification/Managers.thy ===== *)
theory Managers
  imports Protocol
begin

text \<open>
  The data of the daemon's manager layer (\<open>warden_daemon/src/managers\<close>, with the
  repository and network interfaces beside it): the realm and application
  configurations, the realm state, and the error enumerations with the text that
  their \<open>Display\<close> implementation gives (the \<^verbatim>\<open>#[error("...")]\<close> attributes).

  Errors travel upwards as text (\<^verbatim>\<open>err.to_string()\<close>), so the text is part of the
  model. How a \<open>Uuid\<close> prints is code of the \<open>uuid\<close> crate and comes in as the
  argument \<open>us\<close>.
\<close>

section \<open>Applications\<close>

datatype ApplicationError =
    ApplicationStart string
  | ApplicationStop string
  | ConfigUpdate string
  | DiskOpertaion string

fun application_error_to_string :: "ApplicationError \<Rightarrow> string" where
  "application_error_to_string (ApplicationStart m) = ''Can't start the application: '' @ m"
| "application_error_to_string (ApplicationStop m) = ''Can't stop the application: '' @ m"
| "application_error_to_string (ConfigUpdate m) =
     ''Can't update the application configuration: '' @ m"
| "application_error_to_string (DiskOpertaion m) =
     ''Failed to perform operation on application's disk: '' @ m"

record ApplicationConfig =
  app_name :: string
  app_version :: string
  image_registry :: string
  image_storage_size_mb :: u32
  data_storage_size_mb :: u32

record ApplicationData =
  data_id :: uuid
  data_name :: string
  data_version :: string
  data_image_registry :: string
  data_image_part_uuid :: uuid
  data_data_part_uuid :: uuid

section \<open>Realm configuration\<close>

record CpuConfig =
  cpu :: string
  cores_number :: usize

record MemoryConfig =
  ram_size :: usize

record NetworkConfig =
  vsock_cid :: u32
  tap_device :: string
  mac_address :: string
  hardware_device :: "string option"
  remote_terminal_uri :: "string option"

record KernelConfig =
  kernel_path :: path
  kernel_initramfs_path :: "path option"
  kernel_cmd_params :: "string option"

record RealmConfig =
  machine :: string
  cpu_config :: CpuConfig
  memory :: MemoryConfig
  network :: NetworkConfig
  kernel :: KernelConfig
  metadata :: "path option"

section \<open>Realms\<close>

datatype State = Halted | Provisioning | Running | NeedReboot

text \<open>\<^verbatim>\<open>{:#?}\<close> of a fieldless variant is its name.\<close>

fun dbg_State :: "State \<Rightarrow> string" where
  "dbg_State Halted = ''Halted''"
| "dbg_State Provisioning = ''Provisioning''"
| "dbg_State Running = ''Running''"
| "dbg_State NeedReboot = ''NeedReboot''"

datatype RealmError =
    ApplicationMissing uuid
  | RealmStartFail string
  | RealmStopFail string
  | RealmAcuireIpsFail string
  | UnsupportedAction string
  | RealmLaunchFail string
  | VmStopFail string
  | VmDestroyFail string
  | ApplicationOperation string
  | ApplicationCreationFail string
  | PrepareApplications string
  | AttestationTokenFetch string

fun realm_error_to_string :: "(uuid \<Rightarrow> string) \<Rightarrow> RealmError \<Rightarrow> string" where
  "realm_error_to_string us (ApplicationMissing u) =
     ''No application with uuid: '' @ us u @ '' inside this realm.''"
| "realm_error_to_string us (RealmStartFail m) = ''Error occured while starting realm: '' @ m"
| "realm_error_to_string us (RealmStopFail m) = ''Error occured while starting realm: '' @ m"
| "realm_error_to_string us (RealmAcuireIpsFail m) =
     ''Error occured while acquiring realm's ips: '' @ m"
| "realm_error_to_string us (UnsupportedAction m) = ''Unsupported action: '' @ m"
| "realm_error_to_string us (RealmLaunchFail m) = ''Can't launch the Realm: '' @ m"
| "realm_error_to_string us (VmStopFail m) = ''Realm's vm can't be stopped: '' @ m"
| "realm_error_to_string us (VmDestroyFail m) = ''Realm's vm can't be destroyed: '' @ m"
| "realm_error_to_string us (ApplicationOperation m) =
     ''Can't perform action on Application: '' @ m"
| "realm_error_to_string us (ApplicationCreationFail m) = ''Can't create application: '' @ m"
| "realm_error_to_string us (PrepareApplications m) =
     ''Failed to prepare applications to start: '' @ m"
| "realm_error_to_string us (AttestationTokenFetch m) =
     ''Failed to fetch attestation token: '' @ m"

record RealmNetwork =
  net_ip :: IpAddr
  net_if_name :: string

record RealmData =
  realm_state :: State
  realm_applications :: "uuid list"
  realm_ips :: "RealmNetwork list"

record RealmDescription =
  realm_uuid :: uuid
  realm_data :: RealmData

section \<open>The client of the realm, the virtual machine, the Warden\<close>

datatype RealmClientError =
    RealmConnectionFail string
  | CommunicationFail string
  | RealmDaemonError string
  | InvalidResponse string
  | RealmDisconnection

fun realm_client_error_to_string :: "RealmClientError \<Rightarrow> string" where
  "realm_client_error_to_string (RealmConnectionFail m) = ''Can't connect with the Realm: '' @ m"
| "realm_client_error_to_string (CommunicationFail m) =
     ''Can't communicate with connected Realm: '' @ m"
| "realm_client_error_to_string (RealmDaemonError m) =
     ''Received error from Realm daemon: '' @ m"
| "realm_client_error_to_string (InvalidResponse m) = ''Invalid response from Realm: '' @ m"
| "realm_client_error_to_string RealmDisconnection = ''Realm disconnected.''"

record RealmProvisioningConfig =
  applications_data :: "ApplicationData list"

datatype VmManagerError =
    Launch string
  | VmNotLaunched
  | VmAlreadyLaunched
  | GetExitCode string
  | VmShutdown string

fun vm_manager_error_to_string :: "VmManagerError \<Rightarrow> string" where
  "vm_manager_error_to_string (Launch m) = ''Unable to launch Vm: '' @ m"
| "vm_manager_error_to_string VmNotLaunched =
     ''To stop realm's vm you need to launch it first.''"
| "vm_manager_error_to_string VmAlreadyLaunched = ''Vm already has been launched.''"
| "vm_manager_error_to_string (GetExitCode m) = ''Unable to get realm's exit code: '' @ m"
| "vm_manager_error_to_string (VmShutdown m) = ''Unable to shutdown realm's vm: '' @ m"

text \<open>An \<open>ExitStatus\<close> of the operating system is kept as the text it prints as.\<close>

type_synonym ExitStatus = string

datatype VmStatus = VmLaunched | NotLaunched | Exited ExitStatus

datatype WardenError =
    NoSuchRealm uuid
  | RealmInspect string
  | DestroyFail string
  | RealmCreationFail string
  | RealmIsBusy
  | RealmExists uuid

fun warden_error_to_string :: "(uuid \<Rightarrow> string) \<Rightarrow> WardenError \<Rightarrow> string" where
  "warden_error_to_string us (NoSuchRealm u) =
     ''Realm with uuid: ''  @ CHR 39 # us u @ CHR 39 # '' doesn't exist.''"
| "warden_error_to_string us (RealmInspect m) = ''Failed to inspect realm: '' @ m"
| "warden_error_to_string us (DestroyFail m) = ''Can't destroy the realm: '' @ m"
| "warden_error_to_string us (RealmCreationFail m) = ''Failed to create realm: '' @ m"
| "warden_error_to_string us RealmIsBusy = ''Realm is under another operation''"
| "warden_error_to_string us (RealmExists u) =
     ''Realm of shuch uuid: '' @ us u @ '' already exists''"

section \<open>Repository and network interfaces\<close>

datatype RepositoryError = CreationFail string | SaveFail string

fun repository_error_to_string :: "RepositoryError \<Rightarrow> string" where
  "repository_error_to_string (CreationFail m) = ''Can't create a repository: '' @ m"
| "repository_error_to_string (SaveFail m) = ''Can't save inner value: '' @ m"

datatype NetworkManagerError =
    CreateNatNetwork string
  | DestroyNatNetwork string
  | CreateTapDevice string
  | DestroyTapDevice string

fun network_manager_error_to_string :: "NetworkManagerError \<Rightarrow> string" where
  "network_manager_error_to_string (CreateNatNetwork m) = ''Failed to create nat network: '' @ m"
| "network_manager_error_to_string (DestroyNatNetwork m) =
     ''Failed to destroy nat network: '' @ m"
| "network_manager_error_to_string (CreateTapDevice m) = ''Failed to create tap device: '' @ m"
| "network_manager_error_to_string (DestroyTapDevice m) =
     ''Failed to destroy tap device: '' @ m"

end
