(* ===== verification/Os.thy ===== *)
theory Os
  imports Prelude
begin

text \<open>
  What the daemon takes from the operating system and the async runtime, as types of
  operations. Each operation acts on a world of an arbitrary type \<open>'w\<close>; which one it
  is (a kernel, a test double) is an argument of every definition that uses it.
\<close>

datatype ErrorKind = ConnectionReset | OtherKind

record io_error =
  io_kind :: ErrorKind
  io_text :: string

text \<open>\<^verbatim>\<open>std::process::Command\<close>: the program and its arguments.\<close>

record Command =
  cmd_program :: string
  cmd_args :: "string list"

definition arg :: "string \<Rightarrow> Command \<Rightarrow> Command" where
  "arg a c = c\<lparr>cmd_args := cmd_args c @ [a]\<rparr>"

definition args :: "string list \<Rightarrow> Command \<Rightarrow> Command" where
  "args as c = c\<lparr>cmd_args := cmd_args c @ as\<rparr>"

definition new_command :: "string \<Rightarrow> Command" where
  "new_command p = \<lparr>cmd_program = p, cmd_args = []\<rparr>"

text \<open>
  Child processes: spawning, the non-blocking and the blocking wait, the kill, and
  whether the pipe of an output stream can still be taken.
\<close>

record ('c, 'w) ProcessOps =
  os_spawn :: "Command \<Rightarrow> ('w, io_error, 'c) prog"
  os_try_wait :: "('c \<times> 'w, io_error, string option) prog"
  os_kill :: "('c \<times> 'w, io_error, unit) prog"
  os_wait :: "('c \<times> 'w, io_error, string) prog"
  os_take_stdout :: "'c \<times> 'w \<Rightarrow> bool \<times> ('c \<times> 'w)"
  os_take_stderr :: "'c \<times> 'w \<Rightarrow> bool \<times> ('c \<times> 'w)"

text \<open>Running an operation of the world on a pair of an object and the world.\<close>

definition in_world :: "('w, 'e, 'a) prog \<Rightarrow> ('o \<times> 'w, 'e, 'a) prog" where
  "in_world m = zoom snd (\<lambda>w s. (fst s, w)) m"

lemma in_world_run: "in_world m (x, w) = (case m w of (r, w') \<Rightarrow> (r, (x, w')))"
  by (simp add: in_world_def zoom_def)

lemma in_world_iff [simp]: "in_world m (x, w) = (r, t) \<longleftrightarrow> (\<exists>w'. m w = (r, w') \<and> t = (x, w'))"
  by (auto simp: in_world_run split: prod.splits)

lemma keeps_in_world [keeps_rules]: "(\<And>x w w'. I (x, w) \<Longrightarrow> I (x, w')) \<Longrightarrow> keeps I (in_world m)"
  by (auto simp: keeps_def in_world_def zoom_def split: prod.split)

end
