(* ===== verification/Interfaces.thy ===== *)
theory Interfaces
  imports Managers Os
begin

text \<open>
  The traits of the manager layer. A trait object is the object's own state together
  with a table of its methods; the table is a record of programs over the object and
  the world. A locale beside each table states the contract that the callers in the
  realm manager rely on; the theories of the implementations discharge it.
\<close>

section \<open>Virtual machines\<close>

record ('vm, 'w) VmManager =
  launch_vm :: "uuid list \<Rightarrow> ('vm \<times> 'w, VmManagerError, unit) prog"
  vm_shutdown :: "('vm \<times> 'w, VmManagerError, unit) prog"
  get_status :: "('vm \<times> 'w, VmManagerError, VmStatus) prog"

locale vm_manager =
  fixes V :: "('vm, 'w) VmManager"
    and launched :: "'vm \<Rightarrow> bool"
  assumes launch_ok:
      "launch_vm V us (v, w) = (Inr x, (v', w')) \<Longrightarrow> \<not> launched v \<and> launched v'"
    and launch_err: "launch_vm V us (v, w) = (Inl e, (v', w')) \<Longrightarrow> launched v' = launched v"
    and launch_twice: "launched v \<Longrightarrow> launch_vm V us (v, w) = (Inl VmAlreadyLaunched, (v, w))"
    and shutdown_ok:
      "vm_shutdown V (v, w) = (Inr x, (v', w')) \<Longrightarrow> launched v \<and> \<not> launched v'"
    and shutdown_err: "vm_shutdown V (v, w) = (Inl e, (v', w')) \<Longrightarrow> launched v' = launched v"
    and shutdown_stopped: "\<not> launched v \<Longrightarrow> vm_shutdown V (v, w) = (Inl VmNotLaunched, (v, w))"
    and status_launched: "get_status V (v, w) = (r, (v', w')) \<Longrightarrow> launched v' = launched v"
    and status_not_launched:
      "get_status V (v, w) = (r, (v', w')) \<Longrightarrow> r = Inr NotLaunched \<longleftrightarrow> \<not> launched v"

section \<open>The client of a realm\<close>

record ('cl, 'w) RealmClient =
  try_connect_and_provision_apps ::
    "u32 \<Rightarrow> RealmProvisioningConfig \<Rightarrow> ('cl \<times> 'w, RealmClientError, unit) prog"
  try_connect_and_fetch_attestation_token ::
    "u32 \<Rightarrow> bytes \<Rightarrow> ('cl \<times> 'w, RealmClientError, bytes) prog"
  fetch_attestation_token :: "bytes \<Rightarrow> ('cl \<times> 'w, RealmClientError, bytes) prog"
  start_application :: "uuid \<Rightarrow> ('cl \<times> 'w, RealmClientError, unit) prog"
  stop_application :: "uuid \<Rightarrow> ('cl \<times> 'w, RealmClientError, unit) prog"
  read_realm_ifs :: "('cl \<times> 'w, RealmClientError, RealmNetwork list) prog"
  shutdown_realm :: "('cl \<times> 'w, RealmClientError, unit) prog"
  reboot_realm :: "RealmProvisioningConfig \<Rightarrow> u32 \<Rightarrow> ('cl \<times> 'w, RealmClientError, unit) prog"

locale realm_client =
  fixes C :: "('cl, 'w) RealmClient"
    and connected :: "'cl \<Rightarrow> bool"
  assumes provision_ok:
      "try_connect_and_provision_apps C cid cfg (c, w) = (Inr x, (c', w')) \<Longrightarrow> connected c'"
    and connect_token_ok:
      "try_connect_and_fetch_attestation_token C cid ch (c, w) = (Inr y, (c', w')) \<Longrightarrow> connected c'"
    and client_shutdown_ok:
      "shutdown_realm C (c, w) = (Inr x, (c', w')) \<Longrightarrow> connected c \<and> \<not> connected c'"
    and client_shutdown_err:
      "shutdown_realm C (c, w) = (Inl e, (c', w')) \<Longrightarrow> connected c' = connected c"
    and client_reboot_ok:
      "reboot_realm C cfg cid (c, w) = (Inr x, (c', w')) \<Longrightarrow> connected c \<and> connected c'"
    and token_connected:
      "fetch_attestation_token C ch (c, w) = (r, (c', w')) \<Longrightarrow> connected c' = connected c"
    and ifs_connected:
      "read_realm_ifs C (c, w) = (r', (c', w')) \<Longrightarrow> connected c' = connected c"

section \<open>Applications\<close>

record ('app, 'cl, 'w) Application =
  app_stop :: "'app \<Rightarrow> ('cl \<times> 'w, ApplicationError, unit) prog"
  app_start :: "'app \<Rightarrow> ('cl \<times> 'w, ApplicationError, unit) prog"
  app_update_config :: "ApplicationConfig \<Rightarrow> ('app \<times> 'w, ApplicationError, unit) prog"
  app_configure_disk :: "('app \<times> 'w, ApplicationError, unit) prog"
  app_get_data :: "'app \<Rightarrow> ('w, ApplicationError, ApplicationData) prog"

record ('app, 'w) ApplicationCreator =
  create_application_in :: "uuid \<Rightarrow> ApplicationConfig \<Rightarrow> ('w, RealmError, 'app) prog"
  load_application_in :: "uuid \<Rightarrow> ('w, RealmError, 'app) prog"

text \<open>
  What the realm manager needs of an application: it answers under its own identifier
  and keeps that identifier.
\<close>

locale application =
  fixes A :: "('app, 'cl, 'w) Application"
    and app_id :: "'app \<Rightarrow> uuid"
  assumes get_data_id: "app_get_data A a w = (Inr d, w') \<Longrightarrow> data_id d = app_id a"
    and update_config_id: "app_update_config A c (a, w) = (r, (a', w')) \<Longrightarrow> app_id a' = app_id a"
    and configure_disk_id: "app_configure_disk A (a, w) = (r, (a', w')) \<Longrightarrow> app_id a' = app_id a"

section \<open>Realms\<close>

text \<open>
  The trait \<open>Realm\<close>. An application that \<open>get_application\<close> hands out shares the client
  of its realm, so starting and stopping it is an operation on the realm.
\<close>

record ('realm, 'app, 'w) Realm =
  r_start :: "('realm \<times> 'w, RealmError, unit) prog"
  r_stop :: "('realm \<times> 'w, RealmError, unit) prog"
  r_reboot :: "('realm \<times> 'w, RealmError, unit) prog"
  r_create_application :: "ApplicationConfig \<Rightarrow> ('realm \<times> 'w, RealmError, uuid) prog"
  r_update_application :: "uuid \<Rightarrow> ApplicationConfig \<Rightarrow> ('realm \<times> 'w, RealmError, unit) prog"
  r_get_application :: "'realm \<Rightarrow> uuid \<Rightarrow> RealmError + 'app"
  r_application_start :: "'app \<Rightarrow> ('realm \<times> 'w, ApplicationError, unit) prog"
  r_application_stop :: "'app \<Rightarrow> ('realm \<times> 'w, ApplicationError, unit) prog"
  r_get_realm_data :: "('realm \<times> 'w, RealmError, RealmData) prog"
  r_fetch_attestation_token :: "bytes \<Rightarrow> ('realm \<times> 'w, RealmError, bytes) prog"
  r_destroy :: "('realm \<times> 'w, RealmError, unit) prog"

record ('realm, 'w) RealmCreator =
  create_realm_in :: "uuid \<Rightarrow> RealmConfig \<Rightarrow> ('w, WardenError, 'realm) prog"
  load_realm_in :: "uuid \<Rightarrow> ('w, WardenError, 'realm) prog"
  clean_up_realm_in :: "uuid \<Rightarrow> ('w, WardenError, unit) prog"

text \<open>What the Warden relies on: a realm reports its own state, and reporting keeps it.\<close>

locale realm_object =
  fixes R :: "('realm, 'app, 'w) Realm"
    and st :: "'realm \<Rightarrow> State"
    and app_keys :: "'realm \<Rightarrow> uuid list"
  assumes data_reported:
      "r_get_realm_data R (r, w) = (Inr d, (r', w')) \<Longrightarrow>
         realm_state d = st r \<and> realm_applications d = app_keys r"
    and data_kept:
      "r_get_realm_data R (r, w) = (x, (r', w')) \<Longrightarrow> st r' = st r \<and> app_keys r' = app_keys r"

text \<open>A created realm is halted and has no applications; a loaded realm is halted.\<close>

locale realm_creator =
  fixes F :: "('realm, 'w) RealmCreator"
    and st :: "'realm \<Rightarrow> State"
    and app_keys :: "'realm \<Rightarrow> uuid list"
  assumes created_halted:
      "create_realm_in F u cfg w = (Inr r, w') \<Longrightarrow> st r = Halted \<and> app_keys r = []"
    and loaded_halted: "load_realm_in F u w = (Inr r, w') \<Longrightarrow> st r = Halted"

end
