(* ===== verification/App_Disk.thy ===== *)
theory App_Disk
  imports Managers Os
begin

text \<open>
  The raw disk of an application with its two GPT partitions
  (\<open>storage/app_disk_manager.rs\<close>). File access and the \<open>gpt\<close> crate are arguments;
  the sizes, the layout arithmetic in 64 and 32 bits, the checks and the order of the
  steps are the daemon's own.
\<close>

section \<open>Partitions and errors\<close>

record Partition =
  part_guid :: uuid
  part_name :: string
  part_first_lba :: u64
  part_last_lba :: u64

datatype ApplicationDiskManagerError =
    RequestedEmptyPartition
  | RequestedTooBigPartition string
  | DiskCreation string
  | DiskDeletion string
  | PartitionMetadataWrite string
  | GPTConfiguration string
  | GPTUpdate string
  | PartitionCreation string
  | GPTRead string
  | GPTSave string
  | FileShutdown string
  | GetPartitionSize string
  | DataPartitionNotFound
  | ImagePartitionNotFound
  | DataPartitionSizeIncorrect
  | ImagePartitionSizeIncorrect

fun disk_error_to_string :: "ApplicationDiskManagerError \<Rightarrow> string" where
  "disk_error_to_string RequestedEmptyPartition = ''Requested empty partition.''"
| "disk_error_to_string (RequestedTooBigPartition m) = ''Requested too big partition: '' @ m"
| "disk_error_to_string (DiskCreation m) = ''Can't create disk: '' @ m"
| "disk_error_to_string (DiskDeletion m) = ''Can't delete disk: '' @ m"
| "disk_error_to_string (PartitionMetadataWrite m) = ''Failed to write MBA: '' @ m"
| "disk_error_to_string (GPTConfiguration m) = ''Failed to configure GPT: '' @ m"
| "disk_error_to_string (GPTUpdate m) = ''Failed to update GPT: '' @ m"
| "disk_error_to_string (PartitionCreation m) = ''Failed to create partition: '' @ m"
| "disk_error_to_string (GPTRead m) = ''Failed to read GPT: '' @ m"
| "disk_error_to_string (GPTSave m) = ''Failed to write GPT configuration: '' @ m"
| "disk_error_to_string (FileShutdown m) = ''Failed to save file: '' @ m"
| "disk_error_to_string (GetPartitionSize m) = ''Failed to read partition size: '' @ m"
| "disk_error_to_string DataPartitionNotFound = ''Missing Data partition.''"
| "disk_error_to_string ImagePartitionNotFound = ''Missing Image partition.''"
| "disk_error_to_string DataPartitionSizeIncorrect = ''Data partition size is incorrect.''"
| "disk_error_to_string ImagePartitionSizeIncorrect = ''Image partition size is incorrect.''"

text \<open>
  The file (\<open>'f\<close>) and the \<open>gpt\<close> crate (\<open>'g\<close> an open table). \<open>gpt_read\<close> is the
  read-only open followed by \<open>partitions()\<close>, in the order of the partition numbers.
\<close>

record ('f, 'g, 'w) DiskEnv =
  disk_open :: "path \<Rightarrow> ('w, io_error, 'f) prog"
  disk_seek :: "'f \<Rightarrow> u64 \<Rightarrow> ('w, io_error, unit) prog"
  disk_write_all :: "'f \<Rightarrow> bytes \<Rightarrow> ('w, io_error, unit) prog"
  disk_sync_all :: "'f \<Rightarrow> ('w, io_error, unit) prog"
  disk_close :: "'f \<Rightarrow> ('w, io_error, unit) prog"
  mbr_overwrite_lba0 :: "'f \<Rightarrow> u32 \<Rightarrow> ('w, string, unit) prog"
  gpt_create_from_device :: "'f \<Rightarrow> u64 \<Rightarrow> ('w, string, 'g) prog"
  gpt_clear_partitions :: "'g \<Rightarrow> ('w, string, unit) prog"
  gpt_add_partition :: "'g \<Rightarrow> string \<Rightarrow> u64 \<Rightarrow> ('w, string, unit) prog"
  gpt_write :: "'g \<Rightarrow> ('w, string, unit) prog"
  gpt_read :: "path \<Rightarrow> ('w, string, Partition list) prog"
  bytes_len :: "Partition \<Rightarrow> u64 \<Rightarrow> string + u64"

section \<open>The manager\<close>

record ApplicationDiskManager =
  file_path :: path
  image_part_bytes_size :: u64
  data_part_bytes_size :: u64

definition ADM_DISK_NAME :: string where "ADM_DISK_NAME = ''disk.raw''"
definition IMAGE_PARTITION :: string where "IMAGE_PARTITION = ''image''"
definition DATA_PARTITION :: string where "DATA_PARTITION = ''data''"
definition LBA_SIZE :: u64 where "LBA_SIZE = 512"
definition MAX_PARTITION_SIZE_MB :: u32 where "MAX_PARTITION_SIZE_MB = 100 * 1024"

definition validate_and_convert_to_bytes :: "u32 \<Rightarrow> ApplicationDiskManagerError + u64" where
  "validate_and_convert_to_bytes partition_size_mb =
     (if partition_size_mb > MAX_PARTITION_SIZE_MB
      then Inl (RequestedTooBigPartition
             (''Requested size is: '' @ word_to_string partition_size_mb @
              '', maximum size is: '' @ word_to_string MAX_PARTITION_SIZE_MB @ ''.''))
      else if partition_size_mb = 0 then Inl RequestedEmptyPartition
      else Inr (ucast partition_size_mb * 1024 * 1024))"

definition ADM_new ::
  "path \<Rightarrow> u32 \<Rightarrow> u32 \<Rightarrow> ApplicationDiskManagerError + ApplicationDiskManager" where
  "ADM_new workdir_path image_partition_size_mb data_partition_size_mb =
     (case validate_and_convert_to_bytes data_partition_size_mb of
        Inl e \<Rightarrow> Inl e
      | Inr data_partition_size \<Rightarrow>
          (case validate_and_convert_to_bytes image_partition_size_mb of
             Inl e \<Rightarrow> Inl e
           | Inr image_partition_size \<Rightarrow>
               Inr \<lparr>file_path = path_push workdir_path ADM_DISK_NAME,
                    image_part_bytes_size = image_partition_size,
                    data_part_bytes_size = data_partition_size\<rparr>))"

definition calculate_total_size :: "ApplicationDiskManager \<Rightarrow> u64" where
  "calculate_total_size d =
     data_part_bytes_size d + image_part_bytes_size d + (34 + 34) * LBA_SIZE"

definition get_image_partition ::
  "(string \<times> Partition) list \<Rightarrow> ApplicationDiskManagerError + Partition" where
  "get_image_partition partitions =
     ok_or ImagePartitionNotFound (hm_get partitions IMAGE_PARTITION)"

definition get_data_partition ::
  "(string \<times> Partition) list \<Rightarrow> ApplicationDiskManagerError + Partition" where
  "get_data_partition partitions =
     ok_or DataPartitionNotFound (hm_get partitions DATA_PARTITION)"

definition collect_by_name :: "Partition list \<Rightarrow> (string \<times> Partition) list" where
  "collect_by_name ps = foldl (\<lambda>m p. hm_insert (part_name p) p m) [] ps"

definition read_partitions ::
  "('f, 'g, 'w) DiskEnv \<Rightarrow> ApplicationDiskManager \<Rightarrow>
     ('w, ApplicationDiskManagerError, (string \<times> Partition) list) prog" where
  "read_partitions D d =
     try_bind (map_err GPTRead (gpt_read D (file_path d))) (\<lambda>ps. ok (collect_by_name ps))"

definition ensure_partitions_correctness ::
  "('f, 'g, 'w) DiskEnv \<Rightarrow> ApplicationDiskManager \<Rightarrow> ('w, ApplicationDiskManagerError, unit) prog" where
  "ensure_partitions_correctness D d =
     try_bind (read_partitions D d) (\<lambda>partitions.
     try_bind (of_result (get_image_partition partitions)) (\<lambda>image_partition.
     try_bind (of_result (get_data_partition partitions)) (\<lambda>data_partition.
     try_bind (map_err GetPartitionSize (of_result (bytes_len D image_partition LBA_SIZE))) (\<lambda>n.
     if n \<noteq> image_part_bytes_size d then fail ImagePartitionSizeIncorrect
     else
       try_bind (map_err GetPartitionSize (of_result (bytes_len D data_partition LBA_SIZE))) (\<lambda>m.
       if m \<noteq> data_part_bytes_size d then fail DataPartitionSizeIncorrect
       else ok ())))))"

definition create_disk_device ::
  "('f, 'g, 'w) DiskEnv \<Rightarrow> ApplicationDiskManager \<Rightarrow> ('w, io_error, 'f) prog" where
  "create_disk_device D d =
     try_bind (disk_open D (file_path d)) (\<lambda>file.
     try_bind (disk_seek D file (calculate_total_size d - 1)) (\<lambda>_.
     try_bind (disk_write_all D file [0]) (\<lambda>_.
     try_bind (disk_seek D file 0) (\<lambda>_.
     ok file))))"

definition sync_file :: "('f, 'g, 'w) DiskEnv \<Rightarrow> 'f \<Rightarrow> ('w, ApplicationDiskManagerError, unit) prog" where
  "sync_file D file =
     try_bind (map_err (\<lambda>e. PartitionCreation (io_text e)) (disk_sync_all D file)) (\<lambda>_.
     map_err (\<lambda>e. FileShutdown (io_text e)) (disk_close D file))"

definition mbr_lb_size :: "ApplicationDiskManager \<Rightarrow> u32" where
  "mbr_lb_size d = ucast (calculate_total_size d div LBA_SIZE - 1)"

definition write_mbr ::
  "('f, 'g, 'w) DiskEnv \<Rightarrow> ApplicationDiskManager \<Rightarrow> 'f \<Rightarrow>
     ('w, ApplicationDiskManagerError, unit) prog" where
  "write_mbr D d file = map_err PartitionMetadataWrite (mbr_overwrite_lba0 D file (mbr_lb_size d))"

definition create_partition ::
  "('f, 'g, 'w) DiskEnv \<Rightarrow> 'g \<Rightarrow> string \<Rightarrow> u64 \<Rightarrow> ('w, ApplicationDiskManagerError, unit) prog" where
  "create_partition D gpt name partition_size_bytes =
     map_err PartitionCreation (gpt_add_partition D gpt name partition_size_bytes)"

definition create_gpt_and_partitions ::
  "('f, 'g, 'w) DiskEnv \<Rightarrow> ApplicationDiskManager \<Rightarrow> 'f \<Rightarrow>
     ('w, ApplicationDiskManagerError, unit) prog" where
  "create_gpt_and_partitions D d file =
     try_bind (write_mbr D d file) (\<lambda>_.
     try_bind (map_err GPTConfiguration (gpt_create_from_device D file LBA_SIZE)) (\<lambda>gpt.
     try_bind (map_err GPTUpdate (gpt_clear_partitions D gpt)) (\<lambda>_.
     try_bind (create_partition D gpt IMAGE_PARTITION (image_part_bytes_size d)) (\<lambda>_.
     try_bind (create_partition D gpt DATA_PARTITION (data_part_bytes_size d)) (\<lambda>_.
     try_bind (map_err GPTSave (gpt_write D gpt)) (\<lambda>_.
     ok ()))))))"

definition create_application_disk ::
  "('f, 'g, 'w) DiskEnv \<Rightarrow> ApplicationDiskManager \<Rightarrow> ('w, ApplicationDiskManagerError, unit) prog" where
  "create_application_disk D d =
     try_bind (map_err (\<lambda>e. DiskCreation (io_text e)) (create_disk_device D d)) (\<lambda>file.
     try_bind (create_gpt_and_partitions D d file) (\<lambda>_.
     try_bind (sync_file D file) (\<lambda>_.
     ensure_partitions_correctness D d)))"

definition update_partitions_if_sizes_differ ::
  "('f, 'g, 'w) DiskEnv \<Rightarrow> u32 \<Rightarrow> u32 \<Rightarrow>
     (ApplicationDiskManager \<times> 'w, ApplicationDiskManagerError, unit) prog" where
  "update_partitions_if_sizes_differ D new_data_part_size_mb new_image_part_size_mb =
     try_bind (get fst) (\<lambda>d.
     try_bind (in_world (ensure_partitions_correctness D d)) (\<lambda>_.
     try_bind (of_result (validate_and_convert_to_bytes new_image_part_size_mb)) (\<lambda>new_image.
     try_bind (of_result (validate_and_convert_to_bytes new_data_part_size_mb)) (\<lambda>new_data.
     if new_image \<noteq> image_part_bytes_size d \<or> new_data \<noteq> data_part_bytes_size d
     then
       try_bind (upd (\<lambda>(d, w). (d\<lparr>image_part_bytes_size := new_image,
                                 data_part_bytes_size := new_data\<rparr>, w))) (\<lambda>_.
       try_bind (get fst) (\<lambda>d'.
       in_world (create_application_disk D d')))
     else ok ()))))"

section \<open>The interface to the application manager\<close>

definition create_disk_with_partitions ::
  "('f, 'g, 'w) DiskEnv \<Rightarrow> ApplicationDiskManager \<Rightarrow> ('w, ApplicationError, unit) prog" where
  "create_disk_with_partitions D d =
     attempt (ensure_partitions_correctness D d) (\<lambda>r.
       case r of
         Inl _ \<Rightarrow> map_err (\<lambda>e. DiskOpertaion (disk_error_to_string e)) (create_application_disk D d)
       | Inr _ \<Rightarrow> ok ())"

definition update_disk_with_partitions ::
  "('f, 'g, 'w) DiskEnv \<Rightarrow> u32 \<Rightarrow> u32 \<Rightarrow> (ApplicationDiskManager \<times> 'w, ApplicationError, unit) prog" where
  "update_disk_with_partitions D new_data_part_size_mb new_image_part_size_mb =
     map_err (\<lambda>e. DiskOpertaion (disk_error_to_string e))
       (update_partitions_if_sizes_differ D new_data_part_size_mb new_image_part_size_mb)"

definition get_data_partition_uuid ::
  "('f, 'g, 'w) DiskEnv \<Rightarrow> ApplicationDiskManager \<Rightarrow> ('w, ApplicationError, uuid) prog" where
  "get_data_partition_uuid D d =
     map_err (\<lambda>e. DiskOpertaion (disk_error_to_string e))
       (try_bind (read_partitions D d) (\<lambda>partitions.
        try_bind (of_result (get_data_partition partitions)) (\<lambda>p. ok (part_guid p))))"

definition get_image_partition_uuid ::
  "('f, 'g, 'w) DiskEnv \<Rightarrow> ApplicationDiskManager \<Rightarrow> ('w, ApplicationError, uuid) prog" where
  "get_image_partition_uuid D d =
     map_err (\<lambda>e. DiskOpertaion (disk_error_to_string e))
       (try_bind (read_partitions D d) (\<lambda>partitions.
        try_bind (of_result (get_image_partition partitions)) (\<lambda>p. ok (part_guid p))))"

section \<open>Sizes\<close>

definition mb :: nat where "mb = 1048576"

definition adm_wf :: "ApplicationDiskManager \<Rightarrow> bool" where
  "adm_wf d \<longleftrightarrow>
     (\<exists>i. 1 \<le> i \<and> i \<le> 102400 \<and> unat (image_part_bytes_size d) = i * mb) \<and>
     (\<exists>i. 1 \<le> i \<and> i \<le> 102400 \<and> unat (data_part_bytes_size d) = i * mb)"

lemma unat_to_bytes:
  assumes "unat (n :: u32) \<le> 102400"
  shows "unat (ucast n * 1024 * 1024 :: u64) = unat n * mb"
proof -
  have u: "unat (ucast n :: u64) = unat n"
    using assms by (simp add: unsigned_ucast_eq take_bit_nat_eq_self)
  from assms have "unat n * 1024 < 2 ^ 64" and "unat n * 1024 * 1024 < 2 ^ 64" by simp_all
  then show ?thesis
    by (simp add: unat_word_ariths u mb_def)
qed

lemma validate_Inr:
  "validate_and_convert_to_bytes n = Inr b \<longleftrightarrow>
     1 \<le> unat n \<and> unat n \<le> 102400 \<and> unat b = unat n * mb"
proof -
  have max: "unat MAX_PARTITION_SIZE_MB = 102400"
    by (simp add: MAX_PARTITION_SIZE_MB_def)
  have "n > MAX_PARTITION_SIZE_MB \<longleftrightarrow> unat n > 102400"
    by (simp add: word_less_nat_alt max)
  moreover have "n = 0 \<longleftrightarrow> unat n = 0" by (simp add: unat_eq_0)
  ultimately show ?thesis
    using unat_to_bytes [of n]
    by (auto simp: validate_and_convert_to_bytes_def word_unat_eq_iff split: if_splits)
qed

lemma ADM_new_wf: "ADM_new p i d = Inr a \<Longrightarrow> adm_wf a"
  by (fastforce simp: ADM_new_def adm_wf_def validate_Inr split: sum.splits)

lemma total_size:
  assumes "adm_wf d"
  shows "unat (calculate_total_size d) =
         unat (data_part_bytes_size d) + unat (image_part_bytes_size d) + 68 * 512"
proof -
  from assms have "unat (data_part_bytes_size d) \<le> 102400 * mb"
    "unat (image_part_bytes_size d) \<le> 102400 * mb"
    by (auto simp: adm_wf_def mb_def)
  then have "unat (data_part_bytes_size d) + unat (image_part_bytes_size d) + 34816 < 2 ^ 64"
    by (simp add: mb_def)
  then show ?thesis
    by (simp add: calculate_total_size_def LBA_SIZE_def unat_word_ariths)
qed

lemma mbr_lb_size_exact:
  assumes "adm_wf d"
  shows "unat (mbr_lb_size d) = unat (calculate_total_size d) div 512 - 1"
proof -
  obtain i j where d: "unat (data_part_bytes_size d) = i * mb" "i \<le> 102400"
    "unat (image_part_bytes_size d) = j * mb" "j \<le> 102400"
    using assms by (auto simp: adm_wf_def)
  let ?t = "calculate_total_size d"
  have t: "unat ?t = (i * 2048 + j * 2048 + 68) * 512"
    using d by (simp add: total_size [OF assms] mb_def)
  then have q: "unat (?t div LBA_SIZE) = i * 2048 + j * 2048 + 68"
    by (simp add: unat_div LBA_SIZE_def)
  have "1 \<le> ?t div LBA_SIZE"
    using q by (simp add: word_le_nat_alt)
  then have r: "unat (?t div LBA_SIZE - 1) = i * 2048 + j * 2048 + 67"
    by (simp add: unat_sub q)
  have "i * 2048 + j * 2048 + 67 < 2 ^ 32" using d by simp
  then show ?thesis
    by (simp add: mbr_lb_size_def unsigned_ucast_eq take_bit_eq_mod r t)
qed

section \<open>Correct partitions\<close>

text \<open>The table holds both partitions under their names with exactly the configured sizes.\<close>

definition partitions_ok ::
  "('f, 'g, 'w) DiskEnv \<Rightarrow> ApplicationDiskManager \<Rightarrow> (string \<times> Partition) list \<Rightarrow> bool" where
  "partitions_ok D d partitions \<longleftrightarrow>
     (\<exists>i. hm_get partitions IMAGE_PARTITION = Some i \<and>
          bytes_len D i LBA_SIZE = Inr (image_part_bytes_size d)) \<and>
     (\<exists>p. hm_get partitions DATA_PARTITION = Some p \<and>
          bytes_len D p LBA_SIZE = Inr (data_part_bytes_size d))"

lemma ensure_ok:
  "ensure_partitions_correctness D d w = (Inr x, w') \<longleftrightarrow>
     (\<exists>partitions. read_partitions D d w = (Inr partitions, w') \<and> partitions_ok D d partitions)"
  by (auto simp: ensure_partitions_correctness_def partitions_ok_def get_image_partition_def
      get_data_partition_def run_iffs split: if_splits)

lemma create_application_disk_ok:
  "create_application_disk D d w = (Inr x, w') \<Longrightarrow>
     \<exists>w1. ensure_partitions_correctness D d w1 = (Inr x, w')"
  by (auto simp: create_application_disk_def run_iffs)

lemma update_ok_sizes:
  assumes "update_partitions_if_sizes_differ D nd ni (d, w) = (Inr x, (d', w'))"
  shows "file_path d' = file_path d \<and>
         validate_and_convert_to_bytes ni = Inr (image_part_bytes_size d') \<and>
         validate_and_convert_to_bytes nd = Inr (data_part_bytes_size d') \<and>
         (\<exists>w1. ensure_partitions_correctness D d' w1 = (Inr (), w'))"
proof -
  obtain i e w0 where v: "validate_and_convert_to_bytes ni = Inr i"
      "validate_and_convert_to_bytes nd = Inr e"
    and run: "ensure_partitions_correctness D d w = (Inr (), w0)"
      "(if i \<noteq> image_part_bytes_size d \<or> e \<noteq> data_part_bytes_size d
        then d' = d\<lparr>image_part_bytes_size := i, data_part_bytes_size := e\<rparr> \<and>
             create_application_disk D d' w0 = (Inr x, w')
        else d' = d \<and> w' = w0)"
    using assms by (auto simp: update_partitions_if_sizes_differ_def run_iffs split: if_splits)
  then show ?thesis
    by (cases "i \<noteq> image_part_bytes_size d \<or> e \<noteq> data_part_bytes_size d")
      (auto dest: create_application_disk_ok)
qed

lemma update_same_sizes:
  assumes "update_partitions_if_sizes_differ D nd ni (d, w) = (Inr x, (d', w'))"
    and "validate_and_convert_to_bytes ni = Inr (image_part_bytes_size d)"
    and "validate_and_convert_to_bytes nd = Inr (data_part_bytes_size d)"
  shows "d' = d \<and> ensure_partitions_correctness D d w = (Inr (), w')"
  using assms
  by (auto simp: update_partitions_if_sizes_differ_def run_iffs split: if_splits)

lemma update_run:
  assumes "update_partitions_if_sizes_differ D nd ni (d, w) = (x, (d', w'))"
  shows "d' = d \<or> (\<exists>i e. validate_and_convert_to_bytes ni = Inr i \<and>
     validate_and_convert_to_bytes nd = Inr e \<and>
     d' = d\<lparr>image_part_bytes_size := i, data_part_bytes_size := e\<rparr>)"
  using assms
  by (cases x) (auto simp: update_partitions_if_sizes_differ_def run_iffs split: if_splits)

lemma update_wf:
  assumes "update_partitions_if_sizes_differ D nd ni (d, w) = (x, (d', w'))" and "adm_wf d"
  shows "adm_wf d' \<and> file_path d' = file_path d"
  using update_run [OF assms(1)] assms(2) by (auto simp: adm_wf_def validate_Inr)

section \<open>The tables on the disks\<close>

text \<open>
  Documented behaviour of files and of the \<open>gpt\<close> crate: \<open>table w p\<close> is the table in the file \<open>p\<close>.
  Reading a table returns what the file holds and changes nothing; what is done through a handle on one file
  does not change another file.
\<close>

definition other_tables :: "('w \<Rightarrow> path \<Rightarrow> Partition list option) \<Rightarrow> path \<Rightarrow> 'w \<Rightarrow> 'w \<Rightarrow> bool" where
  "other_tables table p w w' \<longleftrightarrow> (\<forall>q. q \<noteq> p \<longrightarrow> table w' q = table w q)"

definition disk_lawful ::
  "('f, 'g, 'w) DiskEnv \<Rightarrow> ('f \<Rightarrow> path) \<Rightarrow> ('g \<Rightarrow> path) \<Rightarrow> ('w \<Rightarrow> path \<Rightarrow> Partition list option) \<Rightarrow> bool" where
  "disk_lawful D hf hg table \<longleftrightarrow>
     (\<forall>p w r w'. gpt_read D p w = (r, w') \<longrightarrow> table w' = table w \<and> (\<forall>ps. r = Inr ps \<longrightarrow> table w p = Some ps)) \<and>
     (\<forall>p w r w'. disk_open D p w = (r, w') \<longrightarrow> other_tables table p w w' \<and> (\<forall>f. r = Inr f \<longrightarrow> hf f = p)) \<and>
     (\<forall>f n w r w'. disk_seek D f n w = (r, w') \<longrightarrow> other_tables table (hf f) w w') \<and>
     (\<forall>f b w r w'. disk_write_all D f b w = (r, w') \<longrightarrow> other_tables table (hf f) w w') \<and>
     (\<forall>f w r w'. disk_sync_all D f w = (r, w') \<longrightarrow> other_tables table (hf f) w w') \<and>
     (\<forall>f w r w'. disk_close D f w = (r, w') \<longrightarrow> other_tables table (hf f) w w') \<and>
     (\<forall>f n w r w'. mbr_overwrite_lba0 D f n w = (r, w') \<longrightarrow> other_tables table (hf f) w w') \<and>
     (\<forall>f n w r w'. gpt_create_from_device D f n w = (r, w') \<longrightarrow>
        other_tables table (hf f) w w' \<and> (\<forall>g. r = Inr g \<longrightarrow> hg g = hf f)) \<and>
     (\<forall>g w r w'. gpt_clear_partitions D g w = (r, w') \<longrightarrow> other_tables table (hg g) w w') \<and>
     (\<forall>g n z w r w'. gpt_add_partition D g n z w = (r, w') \<longrightarrow> other_tables table (hg g) w w') \<and>
     (\<forall>g w r w'. gpt_write D g w = (r, w') \<longrightarrow> other_tables table (hg g) w w')"

text \<open>The file of a disk holds the two partitions with the sizes of its manager.\<close>

definition on_disk_ok ::
  "('f, 'g, 'w) DiskEnv \<Rightarrow> ('w \<Rightarrow> path \<Rightarrow> Partition list option) \<Rightarrow> ApplicationDiskManager \<Rightarrow> 'w \<Rightarrow> bool" where
  "on_disk_ok D table d w \<longleftrightarrow> (\<exists>ps. table w (file_path d) = Some ps \<and> partitions_ok D d (collect_by_name ps))"

lemma other_tables_trans:
  "other_tables table p u v \<Longrightarrow> other_tables table p v w \<Longrightarrow> other_tables table p u w"
  by (simp add: other_tables_def)

lemma disk_lawfulD:
  assumes "disk_lawful D hf hg table"
  shows "gpt_read D p w = (r, w') \<Longrightarrow> table w' = table w" "gpt_read D p w = (Inr ps, w') \<Longrightarrow> table w p = Some ps"
    and "disk_open D p w = (r0, w') \<Longrightarrow> other_tables table p w w'" "disk_open D p w = (Inr f, w') \<Longrightarrow> hf f = p"
    and "disk_seek D f n w = (r1, w') \<Longrightarrow> other_tables table (hf f) w w'"
    and "disk_write_all D f b w = (r1, w') \<Longrightarrow> other_tables table (hf f) w w'"
    and "disk_sync_all D f w = (r1, w') \<Longrightarrow> other_tables table (hf f) w w'"
    and "disk_close D f w = (r1, w') \<Longrightarrow> other_tables table (hf f) w w'"
    and "mbr_overwrite_lba0 D f m w = (r2, w') \<Longrightarrow> other_tables table (hf f) w w'"
    and "gpt_create_from_device D f n w = (r3, w') \<Longrightarrow> other_tables table (hf f) w w'"
      "gpt_create_from_device D f n w = (Inr g, w') \<Longrightarrow> hg g = hf f"
    and "gpt_clear_partitions D g w = (r2, w') \<Longrightarrow> other_tables table (hg g) w w'"
    and "gpt_add_partition D g name n w = (r2, w') \<Longrightarrow> other_tables table (hg g) w w'"
    and "gpt_write D g w = (r2, w') \<Longrightarrow> other_tables table (hg g) w w'"
  using assms unfolding disk_lawful_def by simp_all

lemma read_table:
  assumes "disk_lawful D hf hg table" and "read_partitions D d w = (r, w')"
  shows "table w' = table w" and "r = Inr m \<Longrightarrow> \<exists>ps. table w (file_path d) = Some ps \<and> m = collect_by_name ps"
  using assms(2) by (cases r; auto simp: read_partitions_def run_iffs dest: disk_lawfulD(1,2) [OF assms(1)])+

lemma ensure_table:
  assumes "disk_lawful D hf hg table" and "ensure_partitions_correctness D d w = (Inr x, w')"
  shows "table w' = table w" and "on_disk_ok D table d w'"
proof -
  from assms(2) obtain m where m: "read_partitions D d w = (Inr m, w')" "partitions_ok D d m"
    by (auto simp: ensure_ok)
  from read_table [OF assms(1) m(1)] m(2) show "table w' = table w" "on_disk_ok D table d w'"
    by (auto simp: on_disk_ok_def)
qed

lemma create_other_tables:
  assumes "disk_lawful D hf hg table" and "create_application_disk D d w = (Inr x, w')"
  shows "other_tables table (file_path d) w w'"
proof -
  let ?o = "other_tables table (file_path d)"
  note law = disk_lawfulD [OF assms(1)]
  from assms(2) obtain f w1 w2 w3 where run: "create_disk_device D d w = (Inr f, w1)"
      "create_gpt_and_partitions D d f w1 = (Inr (), w2)" "sync_file D f w2 = (Inr (), w3)"
      "ensure_partitions_correctness D d w3 = (Inr x, w')"
    by (auto simp: create_application_disk_def run_iffs)
  from run(1) obtain v1 v2 v3 where o: "disk_open D (file_path d) w = (Inr f, v1)"
      "disk_seek D f (calculate_total_size d - 1) v1 = (Inr (), v2)" "disk_write_all D f [0] v2 = (Inr (), v3)"
      "disk_seek D f 0 v3 = (Inr (), w1)"
    by (auto simp: create_disk_device_def run_iffs)
  have hf: "hf f = file_path d" using law(4) [OF o(1)] .
  from run(2) obtain g v1' v2' v3' v4' v5' where p: "mbr_overwrite_lba0 D f (mbr_lb_size d) w1 = (Inr (), v1')"
      "gpt_create_from_device D f LBA_SIZE v1' = (Inr g, v2')" "gpt_clear_partitions D g v2' = (Inr (), v3')"
      "gpt_add_partition D g IMAGE_PARTITION (image_part_bytes_size d) v3' = (Inr (), v4')"
      "gpt_add_partition D g DATA_PARTITION (data_part_bytes_size d) v4' = (Inr (), v5')" "gpt_write D g v5' = (Inr (), w2)"
    by (auto simp: create_gpt_and_partitions_def write_mbr_def create_partition_def run_iffs)
  have hg: "hg g = file_path d" using law(11) [OF p(2)] hf by simp
  from run(3) obtain v6 where s: "disk_sync_all D f w2 = (Inr (), v6)" "disk_close D f v6 = (Inr (), w3)"
    by (auto simp: sync_file_def run_iffs)
  have "?o w v1" "?o v1 v2" "?o v2 v3" "?o v3 w1" using law(3) [OF o(1)] law(5) [OF o(2)] law(6) [OF o(3)] law(5) [OF o(4)] hf by simp_all
  moreover have "?o w1 v1'" "?o v1' v2'" using law(9) [OF p(1)] law(10) [OF p(2)] hf by simp_all
  moreover have "?o v2' v3'" "?o v3' v4'" "?o v4' v5'" "?o v5' w2" using law(12) [OF p(3)] law(13) [OF p(4)] law(13) [OF p(5)] law(14) [OF p(6)] hg by simp_all
  moreover have "?o w2 v6" "?o v6 w3" using law(7) [OF s(1)] law(8) [OF s(2)] hf by simp_all
  moreover have "?o w3 w'" using ensure_table(1) [OF assms(1) run(4)] by (simp add: other_tables_def)
  ultimately show ?thesis by (meson other_tables_trans)
qed

text \<open>A successful update leaves the configured table in the file of the disk, and every other file alone.\<close>

lemma update_table:
  assumes "disk_lawful D hf hg table" and "update_partitions_if_sizes_differ D nd ni (d, w) = (Inr x, (d', w'))"
  shows "on_disk_ok D table d' w'" and "other_tables table (file_path d) w w'"
proof -
  obtain w0 where run: "ensure_partitions_correctness D d w = (Inr (), w0)"
      "d' = d \<and> w' = w0 \<or> file_path d' = file_path d \<and> create_application_disk D d' w0 = (Inr (), w')"
    using assms(2) by (auto simp: update_partitions_if_sizes_differ_def run_iffs split: if_splits)
  note first = ensure_table [OF assms(1) run(1)]
  have "on_disk_ok D table d' w' \<and> other_tables table (file_path d) w w'"
    using run(2)
  proof (elim disjE conjE)
    assume d': "file_path d' = file_path d" and c: "create_application_disk D d' w0 = (Inr (), w')"
    from create_application_disk_ok [OF c] ensure_table(2) [OF assms(1)] have "on_disk_ok D table d' w'" by blast
    with create_other_tables [OF assms(1) c] first(1) d' show ?thesis by (simp add: other_tables_def)
  qed (use first in \<open>simp add: other_tables_def\<close>)
  then show "on_disk_ok D table d' w'" and "other_tables table (file_path d) w w'" by simp_all
qed

end
