(* ===== verification/Vm_Runner.thy ===== *)
theory Vm_Runner
  imports Interfaces App_Disk
begin

text \<open>
  The virtual machine of a realm (\<open>virtualization/vm_runner.rs\<close> and the files below
  it): the command lines for qemu and lkvm, the handler of the spawned process, and the
  runner that owns at most one handler. The runner implements the \<open>VmManager\<close> trait;
  the interpretation at the end discharges the contract of \<open>Interfaces.vm_manager\<close>
  for every operating system.
\<close>

section \<open>Command lines\<close>

text \<open>\<^verbatim>\<open>CommandRunner\<close>: the command so far, and how a disk is added to a command.\<close>

record CommandRunner =
  get_command :: Command
  setup_disk :: "Command \<Rightarrow> path \<Rightarrow> Command"

subsection \<open>qemu\<close>

definition qemu_setup_cpu :: "CpuConfig \<Rightarrow> Command \<Rightarrow> Command" where
  "qemu_setup_cpu config =
     args [''-smp'', word_to_string (cores_number config), ''-cpu'', cpu config]"

definition qemu_setup_kernel :: "KernelConfig \<Rightarrow> Command \<Rightarrow> Command" where
  "qemu_setup_kernel config = args [''-kernel'', kernel_path config]"

definition qemu_setup_memory :: "MemoryConfig \<Rightarrow> Command \<Rightarrow> Command" where
  "qemu_setup_memory config = args [''-m'', word_to_string (ram_size config)]"

definition qemu_setup_machine :: "string \<Rightarrow> Command \<Rightarrow> Command" where
  "qemu_setup_machine name = args [''-machine'', name]"

definition qemu_setup_network :: "NetworkConfig \<Rightarrow> Command \<Rightarrow> Command" where
  "qemu_setup_network config c =
     (let c1 = args [''-netdev'',
                     ''tap,id=mynet0,ifname='' @ tap_device config @ '',script=no,downscript=no''] c;
          hw = (case hardware_device config of Some d \<Rightarrow> d | None \<Rightarrow> ''e1000'');
          c2 = args [''-device'', hw @ '',netdev=mynet0,mac='' @ mac_address config] c1;
          c3 = args [''-device'',
                     ''vhost-vsock-pci,id=vhost-vsock-pci0,guest-cid='' @
                       word_to_string (vsock_cid config)] c2
      in case remote_terminal_uri config of
           Some terminal_uri \<Rightarrow> args [''-serial'', terminal_uri] c3
         | None \<Rightarrow> c3)"

definition qemu_control_output :: "Command \<Rightarrow> Command" where
  "qemu_control_output c = args [''-append'', ''console=ttyAMA0''] (arg ''-nographic'' c)"

definition qemu_setup_disk :: "Command \<Rightarrow> path \<Rightarrow> Command" where
  "qemu_setup_disk c app_disk_path = args [''-drive'', ''file='' @ app_disk_path] c"

definition QemuRunner_new :: "path \<Rightarrow> RealmConfig \<Rightarrow> CommandRunner" where
  "QemuRunner_new path_to_qemu config =
     \<lparr>get_command =
        qemu_control_output
         (qemu_setup_network (network config)
          (qemu_setup_machine (machine config)
           (qemu_setup_memory (memory config)
            (qemu_setup_kernel (kernel config)
             (qemu_setup_cpu (cpu_config config) (new_command path_to_qemu)))))),
      setup_disk = qemu_setup_disk\<rparr>"

subsection \<open>lkvm\<close>

definition lkvm_setup_cpu :: "CpuConfig \<Rightarrow> Command \<Rightarrow> Command" where
  "lkvm_setup_cpu config = args [''-c'', word_to_string (cores_number config)]"

definition lkvm_setup_kernel :: "KernelConfig \<Rightarrow> Command \<Rightarrow> Command" where
  "lkvm_setup_kernel config c =
     (let c1 = args [''-k'', kernel_path config] c;
          c2 = (case kernel_initramfs_path config of
                  Some initramfs_path \<Rightarrow> args [''-i'', initramfs_path] c1 | None \<Rightarrow> c1)
      in case kernel_cmd_params config of
           Some ps \<Rightarrow> args [''-p'', CHR 34 # ps @ [CHR 34]] c2
         | None \<Rightarrow> c2)"

definition lkvm_setup_memory :: "MemoryConfig \<Rightarrow> Command \<Rightarrow> Command" where
  "lkvm_setup_memory config = args [''-m'', word_to_string (ram_size config)]"

definition lkvm_setup_network :: "NetworkConfig \<Rightarrow> Command \<Rightarrow> Command" where
  "lkvm_setup_network config c =
     args [''--vsock'', word_to_string (vsock_cid config)]
      (args [''-n'', ''tapif='' @ tap_device config @ '',guest_mac='' @ mac_address config] c)"

definition lkvm_control_output :: "Command \<Rightarrow> Command" where
  "lkvm_control_output = args [''--console'', ''serial'']"

definition lkvm_configure_optional_args :: "Command \<Rightarrow> Command" where
  "lkvm_configure_optional_args = args [''--irqchip=gicv3'', ''--disable-sve'']"

definition lkvm_configure_metadata :: "path option \<Rightarrow> Command \<Rightarrow> Command" where
  "lkvm_configure_metadata m c =
     (case m of Some p \<Rightarrow> args [''--metadata'', p] c | None \<Rightarrow> c)"

definition lkvm_setup_disk :: "Command \<Rightarrow> path \<Rightarrow> Command" where
  "lkvm_setup_disk c app_disk_path = args [''-d'', app_disk_path] c"

definition LkvmRunner_new :: "path \<Rightarrow> RealmConfig \<Rightarrow> CommandRunner" where
  "LkvmRunner_new path_to_runner config =
     \<lparr>get_command =
        lkvm_configure_metadata (metadata config)
         (lkvm_configure_optional_args
          (lkvm_control_output
           (lkvm_setup_network (network config)
            (lkvm_setup_memory (memory config)
             (lkvm_setup_kernel (kernel config)
              (lkvm_setup_cpu (cpu_config config)
               (arg ''run'' (new_command path_to_runner)))))))),
      setup_disk = lkvm_setup_disk\<rparr>"

definition configure_cca_settings :: "CommandRunner \<Rightarrow> CommandRunner" where
  "configure_cca_settings r =
     r\<lparr>get_command :=
         args [''--debug'', ''--realm'', ''--restricted_mem'', ''--measurement-algo=sha256'']
           (get_command r)\<rparr>"

section \<open>The process handler\<close>

datatype VmHandlerError =
    Spawn io_error
  | HLaunch ExitStatus
  | Kill io_error
  | Wait io_error
  | Read io_error
  | StdOutTake uuid
  | StdErrTake uuid

fun vm_handler_error_to_string :: "(uuid \<Rightarrow> string) \<Rightarrow> VmHandlerError \<Rightarrow> string" where
  "vm_handler_error_to_string us (Spawn e) = ''Unable to spawn Vm: '' @ io_text e"
| "vm_handler_error_to_string us (HLaunch s) = ''Unable to launch Vm: '' @ s"
| "vm_handler_error_to_string us (Kill e) = ''Unable to kill Vm: '' @ io_text e"
| "vm_handler_error_to_string us (Wait e) = ''Unable to get realm's exit code: '' @ io_text e"
| "vm_handler_error_to_string us (Read e) = ''Unable to read realm's output: '' @ io_text e"
| "vm_handler_error_to_string us (StdOutTake u) =
     ''Unable to take stdout from realm: '' @ us u"
| "vm_handler_error_to_string us (StdErrTake u) =
     ''Unable to take stderr from realm: '' @ us u"

text \<open>The handler keeps the process and the log thread (\<open>True\<close> while it runs).\<close>

record 'c VmHandler =
  vm_process :: 'c
  communication_thread :: bool

definition spawn_vm_process ::
  "('c, 'w) ProcessOps \<Rightarrow> Command \<Rightarrow> ('w, VmHandlerError, 'c \<times> ExitStatus option) prog" where
  "spawn_vm_process P command w =
     (case os_spawn P command w of
        (Inl e, w1) \<Rightarrow> (Inl (Spawn e), w1)
      | (Inr c, w1) \<Rightarrow>
          (case os_try_wait P (c, w1) of
             (Inl e, (c', w2)) \<Rightarrow> (Inl (Wait e), w2)
           | (Inr status, (c', w2)) \<Rightarrow> (Inr (c', status), w2)))"

definition create_output_readers ::
  "('c, 'w) ProcessOps \<Rightarrow> uuid \<Rightarrow> ('c \<times> 'w, VmHandlerError, unit) prog" where
  "create_output_readers P vm_id s =
     (case os_take_stdout P s of
        (False, s1) \<Rightarrow> (Inl (StdOutTake vm_id), s1)
      | (True, s1) \<Rightarrow>
          (case os_take_stderr P s1 of
             (False, s2) \<Rightarrow> (Inl (StdErrTake vm_id), s2)
           | (True, s2) \<Rightarrow> (Inr (), s2)))"

definition prepare_command :: "Command \<Rightarrow> Command" where
  "prepare_command command = args (cmd_args command) (new_command (cmd_program command))"

lemma prepare_command_same [simp]: "prepare_command command = command"
  by (cases command) (simp add: prepare_command_def args_def new_command_def)

definition VmHandler_new ::
  "('c, 'w) ProcessOps \<Rightarrow> Command \<Rightarrow> uuid \<Rightarrow> ('w, VmHandlerError, 'c VmHandler) prog" where
  "VmHandler_new P command vm_id =
     try_bind (spawn_vm_process P (prepare_command command)) (\<lambda>(c, status).
     (\<lambda>w. case create_output_readers P vm_id (c, w) of
            (Inl e, (c', w')) \<Rightarrow> (Inl e, w')
          | (Inr _, (c', w')) \<Rightarrow>
              (case status of
                 Some exit_status \<Rightarrow> (Inl (HLaunch exit_status), w')
               | None \<Rightarrow> (Inr \<lparr>vm_process = c', communication_thread = True\<rparr>, w'))))"

definition on_process ::
  "('c \<times> 'w, 'e, 'a) prog \<Rightarrow> ('c VmHandler \<times> 'w, 'e, 'a) prog" where
  "on_process = zoom (\<lambda>(h, w). (vm_process h, w)) (\<lambda>(c, w') (h, w). (h\<lparr>vm_process := c\<rparr>, w'))"

definition VmHandler_shutdown ::
  "('c, 'w) ProcessOps \<Rightarrow> ('c VmHandler \<times> 'w, VmHandlerError, unit) prog" where
  "VmHandler_shutdown P =
     try_bind (upd (\<lambda>(h, w). (h\<lparr>communication_thread := False\<rparr>, w))) (\<lambda>_.
     try_bind (map_err Kill (on_process (os_kill P))) (\<lambda>_.
     try_bind (map_err Wait (on_process (os_wait P))) (\<lambda>_.
     ok ())))"

definition try_get_exit_status ::
  "('c, 'w) ProcessOps \<Rightarrow> ('c VmHandler \<times> 'w, io_error, ExitStatus option) prog" where
  "try_get_exit_status P = on_process (os_try_wait P)"

text \<open>
  The log task: which pipe \<open>select!\<close> reads next and what it finds there is decided outside, so
  the task is a function from the reads of its first turns to the lines it prints. The loop has no exit:
  a pipe that was closed keeps giving the empty line.
\<close>

datatype VmOutput = FromStdout "io_error + string" | FromStderr "io_error + string"

definition vm_read_line :: "io_error + string \<Rightarrow> VmHandlerError + string" where
  "vm_read_line r = map_sum Read id r"

definition is_ascii_whitespace :: "char \<Rightarrow> bool" where
  "is_ascii_whitespace c \<longleftrightarrow> (of_char c :: nat) \<in> {9, 10, 12, 13, 32}"

definition trim_ascii :: "string \<Rightarrow> string" where
  "trim_ascii s = rev (dropWhile is_ascii_whitespace (rev (dropWhile is_ascii_whitespace s)))"

fun handle_vm_output :: "(uuid \<Rightarrow> string) \<Rightarrow> VmHandlerError + string \<Rightarrow> uuid \<Rightarrow> string list" where
  "handle_vm_output us (Inr message) u =
     (if message \<noteq> [] then [''Realm: '' @ us u @ '': '' @ trim_ascii message] else [])"
| "handle_vm_output us (Inl e) u = []"

fun gather_output :: "(uuid \<Rightarrow> string) \<Rightarrow> uuid \<Rightarrow> VmOutput list \<Rightarrow> string list" where
  "gather_output us u [] = []"
| "gather_output us u (FromStdout r # events) = handle_vm_output us (vm_read_line r) u @ gather_output us u events"
| "gather_output us u (FromStderr r # events) = handle_vm_output us (vm_read_line r) u @ gather_output us u events"

fun vm_message :: "VmOutput \<Rightarrow> string option" where
  "vm_message (FromStdout (Inr m)) = (if m = [] then None else Some m)"
| "vm_message (FromStderr (Inr m)) = (if m = [] then None else Some m)"
| "vm_message _ = None"

text \<open>Every line of the machine is printed once, in the order of the reads; errors and ends print nothing.\<close>

lemma gather_output_lines:
  "gather_output us u events =
     map (\<lambda>m. ''Realm: '' @ us u @ '': '' @ trim_ascii m) (List.map_filter vm_message events)"
proof (induction events)
  case (Cons e es)
  then show ?case
    by (cases e rule: vm_message.cases) (simp_all add: vm_read_line_def List.map_filter_simps)
qed (simp add: List.map_filter_simps)

section \<open>The runner\<close>

record 'c VmRunner =
  cmd_runner :: CommandRunner
  realm_id :: uuid
  realm_workdir :: path
  vm :: "'c VmHandler option"

definition VmRunner_new :: "CommandRunner \<Rightarrow> uuid \<Rightarrow> path \<Rightarrow> 'c VmRunner" where
  "VmRunner_new runner rid workdir =
     \<lparr>cmd_runner = runner, realm_id = rid, realm_workdir = workdir, vm = None\<rparr>"

definition app_disk_path :: "(uuid \<Rightarrow> string) \<Rightarrow> path \<Rightarrow> uuid \<Rightarrow> path" where
  "app_disk_path us workdir app_uuid = path_push (path_push workdir (us app_uuid)) ADM_DISK_NAME"

definition prepare_run_command ::
  "(uuid \<Rightarrow> string) \<Rightarrow> 'c VmRunner \<Rightarrow> uuid list \<Rightarrow> Command" where
  "prepare_run_command us r application_uuids =
     foldl (\<lambda>c u. setup_disk (cmd_runner r) c (app_disk_path us (realm_workdir r) u))
       (args (cmd_args (get_command (cmd_runner r)))
          (new_command (cmd_program (get_command (cmd_runner r)))))
       application_uuids"

definition VmRunner_launch_vm ::
  "(uuid \<Rightarrow> string) \<Rightarrow> ('c, 'w) ProcessOps \<Rightarrow> uuid list \<Rightarrow>
     ('c VmRunner \<times> 'w, VmManagerError, unit) prog" where
  "VmRunner_launch_vm us P application_uuids =
     try_bind (get (\<lambda>(r, w). (prepare_run_command us r application_uuids, r))) (\<lambda>(command, r).
     if vm r \<noteq> None then fail VmAlreadyLaunched
     else
       try_bind (map_err (\<lambda>e. Launch (vm_handler_error_to_string us e))
                  (in_world (VmHandler_new P command (realm_id r)))) (\<lambda>h.
       upd (\<lambda>(r, w). (r\<lparr>vm := Some h\<rparr>, w))))"

definition on_handler ::
  "'c VmHandler \<Rightarrow> ('c VmHandler \<times> 'w, 'e, 'a) prog \<Rightarrow> ('c VmRunner \<times> 'w, 'e, 'a) prog" where
  "on_handler h = zoom (\<lambda>(r, w). (h, w)) (\<lambda>(h', w') (r, w). (r\<lparr>vm := Some h'\<rparr>, w'))"

definition VmRunner_shutdown ::
  "(uuid \<Rightarrow> string) \<Rightarrow> ('c, 'w) ProcessOps \<Rightarrow> ('c VmRunner \<times> 'w, VmManagerError, unit) prog" where
  "VmRunner_shutdown us P =
     try_bind (get (\<lambda>(r, w). vm r)) (\<lambda>v.
     case v of
       None \<Rightarrow> fail VmNotLaunched
     | Some h \<Rightarrow>
         try_bind (map_err (\<lambda>e. VmShutdown (vm_handler_error_to_string us e))
                    (on_handler h (VmHandler_shutdown P))) (\<lambda>_.
         upd (\<lambda>(r, w). (r\<lparr>vm := None\<rparr>, w))))"

definition VmRunner_get_status ::
  "('c, 'w) ProcessOps \<Rightarrow> ('c VmRunner \<times> 'w, VmManagerError, VmStatus) prog" where
  "VmRunner_get_status P =
     try_bind (get (\<lambda>(r, w). vm r)) (\<lambda>v.
     case v of
       None \<Rightarrow> ok NotLaunched
     | Some h \<Rightarrow>
         try_bind (map_err (\<lambda>e. GetExitCode (io_text e))
                    (on_handler h (try_get_exit_status P))) (\<lambda>exit_code.
         ok (case exit_code of Some c \<Rightarrow> Exited c | None \<Rightarrow> VmLaunched)))"

definition VmRunner_ops ::
  "(uuid \<Rightarrow> string) \<Rightarrow> ('c, 'w) ProcessOps \<Rightarrow> ('c VmRunner, 'w) VmManager" where
  "VmRunner_ops us P =
     \<lparr>launch_vm = VmRunner_launch_vm us P,
      vm_shutdown = VmRunner_shutdown us P,
      get_status = VmRunner_get_status P\<rparr>"

definition vm_launched :: "'c VmRunner \<Rightarrow> bool" where
  "vm_launched r \<longleftrightarrow> vm r \<noteq> None"

section \<open>The runner meets the contract\<close>

lemmas runner_defs =
  VmRunner_launch_vm_def VmRunner_shutdown_def VmRunner_get_status_def on_handler_def

lemma launch_vm_Inr:
  "VmRunner_launch_vm us P uuids (r, w) = (Inr x, (r', w')) \<longleftrightarrow>
     vm r = None \<and>
     (\<exists>h. VmHandler_new P (prepare_run_command us r uuids) (realm_id r) w = (Inr h, w') \<and>
          r' = r\<lparr>vm := Some h\<rparr>)"
  by (auto simp: runner_defs prog_defs in_world_def split: prod.splits sum.splits if_splits)

lemma launch_vm_Inl:
  "VmRunner_launch_vm us P uuids (r, w) = (Inl e, (r', w')) \<Longrightarrow> r' = r"
  by (auto simp: runner_defs prog_defs in_world_def split: prod.splits sum.splits if_splits)

lemma launch_vm_again:
  "vm r \<noteq> None \<Longrightarrow> VmRunner_launch_vm us P uuids (r, w) = (Inl VmAlreadyLaunched, (r, w))"
  by (auto simp: runner_defs prog_defs)

lemma runner_shutdown_Inr:
  "VmRunner_shutdown us P (r, w) = (Inr x, (r', w')) \<Longrightarrow> vm r \<noteq> None \<and> r' = r\<lparr>vm := None\<rparr>"
  by (auto simp: runner_defs prog_defs split: prod.splits sum.splits option.splits)

lemma runner_shutdown_Inl:
  "VmRunner_shutdown us P (r, w) = (Inl e, (r', w')) \<Longrightarrow>
     (vm r' = None \<longleftrightarrow> vm r = None) \<and> r'\<lparr>vm := None\<rparr> = r\<lparr>vm := None\<rparr>"
  by (auto simp: runner_defs prog_defs split: prod.splits sum.splits option.splits)

lemma runner_status_vm:
  "VmRunner_get_status P (r, w) = (x, (r', w')) \<Longrightarrow>
     (vm r' = None \<longleftrightarrow> vm r = None) \<and> (x = Inr NotLaunched \<longleftrightarrow> vm r = None)"
  by (auto simp: runner_defs prog_defs split: prod.splits sum.splits option.splits)

lemma runner_shutdown_stopped:
  "vm r = None \<Longrightarrow> VmRunner_shutdown us P (r, w) = (Inl VmNotLaunched, (r, w))"
  by (simp add: runner_defs prog_defs)

interpretation vmr: vm_manager "VmRunner_ops us P" vm_launched
  by unfold_locales
    (auto simp: VmRunner_ops_def vm_launched_def launch_vm_Inr launch_vm_again
       runner_shutdown_stopped
       dest: launch_vm_Inl runner_shutdown_Inr runner_shutdown_Inl runner_status_vm)

section \<open>What is started\<close>

lemma cmd_args_args [simp]: "cmd_args (args as c) = cmd_args c @ as"
  by (simp add: args_def)

lemma cmd_program_args [simp]: "cmd_program (args as c) = cmd_program c"
  by (simp add: args_def)

lemma cmd_args_arg [simp]: "cmd_args (arg a c) = cmd_args c @ [a]"
  by (simp add: arg_def)

lemma cmd_program_arg [simp]: "cmd_program (arg a c) = cmd_program c"
  by (simp add: arg_def)

lemma new_command_sel [simp]: "cmd_args (new_command p) = []" "cmd_program (new_command p) = p"
  by (simp_all add: new_command_def)

text \<open>A disk option only appends arguments, so the command is the base command and the disks.\<close>

lemma foldl_setup_disk:
  assumes "\<And>c p. sd c p = args (opt p) c"
  shows "foldl (\<lambda>c u. sd c (g u)) c us = args (concat (map (\<lambda>u. opt (g u)) us)) c"
proof (induction us arbitrary: c)
  case Nil
  show ?case by (simp add: args_def)
next
  case (Cons u us)
  have "args (concat (map (\<lambda>u. opt (g u)) us)) (args (opt (g u)) c) =
        args (concat (map (\<lambda>u. opt (g u)) (u # us))) c"
    by (simp add: args_def)
  with Cons show ?case by (simp add: assms)
qed

lemma prepare_run_command_args:
  assumes "\<And>c p. setup_disk (cmd_runner r) c p = args (opt p) c"
  shows "prepare_run_command us r uuids =
         \<lparr>cmd_program = cmd_program (get_command (cmd_runner r)),
          cmd_args = cmd_args (get_command (cmd_runner r)) @
            concat (map (\<lambda>u. opt (app_disk_path us (realm_workdir r) u)) uuids)\<rparr>"
  unfolding prepare_run_command_def
  by (subst foldl_setup_disk [where opt = opt]) (simp_all add: assms args_def new_command_def)

end
