(* ===== verification/Client_Helper.thy ===== *)
theory Client_Helper
  imports Managers
begin

text \<open>
  The conversions between the protocol types and the daemon's own types
  (\<open>client_handler/client_helper.rs\<close>), one definition per \<^verbatim>\<open>From\<close> implementation.
\<close>

fun state_from :: "C_State \<Rightarrow> State" where
  "state_from CHalted = Halted"
| "state_from CProvisioning = Provisioning"
| "state_from CRunning = Running"
| "state_from CNeedReboot = NeedReboot"

fun c_state_from :: "State \<Rightarrow> C_State" where
  "c_state_from Halted = CHalted"
| "c_state_from Provisioning = CProvisioning"
| "c_state_from Running = CRunning"
| "c_state_from NeedReboot = CNeedReboot"

definition cpu_config_from :: "C_CpuConfig \<Rightarrow> CpuConfig" where
  "cpu_config_from v = \<lparr>cpu = c_cpu v, cores_number = c_cores_number v\<rparr>"

definition memory_config_from :: "C_MemoryConfig \<Rightarrow> MemoryConfig" where
  "memory_config_from v = \<lparr>ram_size = c_ram_size v\<rparr>"

definition network_config_from :: "C_NetworkConfig \<Rightarrow> NetworkConfig" where
  "network_config_from v =
     \<lparr>vsock_cid = c_vsock_cid v, tap_device = c_tap_device v, mac_address = c_mac_address v,
      hardware_device = c_hardware_device v, remote_terminal_uri = c_remote_terminal_uri v\<rparr>"

definition kernel_config_from :: "C_KernelConfig \<Rightarrow> KernelConfig" where
  "kernel_config_from v =
     \<lparr>kernel_path = c_kernel_path v, kernel_initramfs_path = c_kernel_initramfs_path v,
      kernel_cmd_params = c_kernel_cmd_params v\<rparr>"

definition realm_config_from :: "C_RealmConfig \<Rightarrow> RealmConfig" where
  "realm_config_from c =
     \<lparr>machine = c_machine c, cpu_config = cpu_config_from (c_cpu_config c),
      memory = memory_config_from (c_memory c),
      network = network_config_from (c_network_config c),
      kernel = kernel_config_from (c_kernel c), metadata = c_metadata c\<rparr>"

definition application_config_from :: "C_ApplicationConfig \<Rightarrow> ApplicationConfig" where
  "application_config_from v =
     \<lparr>app_name = c_app_name v, app_version = c_app_version v,
      image_registry = c_image_registry v,
      image_storage_size_mb = c_image_storage_size_mb v,
      data_storage_size_mb = c_data_storage_size_mb v\<rparr>"

definition c_realm_network_from :: "RealmNetwork \<Rightarrow> C_RealmNetwork" where
  "c_realm_network_from v = \<lparr>c_ip = net_ip v, c_if_name = net_if_name v\<rparr>"

definition c_realm_description_from :: "RealmDescription \<Rightarrow> C_RealmDescription" where
  "c_realm_description_from v =
     \<lparr>c_uuid = realm_uuid v, c_state = c_state_from (realm_state (realm_data v)),
      c_applications = realm_applications (realm_data v),
      c_network = map c_realm_network_from (realm_ips (realm_data v))\<rparr>"

definition application_info_from :: "ApplicationData \<Rightarrow> ApplicationInfo" where
  "application_info_from v =
     \<lparr>info_id = data_id v, info_name = data_name v, info_version = data_version v,
      info_image_registry = data_image_registry v,
      info_image_part_uuid = data_image_part_uuid v,
      info_data_part_uuid = data_data_part_uuid v\<rparr>"

definition application_infos_from :: "RealmProvisioningConfig \<Rightarrow> ApplicationInfo list" where
  "application_infos_from v = map application_info_from (applications_data v)"

section \<open>The conversions lose nothing\<close>

lemma state_from_c_state_from [simp]: "state_from (c_state_from s) = s"
  by (cases s) auto

lemma c_state_from_state_from [simp]: "c_state_from (state_from s) = s"
  by (cases s) auto

lemma c_state_from_inject [simp]: "c_state_from s = c_state_from t \<longleftrightarrow> s = t"
  by (metis state_from_c_state_from)

lemma c_realm_network_from_inject [simp]:
  "c_realm_network_from x = c_realm_network_from y \<longleftrightarrow> x = y"
  by (cases x; cases y) (auto simp: c_realm_network_from_def)

lemma c_realm_description_from_inject:
  "c_realm_description_from x = c_realm_description_from y \<longleftrightarrow> x = y"
proof -
  have "inj c_realm_network_from" by (simp add: inj_def)
  then have m: "map c_realm_network_from xs = map c_realm_network_from ys \<longleftrightarrow> xs = ys" for xs ys
    by (rule inj_map_eq_map)
  show ?thesis
    by (cases x; cases y; cases "realm_data x"; cases "realm_data y")
      (auto simp: c_realm_description_from_def m)
qed

lemma application_info_from_inject:
  "application_info_from x = application_info_from y \<longleftrightarrow> x = y"
  by (cases x; cases y) (auto simp: application_info_from_def)

lemma realm_config_from_inject:
  assumes "realm_config_from x = realm_config_from y" and "c_id x = c_id y"
  shows "x = y"
  using assms
  by (cases x; cases y; cases "c_cpu_config x"; cases "c_cpu_config y"; cases "c_memory x";
      cases "c_memory y"; cases "c_network_config x"; cases "c_network_config y";
      cases "c_kernel x"; cases "c_kernel y")
    (auto simp: realm_config_from_def cpu_config_from_def memory_config_from_def
      network_config_from_def kernel_config_from_def)

end
