(* ===== verification/Json_Framed.thy ===== *)
theory Json_Framed
  imports Os
begin

text \<open>
  Framed JSON messages (\<open>utils/src/serde/json_framed.rs\<close>), which the daemon and the manager
  inside a realm both speak. The codec is the argument \<open>FrameOps\<close>.
\<close>

datatype JsonFramedError =
    SerdeReadError io_error
  | SerdeWriteError io_error
  | StreamIsClosed

fun json_framed_error_to_string :: "JsonFramedError \<Rightarrow> string" where
  "json_framed_error_to_string (SerdeReadError e) = ''Serde read error''"
| "json_framed_error_to_string (SerdeWriteError e) = ''Serde write error''"
| "json_framed_error_to_string StreamIsClosed = ''Stream is closed''"

text \<open>The length-delimited, serde-encoded transport: the next item, if any, and sending one.\<close>

record ('st, 'i, 'o, 'w) FrameOps =
  try_next :: "('st \<times> 'w, io_error, 'i option) prog"
  frame_send :: "'o \<Rightarrow> ('st \<times> 'w, io_error, unit) prog"

definition json_recv :: "('st, 'i, 'o, 'w) FrameOps \<Rightarrow> ('st \<times> 'w, JsonFramedError, 'i) prog" where
  "json_recv F =
     try_bind (map_err SerdeReadError (try_next F)) (\<lambda>x. of_result (ok_or StreamIsClosed x))"

definition json_send ::
  "('st, 'i, 'o, 'w) FrameOps \<Rightarrow> 'o \<Rightarrow> ('st \<times> 'w, JsonFramedError, unit) prog" where
  "json_send F v = map_err SerdeWriteError (frame_send F v)"

end
