(* ===== verification/Realm_Client.thy ===== *)
theory Realm_Client
  imports Interfaces Client_Helper Json_Framed
begin

text \<open>
  The daemon's end of the vsock connection to one realm: the sender on top of the JSON
  framing (\<open>VSockClient\<close> of
  \<open>socket/vsocket_server.rs\<close>), and \<open>RealmClientHandler\<close>
  (\<open>client_handler/realm_client_handler.rs\<close>), which keeps the sender while the realm is
  connected and turns each realm operation into a request and a check of the response.
  The interpretation at the end discharges \<open>Interfaces.realm_client\<close>.
\<close>

section \<open>The sender\<close>

datatype RealmSenderError =
    SendFail JsonFramedError
  | ReceiveFail JsonFramedError
  | Timeout
  | Disconnection

fun realm_sender_error_to_string :: "RealmSenderError \<Rightarrow> string" where
  "realm_sender_error_to_string (SendFail e) =
     ''Failed to send request to Realm daemon: '' @ json_framed_error_to_string e"
| "realm_sender_error_to_string (ReceiveFail e) =
     ''Failed to receive message from Realm daemon: '' @ json_framed_error_to_string e"
| "realm_sender_error_to_string Timeout = ''Waiting too long for the response.''"
| "realm_sender_error_to_string Disconnection = ''Realm disconnected!''"

text \<open>The trait \<open>RealmSender\<close>.\<close>

record ('snd, 'w) RealmSender =
  send :: "Request \<Rightarrow> ('snd \<times> 'w, RealmSenderError, unit) prog"
  receive_response :: "duration \<Rightarrow> ('snd \<times> 'w, RealmSenderError, Response) prog"

text \<open>
  \<open>VSockClient\<close>: \<open>timer t s\<close> is the runtime's choice in the \<^verbatim>\<open>select!\<close> between the
  read and the sleep, \<open>Some\<close> of the state it leaves when the sleep ends first.
\<close>

definition VSockClient_send ::
  "('st, Response, Request, 'w) FrameOps \<Rightarrow> Request \<Rightarrow> ('st \<times> 'w, RealmSenderError, unit) prog" where
  "VSockClient_send F request = map_err SendFail (json_send F request)"

definition receive_error :: "JsonFramedError \<Rightarrow> RealmSenderError" where
  "receive_error e =
     (case e of
        SerdeReadError err \<Rightarrow>
          (if io_kind err = ConnectionReset then Disconnection else ReceiveFail e)
      | _ \<Rightarrow> ReceiveFail e)"

definition VSockClient_receive_response ::
  "('st, Response, Request, 'w) FrameOps \<Rightarrow> (duration \<Rightarrow> 'st \<times> 'w \<Rightarrow> ('st \<times> 'w) option) \<Rightarrow>
     duration \<Rightarrow> ('st \<times> 'w, RealmSenderError, Response) prog" where
  "VSockClient_receive_response F timer t s =
     (case timer t s of
        Some s' \<Rightarrow> (Inl Timeout, s')
      | None \<Rightarrow> map_err receive_error (json_recv F) s)"

definition VSockClient_ops ::
  "('st, Response, Request, 'w) FrameOps \<Rightarrow> (duration \<Rightarrow> 'st \<times> 'w \<Rightarrow> ('st \<times> 'w) option) \<Rightarrow>
     ('st, 'w) RealmSender" where
  "VSockClient_ops F timer =
     \<lparr>send = VSockClient_send F, receive_response = VSockClient_receive_response F timer\<rparr>"

section \<open>The handler\<close>

text \<open>
  \<open>RealmConnector\<close>: registering interest in a context identifier gives a receiver;
  the \<^verbatim>\<open>select!\<close> of \<open>try_connect\<close> ends with the sender, with a closed channel,
  by cancellation or by the timeout.
\<close>

datatype 'snd Selected = Received 'snd | RecvError string | Cancelled | TimedOut

record ('rx, 'snd, 'w) RealmConnector =
  acquire_realm_sender :: "u32 \<Rightarrow> 'w \<Rightarrow> 'rx \<times> 'w"
  select_sender :: "duration \<Rightarrow> 'rx \<Rightarrow> 'w \<Rightarrow> 'snd Selected \<times> 'w"

text \<open>Everything the handler uses that is not its own: the two traits and the debug printers.\<close>

record ('rx, 'snd, 'w) ClientEnv =
  connector :: "('rx, 'snd, 'w) RealmConnector"
  senders :: "('snd, 'w) RealmSender"
  dbg_response :: "Response \<Rightarrow> string"
  dbg_protocol_error :: "ProtocolError \<Rightarrow> string"
  dbg_sender_error :: "RealmSenderError \<Rightarrow> string"

record 'snd RealmClientHandler =
  connection_wait_time :: duration
  response_timeout :: duration
  sender :: "'snd option"

definition RealmClientHandler_new :: "duration \<Rightarrow> duration \<Rightarrow> 'snd RealmClientHandler" where
  "RealmClientHandler_new wait_time timeout =
     \<lparr>connection_wait_time = wait_time, response_timeout = timeout, sender = None\<rparr>"

definition with_sender ::
  "('snd \<times> 'w, 'e, 'a) prog \<Rightarrow> ('e \<Rightarrow> RealmClientError) \<Rightarrow>
     ('snd RealmClientHandler \<times> 'w, RealmClientError, 'a) prog" where
  "with_sender m f s =
     (case sender (fst s) of
        None \<Rightarrow> (Inl (RealmConnectionFail ''Realm isn't connected with Warden daemon.''), s)
      | Some snd_obj \<Rightarrow>
          map_err f (zoom (\<lambda>(h, w). (snd_obj, w))
                       (\<lambda>(x, w') (h, w). (h\<lparr>sender := Some x\<rparr>, w')) m) s)"

definition send_command ::
  "('rx, 'snd, 'w) ClientEnv \<Rightarrow> Request \<Rightarrow> ('snd RealmClientHandler \<times> 'w, RealmClientError, unit) prog" where
  "send_command E request =
     with_sender (send (senders E) request) (\<lambda>e. CommunicationFail (realm_sender_error_to_string e))"

definition read_response ::
  "('rx, 'snd, 'w) ClientEnv \<Rightarrow> duration \<Rightarrow>
     ('snd RealmClientHandler \<times> 'w, RealmClientError, Response) prog" where
  "read_response E t =
     with_sender (receive_response (senders E) t)
       (\<lambda>e. case e of Disconnection \<Rightarrow> RealmDisconnection
                   | _ \<Rightarrow> CommunicationFail (dbg_sender_error E e))"

definition handle_invalid_response :: "('rx, 'snd, 'w) ClientEnv \<Rightarrow> Response \<Rightarrow> RealmClientError" where
  "handle_invalid_response E response =
     (case response of
        ResponseError protocol_error \<Rightarrow> RealmDaemonError (dbg_protocol_error E protocol_error)
      | _ \<Rightarrow> InvalidResponse (dbg_response E response))"

definition handle_success_command ::
  "('rx, 'snd, 'w) ClientEnv \<Rightarrow> Response \<Rightarrow> RealmClientError + unit" where
  "handle_success_command E response =
     (case response of Success \<Rightarrow> Inr () | _ \<Rightarrow> Inl (handle_invalid_response E response))"

definition handle_shutdown_response ::
  "('rx, 'snd, 'w) ClientEnv \<Rightarrow> ('snd RealmClientHandler \<times> 'w, RealmClientError, unit) prog" where
  "handle_shutdown_response E =
     try_bind (get (\<lambda>(h, w). response_timeout h)) (\<lambda>t.
     attempt (read_response E t) (\<lambda>r.
       case r of
         Inl RealmDisconnection \<Rightarrow> upd (\<lambda>(h, w). (h\<lparr>sender := None\<rparr>, w))
       | Inr resp \<Rightarrow> fail (handle_invalid_response E resp)
       | Inl err \<Rightarrow> fail err))"

definition handle_ip_response ::
  "('rx, 'snd, 'w) ClientEnv \<Rightarrow>
     ('snd RealmClientHandler \<times> 'w, RealmClientError, (string \<times> NetAddr) list) prog" where
  "handle_ip_response E =
     try_bind (get (\<lambda>(h, w). response_timeout h)) (\<lambda>t.
     try_bind (read_response E t) (\<lambda>resp.
       case resp of
         IfAddrs addrs \<Rightarrow> ok addrs
       | _ \<Rightarrow> fail (handle_invalid_response E resp)))"

definition try_connect ::
  "('rx, 'snd, 'w) ClientEnv \<Rightarrow> u32 \<Rightarrow> ('snd RealmClientHandler \<times> 'w, RealmClientError, unit) prog" where
  "try_connect E cid = (\<lambda>(h, w).
     case acquire_realm_sender (connector E) cid w of (rx, w1) \<Rightarrow>
     (case select_sender (connector E) (connection_wait_time h) rx w1 of (outcome, w2) \<Rightarrow>
        (case outcome of
           Received s \<Rightarrow> (Inr (), (h\<lparr>sender := Some s\<rparr>, w2))
         | RecvError err \<Rightarrow> (Inl (RealmConnectionFail err), (h, w2))
         | Cancelled \<Rightarrow>
             (Inl (RealmConnectionFail ''Waiting for realm connection cancelled.''), (h, w2))
         | TimedOut \<Rightarrow>
             (Inl (RealmConnectionFail ''Timeout on listening for realm connection.''), (h, w2)))))"

text \<open>The request, the response within the given time, and the check that it is \<open>Success\<close>.\<close>

definition success_exchange ::
  "('rx, 'snd, 'w) ClientEnv \<Rightarrow> Request \<Rightarrow> ('snd RealmClientHandler \<Rightarrow> duration) \<Rightarrow>
     ('snd RealmClientHandler \<times> 'w, RealmClientError, unit) prog" where
  "success_exchange E request timeout =
     try_bind (send_command E request) (\<lambda>_.
     try_bind (get (\<lambda>(h, w). timeout h)) (\<lambda>t.
     try_bind (read_response E t) (\<lambda>resp.
     of_result (handle_success_command E resp))))"

definition rch_fetch_attestation_token ::
  "('rx, 'snd, 'w) ClientEnv \<Rightarrow> bytes \<Rightarrow> ('snd RealmClientHandler \<times> 'w, RealmClientError, bytes) prog" where
  "rch_fetch_attestation_token E challenge =
     try_bind (send_command E (GetAttestationToken challenge)) (\<lambda>_.
     try_bind (get (\<lambda>(h, w). response_timeout h)) (\<lambda>t.
     try_bind (read_response E t) (\<lambda>resp.
       case resp of
         AttestationToken token \<Rightarrow> ok token
       | _ \<Rightarrow> fail (handle_invalid_response E resp))))"

definition provision_applications ::
  "('rx, 'snd, 'w) ClientEnv \<Rightarrow> RealmProvisioningConfig \<Rightarrow>
     ('snd RealmClientHandler \<times> 'w, RealmClientError, unit) prog" where
  "provision_applications E cfg =
     success_exchange E (ProvisionInfo (application_infos_from cfg)) connection_wait_time"

definition rch_start_application ::
  "('rx, 'snd, 'w) ClientEnv \<Rightarrow> uuid \<Rightarrow> ('snd RealmClientHandler \<times> 'w, RealmClientError, unit) prog" where
  "rch_start_application E application_uuid =
     success_exchange E (StartApp application_uuid) response_timeout"

definition kill_application ::
  "('rx, 'snd, 'w) ClientEnv \<Rightarrow> uuid \<Rightarrow> ('snd RealmClientHandler \<times> 'w, RealmClientError, unit) prog" where
  "kill_application E application_uuid =
     success_exchange E (KillApp application_uuid) response_timeout"

definition rch_stop_application ::
  "('rx, 'snd, 'w) ClientEnv \<Rightarrow> uuid \<Rightarrow> ('snd RealmClientHandler \<times> 'w, RealmClientError, unit) prog" where
  "rch_stop_application E application_uuid =
     try_bind (send_command E (StopApp application_uuid)) (\<lambda>_.
     try_bind (get (\<lambda>(h, w). response_timeout h)) (\<lambda>t.
     try_bind (read_response E t) (\<lambda>resp.
       case handle_success_command E resp of
         Inl _ \<Rightarrow> kill_application E application_uuid
       | Inr _ \<Rightarrow> ok ())))"

definition rch_shutdown_realm ::
  "('rx, 'snd, 'w) ClientEnv \<Rightarrow> ('snd RealmClientHandler \<times> 'w, RealmClientError, unit) prog" where
  "rch_shutdown_realm E =
     try_bind (send_command E Shutdown) (\<lambda>_. handle_shutdown_response E)"

definition rch_reboot_realm ::
  "('rx, 'snd, 'w) ClientEnv \<Rightarrow> RealmProvisioningConfig \<Rightarrow> u32 \<Rightarrow>
     ('snd RealmClientHandler \<times> 'w, RealmClientError, unit) prog" where
  "rch_reboot_realm E cfg cid =
     try_bind (send_command E Reboot) (\<lambda>_.
     try_bind (try_connect E cid) (\<lambda>_.
     provision_applications E cfg))"

definition rch_read_realm_ifs ::
  "('rx, 'snd, 'w) ClientEnv \<Rightarrow>
     ('snd RealmClientHandler \<times> 'w, RealmClientError, RealmNetwork list) prog" where
  "rch_read_realm_ifs E =
     try_bind (send_command E GetIfAddrs) (\<lambda>_.
     try_bind (handle_ip_response E) (\<lambda>addrs.
     ok (map (\<lambda>(if_name, ip). \<lparr>net_ip = net_address ip, net_if_name = if_name\<rparr>) addrs)))"

definition rch_try_connect_and_provision_apps ::
  "('rx, 'snd, 'w) ClientEnv \<Rightarrow> u32 \<Rightarrow> RealmProvisioningConfig \<Rightarrow>
     ('snd RealmClientHandler \<times> 'w, RealmClientError, unit) prog" where
  "rch_try_connect_and_provision_apps E cid cfg =
     try_bind (try_connect E cid) (\<lambda>_.
     try_bind (provision_applications E cfg) (\<lambda>_. ok ()))"

definition rch_try_connect_and_fetch_attestation_token ::
  "('rx, 'snd, 'w) ClientEnv \<Rightarrow> u32 \<Rightarrow> bytes \<Rightarrow>
     ('snd RealmClientHandler \<times> 'w, RealmClientError, bytes) prog" where
  "rch_try_connect_and_fetch_attestation_token E cid challenge =
     try_bind (try_connect E cid) (\<lambda>_. rch_fetch_attestation_token E challenge)"

definition RealmClientHandler_ops ::
  "('rx, 'snd, 'w) ClientEnv \<Rightarrow> ('snd RealmClientHandler, 'w) RealmClient" where
  "RealmClientHandler_ops E =
     \<lparr>try_connect_and_provision_apps = rch_try_connect_and_provision_apps E,
      try_connect_and_fetch_attestation_token = rch_try_connect_and_fetch_attestation_token E,
      fetch_attestation_token = rch_fetch_attestation_token E,
      start_application = rch_start_application E,
      stop_application = rch_stop_application E,
      read_realm_ifs = rch_read_realm_ifs E,
      shutdown_realm = rch_shutdown_realm E,
      reboot_realm = rch_reboot_realm E\<rparr>"

definition rch_connected :: "'snd RealmClientHandler \<Rightarrow> bool" where
  "rch_connected h \<longleftrightarrow> sender h \<noteq> None"

section \<open>What the exchanges keep and need\<close>

abbreviation conn_is :: "bool \<Rightarrow> 'snd RealmClientHandler \<times> 'w \<Rightarrow> bool" where
  "conn_is b s \<equiv> rch_connected (fst s) = b"

lemma with_sender_Inr:
  "with_sender m f (h, w) = (Inr y, (h', w')) \<longleftrightarrow>
     (\<exists>s s'. sender h = Some s \<and> m (s, w) = (Inr y, (s', w')) \<and> h' = h\<lparr>sender := Some s'\<rparr>)"
  by (auto simp: with_sender_def prog_defs split: option.splits prod.splits sum.splits)

lemma with_sender_unconnected:
  "sender h = None \<Longrightarrow>
     with_sender m f (h, w) =
       (Inl (RealmConnectionFail ''Realm isn't connected with Warden daemon.''), (h, w))"
  by (simp add: with_sender_def)

lemma keeps_with_sender [keeps_rules]: "keeps (conn_is b) (with_sender m f)"
  by (auto simp: keeps_def with_sender_def prog_defs rch_connected_def
      split: option.splits prod.splits sum.splits)

lemma keeps_send_command [keeps_rules]: "keeps (conn_is b) (send_command E r)"
  by (simp add: send_command_def keeps_rules)

lemma keeps_read_response [keeps_rules]: "keeps (conn_is b) (read_response E t)"
  by (simp add: read_response_def keeps_rules)

lemma keeps_success_exchange [keeps_rules]: "keeps (conn_is b) (success_exchange E r t)"
  by (auto simp: success_exchange_def intro!: keeps_rules)

lemma keeps_fetch_token [keeps_rules]: "keeps (conn_is b) (rch_fetch_attestation_token E ch)"
  by (auto simp: rch_fetch_attestation_token_def intro!: keeps_rules split: Response.split)

lemma keeps_read_ifs [keeps_rules]: "keeps (conn_is b) (rch_read_realm_ifs E)"
  by (auto simp: rch_read_realm_ifs_def handle_ip_response_def intro!: keeps_rules
      split: Response.split)

lemma try_connect_ok: "try_connect E cid s = (Inr x, (h', w')) \<Longrightarrow> rch_connected h'"
  by (auto simp: try_connect_def rch_connected_def split: prod.splits Selected.splits)

lemma try_connect_err: "try_connect E cid (h, w) = (Inl e, (h', w')) \<Longrightarrow> h' = h"
  by (auto simp: try_connect_def split: prod.splits Selected.splits)

lemma send_command_connected:
  "send_command E r (h, w) = (Inr x, t) \<Longrightarrow> rch_connected h \<and> rch_connected (fst t)"
  by (cases t) (auto simp: send_command_def with_sender_Inr rch_connected_def)

lemma conn_kept:
  assumes "\<And>b. keeps (conn_is b) m" and "m (h, w) = (r, (h', w'))"
  shows "rch_connected h' = rch_connected h"
  using keepsD [OF assms(1) [of "rch_connected h"] _ assms(2)] by simp

lemma handle_shutdown_response_run:
  assumes "read_response E (response_timeout h) (h, w) = (r, (h1, w1))"
  shows "handle_shutdown_response E (h, w) =
    (case r of
       Inr resp \<Rightarrow> (Inl (handle_invalid_response E resp), (h1, w1))
     | Inl e \<Rightarrow> (if e = RealmDisconnection then (Inr (), (h1\<lparr>sender := None\<rparr>, w1))
                else (Inl e, (h1, w1))))"
  using assms
  by (auto simp: handle_shutdown_response_def prog_defs split: sum.split RealmClientError.split)

lemma handle_shutdown_response_cases:
  assumes "handle_shutdown_response E (h, w) = (x, (h', w'))"
  shows "case x of Inr _ \<Rightarrow> sender h' = None | Inl _ \<Rightarrow> rch_connected h' = rch_connected h"
proof -
  obtain r h1 w1 where r: "read_response E (response_timeout h) (h, w) = (r, (h1, w1))"
    by (metis prod.exhaust)
  show ?thesis
    using assms conn_kept [OF keeps_read_response r]
    by (auto simp: handle_shutdown_response_run [OF r] split: sum.splits if_splits)
qed

lemma keeps_provision [keeps_rules]: "keeps (conn_is b) (provision_applications E cfg)"
  by (simp add: provision_applications_def keeps_rules)

lemma connect_then_ok:
  assumes "try_bind (try_connect E cid) (\<lambda>_. m) s = (Inr x, (h', w'))"
    and "\<And>b. keeps (conn_is b) m"
  shows "rch_connected h'"
proof -
  from assms(1) obtain y h1 w1
    where "try_connect E cid s = (Inr y, (h1, w1))" "m (h1, w1) = (Inr x, (h', w'))"
    by (auto simp: run_iffs)
  with conn_kept [OF assms(2)] show ?thesis by (auto dest: try_connect_ok)
qed

lemma shutdown_realm_ok:
  "rch_shutdown_realm E (h, w) = (Inr x, (h', w')) \<Longrightarrow> rch_connected h \<and> \<not> rch_connected h'"
  by (auto simp: rch_shutdown_realm_def rch_connected_def run_iffs
      dest!: send_command_connected handle_shutdown_response_cases)

lemma shutdown_realm_err:
  "rch_shutdown_realm E (h, w) = (Inl e, (h', w')) \<Longrightarrow> rch_connected h' = rch_connected h"
  by (auto simp: rch_shutdown_realm_def run_iffs
      dest!: conn_kept [OF keeps_send_command] handle_shutdown_response_cases)

lemma reboot_realm_ok:
  assumes "rch_reboot_realm E cfg cid (h, w) = (Inr x, (h', w'))"
  shows "rch_connected h \<and> rch_connected h'"
proof -
  from assms obtain y u where s: "send_command E Reboot (h, w) = (Inr y, u)"
    and c: "try_bind (try_connect E cid) (\<lambda>_. provision_applications E cfg) u = (Inr x, (h', w'))"
    by (auto simp: rch_reboot_realm_def run_iffs)
  from s have "rch_connected h" by (simp add: send_command_connected)
  moreover from c have "rch_connected h'" by (rule connect_then_ok) (rule keeps_provision)
  ultimately show ?thesis ..
qed

interpretation rch: realm_client "RealmClientHandler_ops E" rch_connected
proof (unfold_locales, goal_cases)
  case (1 cid cfg c w x c' w')
  then show ?case
    by (auto simp: RealmClientHandler_ops_def rch_try_connect_and_provision_apps_def
        elim: connect_then_ok intro!: keeps_rules)
next
  case (2 cid ch c w y c' w')
  then show ?case
    by (auto simp: RealmClientHandler_ops_def rch_try_connect_and_fetch_attestation_token_def
        elim: connect_then_ok intro!: keeps_rules)
qed (auto simp: RealmClientHandler_ops_def
      dest: shutdown_realm_ok shutdown_realm_err reboot_realm_ok
        conn_kept [OF keeps_fetch_token] conn_kept [OF keeps_read_ifs])

text \<open>An exchange succeeds exactly when both halves do and the answer is \<open>Success\<close>.\<close>

lemma handle_success_command_Inr [simp]:
  "handle_success_command E resp = Inr x \<longleftrightarrow> resp = Success"
  by (cases resp) (auto simp: handle_success_command_def)

lemma success_exchange_ok:
  "success_exchange E req t (h, w) = (Inr x, (h', w')) \<longleftrightarrow>
     (\<exists>s s1 w1 s2. sender h = Some s \<and> send (senders E) req (s, w) = (Inr (), (s1, w1)) \<and>
        receive_response (senders E) (t (h\<lparr>sender := Some s1\<rparr>)) (s1, w1) = (Inr Success, (s2, w')) \<and>
        h' = h\<lparr>sender := Some s2\<rparr>)"
proof -
  have "success_exchange E req t (h, w) = (Inr x, (h', w')) \<longleftrightarrow>
    (\<exists>h1 w1. send_command E req (h, w) = (Inr (), (h1, w1)) \<and>
       read_response E (t h1) (h1, w1) = (Inr Success, (h', w')))"
    by (auto simp: success_exchange_def run_iffs)
  also have "\<dots> \<longleftrightarrow>
    (\<exists>s s1 w1 s2. sender h = Some s \<and> send (senders E) req (s, w) = (Inr (), (s1, w1)) \<and>
        receive_response (senders E) (t (h\<lparr>sender := Some s1\<rparr>)) (s1, w1) = (Inr Success, (s2, w')) \<and>
        h' = h\<lparr>sender := Some s2\<rparr>)" (is "?l \<longleftrightarrow> ?r")
  proof
    assume ?l
    then show ?r
      by (clarsimp simp: send_command_def read_response_def with_sender_Inr)
  next
    assume ?r
    then obtain s s1 w1 s2 where *: "sender h = Some s"
      "send (senders E) req (s, w) = (Inr (), (s1, w1))"
      "receive_response (senders E) (t (h\<lparr>sender := Some s1\<rparr>)) (s1, w1) = (Inr Success, (s2, w'))"
      "h' = h\<lparr>sender := Some s2\<rparr>" by blast
    then have "send_command E req (h, w) = (Inr (), (h\<lparr>sender := Some s1\<rparr>, w1))"
      "read_response E (t (h\<lparr>sender := Some s1\<rparr>)) (h\<lparr>sender := Some s1\<rparr>, w1) = (Inr Success, (h', w'))"
      by (simp_all add: send_command_def read_response_def with_sender_Inr)
    then show ?l by blast
  qed
  finally show ?thesis .
qed

end
