(* ===== verification/Storage.thy ===== *)
theory Storage
  imports Managers Os
begin

text \<open>
  Persistent configuration: the YAML file repository (\<open>utils/src/file_system/fs_repository.rs\<close>),
  the daemon's wrapper around it and the working-directory helpers
  (\<open>warden_daemon/src/storage/mod.rs\<close>). The files, the directory listing, the YAML
  codec and the parsing of identifiers are arguments. The main result is that a
  configuration that was saved is read back unchanged after a restart, for every file
  store in which a written file can be read (\<open>fs_lawful\<close>) and every codec that reads
  what it prints (\<open>yaml_lawful\<close>).
\<close>

section \<open>File repository\<close>

record ('f, 'w) FileOps =
  file_create :: "path \<Rightarrow> ('w, io_error, 'f) prog"
  file_open :: "path \<Rightarrow> ('w, io_error, 'f) prog"
  file_write_all :: "'f \<Rightarrow> string \<Rightarrow> ('w, io_error, unit) prog"
  file_flush :: "'f \<Rightarrow> ('w, io_error, unit) prog"
  file_read_to_string :: "'f \<Rightarrow> ('w, io_error, string) prog"

record 'a Yaml =
  yaml_to_string :: "'a \<Rightarrow> string + string"
  yaml_from_str :: "string \<Rightarrow> string + 'a"

datatype FileRepositoryError =
    FCreationFail io_error
  | FSaveFail string
  | ReadFail string

fun file_repository_error_to_string :: "FileRepositoryError \<Rightarrow> string" where
  "file_repository_error_to_string (FCreationFail e) = ''Error occured: '' @ io_text e"
| "file_repository_error_to_string (FSaveFail m) = ''Failed to save file: '' @ m"
| "file_repository_error_to_string (ReadFail m) = ''Failed to read file: '' @ m"

record 'a FileRepository =
  repo_data :: 'a
  repo_path :: path

definition write_out ::
  "('f, 'w) FileOps \<Rightarrow> path \<Rightarrow> string \<Rightarrow> ('w, FileRepositoryError, unit) prog" where
  "write_out Fo p yaml_data =
     try_bind (map_err FCreationFail (file_create Fo p)) (\<lambda>file.
     try_bind (map_err (\<lambda>e. FSaveFail (io_text e)) (file_write_all Fo file yaml_data)) (\<lambda>_.
     try_bind (map_err (\<lambda>e. FSaveFail (io_text e)) (file_flush Fo file)) (\<lambda>_.
     ok ())))"

definition FileRepository_save ::
  "('f, 'w) FileOps \<Rightarrow> 'a Yaml \<Rightarrow> ('a FileRepository \<times> 'w, FileRepositoryError, unit) prog" where
  "FileRepository_save Fo Y =
     try_bind (get (\<lambda>(r, w). r)) (\<lambda>r.
     case yaml_to_string Y (repo_data r) of
       Inl e \<Rightarrow> fail (FSaveFail e)
     | Inr yaml_data \<Rightarrow> in_world (write_out Fo (repo_path r) yaml_data))"

definition FileRepository_new ::
  "('f, 'w) FileOps \<Rightarrow> 'a Yaml \<Rightarrow> 'a \<Rightarrow> path \<Rightarrow> ('w, FileRepositoryError, 'a FileRepository) prog" where
  "FileRepository_new Fo Y data p w =
     (case FileRepository_save Fo Y (\<lparr>repo_data = data, repo_path = p\<rparr>, w) of
        (Inl e, (r, w')) \<Rightarrow> (Inl e, w')
      | (Inr _, (r, w')) \<Rightarrow> (Inr r, w'))"

definition try_read_file ::
  "('f, 'w) FileOps \<Rightarrow> 'a Yaml \<Rightarrow> path \<Rightarrow> ('w, FileRepositoryError, 'a) prog" where
  "try_read_file Fo Y p =
     try_bind (map_err (\<lambda>e. ReadFail (io_text e)) (file_open Fo p)) (\<lambda>file.
     try_bind (map_err (\<lambda>e. ReadFail (io_text e)) (file_read_to_string Fo file)) (\<lambda>buf.
     map_err ReadFail (of_result (yaml_from_str Y buf))))"

definition from_file_path ::
  "('f, 'w) FileOps \<Rightarrow> 'a Yaml \<Rightarrow> path \<Rightarrow> ('w, FileRepositoryError, 'a FileRepository) prog" where
  "from_file_path Fo Y p =
     try_bind (try_read_file Fo Y p) (\<lambda>data. ok \<lparr>repo_data = data, repo_path = p\<rparr>)"

section \<open>The daemon's repositories\<close>

definition YamlConfigRepository_new ::
  "('f, 'w) FileOps \<Rightarrow> 'a Yaml \<Rightarrow> 'a \<Rightarrow> path \<Rightarrow> ('w, RepositoryError, 'a FileRepository) prog" where
  "YamlConfigRepository_new Fo Y config p =
     map_err (\<lambda>e. CreationFail (file_repository_error_to_string e)) (FileRepository_new Fo Y config p)"

definition YamlConfigRepository_from ::
  "('f, 'w) FileOps \<Rightarrow> 'a Yaml \<Rightarrow> path \<Rightarrow> ('w, RepositoryError, 'a FileRepository) prog" where
  "YamlConfigRepository_from Fo Y p =
     map_err (\<lambda>e. CreationFail (file_repository_error_to_string e)) (from_file_path Fo Y p)"

definition YamlConfigRepository_save ::
  "('f, 'w) FileOps \<Rightarrow> 'a Yaml \<Rightarrow> ('a FileRepository \<times> 'w, RepositoryError, unit) prog" where
  "YamlConfigRepository_save Fo Y =
     map_err (\<lambda>e. SaveFail (file_repository_error_to_string e)) (FileRepository_save Fo Y)"

section \<open>Working directories\<close>

definition create_config_path :: "path \<Rightarrow> path" where
  "create_config_path root_path = path_push root_path ''config.yaml''"

definition create_workdir_path_with_uuid :: "(uuid \<Rightarrow> string) \<Rightarrow> path \<Rightarrow> uuid \<Rightarrow> path" where
  "create_workdir_path_with_uuid us root_workdir rid = path_push root_workdir (us rid)"

text \<open>
  A directory listing is the sequence of results of \<open>next_entry\<close>; an entry has a name
  and a file type that may be unreadable.
\<close>

record DirEntry =
  entry_name :: string
  entry_is_dir :: "io_error + bool"

fun collect_uuids ::
  "(string \<Rightarrow> string + uuid) \<Rightarrow> (io_error + DirEntry) list \<Rightarrow> io_error + uuid list" where
  "collect_uuids parse [] = Inr []"
| "collect_uuids parse (Inl e # rest) = Inr []"
| "collect_uuids parse (Inr entry # rest) =
     (if entry_is_dir entry = Inr True
      then (case parse (entry_name entry) of
              Inl m \<Rightarrow> Inl \<lparr>io_kind = OtherKind, io_text = m\<rparr>
            | Inr u \<Rightarrow> (case collect_uuids parse rest of Inl e \<Rightarrow> Inl e | Inr us \<Rightarrow> Inr (u # us)))
      else collect_uuids parse rest)"

definition read_subfolders_uuids ::
  "(path \<Rightarrow> ('w, io_error, (io_error + DirEntry) list) prog) \<Rightarrow> (string \<Rightarrow> string + uuid) \<Rightarrow>
     path \<Rightarrow> ('w, io_error, uuid list) prog" where
  "read_subfolders_uuids read_dir parse root_folder =
     try_bind (read_dir root_folder) (\<lambda>entries. of_result (collect_uuids parse entries))"

section \<open>What is saved is read back\<close>

text \<open>
  The documented behaviour of files and of the codec that the repository relies on: once
  a file was created, written and flushed without error, opening the same path succeeds
  and reads the text that was written; and the codec reads what it prints.
\<close>

definition fs_lawful :: "('f, 'w) FileOps \<Rightarrow> bool" where
  "fs_lawful Fo \<longleftrightarrow>
     (\<forall>p text w x w'. write_out Fo p text w = (Inr x, w') \<longrightarrow>
        (\<exists>file w1 w2. file_open Fo p w' = (Inr file, w1) \<and>
                      file_read_to_string Fo file w1 = (Inr text, w2)))"

definition yaml_lawful :: "'a Yaml \<Rightarrow> bool" where
  "yaml_lawful Y \<longleftrightarrow> (\<forall>d text. yaml_to_string Y d = Inr text \<longrightarrow> yaml_from_str Y text = Inr d)"

lemma FileRepository_save_ok:
  "FileRepository_save Fo Y (r, w) = (Inr x, (r', w')) \<longleftrightarrow>
     r' = r \<and> (\<exists>text. yaml_to_string Y (repo_data r) = Inr text \<and>
                      write_out Fo (repo_path r) text w = (Inr x, w'))"
  by (auto simp: FileRepository_save_def run_iffs split: sum.splits)

lemma save_data: "FileRepository_save Fo Y (r, w) = (x, (r', w')) \<Longrightarrow> r' = r"
  by (cases x) (auto simp: FileRepository_save_def run_iffs split: sum.splits)

lemma YamlConfigRepository_save_ok:
  "YamlConfigRepository_save Fo Y (r, w) = (Inr x, (r', w')) \<longleftrightarrow>
     FileRepository_save Fo Y (r, w) = (Inr x, (r', w'))"
  by (simp add: YamlConfigRepository_save_def)

lemma yaml_save_data: "YamlConfigRepository_save Fo Y (r, w) = (x, (r', w')) \<Longrightarrow> r' = r"
  by (cases x) (auto simp: YamlConfigRepository_save_def run_iffs dest: save_data)

lemma written_is_read:
  assumes "fs_lawful Fo" "yaml_lawful Y" "yaml_to_string Y d = Inr text"
    and "write_out Fo p text w = (Inr x, w')"
  shows "\<exists>w2. YamlConfigRepository_from Fo Y p w' = (Inr \<lparr>repo_data = d, repo_path = p\<rparr>, w2)"
proof -
  from assms(1,4) obtain fl w1 w2
    where "file_open Fo p w' = (Inr fl, w1)" "file_read_to_string Fo fl w1 = (Inr text, w2)"
    unfolding fs_lawful_def by blast
  moreover from assms(2,3) have "yaml_from_str Y text = Inr d"
    by (simp add: yaml_lawful_def)
  ultimately have "YamlConfigRepository_from Fo Y p w' =
      (Inr \<lparr>repo_data = d, repo_path = p\<rparr>, w2)"
    by (simp add: YamlConfigRepository_from_def from_file_path_def try_read_file_def prog_defs)
  then show ?thesis ..
qed

lemma FileRepository_new_ok:
  "FileRepository_new Fo Y d p w = (Inr r, w') \<Longrightarrow>
     r = \<lparr>repo_data = d, repo_path = p\<rparr> \<and>
     (\<exists>text x. yaml_to_string Y d = Inr text \<and> write_out Fo p text w = (Inr x, w'))"
  by (auto simp: FileRepository_new_def FileRepository_save_ok split: prod.splits sum.splits)

lemma collect_uuids_Cons:
  "collect_uuids parse (Inr e # rest) = Inr us \<longleftrightarrow>
     (if entry_is_dir e = Inr True
      then \<exists>u vs. parse (entry_name e) = Inr u \<and> collect_uuids parse rest = Inr vs \<and> us = u # vs
      else collect_uuids parse rest = Inr us)"
  by (auto split: sum.splits)

lemma collect_uuids_dirs:
  "collect_uuids parse entries = Inr us \<Longrightarrow> u \<in> set us \<Longrightarrow>
     \<exists>e. Inr e \<in> set entries \<and> entry_is_dir e = Inr True \<and> parse (entry_name e) = Inr u"
proof (induction entries arbitrary: us)
  case (Cons x rest)
  then show ?case
    by (cases x)
      (auto simp: collect_uuids_Cons simp del: collect_uuids.simps(3) split: if_splits; blast)+
qed simp

lemma collect_uuids_complete:
  assumes "\<forall>x \<in> set entries. \<exists>e. x = Inr e" and "collect_uuids parse entries = Inr us"
    and "Inr e \<in> set entries" and "entry_is_dir e = Inr True"
  shows "\<exists>u. parse (entry_name e) = Inr u \<and> u \<in> set us"
  using assms(1-3)
proof (induction entries arbitrary: us)
  case (Cons x rest)
  then obtain d where "x = Inr d" by auto
  with Cons assms(4) show ?case
    by (auto simp: collect_uuids_Cons simp del: collect_uuids.simps(3) split: if_splits)
qed simp

end
