(* ===== verification/Application_Manager.thy ===== *)
theory Application_Manager
  imports Interfaces Storage App_Disk
begin

text \<open>
  One application of a realm (\<open>managers/application_manager.rs\<close>): its configuration
  repository, its disk, and the realm's client, which it shares with the realm manager
  and which is therefore an argument of \<open>start\<close> and \<open>stop\<close>. The interpretation
  discharges \<open>Interfaces.application\<close>.
\<close>

record ApplicationManager =
  am_uuid :: uuid
  am_config :: "ApplicationConfig FileRepository"
  am_disk :: ApplicationDiskManager

definition ApplicationManager_new ::
  "('f, 'g, 'w) DiskEnv \<Rightarrow> uuid \<Rightarrow> ApplicationConfig FileRepository \<Rightarrow> ApplicationDiskManager \<Rightarrow>
     ('w, ApplicationError, ApplicationManager) prog" where
  "ApplicationManager_new D u config application_disk =
     try_bind (create_disk_with_partitions D application_disk) (\<lambda>_.
     ok \<lparr>am_uuid = u, am_config = config, am_disk = application_disk\<rparr>)"

definition am_stop ::
  "('cl, 'w) RealmClient \<Rightarrow> ApplicationManager \<Rightarrow> ('cl \<times> 'w, ApplicationError, unit) prog" where
  "am_stop C a =
     map_err (\<lambda>e. ApplicationStop (realm_client_error_to_string e)) (stop_application C (am_uuid a))"

definition am_start ::
  "('cl, 'w) RealmClient \<Rightarrow> ApplicationManager \<Rightarrow> ('cl \<times> 'w, ApplicationError, unit) prog" where
  "am_start C a =
     map_err (\<lambda>e. ApplicationStart (realm_client_error_to_string e)) (start_application C (am_uuid a))"

definition am_get_data ::
  "('f, 'g, 'w) DiskEnv \<Rightarrow> ApplicationManager \<Rightarrow> ('w, ApplicationError, ApplicationData) prog" where
  "am_get_data D a =
     (let config = repo_data (am_config a) in
      try_bind (get_image_partition_uuid D (am_disk a)) (\<lambda>image_uuid.
      try_bind (get_data_partition_uuid D (am_disk a)) (\<lambda>data_uuid.
      ok \<lparr>data_id = am_uuid a, data_name = app_name config, data_version = app_version config,
          data_image_registry = image_registry config,
          data_image_part_uuid = image_uuid, data_data_part_uuid = data_uuid\<rparr>)))"

definition on_disk ::
  "(ApplicationDiskManager \<times> 'w, 'e, 'a) prog \<Rightarrow> (ApplicationManager \<times> 'w, 'e, 'a) prog" where
  "on_disk = zoom (\<lambda>(a, w). (am_disk a, w)) (\<lambda>(d, w') (a, w). (a\<lparr>am_disk := d\<rparr>, w'))"

definition on_config ::
  "(ApplicationConfig FileRepository \<times> 'w, 'e, 'a) prog \<Rightarrow> (ApplicationManager \<times> 'w, 'e, 'a) prog" where
  "on_config = zoom (\<lambda>(a, w). (am_config a, w)) (\<lambda>(c, w') (a, w). (a\<lparr>am_config := c\<rparr>, w'))"

definition am_configure_disk ::
  "('f, 'g, 'w) DiskEnv \<Rightarrow> (ApplicationManager \<times> 'w, ApplicationError, unit) prog" where
  "am_configure_disk D =
     try_bind (get (\<lambda>(a, w). repo_data (am_config a))) (\<lambda>config.
     on_disk (update_disk_with_partitions D
       (data_storage_size_mb config) (image_storage_size_mb config)))"

definition am_update_config ::
  "('h, 'w) FileOps \<Rightarrow> ApplicationConfig Yaml \<Rightarrow> ApplicationConfig \<Rightarrow>
     (ApplicationManager \<times> 'w, ApplicationError, unit) prog" where
  "am_update_config Fo Y config =
     try_bind (upd (\<lambda>(a, w). (a\<lparr>am_config := (am_config a)\<lparr>repo_data := config\<rparr>\<rparr>, w))) (\<lambda>_.
     map_err (\<lambda>e. ConfigUpdate (repository_error_to_string e))
       (on_config (YamlConfigRepository_save Fo Y)))"

definition ApplicationManager_ops ::
  "('h, 'w) FileOps \<Rightarrow> ApplicationConfig Yaml \<Rightarrow> ('f, 'g, 'w) DiskEnv \<Rightarrow> ('cl, 'w) RealmClient \<Rightarrow>
     (ApplicationManager, 'cl, 'w) Application" where
  "ApplicationManager_ops Fo Y D C =
     \<lparr>app_stop = am_stop C, app_start = am_start C,
      app_update_config = am_update_config Fo Y,
      app_configure_disk = am_configure_disk D,
      app_get_data = am_get_data D\<rparr>"

section \<open>Behaviour of the operations\<close>

lemma am_get_data_ok:
  "am_get_data D a w = (Inr d, w') \<Longrightarrow>
     data_id d = am_uuid a \<and> data_name d = app_name (repo_data (am_config a)) \<and>
     data_version d = app_version (repo_data (am_config a)) \<and>
     data_image_registry d = image_registry (repo_data (am_config a))"
  by (auto simp: am_get_data_def Let_def run_iffs)

lemma am_update_config_run:
  assumes "am_update_config Fo Y config (a, w) = (r, (a', w'))"
  shows "a' = a\<lparr>am_config := (am_config a)\<lparr>repo_data := config\<rparr>\<rparr>"
  using assms
  by (cases r)
    (auto simp: am_update_config_def run_iffs on_config_def zoom_Inr_iff dest!: yaml_save_data)

lemma am_configure_disk_run:
  "am_configure_disk D (a, w) = (r, (a', w')) \<longleftrightarrow>
     (\<exists>d'. update_disk_with_partitions D (data_storage_size_mb (repo_data (am_config a)))
             (image_storage_size_mb (repo_data (am_config a))) (am_disk a, w) = (r, (d', w')) \<and>
           a' = a\<lparr>am_disk := d'\<rparr>)"
  by (auto simp: am_configure_disk_def on_disk_def try_bind_def get_def zoom_Inr_iff split: prod.splits)

interpretation am: application "ApplicationManager_ops Fo Y D C" am_uuid
  by unfold_locales
    (auto simp: ApplicationManager_ops_def am_configure_disk_run
      dest: am_get_data_ok am_update_config_run)

text \<open>After a successful \<open>configure_disk\<close> the disk has the sizes of the configuration.\<close>

lemma am_configure_disk_sizes:
  assumes "am_configure_disk D (a, w) = (Inr x, (a', w'))"
  shows "unat (image_part_bytes_size (am_disk a')) =
           unat (image_storage_size_mb (repo_data (am_config a))) * mb"
    and "unat (data_part_bytes_size (am_disk a')) =
           unat (data_storage_size_mb (repo_data (am_config a))) * mb"
    and "\<exists>w1. ensure_partitions_correctness D (am_disk a') w1 = (Inr (), w')"
    and "am_config a' = am_config a" and "am_uuid a' = am_uuid a"
  using assms
  by (auto simp: am_configure_disk_run update_disk_with_partitions_def validate_Inr
      dest!: update_ok_sizes)

lemma am_configure_disk_table:
  assumes "disk_lawful D hf hg table" and "am_configure_disk D (a, w) = (Inr x, (a', w'))"
  shows "on_disk_ok D table (am_disk a') w'" and "other_tables table (file_path (am_disk a)) w w'"
    and "file_path (am_disk a') = file_path (am_disk a)" and "am_config a' = am_config a"
proof -
  from assms(2) obtain d' where u: "update_partitions_if_sizes_differ D (data_storage_size_mb (repo_data (am_config a)))
      (image_storage_size_mb (repo_data (am_config a))) (am_disk a, w) = (Inr x, (d', w'))" "a' = a\<lparr>am_disk := d'\<rparr>"
    by (auto simp: am_configure_disk_run update_disk_with_partitions_def run_iffs)
  from update_table [OF assms(1) u(1)] update_ok_sizes [OF u(1)] u(2)
  show "on_disk_ok D table (am_disk a') w'" and "other_tables table (file_path (am_disk a)) w w'"
    and "file_path (am_disk a') = file_path (am_disk a)" and "am_config a' = am_config a" by simp_all
qed

end
