(* ===== verification/Realm_Manager.thy ===== *)
theory Realm_Manager
  imports Interfaces Storage
begin

text \<open>
  One realm (\<open>managers/realm_manager.rs\<close>): the state machine that drives the virtual
  machine, the client of the realm and the applications. The three are reached through
  the method tables of \<open>Interfaces\<close>; the operations act on the realm and the world.

  \<open>prepare_applications\<close> runs the applications' \<open>configure_disk\<close> as concurrent tasks
  and joins them in the order in which they finish. The runtime supplies that order,
  the number of tasks that still finish after one has failed (the others are aborted
  when the set is dropped) and whether a join fails; no theorem depends on its choice.

  The theorems are proved in the locale \<open>realm\<close>, for every virtual machine, client and
  application that keep the contracts of \<open>Interfaces\<close>.
\<close>

section \<open>Data\<close>

record ('vm, 'cl, 'app, 'fab) RealmManager =
  rm_state :: State
  rm_applications :: "(uuid \<times> 'app) list"
  rm_config :: "RealmConfig FileRepository"
  rm_vm :: 'vm
  rm_client :: 'cl
  rm_fabric :: 'fab

record ('vm, 'cl, 'app, 'fab, 'w) RealmEnv =
  re_vm :: "('vm, 'w) VmManager"
  re_client :: "('cl, 'w) RealmClient"
  re_app :: "('app, 'cl, 'w) Application"
  re_fabric :: "'fab \<Rightarrow> ('app, 'w) ApplicationCreator"
  re_new_v4 :: "'w \<Rightarrow> uuid \<times> 'w"
  re_join_order :: "uuid list \<Rightarrow> 'w \<Rightarrow> uuid list"
  re_late_tasks :: "'w \<Rightarrow> nat"
  re_join :: "('w, string, unit) prog"

definition RealmManager_new ::
  "RealmConfig FileRepository \<Rightarrow> (uuid \<times> 'app) list \<Rightarrow> 'vm \<Rightarrow> 'cl \<Rightarrow> 'fab \<Rightarrow>
     ('vm, 'cl, 'app, 'fab) RealmManager" where
  "RealmManager_new config applications vm client fabric =
     \<lparr>rm_state = Halted, rm_applications = applications, rm_config = config,
      rm_vm = vm, rm_client = client, rm_fabric = fabric\<rparr>"

text \<open>A method of the virtual machine, of the client and of one application.\<close>

definition on_vm ::
  "('vm \<times> 'w, 'e, 'a) prog \<Rightarrow> (('vm, 'cl, 'app, 'fab) RealmManager \<times> 'w, 'e, 'a) prog" where
  "on_vm = zoom (\<lambda>(r, w). (rm_vm r, w)) (\<lambda>(v, w') (r, w). (r\<lparr>rm_vm := v\<rparr>, w'))"

definition on_client ::
  "('cl \<times> 'w, 'e, 'a) prog \<Rightarrow> (('vm, 'cl, 'app, 'fab) RealmManager \<times> 'w, 'e, 'a) prog" where
  "on_client = zoom (\<lambda>(r, w). (rm_client r, w)) (\<lambda>(c, w') (r, w). (r\<lparr>rm_client := c\<rparr>, w'))"

definition on_application ::
  "uuid \<Rightarrow> 'app \<Rightarrow> ('app \<times> 'w, 'e, 'a) prog \<Rightarrow> (('vm, 'cl, 'app, 'fab) RealmManager \<times> 'w, 'e, 'a) prog" where
  "on_application u a =
     zoom (\<lambda>(r, w). (a, w))
       (\<lambda>(a', w') (r, w). (r\<lparr>rm_applications := hm_insert u a' (rm_applications r)\<rparr>, w'))"

definition set_state :: "State \<Rightarrow> (('vm, 'cl, 'app, 'fab) RealmManager \<times> 'w, 'e, unit) prog" where
  "set_state s = upd (\<lambda>(r, w). (r\<lparr>rm_state := s\<rparr>, w))"

definition realm_cid :: "('vm, 'cl, 'app, 'fab) RealmManager \<Rightarrow> u32" where
  "realm_cid r = vsock_cid (network (repo_data (rm_config r)))"

section \<open>Private operations\<close>

definition create_provisioning_config ::
  "('vm, 'cl, 'app, 'fab, 'w) RealmEnv \<Rightarrow> ('vm, 'cl, 'app, 'fab) RealmManager \<Rightarrow>
     ('w, RealmError, RealmProvisioningConfig) prog" where
  "create_provisioning_config E r =
     try_bind
       (for_collect (\<lambda>app. map_err (\<lambda>err. ApplicationOperation (application_error_to_string err))
                           (app_get_data (re_app E) app))
         (hm_values (rm_applications r)))
       (\<lambda>apps_data. ok \<lparr>applications_data = apps_data\<rparr>)"

definition configure_task ::
  "('vm, 'cl, 'app, 'fab, 'w) RealmEnv \<Rightarrow> uuid \<Rightarrow> (('vm, 'cl, 'app, 'fab) RealmManager \<times> 'w, RealmError, unit) prog" where
  "configure_task E u =
     try_bind (get (\<lambda>(r, w). hm_get (rm_applications r) u)) (\<lambda>found.
     case found of
       None \<Rightarrow> ok ()
     | Some app \<Rightarrow>
         map_err (\<lambda>err. ApplicationOperation (application_error_to_string err))
           (on_application u app (app_configure_disk (re_app E))))"

primrec late_tasks ::
  "('vm, 'cl, 'app, 'fab, 'w) RealmEnv \<Rightarrow> uuid list \<Rightarrow> (('vm, 'cl, 'app, 'fab) RealmManager \<times> 'w, RealmError, unit) prog" where
  "late_tasks E [] = ok ()"
| "late_tasks E (u # us) = attempt (configure_task E u) (\<lambda>_. late_tasks E us)"

primrec join_tasks ::
  "('vm, 'cl, 'app, 'fab, 'w) RealmEnv \<Rightarrow> uuid list \<Rightarrow> (('vm, 'cl, 'app, 'fab) RealmManager \<times> 'w, RealmError, unit) prog" where
  "join_tasks E [] = ok ()"
| "join_tasks E (u # us) =
     attempt (configure_task E u) (\<lambda>res.
     attempt (try_bind (map_err PrepareApplications (in_world (re_join E))) (\<lambda>_. of_result res)) (\<lambda>joined.
     case joined of
       Inl err \<Rightarrow>
         try_bind (get (\<lambda>(r, w). re_late_tasks E w)) (\<lambda>n.
         try_bind (late_tasks E (take n us)) (\<lambda>_.
         fail err))
     | Inr _ \<Rightarrow> join_tasks E us))"

definition prepare_applications ::
  "('vm, 'cl, 'app, 'fab, 'w) RealmEnv \<Rightarrow> (('vm, 'cl, 'app, 'fab) RealmManager \<times> 'w, RealmError, unit) prog" where
  "prepare_applications E =
     try_bind (get (\<lambda>(r, w). re_join_order E (hm_keys (rm_applications r)) w)) (\<lambda>order.
     join_tasks E order)"

definition handle_start_response ::
  "('vm, 'cl, 'app, 'fab, 'w) RealmEnv \<Rightarrow> RealmClientError + unit \<Rightarrow>
     (('vm, 'cl, 'app, 'fab) RealmManager \<times> 'w, RealmError, unit) prog" where
  "handle_start_response E starting_result =
     (case starting_result of
        Inr _ \<Rightarrow> set_state Running
      | Inl err \<Rightarrow>
          try_bind (set_state Halted) (\<lambda>_.
          try_bind (map_err (\<lambda>vm_err. RealmLaunchFail (vm_manager_error_to_string vm_err))
                     (on_vm (get_status (re_vm E)))) (\<lambda>status.
          case status of
            Exited runner_error \<Rightarrow>
              fail (RealmStartFail (realm_client_error_to_string err @ '', '' @ runner_error))
          | VmLaunched \<Rightarrow>
              try_bind (map_err (\<lambda>e. VmDestroyFail (vm_manager_error_to_string e))
                         (on_vm (vm_shutdown (re_vm E)))) (\<lambda>_.
              fail (RealmStartFail (realm_client_error_to_string err)))
          | NotLaunched \<Rightarrow>
              fail (RealmStartFail ''Vm hasn't been launched successfully!''))))"

section \<open>The operations of a realm\<close>

definition launch_with_applications ::
  "('vm, 'cl, 'app, 'fab, 'w) RealmEnv \<Rightarrow> (('vm, 'cl, 'app, 'fab) RealmManager \<times> 'w, RealmError, unit) prog" where
  "launch_with_applications E =
     try_bind (prepare_applications E) (\<lambda>_.
     try_bind (get (\<lambda>(r, w). hm_keys (rm_applications r))) (\<lambda>apps_uuids.
     map_err (\<lambda>err. RealmLaunchFail (vm_manager_error_to_string err))
       (on_vm (launch_vm (re_vm E) apps_uuids))))"

definition stop_client_and_vm ::
  "('vm, 'cl, 'app, 'fab, 'w) RealmEnv \<Rightarrow> (('vm, 'cl, 'app, 'fab) RealmManager \<times> 'w, RealmError, unit) prog" where
  "stop_client_and_vm E =
     try_bind (map_err (\<lambda>err. RealmStopFail (realm_client_error_to_string err))
                (on_client (shutdown_realm (re_client E)))) (\<lambda>_.
     map_err (\<lambda>err. VmStopFail (vm_manager_error_to_string err))
       (on_vm (vm_shutdown (re_vm E))))"

definition rm_fetch_attestation_token ::
  "('vm, 'cl, 'app, 'fab, 'w) RealmEnv \<Rightarrow> bytes \<Rightarrow> (('vm, 'cl, 'app, 'fab) RealmManager \<times> 'w, RealmError, bytes) prog" where
  "rm_fetch_attestation_token E challenge =
     try_bind (get fst) (\<lambda>r.
     case rm_state r of
       Halted \<Rightarrow>
         try_bind (launch_with_applications E) (\<lambda>_.
         attempt (on_client (try_connect_and_fetch_attestation_token (re_client E) (realm_cid r) challenge)) (\<lambda>resp.
         try_bind (stop_client_and_vm E) (\<lambda>_.
         map_err (\<lambda>err. AttestationTokenFetch (realm_client_error_to_string err)) (of_result resp))))
     | Provisioning \<Rightarrow>
         fail (UnsupportedAction ''Can't fetch real token that is being provisioned'')
     | _ \<Rightarrow>
         map_err (\<lambda>err. AttestationTokenFetch (realm_client_error_to_string err))
           (on_client (fetch_attestation_token (re_client E) challenge)))"

definition rm_start ::
  "('vm, 'cl, 'app, 'fab, 'w) RealmEnv \<Rightarrow> (('vm, 'cl, 'app, 'fab) RealmManager \<times> 'w, RealmError, unit) prog" where
  "rm_start E =
     try_bind (get (\<lambda>(r, w). rm_state r)) (\<lambda>st.
     if st \<noteq> Halted then fail (UnsupportedAction ''Can't start realm that is not halted.'')
     else
       try_bind (launch_with_applications E) (\<lambda>_.
       try_bind (set_state Provisioning) (\<lambda>_.
       try_bind (get fst) (\<lambda>r.
       try_bind (in_world (create_provisioning_config E r)) (\<lambda>config.
       attempt (on_client (try_connect_and_provision_apps (re_client E) (realm_cid r) config)) (\<lambda>resp.
       handle_start_response E resp))))))"

definition rm_stop ::
  "('vm, 'cl, 'app, 'fab, 'w) RealmEnv \<Rightarrow> (('vm, 'cl, 'app, 'fab) RealmManager \<times> 'w, RealmError, unit) prog" where
  "rm_stop E =
     try_bind (get (\<lambda>(r, w). rm_state r)) (\<lambda>st.
     if st \<noteq> NeedReboot \<and> st \<noteq> Running
     then fail (UnsupportedAction (''Can't stop realm that is in '' @ dbg_State st @ '' state.''))
     else
       try_bind (stop_client_and_vm E) (\<lambda>_.
       set_state Halted))"

definition rm_reboot ::
  "('vm, 'cl, 'app, 'fab, 'w) RealmEnv \<Rightarrow> (('vm, 'cl, 'app, 'fab) RealmManager \<times> 'w, RealmError, unit) prog" where
  "rm_reboot E =
     try_bind (get fst) (\<lambda>r.
     if rm_state r \<noteq> NeedReboot \<and> rm_state r \<noteq> Running
     then fail (UnsupportedAction (''Can't stop realm that is in '' @ dbg_State (rm_state r) @ '' state.''))
     else
       try_bind (in_world (create_provisioning_config E r)) (\<lambda>config.
       try_bind (map_err (\<lambda>err. RealmStopFail (realm_client_error_to_string err))
                  (on_client (reboot_realm (re_client E) config (realm_cid r)))) (\<lambda>_.
       set_state Running)))"

definition rm_create_application ::
  "('vm, 'cl, 'app, 'fab, 'w) RealmEnv \<Rightarrow> ApplicationConfig \<Rightarrow>
     (('vm, 'cl, 'app, 'fab) RealmManager \<times> 'w, RealmError, uuid) prog" where
  "rm_create_application E config =
     try_bind (get fst) (\<lambda>r.
     if rm_state r \<noteq> Halted
     then fail (UnsupportedAction ''Can't create application when realm is not halted.'')
     else
       try_bind (in_world (\<lambda>w. case re_new_v4 E w of (u, w') \<Rightarrow> (Inr u, w'))) (\<lambda>u.
       try_bind (in_world (create_application_in (re_fabric E (rm_fabric r)) u config)) (\<lambda>application.
       try_bind (upd (\<lambda>(r, w). (r\<lparr>rm_applications := hm_insert u application (rm_applications r)\<rparr>, w))) (\<lambda>_.
       ok u))))"

definition rm_update_application ::
  "('vm, 'cl, 'app, 'fab, 'w) RealmEnv \<Rightarrow> uuid \<Rightarrow> ApplicationConfig \<Rightarrow>
     (('vm, 'cl, 'app, 'fab) RealmManager \<times> 'w, RealmError, unit) prog" where
  "rm_update_application E u new_config =
     try_bind (get fst) (\<lambda>r.
     if rm_state r = Provisioning
     then fail (UnsupportedAction ''Can't update application when realm is in provisioning phase.'')
     else
       (case hm_get (rm_applications r) u of
          Some app_manager \<Rightarrow>
            try_bind (map_err (\<lambda>err. ApplicationOperation (application_error_to_string err))
                       (on_application u app_manager (app_update_config (re_app E) new_config))) (\<lambda>_.
            if rm_state r = Running then set_state NeedReboot else ok ())
        | None \<Rightarrow> fail (ApplicationMissing u)))"

definition rm_get_application ::
  "('vm, 'cl, 'app, 'fab) RealmManager \<Rightarrow> uuid \<Rightarrow> RealmError + 'app" where
  "rm_get_application r u =
     (if rm_state r \<noteq> Running \<and> rm_state r \<noteq> NeedReboot
      then Inl (UnsupportedAction ''Can't get application while realm isn't running.'')
      else (case hm_get (rm_applications r) u of
              Some app_manager \<Rightarrow> Inr app_manager
            | None \<Rightarrow> Inl (ApplicationMissing u)))"

definition rm_get_realm_data ::
  "('vm, 'cl, 'app, 'fab, 'w) RealmEnv \<Rightarrow> (('vm, 'cl, 'app, 'fab) RealmManager \<times> 'w, RealmError, RealmData) prog" where
  "rm_get_realm_data E =
     try_bind (get fst) (\<lambda>r.
     try_bind
       (if rm_state r = Running \<or> rm_state r = NeedReboot
        then map_err (\<lambda>err. RealmAcuireIpsFail (realm_client_error_to_string err))
               (on_client (read_realm_ifs (re_client E)))
        else ok []) (\<lambda>ifs_ip.
     ok \<lparr>realm_state = rm_state r, realm_applications = hm_keys (rm_applications r),
         realm_ips = ifs_ip\<rparr>))"

definition rm_destroy ::
  "('vm, 'cl, 'app, 'fab, 'w) RealmEnv \<Rightarrow> (('vm, 'cl, 'app, 'fab) RealmManager \<times> 'w, RealmError, unit) prog" where
  "rm_destroy E =
     try_bind (map_err (\<lambda>err. VmDestroyFail (vm_manager_error_to_string err))
                (on_vm (vm_shutdown (re_vm E)))) (\<lambda>_.
     ok ())"

definition RealmManager_ops ::
  "('vm, 'cl, 'app, 'fab, 'w) RealmEnv \<Rightarrow> (('vm, 'cl, 'app, 'fab) RealmManager, 'app, 'w) Realm" where
  "RealmManager_ops E =
     \<lparr>r_start = rm_start E,
      r_stop = rm_stop E,
      r_reboot = rm_reboot E,
      r_create_application = rm_create_application E,
      r_update_application = rm_update_application E,
      r_get_application = rm_get_application,
      r_application_start = (\<lambda>a. on_client (app_start (re_app E) a)),
      r_application_stop = (\<lambda>a. on_client (app_stop (re_app E) a)),
      r_get_realm_data = rm_get_realm_data E,
      r_fetch_attestation_token = rm_fetch_attestation_token E,
      r_destroy = rm_destroy E\<rparr>"

section \<open>Runs of the operations\<close>

lemma on_vm_iff:
  "on_vm m (r, w) = (x, t) \<longleftrightarrow>
     (\<exists>v w'. m (rm_vm r, w) = (x, (v, w')) \<and> t = (r\<lparr>rm_vm := v\<rparr>, w'))"
  by (auto simp: on_vm_def zoom_Inr_iff)

lemma on_client_iff:
  "on_client m (r, w) = (x, t) \<longleftrightarrow>
     (\<exists>c w'. m (rm_client r, w) = (x, (c, w')) \<and> t = (r\<lparr>rm_client := c\<rparr>, w'))"
  by (auto simp: on_client_def zoom_Inr_iff)

lemma on_application_iff:
  "on_application u a m (r, w) = (x, t) \<longleftrightarrow>
     (\<exists>a' w'. m (a, w) = (x, (a', w')) \<and>
        t = (r\<lparr>rm_applications := hm_insert u a' (rm_applications r)\<rparr>, w'))"
  by (auto simp: on_application_def zoom_Inr_iff)

lemma set_state_iff: "set_state s (r, w) = (x, t) \<longleftrightarrow> x = Inr () \<and> t = (r\<lparr>rm_state := s\<rparr>, w)"
  by (auto simp: set_state_def upd_def)

lemmas realm_iffs = run_iffs on_vm_iff on_client_iff on_application_iff set_state_iff

text \<open>Two realms that differ at most in the contents of their applications.\<close>

definition apps_frame ::
  "('vm, 'cl, 'app, 'fab) RealmManager \<Rightarrow> ('vm, 'cl, 'app, 'fab) RealmManager \<Rightarrow> bool" where
  "apps_frame r r' \<longleftrightarrow>
     rm_state r' = rm_state r \<and> rm_config r' = rm_config r \<and> rm_vm r' = rm_vm r \<and>
     rm_client r' = rm_client r \<and> rm_fabric r' = rm_fabric r \<and>
     hm_keys (rm_applications r') = hm_keys (rm_applications r)"

lemma apps_frame_refl [simp]: "apps_frame r r"
  by (simp add: apps_frame_def)

lemma apps_frame_insert:
  assumes "apps_frame r s" and "hm_get (rm_applications s) u \<noteq> None"
  shows "apps_frame r (s\<lparr>rm_applications := hm_insert u a (rm_applications s)\<rparr>)"
  using assms by (simp add: apps_frame_def hm_keys_insert_mem)

lemma configure_task_frame: "keeps (\<lambda>(s, w). apps_frame r s) (configure_task E u)"
proof (rule keepsI, clarify)
  fix s w x s' w'
  assume "apps_frame r s" and "configure_task E u (s, w) = (x, (s', w'))"
  then show "apps_frame r s'"
    by (cases x) (auto simp: configure_task_def realm_iffs intro!: apps_frame_insert split: option.splits)
qed

lemma late_tasks_frame: "keeps (\<lambda>(s, w). apps_frame r s) (late_tasks E us)"
  by (induction us) (auto intro!: keeps_rules configure_task_frame)

lemma join_tasks_frame: "keeps (\<lambda>(s, w). apps_frame r s) (join_tasks E us)"
  by (induction us)
    (auto intro!: keeps_rules configure_task_frame late_tasks_frame split: sum.split)

lemma prepare_frame:
  assumes "prepare_applications E (r, w) = (x, (r', w'))"
  shows "apps_frame r r'"
proof -
  have "keeps (\<lambda>(s, w). apps_frame r s) (prepare_applications E)"
    by (auto simp: prepare_applications_def intro!: keeps_rules join_tasks_frame)
  from keepsD [OF this _ assms] show ?thesis by simp
qed

text \<open>
  What never depends on the contracts: the identity of the realm's parts, and the
  refusals that the state alone decides.
\<close>

lemma refused_not_halted:
  assumes "rm_state r \<noteq> Halted"
  shows "rm_start E (r, w) =
           (Inl (UnsupportedAction ''Can't start realm that is not halted.''), (r, w))"
    and "rm_create_application E cfg (r, w) =
           (Inl (UnsupportedAction ''Can't create application when realm is not halted.''), (r, w))"
  using assms by (simp_all add: rm_start_def rm_create_application_def prog_defs)

lemma refused_not_running:
  assumes "rm_state r = Halted \<or> rm_state r = Provisioning"
  shows "rm_stop E (r, w) =
           (Inl (UnsupportedAction
             (''Can't stop realm that is in '' @ dbg_State (rm_state r) @ '' state.'')), (r, w))"
    and "rm_reboot E (r, w) =
           (Inl (UnsupportedAction
             (''Can't stop realm that is in '' @ dbg_State (rm_state r) @ '' state.'')), (r, w))"
    and "rm_get_application r u =
           Inl (UnsupportedAction ''Can't get application while realm isn't running.'')"
  using assms by (auto simp: rm_stop_def rm_reboot_def rm_get_application_def prog_defs)

lemma refused_provisioning:
  assumes "rm_state r = Provisioning"
  shows "rm_fetch_attestation_token E ch (r, w) =
           (Inl (UnsupportedAction ''Can't fetch real token that is being provisioned''), (r, w))"
    and "rm_update_application E u cfg (r, w) =
           (Inl (UnsupportedAction
             ''Can't update application when realm is in provisioning phase.''), (r, w))"
  using assms by (simp_all add: rm_fetch_attestation_token_def rm_update_application_def prog_defs)

lemma get_realm_data_kept:
  assumes "rm_get_realm_data E (r, w) = (x, (r', w'))"
  shows "rm_state r' = rm_state r \<and> rm_vm r' = rm_vm r \<and> rm_applications r' = rm_applications r \<and>
         (x = Inr d \<longrightarrow> realm_state d = rm_state r \<and>
            realm_applications d = hm_keys (rm_applications r))"
  using assms by (cases x) (auto simp: rm_get_realm_data_def realm_iffs split: if_splits)

definition realm_app_keys :: "('vm, 'cl, 'app, 'fab) RealmManager \<Rightarrow> uuid list" where
  "realm_app_keys r = hm_keys (rm_applications r)"

interpretation rmo: realm_object "RealmManager_ops E" rm_state realm_app_keys
  by unfold_locales
    (auto simp: RealmManager_ops_def realm_app_keys_def dest: get_realm_data_kept)

lemma configure_task_other:
  assumes "configure_task E u (r, w) = (x, (r', w'))" and "v \<noteq> u"
  shows "hm_get (rm_applications r') v = hm_get (rm_applications r) v"
  using assms by (cases x) (auto simp: configure_task_def realm_iffs split: option.splits)

text \<open>
  What configuring one application establishes (\<open>Q\<close>) holds for all of them in the end, when configuring another one and
  joining a task keep it; \<open>P\<close> is what the tasks know of the application that is filed under an identifier.
\<close>

lemma join_tasks_prepared:
  assumes "join_tasks E us (r, w) = (Inr x, (r', w'))"
    and own: "\<And>v a z a' z'. P v a \<Longrightarrow> app_configure_disk (re_app E) (a, z) = (Inr (), (a', z')) \<Longrightarrow> P v a' \<and> Q v a' z'"
    and other: "\<And>v a z a' z' b. v \<noteq> u \<Longrightarrow> P v a \<Longrightarrow> app_configure_disk (re_app E) (a, z) = (Inr (), (a', z')) \<Longrightarrow>
      P u b \<Longrightarrow> Q u b z \<Longrightarrow> Q u b z'"
    and join: "\<And>b z. Q u b z \<Longrightarrow> Q u b (snd (re_join E z))"
    and "\<And>v a. hm_get (rm_applications r) v = Some a \<Longrightarrow> P v a"
    and "hm_get (rm_applications r') u = Some b"
    and "u \<in> set us \<or> (\<forall>a. hm_get (rm_applications r) u = Some a \<longrightarrow> Q u a w)"
  shows "Q u b w'"
  using assms(1,5-7)
proof (induction us arbitrary: r w)
  case Nil
  then show ?case by (auto simp: run_iffs)
next
  case (Cons v us)
  from Cons.prems(1) obtain y s w1 where c: "configure_task E v (r, w) = (Inr y, (s, w1))"
    and j: "join_tasks E us (s, snd (re_join E w1)) = (Inr x, (r', w'))"
    by (auto simp: prog_defs in_world_def split: prod.splits sum.splits)
  have other_apps: "hm_get (rm_applications s) z = hm_get (rm_applications r) z" if "z \<noteq> v" for z
    using configure_task_other [OF c that] .
  have P: "P z a" if "hm_get (rm_applications s) z = Some a" for z a
  proof (cases "hm_get (rm_applications r) v")
    case None
    with c that Cons.prems(2) show ?thesis by (auto simp: configure_task_def realm_iffs)
  next
    case (Some b)
    with c obtain b' where b': "app_configure_disk (re_app E) (b, w) = (Inr (), (b', w1))"
        "s = r\<lparr>rm_applications := hm_insert v b' (rm_applications r)\<rparr>"
      by (auto simp: configure_task_def realm_iffs)
    with own [OF Cons.prems(2) [OF Some]] that Cons.prems(2) show ?thesis by (auto split: if_splits)
  qed
  have Q: "Q u a (snd (re_join E w1))" if "hm_get (rm_applications s) u = Some a" "u \<notin> set us" for a
  proof (rule join, cases "hm_get (rm_applications r) v")
    case None
    with c that Cons.prems(4) show "Q u a w1" by (auto simp: configure_task_def realm_iffs)
  next
    case (Some b)
    with c obtain b' where b': "app_configure_disk (re_app E) (b, w) = (Inr (), (b', w1))"
        "s = r\<lparr>rm_applications := hm_insert v b' (rm_applications r)\<rparr>"
      by (auto simp: configure_task_def realm_iffs)
    show "Q u a w1"
    proof (cases "u = v")
      case True
      with b' that(1) own [OF Cons.prems(2) [OF Some] b'(1)] show ?thesis by simp
    next
      case False
      with Cons.prems(4) that other_apps have "Q u a w" by auto
      with other [OF _ Cons.prems(2) [OF Some] b'(1)] P [OF that(1)] False show ?thesis by auto
    qed
  qed
  show ?case by (rule Cons.IH [OF j P Cons.prems(3)]) (use Q in auto)
qed

lemma launch_prepared:
  assumes "launch_with_applications E (r, w) = (Inr x, (r', w'))"
  obtains s w1 v where "prepare_applications E (r, w) = (Inr (), (s, w1))"
    "launch_vm (re_vm E) (realm_app_keys r) (rm_vm s, w1) = (Inr (), (v, w'))" "r' = s\<lparr>rm_vm := v\<rparr>"
    "join_tasks E (re_join_order E (realm_app_keys r) w) (r, w) = (Inr (), (s, w1))" "realm_app_keys s = realm_app_keys r"
proof -
  from assms obtain s w1 v where p: "prepare_applications E (r, w) = (Inr (), (s, w1))"
    "launch_vm (re_vm E) (hm_keys (rm_applications s)) (rm_vm s, w1) = (Inr (), (v, w'))" "r' = s\<lparr>rm_vm := v\<rparr>"
    by (auto simp: launch_with_applications_def realm_iffs)
  moreover have "hm_keys (rm_applications s) = hm_keys (rm_applications r)"
    using prepare_frame [OF p(1)] by (simp add: apps_frame_def)
  moreover have "join_tasks E (re_join_order E (hm_keys (rm_applications r)) w) (r, w) = (Inr (), (s, w1))"
    using p(1) by (simp add: prepare_applications_def prog_defs)
  ultimately show thesis using that by (simp add: realm_app_keys_def)
qed

section \<open>The life of a realm\<close>

datatype RealmOp =
    OpStart
  | OpStop
  | OpReboot
  | OpFetchToken bytes
  | OpCreateApplication ApplicationConfig
  | OpUpdateApplication uuid ApplicationConfig
  | OpGetData
  | OpStartApplication uuid
  | OpStopApplication uuid

definition discard :: "('s, 'e, 'a) prog \<Rightarrow> ('s, 'e, unit) prog" where
  "discard m = try_bind m (\<lambda>_. ok ())"

lemma discard_iff: "discard m s = (x, t) \<longleftrightarrow> (\<exists>y. m s = (y, t) \<and> x = map_sum id (\<lambda>_. ()) y)"
  by (auto simp: discard_def try_bind_def ok_def split: prod.splits sum.splits)

definition on_running_application ::
  "uuid \<Rightarrow> ('app \<Rightarrow> ('cl \<times> 'w, ApplicationError, unit) prog) \<Rightarrow>
     (('vm, 'cl, 'app, 'fab) RealmManager \<times> 'w, RealmError + ApplicationError, unit) prog" where
  "on_running_application u m =
     try_bind (get fst) (\<lambda>r.
     try_bind (map_err Inl (of_result (rm_get_application r u))) (\<lambda>a.
     map_err Inr (on_client (m a))))"

definition run_op ::
  "('vm, 'cl, 'app, 'fab, 'w) RealmEnv \<Rightarrow> RealmOp \<Rightarrow>
     (('vm, 'cl, 'app, 'fab) RealmManager \<times> 'w, RealmError + ApplicationError, unit) prog" where
  "run_op E op =
     (case op of
        OpStart \<Rightarrow> map_err Inl (rm_start E)
      | OpStop \<Rightarrow> map_err Inl (rm_stop E)
      | OpReboot \<Rightarrow> map_err Inl (rm_reboot E)
      | OpFetchToken ch \<Rightarrow> map_err Inl (discard (rm_fetch_attestation_token E ch))
      | OpCreateApplication cfg \<Rightarrow> map_err Inl (discard (rm_create_application E cfg))
      | OpUpdateApplication u cfg \<Rightarrow> map_err Inl (rm_update_application E u cfg)
      | OpGetData \<Rightarrow> map_err Inl (discard (rm_get_realm_data E))
      | OpStartApplication u \<Rightarrow> on_running_application u (app_start (re_app E))
      | OpStopApplication u \<Rightarrow> on_running_application u (app_stop (re_app E)))"

text \<open>
  A realm lives by any sequence of operations, each on whatever world it finds: other
  realms, the guest and the host act on the world in between.
\<close>

inductive realm_step ::
  "('vm, 'cl, 'app, 'fab, 'w) RealmEnv \<Rightarrow> ('vm, 'cl, 'app, 'fab) RealmManager \<Rightarrow>
     ('vm, 'cl, 'app, 'fab) RealmManager \<Rightarrow> bool" for E where
  realm_stepI: "run_op E op (r, w) = (x, (r', w')) \<Longrightarrow> realm_step E r r'"

inductive_cases realm_stepE: "realm_step E r r'"

inductive realm_reach ::
  "('vm, 'cl, 'app, 'fab, 'w) RealmEnv \<Rightarrow> ('vm, 'cl, 'app, 'fab) RealmManager \<Rightarrow>
     ('vm, 'cl, 'app, 'fab) RealmManager \<Rightarrow> bool" for E where
  reach_refl: "realm_reach E r r"
| reach_step: "realm_reach E r s \<Longrightarrow> realm_step E s t \<Longrightarrow> realm_reach E r t"

lemma reach_invariant:
  assumes "realm_reach E r s" and "I r" and "\<And>s t. I s \<Longrightarrow> realm_step E s t \<Longrightarrow> I t"
  shows "I s"
  using assms by (induction rule: realm_reach.induct) blast+

text \<open>The states a realm may move to: the arrows of the state machine.\<close>

fun may_become :: "State \<Rightarrow> State \<Rightarrow> bool" where
  "may_become Halted s = (s = Halted \<or> s = Running \<or> s = Provisioning)"
| "may_become Provisioning s = (s = Provisioning)"
| "may_become Running s = (s = Running \<or> s = NeedReboot \<or> s = Halted)"
| "may_become NeedReboot s = (s = NeedReboot \<or> s = Running \<or> s = Halted)"

lemma may_become_refl [simp]: "may_become s s"
  by (cases s) auto

text \<open>
  The invariant of a realm: outside \<open>Halted\<close> its virtual machine is launched, and its
  applications are filed under their own identifiers.
\<close>

definition apps_ok :: "('app \<Rightarrow> uuid) \<Rightarrow> (uuid \<times> 'app) list \<Rightarrow> bool" where
  "apps_ok app_id m \<longleftrightarrow> hm_wf m \<and> (\<forall>u a. hm_get m u = Some a \<longrightarrow> app_id a = u)"

definition realm_inv ::
  "('vm \<Rightarrow> bool) \<Rightarrow> ('app \<Rightarrow> uuid) \<Rightarrow> ('vm, 'cl, 'app, 'fab) RealmManager \<Rightarrow> bool" where
  "realm_inv launched app_id r \<longleftrightarrow>
     (rm_state r \<noteq> Halted \<longrightarrow> launched (rm_vm r)) \<and> apps_ok app_id (rm_applications r)"

lemma apps_ok_insert: "apps_ok app_id m \<Longrightarrow> app_id a = u \<Longrightarrow> apps_ok app_id (hm_insert u a m)"
  by (auto simp: apps_ok_def)

lemma apps_okD: "apps_ok app_id m \<Longrightarrow> hm_get m u = Some a \<Longrightarrow> app_id a = u"
  by (auto simp: apps_ok_def)

lemma apps_ok_list: "apps_ok app_id m \<longleftrightarrow> distinct (map fst m) \<and> list_all (\<lambda>(u, a). app_id a = u) m"
proof -
  have "(\<forall>u a. hm_get m u = Some a \<longrightarrow> app_id a = u) \<longleftrightarrow> list_all (\<lambda>(u, a). app_id a = u) m"
    if "distinct (map fst m)"
    using that by (auto simp: list_all_iff)
  then show ?thesis by (auto simp: apps_ok_def hm_wf_def)
qed

lemma apps_ok_values:
  assumes "apps_ok app_id m"
  shows "map app_id (hm_values m) = hm_keys m"
  using assms by (force simp: apps_ok_def hm_values_def hm_keys_def hm_wf_def)

lemma handle_start_run:
  assumes "handle_start_response E resp (r, w) = (x, (r', w'))"
  shows "rm_applications r' = rm_applications r \<and> rm_client r' = rm_client r \<and>
         (case resp of
            Inr _ \<Rightarrow> x = Inr () \<and> rm_state r' = Running \<and> rm_vm r' = rm_vm r
          | Inl _ \<Rightarrow> (\<exists>e. x = Inl e) \<and> rm_state r' = Halted)"
  using assms
  by (auto simp: handle_start_response_def prog_defs set_state_def on_vm_def
      split: prod.splits sum.splits VmStatus.splits)

text \<open>How far a start got: it was refused by the launch, by the provisioning data, or it reached the guest.\<close>

lemma start_cases:
  assumes "rm_start E (r, w) = (x, (r', w'))" and "rm_state r = Halted"
  shows "(\<exists>e. x = Inl e \<and> launch_with_applications E (r, w) = (Inl e, (r', w'))) \<or>
         (\<exists>s u e. x = Inl e \<and> launch_with_applications E (r, w) = (Inr (), (s, u)) \<and>
            create_provisioning_config E (s\<lparr>rm_state := Provisioning\<rparr>) u = (Inl e, w') \<and>
            r' = s\<lparr>rm_state := Provisioning\<rparr>) \<or>
         (\<exists>s u u0 c u1 resp cfg. launch_with_applications E (r, w) = (Inr (), (s, u)) \<and>
            create_provisioning_config E (s\<lparr>rm_state := Provisioning\<rparr>) u = (Inr cfg, u0) \<and>
            try_connect_and_provision_apps (re_client E) (realm_cid s) cfg (rm_client s, u0) =
              (resp, (c, u1)) \<and>
            handle_start_response E resp (s\<lparr>rm_state := Provisioning, rm_client := c\<rparr>, u1) =
              (x, (r', w')))"
proof -
  obtain y s u where l: "launch_with_applications E (r, w) = (y, (s, u))"
    by (metis prod.exhaust)
  obtain z u0 where p: "create_provisioning_config E (s\<lparr>rm_state := Provisioning\<rparr>) u = (z, u0)"
    by (metis prod.exhaust)
  let ?connect = "\<lambda>cfg. try_connect_and_provision_apps (re_client E) (realm_cid s) cfg (rm_client s, u0)"
  obtain resp c u1 where c: "?connect (projr z) = (resp, (c, u1))"
    by (metis prod.exhaust)
  have cid: "realm_cid (s\<lparr>rm_state := Provisioning\<rparr>) = realm_cid s"
    by (simp add: realm_cid_def)
  show ?thesis
    using assms l p c
    by (cases y; cases z)
      (auto simp: rm_start_def prog_defs set_state_def in_world_run on_client_def cid)
qed

text \<open>A realm that counts as halted while its virtual machine is still launched.\<close>

definition stuck_halted :: "('vm \<Rightarrow> bool) \<Rightarrow> ('vm, 'cl, 'app, 'fab) RealmManager \<Rightarrow> bool" where
  "stuck_halted launched r \<longleftrightarrow> rm_state r = Halted \<and> launched (rm_vm r)"

definition advances ::
  "('vm \<Rightarrow> bool) \<Rightarrow> ('app \<Rightarrow> uuid) \<Rightarrow> ('vm, 'cl, 'app, 'fab) RealmManager \<Rightarrow>
     ('vm, 'cl, 'app, 'fab) RealmManager \<Rightarrow> bool" where
  "advances launched app_id r r' \<longleftrightarrow>
     may_become (rm_state r) (rm_state r') \<and>
     (realm_inv launched app_id r \<longrightarrow> realm_inv launched app_id r') \<and>
     (stuck_halted launched r \<longrightarrow> stuck_halted launched r')"

lemmas advances_defs = advances_def realm_inv_def stuck_halted_def

locale realm =
  vm_manager "re_vm E" launched + realm_client "re_client E" connected +
  application "re_app E" app_id
  for E :: "('vm, 'cl, 'app, 'fab, 'w) RealmEnv"
    and launched :: "'vm \<Rightarrow> bool"
    and connected :: "'cl \<Rightarrow> bool"
    and app_id :: "'app \<Rightarrow> uuid" +
  assumes fabric_id: "create_application_in (re_fabric E f) u cfg w = (Inr a, w') \<Longrightarrow> app_id a = u"
begin

lemma launch_run:
  assumes "launch_with_applications E (r, w) = (x, (r', w'))"
  shows "rm_state r' = rm_state r \<and> rm_config r' = rm_config r \<and> rm_client r' = rm_client r \<and>
         rm_fabric r' = rm_fabric r \<and>
         hm_keys (rm_applications r') = hm_keys (rm_applications r) \<and>
         (case x of
            Inl e \<Rightarrow> launched (rm_vm r') = launched (rm_vm r)
          | Inr _ \<Rightarrow> \<not> launched (rm_vm r) \<and> launched (rm_vm r'))"
  using assms
  by (cases x)
    (fastforce simp: launch_with_applications_def realm_iffs apps_frame_def
      dest: prepare_frame launch_ok launch_err)+

lemma stop_run:
  assumes "stop_client_and_vm E (r, w) = (x, (r', w'))"
  shows "rm_state r' = rm_state r \<and> rm_config r' = rm_config r \<and>
         rm_applications r' = rm_applications r \<and> rm_fabric r' = rm_fabric r \<and>
         (case x of
            Inl e \<Rightarrow> launched (rm_vm r') = launched (rm_vm r)
          | Inr _ \<Rightarrow> launched (rm_vm r) \<and> \<not> launched (rm_vm r') \<and>
                     connected (rm_client r) \<and> \<not> connected (rm_client r'))"
  using assms
  by (cases x)
    (auto simp: stop_client_and_vm_def realm_iffs
      dest!: shutdown_ok shutdown_err client_shutdown_ok)

lemma configure_task_apps_ok: "keeps (\<lambda>(s, w). apps_ok app_id (rm_applications s)) (configure_task E u)"
proof (rule keepsI, clarify)
  fix s w x s' w'
  assume "apps_ok app_id (rm_applications s)" and "configure_task E u (s, w) = (x, (s', w'))"
  then show "apps_ok app_id (rm_applications s')"
    by (cases x)
      (auto simp: configure_task_def realm_iffs dest!: configure_disk_id dest: apps_okD
        intro!: apps_ok_insert split: option.splits)
qed

lemma late_tasks_apps_ok: "keeps (\<lambda>(s, w). apps_ok app_id (rm_applications s)) (late_tasks E us)"
  by (induction us) (auto intro!: keeps_rules configure_task_apps_ok)

lemma join_tasks_apps_ok: "keeps (\<lambda>(s, w). apps_ok app_id (rm_applications s)) (join_tasks E us)"
  by (induction us)
    (auto intro!: keeps_rules configure_task_apps_ok late_tasks_apps_ok split: sum.split)

lemma launch_apps_ok:
  assumes "launch_with_applications E (r, w) = (x, (r', w'))"
    and "apps_ok app_id (rm_applications r)"
  shows "apps_ok app_id (rm_applications r')"
proof -
  have "keeps (\<lambda>(s, w). apps_ok app_id (rm_applications s)) (launch_with_applications E)"
    unfolding launch_with_applications_def prepare_applications_def on_vm_def
    by (auto intro!: keeps_rules join_tasks_apps_ok keeps_zoom)
  from keepsD [OF this _ assms(1)] assms(2) show ?thesis by simp
qed

lemma start_run:
  assumes "rm_start E (r, w) = (x, (r', w'))" and "rm_state r = Halted"
  shows "hm_keys (rm_applications r') = hm_keys (rm_applications r) \<and>
         (apps_ok app_id (rm_applications r) \<longrightarrow> apps_ok app_id (rm_applications r')) \<and>
         (case x of
            Inr _ \<Rightarrow> \<not> launched (rm_vm r) \<and> rm_state r' = Running \<and> launched (rm_vm r') \<and>
                     connected (rm_client r')
          | Inl e \<Rightarrow> rm_state r' = Halted \<and> (launched (rm_vm r) \<longrightarrow> launched (rm_vm r')) \<or>
                     rm_state r' = Provisioning \<and> \<not> launched (rm_vm r) \<and> launched (rm_vm r'))"
  using assms(2) start_cases [OF assms]
proof (elim disjE exE conjE)
  fix e
  assume x: "x = Inl e" and l: "launch_with_applications E (r, w) = (Inl e, (r', w'))"
  from launch_run [OF l] launch_apps_ok [OF l] x assms(2) show ?thesis by simp
next
  fix s u e
  assume x: "x = Inl e" and l: "launch_with_applications E (r, w) = (Inr (), (s, u))"
    and r': "r' = s\<lparr>rm_state := Provisioning\<rparr>"
  from launch_run [OF l] launch_apps_ok [OF l] x r' show ?thesis by simp
next
  fix s u u0 c u1 resp cfg
  assume l: "launch_with_applications E (r, w) = (Inr (), (s, u))"
    and c: "try_connect_and_provision_apps (re_client E) (realm_cid s) cfg (rm_client s, u0) =
      (resp, (c, u1))"
    and h: "handle_start_response E resp (s\<lparr>rm_state := Provisioning, rm_client := c\<rparr>, u1) =
            (x, (r', w'))"
  from launch_run [OF l] launch_apps_ok [OF l] handle_start_run [OF h] c
  show ?thesis by (cases resp; cases x) (auto dest: provision_ok)
qed

lemma token_run:
  assumes "rm_fetch_attestation_token E ch (r, w) = (x, (r', w'))"
  shows "rm_state r' = rm_state r \<and>
         (apps_ok app_id (rm_applications r) \<longrightarrow> apps_ok app_id (rm_applications r')) \<and>
         (launched (rm_vm r) \<longrightarrow> launched (rm_vm r')) \<and>
         (x = Inr t \<longrightarrow> launched (rm_vm r') = launched (rm_vm r))"
proof (cases "rm_state r = Halted")
  case False
  with assms show ?thesis
    by (cases x)
      (auto simp: rm_fetch_attestation_token_def realm_iffs split: State.splits)
next
  case True
  obtain y s u where l: "launch_with_applications E (r, w) = (y, (s, u))"
    by (metis prod.exhaust)
  obtain resp c u0 where c: "try_connect_and_fetch_attestation_token (re_client E) (realm_cid r) ch
      (rm_client s, u) = (resp, (c, u0))"
    by (metis prod.exhaust)
  obtain z v u1 where st: "stop_client_and_vm E (s\<lparr>rm_client := c\<rparr>, u0) = (z, (v, u1))"
    by (metis prod.exhaust)
  show ?thesis
    using assms True l c st launch_run [OF l] launch_apps_ok [OF l] stop_run [OF st]
    by (cases y; cases z; cases resp)
      (auto simp: rm_fetch_attestation_token_def prog_defs on_client_def)
qed

lemma stop_op_run:
  assumes "rm_stop E (r, w) = (x, (r', w'))"
  shows "rm_applications r' = rm_applications r \<and>
         (case x of
            Inl e \<Rightarrow> rm_state r' = rm_state r \<and> launched (rm_vm r') = launched (rm_vm r)
          | Inr _ \<Rightarrow> (rm_state r = Running \<or> rm_state r = NeedReboot) \<and> rm_state r' = Halted \<and>
                     connected (rm_client r) \<and> \<not> connected (rm_client r') \<and>
                     launched (rm_vm r) \<and> \<not> launched (rm_vm r'))"
  using assms
  by (cases x) (auto simp: rm_stop_def realm_iffs dest!: stop_run split: if_splits)

lemma reboot_run:
  assumes "rm_reboot E (r, w) = (x, (r', w'))"
  shows "rm_applications r' = rm_applications r \<and> rm_vm r' = rm_vm r \<and>
         (case x of
            Inl e \<Rightarrow> rm_state r' = rm_state r
          | Inr _ \<Rightarrow> (rm_state r = Running \<or> rm_state r = NeedReboot) \<and> rm_state r' = Running \<and>
                     connected (rm_client r) \<and> connected (rm_client r'))"
  using assms
  by (cases x) (auto simp: rm_reboot_def realm_iffs dest!: client_reboot_ok split: if_splits)

lemma create_application_run:
  assumes "rm_create_application E cfg (r, w) = (x, (r', w'))"
  shows "rm_state r' = rm_state r \<and> rm_vm r' = rm_vm r \<and> rm_client r' = rm_client r \<and>
         (case x of
            Inl e \<Rightarrow> r' = r
          | Inr u \<Rightarrow> rm_state r = Halted \<and>
              (\<exists>a. app_id a = u \<and> rm_applications r' = hm_insert u a (rm_applications r)))"
  using assms
  by (cases x)
    (auto simp: rm_create_application_def realm_iffs dest: fabric_id split: if_splits prod.splits)

lemma update_application_run:
  assumes "rm_update_application E u cfg (r, w) = (x, (r', w'))"
  shows "rm_vm r' = rm_vm r \<and> rm_client r' = rm_client r \<and>
         (apps_ok app_id (rm_applications r) \<longrightarrow> apps_ok app_id (rm_applications r')) \<and>
         (case x of
            Inl e \<Rightarrow> rm_state r' = rm_state r
          | Inr _ \<Rightarrow> rm_state r \<noteq> Provisioning \<and>
              (\<exists>a. hm_get (rm_applications r) u = Some a) \<and>
              rm_state r' = (if rm_state r = Running then NeedReboot else rm_state r))"
  using assms
  by (cases x)
    (auto simp: rm_update_application_def realm_iffs dest!: update_config_id dest: apps_okD
      intro!: apps_ok_insert split: if_splits option.splits)

lemma on_running_application_run:
  assumes "on_running_application u m (r, w) = (x, (r', w'))"
  shows "rm_state r' = rm_state r \<and> rm_vm r' = rm_vm r \<and> rm_applications r' = rm_applications r"
  using assms by (cases x) (auto simp: on_running_application_def realm_iffs)

lemma start_advances: "rm_start E (r, w) = (x, (r', w')) \<Longrightarrow> advances launched app_id r r'"
  by (cases "rm_state r = Halted"; cases x)
    (auto simp: advances_defs refused_not_halted dest: start_run)

lemma token_advances:
  assumes "rm_fetch_attestation_token E ch (r, w) = (x, (r', w'))"
  shows "advances launched app_id r r'"
  using token_run [OF assms] by (auto simp: advances_defs)

lemma stop_advances:
  assumes "rm_stop E (r, w) = (x, (r', w'))"
  shows "advances launched app_id r r'"
  using stop_op_run [OF assms] by (cases x) (auto simp: advances_defs)

lemma reboot_advances:
  assumes "rm_reboot E (r, w) = (x, (r', w'))"
  shows "advances launched app_id r r'"
  using reboot_run [OF assms] by (cases x) (auto simp: advances_defs)

lemma create_application_advances:
  assumes "rm_create_application E cfg (r, w) = (x, (r', w'))"
  shows "advances launched app_id r r'"
  using create_application_run [OF assms]
  by (cases x) (auto simp: advances_defs intro: apps_ok_insert)

lemma update_application_advances:
  assumes "rm_update_application E u cfg (r, w) = (x, (r', w'))"
  shows "advances launched app_id r r'"
  using update_application_run [OF assms]
  by (cases x; cases "rm_state r") (auto simp: advances_defs)

lemma unchanged_advances:
  "rm_state r' = rm_state r \<Longrightarrow> rm_vm r' = rm_vm r \<Longrightarrow> rm_applications r' = rm_applications r \<Longrightarrow>
     advances launched app_id r r'"
  by (simp add: advances_defs)

lemma get_realm_data_advances:
  "rm_get_realm_data E (r, w) = (x, (r', w')) \<Longrightarrow> advances launched app_id r r'"
  by (blast intro: unchanged_advances dest: get_realm_data_kept)

lemma on_running_application_advances:
  "on_running_application u m (r, w) = (x, (r', w')) \<Longrightarrow> advances launched app_id r r'"
  by (blast intro: unchanged_advances dest: on_running_application_run)

lemmas op_advances =
  start_advances token_advances stop_advances reboot_advances create_application_advances
  update_application_advances get_realm_data_advances on_running_application_advances

lemma run_op_advances:
  assumes "run_op E op (r, w) = (x, (r', w'))"
  shows "advances launched app_id r r'"
  using assms
  by (cases op; cases x)
    (auto simp: run_op_def map_err_Inl_iff discard_iff intro: op_advances)

lemma step_advances: "realm_step E r r' \<Longrightarrow> advances launched app_id r r'"
  by (auto elim!: realm_stepE dest: run_op_advances)

lemma reach_inv: "realm_reach E r s \<Longrightarrow> realm_inv launched app_id r \<Longrightarrow> realm_inv launched app_id s"
  by (rule reach_invariant) (auto dest: step_advances simp: advances_def)

lemma reach_stuck: "realm_reach E r s \<Longrightarrow> stuck_halted launched r \<Longrightarrow> stuck_halted launched s"
  by (rule reach_invariant) (auto dest: step_advances simp: advances_def)

lemma reach_provisioning: "realm_reach E r s \<Longrightarrow> rm_state r = Provisioning \<Longrightarrow> rm_state s = Provisioning"
  by (rule reach_invariant) (auto dest: step_advances simp: advances_def)

lemma stuck_start_fails:
  assumes "stuck_halted launched r" shows "\<exists>e t. rm_start E (r, w) = (Inl e, t)"
proof -
  obtain x r' w' where s: "rm_start E (r, w) = (x, (r', w'))" by (metis prod.exhaust)
  with start_run [OF s] assms show ?thesis by (cases x) (auto simp: stuck_halted_def)
qed

lemma provisioning_config_ids:
  assumes "create_provisioning_config E r w = (Inr cfg, w')"
    and "apps_ok app_id (rm_applications r)"
  shows "map data_id (applications_data cfg) = hm_keys (rm_applications r)"
proof -
  have "for_collect (\<lambda>app. map_err f (app_get_data (re_app E) app)) as v = (Inr ds, v') \<Longrightarrow>
        map data_id ds = map app_id as" for f :: "ApplicationError \<Rightarrow> RealmError" and as ds v v'
    by (induction as arbitrary: ds v) (auto simp: run_iffs dest: get_data_id)
  with assms show ?thesis
    by (auto simp: create_provisioning_config_def run_iffs simp flip: apps_ok_values)
qed

end

end
