(* ===== verification/Fabric.thy ===== *)
theory Fabric
  imports Vm_Runner Realm_Client Application_Manager Realm_Manager
begin

text \<open>
  The fabrics that put the parts together (\<open>warden_daemon/src/fabric\<close>) and the
  virtual-machine creator of \<open>daemon.rs\<close>: creating and loading an application, creating,
  loading and cleaning up a realm with its working directory, tap device, virtual
  machine and client. Shared objects of the daemon (the network manager, the vsock
  server) live in the world and are reached by their methods.

  Here the contracts of \<open>Realm_Manager.realm\<close> are discharged for the daemon's own virtual
  machine runner, client handler and application manager, so that everything proved
  about realms holds of the realms that the daemon builds.
\<close>

section \<open>Environment\<close>

record 'w NetworkManager =
  create_tap_device_for_realm :: "string \<Rightarrow> uuid \<Rightarrow> ('w, NetworkManagerError, unit) prog"
  shutdown_tap_device_for_realm :: "uuid \<Rightarrow> ('w, NetworkManagerError, unit) prog"

record ('h, 'f, 'g, 'w) FabricEnv =
  fe_us :: "uuid \<Rightarrow> string"
  fe_parse :: "string \<Rightarrow> string + uuid"
  fe_files :: "('h, 'w) FileOps"
  fe_create_dir :: "path \<Rightarrow> ('w, io_error, unit) prog"
  fe_create_dir_all :: "path \<Rightarrow> ('w, io_error, unit) prog"
  fe_remove_dir_all :: "path \<Rightarrow> ('w, io_error, unit) prog"
  fe_read_dir :: "path \<Rightarrow> ('w, io_error, (io_error + DirEntry) list) prog"
  fe_app_yaml :: "ApplicationConfig Yaml"
  fe_realm_yaml :: "RealmConfig Yaml"
  fe_disk :: "('f, 'g, 'w) DiskEnv"
  fe_network :: "'w NetworkManager"

section \<open>Applications\<close>

record ApplicationFabric =
  realm_workdir_path :: path

definition af_create_application ::
  "('h, 'f, 'g, 'w) FabricEnv \<Rightarrow> ApplicationFabric \<Rightarrow> uuid \<Rightarrow> ApplicationConfig \<Rightarrow>
     ('w, RealmError, ApplicationManager) prog" where
  "af_create_application F self u config =
     (let path = create_workdir_path_with_uuid (fe_us F) (realm_workdir_path self) u in
      try_bind (map_err (\<lambda>e. ApplicationCreationFail (io_text e)) (fe_create_dir F path)) (\<lambda>_.
      try_bind (map_err (\<lambda>e. ApplicationCreationFail (disk_error_to_string e))
                 (of_result (ADM_new path (image_storage_size_mb config) (data_storage_size_mb config)))) (\<lambda>disk.
      try_bind (map_err (\<lambda>e. ApplicationCreationFail (repository_error_to_string e))
                 (YamlConfigRepository_new (fe_files F) (fe_app_yaml F) config (create_config_path path))) (\<lambda>repo.
      map_err (\<lambda>e. ApplicationCreationFail (application_error_to_string e))
        (ApplicationManager_new (fe_disk F) u repo disk)))))"

definition af_load_application ::
  "('h, 'f, 'g, 'w) FabricEnv \<Rightarrow> ApplicationFabric \<Rightarrow> uuid \<Rightarrow> ('w, RealmError, ApplicationManager) prog" where
  "af_load_application F self u =
     (let path = create_workdir_path_with_uuid (fe_us F) (realm_workdir_path self) u in
      try_bind (map_err (\<lambda>e. ApplicationCreationFail (repository_error_to_string e))
                 (YamlConfigRepository_from (fe_files F) (fe_app_yaml F) (create_config_path path))) (\<lambda>config.
      let app_config = repo_data config in
      try_bind (map_err (\<lambda>e. ApplicationCreationFail (disk_error_to_string e))
                 (of_result (ADM_new path (image_storage_size_mb app_config)
                                          (data_storage_size_mb app_config)))) (\<lambda>disk.
      map_err (\<lambda>e. ApplicationCreationFail (application_error_to_string e))
        (ApplicationManager_new (fe_disk F) u config disk))))"

definition ApplicationFabric_ops ::
  "('h, 'f, 'g, 'w) FabricEnv \<Rightarrow> ApplicationFabric \<Rightarrow> (ApplicationManager, 'w) ApplicationCreator" where
  "ApplicationFabric_ops F self =
     \<lparr>create_application_in = af_create_application F self,
      load_application_in = af_load_application F self\<rparr>"

section \<open>Realms\<close>

record 'vm RealmManagerFabric =
  vm_manager_creator :: "path \<Rightarrow> uuid \<Rightarrow> RealmConfig \<Rightarrow> VmManagerError + 'vm"
  warden_workdir_path :: path
  realm_connection_wait_time :: duration
  realm_response_wait_time :: duration

type_synonym ('vm, 'snd) BuiltRealm =
  "('vm, 'snd RealmClientHandler, ApplicationManager, ApplicationFabric) RealmManager"

definition load_applications ::
  "('h, 'f, 'g, 'w) FabricEnv \<Rightarrow> path \<Rightarrow> ApplicationFabric \<Rightarrow>
     ('w, WardenError, (uuid \<times> ApplicationManager) list) prog" where
  "load_applications F workdir fabric =
     try_bind (map_err (\<lambda>e. RealmCreationFail (io_text e))
                (read_subfolders_uuids (fe_read_dir F) (fe_parse F) workdir)) (\<lambda>uuids.
     try_bind (for_collect (\<lambda>u.
                 try_bind (map_err (\<lambda>e. RealmCreationFail (realm_error_to_string (fe_us F) e))
                            (af_load_application F fabric u)) (\<lambda>a.
                 ok (u, a))) uuids) (\<lambda>loaded.
     ok (hm_collect loaded)))"

definition rf_create_realm ::
  "('h, 'f, 'g, 'w) FabricEnv \<Rightarrow> 'vm RealmManagerFabric \<Rightarrow> uuid \<Rightarrow> RealmConfig \<Rightarrow>
     ('w, WardenError, ('vm, 'snd) BuiltRealm) prog" where
  "rf_create_realm F self rid config =
     (let workdir = create_workdir_path_with_uuid (fe_us F) (warden_workdir_path self) rid in
      try_bind (map_err (\<lambda>e. RealmCreationFail (io_text e)) (fe_create_dir F workdir)) (\<lambda>_.
      try_bind (map_err (\<lambda>e. RealmCreationFail (network_manager_error_to_string e))
                 (create_tap_device_for_realm (fe_network F) (tap_device (network config)) rid)) (\<lambda>_.
      try_bind (map_err (\<lambda>e. RealmCreationFail (vm_manager_error_to_string e))
                 (of_result (vm_manager_creator self workdir rid config))) (\<lambda>vm_manager.
      try_bind (map_err (\<lambda>e. RealmCreationFail (repository_error_to_string e))
                 (YamlConfigRepository_new (fe_files F) (fe_realm_yaml F) config
                   (create_config_path workdir))) (\<lambda>repo.
      ok (RealmManager_new repo [] vm_manager
            (RealmClientHandler_new (realm_connection_wait_time self) (realm_response_wait_time self))
            \<lparr>realm_workdir_path = workdir\<rparr>))))))"

definition rf_load_realm ::
  "('h, 'f, 'g, 'w) FabricEnv \<Rightarrow> 'vm RealmManagerFabric \<Rightarrow> uuid \<Rightarrow>
     ('w, WardenError, ('vm, 'snd) BuiltRealm) prog" where
  "rf_load_realm F self rid =
     (let workdir = create_workdir_path_with_uuid (fe_us F) (warden_workdir_path self) rid;
          application_fabric = \<lparr>realm_workdir_path = workdir\<rparr>;
          handler = RealmClientHandler_new (realm_connection_wait_time self) (realm_response_wait_time self) in
      try_bind (load_applications F workdir application_fabric) (\<lambda>loaded_applications.
      try_bind (map_err (\<lambda>e. RealmCreationFail (repository_error_to_string e))
                 (YamlConfigRepository_from (fe_files F) (fe_realm_yaml F)
                   (create_config_path workdir))) (\<lambda>repository.
      try_bind (map_err (\<lambda>e. RealmCreationFail (network_manager_error_to_string e))
                 (create_tap_device_for_realm (fe_network F)
                   (tap_device (network (repo_data repository))) rid)) (\<lambda>_.
      try_bind (map_err (\<lambda>e. RealmCreationFail (vm_manager_error_to_string e))
                 (of_result (vm_manager_creator self workdir rid (repo_data repository)))) (\<lambda>vm_manager.
      ok (RealmManager_new repository loaded_applications vm_manager handler application_fabric))))))"

definition rf_clean_up_realm ::
  "('h, 'f, 'g, 'w) FabricEnv \<Rightarrow> 'vm RealmManagerFabric \<Rightarrow> uuid \<Rightarrow> ('w, WardenError, unit) prog" where
  "rf_clean_up_realm F self rid =
     try_bind (map_err (\<lambda>e. DestroyFail (network_manager_error_to_string e))
                (shutdown_tap_device_for_realm (fe_network F) rid)) (\<lambda>_.
     map_err (\<lambda>e. DestroyFail (io_text e))
       (fe_remove_dir_all F (create_workdir_path_with_uuid (fe_us F) (warden_workdir_path self) rid)))"

definition RealmManagerFabric_ops ::
  "('h, 'f, 'g, 'w) FabricEnv \<Rightarrow> 'vm RealmManagerFabric \<Rightarrow> (('vm, 'snd) BuiltRealm, 'w) RealmCreator" where
  "RealmManagerFabric_ops F self =
     \<lparr>create_realm_in = rf_create_realm F self,
      load_realm_in = rf_load_realm F self,
      clean_up_realm_in = rf_clean_up_realm F self\<rparr>"

text \<open>The closure of \<open>build_daemon\<close> that makes the runner for a realm.\<close>

definition daemon_vm_creator ::
  "bool \<Rightarrow> bool \<Rightarrow> path \<Rightarrow> path \<Rightarrow> uuid \<Rightarrow> RealmConfig \<Rightarrow> VmManagerError + 'c VmRunner" where
  "daemon_vm_creator lkvm_runner cca_enable virtualizer_path path rid config =
     Inr (if lkvm_runner
          then (let runner = LkvmRunner_new virtualizer_path config;
                    runner = (if cca_enable then configure_cca_settings runner else runner) in
                VmRunner_new runner rid path)
          else VmRunner_new (QemuRunner_new virtualizer_path config) rid path)"

section \<open>Created applications and realms\<close>

lemma ApplicationManager_new_ok:
  "ApplicationManager_new D u repo d w = (Inr a, w') \<Longrightarrow>
     a = \<lparr>am_uuid = u, am_config = repo, am_disk = d\<rparr>"
  by (auto simp: ApplicationManager_new_def run_iffs)

lemma ADM_new_sizes:
  "ADM_new p i d = Inr a \<Longrightarrow>
     1 \<le> unat i \<and> unat i \<le> 102400 \<and> 1 \<le> unat d \<and> unat d \<le> 102400"
  by (auto simp: ADM_new_def validate_Inr split: sum.splits)

lemma af_create_ok:
  assumes "af_create_application F self u config w = (Inr a, w')"
  shows "am_uuid a = u \<and> adm_wf (am_disk a) \<and> repo_data (am_config a) = config \<and>
         1 \<le> unat (image_storage_size_mb config) \<and> unat (image_storage_size_mb config) \<le> 102400 \<and>
         1 \<le> unat (data_storage_size_mb config) \<and> unat (data_storage_size_mb config) \<le> 102400"
  using assms
  by (auto simp: af_create_application_def run_iffs Let_def YamlConfigRepository_new_def
      dest!: ApplicationManager_new_ok FileRepository_new_ok dest: ADM_new_sizes intro: ADM_new_wf)

lemma af_load_ok: "af_load_application F self u w = (Inr a, w') \<Longrightarrow> am_uuid a = u \<and> adm_wf (am_disk a)"
  by (auto simp: af_load_application_def run_iffs Let_def dest!: ApplicationManager_new_ok
      intro: ADM_new_wf)

lemma rf_create_ok:
  assumes "rf_create_realm F self rid config w = (Inr r, w')"
  shows "rm_state r = Halted \<and> rm_applications r = [] \<and> \<not> rch_connected (rm_client r) \<and>
         repo_data (rm_config r) = config"
  using assms
  by (auto simp: rf_create_realm_def run_iffs Let_def RealmManager_new_def RealmClientHandler_new_def
      rch_connected_def YamlConfigRepository_new_def dest!: FileRepository_new_ok)

lemma rf_load_ok:
  assumes "rf_load_realm F self rid w = (Inr r, w')"
  shows "rm_state r = Halted \<and> \<not> rch_connected (rm_client r)"
  using assms
  by (auto simp: rf_load_realm_def run_iffs Let_def RealmManager_new_def RealmClientHandler_new_def
      rch_connected_def)

interpretation rmf: realm_creator "RealmManagerFabric_ops F self" rm_state realm_app_keys
  by unfold_locales
    (auto simp: RealmManagerFabric_ops_def realm_app_keys_def hm_keys_def
      dest: rf_create_ok rf_load_ok)

section \<open>The daemon's realms\<close>

text \<open>The environment of a realm as the daemon builds it.\<close>

definition daemon_realm_env ::
  "('h, 'f, 'g, 'w) FabricEnv \<Rightarrow> ('c, 'w) ProcessOps \<Rightarrow> ('rx, 'snd, 'w) ClientEnv \<Rightarrow>
     ('w \<Rightarrow> uuid \<times> 'w) \<Rightarrow> (uuid list \<Rightarrow> 'w \<Rightarrow> uuid list) \<Rightarrow> ('w \<Rightarrow> nat) \<Rightarrow> ('w, string, unit) prog \<Rightarrow>
     ('c VmRunner, 'snd RealmClientHandler, ApplicationManager, ApplicationFabric, 'w) RealmEnv" where
  "daemon_realm_env F P C new_v4 order late join =
     \<lparr>re_vm = VmRunner_ops (fe_us F) P,
      re_client = RealmClientHandler_ops C,
      re_app = ApplicationManager_ops (fe_files F) (fe_app_yaml F) (fe_disk F) (RealmClientHandler_ops C),
      re_fabric = ApplicationFabric_ops F,
      re_new_v4 = new_v4, re_join_order = order, re_late_tasks = late, re_join = join\<rparr>"

interpretation dr: realm "daemon_realm_env F P C new_v4 order late join" vm_launched rch_connected am_uuid
  unfolding daemon_realm_env_def realm_def realm_axioms_def RealmEnv.simps
  by (intro conjI vmr.vm_manager_axioms rch.realm_client_axioms am.application_axioms)
    (auto simp: ApplicationFabric_ops_def dest: af_create_ok)

end
