(* ===== verification/Warden_Manager.thy ===== *)
theory Warden_Manager
  imports Interfaces Storage
begin

text \<open>
  The Warden (\<open>managers/warden_manager.rs\<close>) and the fabric that loads it at start-up
  (\<open>fabric/warden_fabric.rs\<close>): the map of realms, reached through the tables of
  \<open>Interfaces\<close>.

  A realm is an \<^verbatim>\<open>Arc<Mutex<...>>\<close>: \<open>wd_clones u\<close> counts the clones of the realm's
  \<open>Arc\<close> that client tasks hold, so that its \<open>strong_count\<close> is one more. The
  \<^verbatim>\<open>expect\<close> in \<open>destroy_realm\<close> is a panic of its own in the model.
\<close>

section \<open>The Warden\<close>

record 'realm WardenDaemon =
  realms_managers :: "(uuid \<times> 'realm) list"
  wd_clones :: "uuid \<Rightarrow> nat"

record ('realm, 'app, 'w) WardenEnv =
  we_realm :: "('realm, 'app, 'w) Realm"
  we_fabric :: "('realm, 'w) RealmCreator"
  we_new_v4 :: "'w \<Rightarrow> uuid \<times> 'w"
  we_us :: "uuid \<Rightarrow> string"

datatype 'e abort = Failed 'e | Panicked string

definition WardenDaemon_new :: "(uuid \<times> 'realm) list \<Rightarrow> 'realm WardenDaemon" where
  "WardenDaemon_new realms = \<lparr>realms_managers = realms, wd_clones = (\<lambda>_. 0)\<rparr>"

definition strong_count :: "'realm WardenDaemon \<Rightarrow> uuid \<Rightarrow> nat" where
  "strong_count d u = wd_clones d u + 1"

text \<open>A method of the realm that is filed under \<open>u\<close>.\<close>

definition on_realm ::
  "uuid \<Rightarrow> 'realm \<Rightarrow> ('realm \<times> 'w, 'e, 'a) prog \<Rightarrow> ('realm WardenDaemon \<times> 'w, 'e, 'a) prog" where
  "on_realm u r =
     zoom (\<lambda>(d, w). (r, w))
       (\<lambda>(r', w') (d, w). (d\<lparr>realms_managers := hm_insert u r' (realms_managers d)\<rparr>, w'))"

definition ensure_realm_can_be_deleted ::
  "('realm, 'app, 'w) WardenEnv \<Rightarrow> uuid \<Rightarrow> ('realm WardenDaemon \<times> 'w, WardenError, unit) prog" where
  "ensure_realm_can_be_deleted E u =
     try_bind (get fst) (\<lambda>d.
     try_bind (of_result (ok_or (NoSuchRealm u) (hm_get (realms_managers d) u))) (\<lambda>realm.
     if strong_count d u \<noteq> 1 then fail RealmIsBusy
     else
       try_bind (map_err (\<lambda>e. RealmInspect (realm_error_to_string (we_us E) e))
                  (on_realm u realm (r_get_realm_data (we_realm E)))) (\<lambda>data.
       if realm_state data \<noteq> Halted
       then fail (DestroyFail ''Can't destroy realm that isn't stopped.'')
       else ok ())))"

definition wd_create_realm ::
  "('realm, 'app, 'w) WardenEnv \<Rightarrow> uuid option \<Rightarrow> RealmConfig \<Rightarrow>
     ('realm WardenDaemon \<times> 'w, WardenError, uuid) prog" where
  "wd_create_realm E rid config =
     try_bind (in_world (\<lambda>w. case we_new_v4 E w of (v, w') \<Rightarrow> (Inr v, w'))) (\<lambda>fresh.
     let u = (case rid of Some i \<Rightarrow> i | None \<Rightarrow> fresh) in
     try_bind (get fst) (\<lambda>d.
     if hm_get (realms_managers d) u \<noteq> None then fail (RealmExists u)
     else
       try_bind (in_world (create_realm_in (we_fabric E) u config)) (\<lambda>realm.
       try_bind (upd (\<lambda>(d, w). (d\<lparr>realms_managers := hm_insert u realm (realms_managers d)\<rparr>, w))) (\<lambda>_.
       ok u))))"

definition wd_destroy_realm ::
  "('realm, 'app, 'w) WardenEnv \<Rightarrow> uuid \<Rightarrow> ('realm WardenDaemon \<times> 'w, WardenError abort, unit) prog" where
  "wd_destroy_realm E u =
     try_bind (map_err Failed (ensure_realm_can_be_deleted E u)) (\<lambda>_.
     try_bind (get fst) (\<lambda>d.
     try_bind (of_result (ok_or (Failed (NoSuchRealm u)) (hm_get (realms_managers d) u))) (\<lambda>realm.
     try_bind (upd (\<lambda>(d, w). (d\<lparr>realms_managers := hm_remove u (realms_managers d)\<rparr>, w))) (\<lambda>_.
     if strong_count d u \<noteq> 1 then fail (Panicked ''At this point Arc must be owned!'')
     else
       attempt (in_world (\<lambda>w. case r_destroy (we_realm E) (realm, w) of (x, (_, w')) \<Rightarrow> (x, w'))) (\<lambda>_.
       map_err Failed (in_world (clean_up_realm_in (we_fabric E) u)))))))"

definition describe_realm ::
  "('realm, 'app, 'w) WardenEnv \<Rightarrow> uuid \<Rightarrow> 'realm \<Rightarrow>
     ('realm WardenDaemon \<times> 'w, WardenError, RealmDescription) prog" where
  "describe_realm E u realm =
     try_bind (map_err (\<lambda>e. RealmInspect (realm_error_to_string (we_us E) e))
                (on_realm u realm (r_get_realm_data (we_realm E)))) (\<lambda>data.
     ok \<lparr>realm_uuid = u, realm_data = data\<rparr>)"

definition wd_list_realms ::
  "('realm, 'app, 'w) WardenEnv \<Rightarrow> ('realm WardenDaemon \<times> 'w, WardenError, RealmDescription list) prog" where
  "wd_list_realms E =
     try_bind (get (\<lambda>(d, w). realms_managers d)) (\<lambda>realms.
     for_collect (\<lambda>(u, realm). describe_realm E u realm) realms)"

definition wd_inspect_realm ::
  "('realm, 'app, 'w) WardenEnv \<Rightarrow> uuid \<Rightarrow> ('realm WardenDaemon \<times> 'w, WardenError, RealmDescription) prog" where
  "wd_inspect_realm E u =
     try_bind (get (\<lambda>(d, w). realms_managers d)) (\<lambda>realms.
     case hm_get realms u of
       Some realm \<Rightarrow> describe_realm E u realm
     | None \<Rightarrow> fail (NoSuchRealm u))"

text \<open>\<open>get_realm\<close> hands out a clone of the \<open>Arc\<close>; its holder drops it with \<open>drop_realm\<close>.\<close>

definition wd_get_realm :: "uuid \<Rightarrow> ('realm WardenDaemon \<times> 'w, WardenError, 'realm) prog" where
  "wd_get_realm u =
     try_bind (get fst) (\<lambda>d.
     try_bind (of_result (ok_or (NoSuchRealm u) (hm_get (realms_managers d) u))) (\<lambda>realm.
     try_bind (upd (\<lambda>(d, w). (d\<lparr>wd_clones := (wd_clones d)(u := wd_clones d u + 1)\<rparr>, w))) (\<lambda>_.
     ok realm)))"

definition drop_realm :: "uuid \<Rightarrow> 'realm WardenDaemon \<Rightarrow> 'realm WardenDaemon" where
  "drop_realm u d = d\<lparr>wd_clones := (wd_clones d)(u := wd_clones d u - 1)\<rparr>"

section \<open>Loading the Warden\<close>

definition WardenFabric_new ::
  "(path \<Rightarrow> ('w, io_error, unit) prog) \<Rightarrow> path \<Rightarrow> ('w, io_error, path) prog" where
  "WardenFabric_new create_dir_all workdir =
     try_bind (create_dir_all workdir) (\<lambda>_. ok workdir)"

definition create_warden ::
  "(path \<Rightarrow> ('w, io_error, (io_error + DirEntry) list) prog) \<Rightarrow> (string \<Rightarrow> string + uuid) \<Rightarrow>
     ('realm, 'w) RealmCreator \<Rightarrow> path \<Rightarrow> ('w, io_error + WardenError, 'realm WardenDaemon) prog" where
  "create_warden read_dir parse creator workdir =
     try_bind (map_err Inl (read_subfolders_uuids read_dir parse workdir)) (\<lambda>uuids.
     try_bind (for_collect (\<lambda>u.
                 try_bind (map_err Inr (load_realm_in creator u)) (\<lambda>r. ok (u, r))) uuids) (\<lambda>loaded.
     ok (WardenDaemon_new (hm_collect loaded))))"

lemma keyed_collect:
  assumes "for_collect (\<lambda>u. try_bind (map_err g (m u)) (\<lambda>r. ok (u, r))) us v = (Inr ls, v')"
  shows "map fst ls = us \<and> (\<forall>(u, r) \<in> set ls. \<exists>v v'. m u v = (Inr r, v'))"
  using assms
proof (induction us arbitrary: v ls)
  case Nil
  then show ?case by (simp add: run_iffs)
next
  case (Cons u us)
  then obtain r v1 ls' where "m u v = (Inr r, v1)" and "ls = (u, r) # ls'"
    and l: "for_collect (\<lambda>u. try_bind (map_err g (m u)) (\<lambda>r. ok (u, r))) us v1 = (Inr ls', v')"
    by (auto simp: run_iffs)
  with Cons.IH [OF l] show ?case by auto
qed

section \<open>Runs of the operations\<close>

lemma on_realm_iff:
  "on_realm u r m (d, w) = (x, t) \<longleftrightarrow>
     (\<exists>r' w'. m (r, w) = (x, (r', w')) \<and>
        t = (d\<lparr>realms_managers := hm_insert u r' (realms_managers d)\<rparr>, w'))"
  by (auto simp: on_realm_def zoom_Inr_iff)

lemmas warden_iffs = run_iffs on_realm_iff

text \<open>Two Wardens that agree on every realm but \<open>u\<close> and on the clones.\<close>

definition warden_frame :: "uuid \<Rightarrow> 'realm WardenDaemon \<Rightarrow> 'realm WardenDaemon \<Rightarrow> bool" where
  "warden_frame u d d' \<longleftrightarrow>
     wd_clones d' = wd_clones d \<and>
     (\<forall>v. v \<noteq> u \<longrightarrow> hm_get (realms_managers d') v = hm_get (realms_managers d) v) \<and>
     (hm_wf (realms_managers d) \<longrightarrow> hm_wf (realms_managers d'))"

lemma ensure_run:
  assumes "ensure_realm_can_be_deleted E u (d, w) = (x, (d', w'))"
  shows "warden_frame u d d' \<and>
         (hm_get (realms_managers d') u = None \<longleftrightarrow> hm_get (realms_managers d) u = None) \<and>
         (x = Inr () \<longrightarrow> wd_clones d u = 0 \<and>
            (\<exists>r r' data. hm_get (realms_managers d) u = Some r \<and>
               r_get_realm_data (we_realm E) (r, w) = (Inr data, (r', w')) \<and>
               realm_state data = Halted \<and>
               d' = d\<lparr>realms_managers := hm_insert u r' (realms_managers d)\<rparr>))"
  using assms
  by (cases x)
    (auto simp: ensure_realm_can_be_deleted_def warden_iffs warden_frame_def strong_count_def
      split: if_splits)

lemma destroy_run:
  assumes "wd_destroy_realm E u (d, w) = (x, (d', w'))"
  shows "warden_frame u d d' \<and> (\<forall>m. x \<noteq> Inl (Panicked m)) \<and>
         (hm_get (realms_managers d') u \<noteq> None \<longrightarrow> x \<noteq> Inr ())"
proof -
  obtain y d1 w1 where e: "ensure_realm_can_be_deleted E u (d, w) = (y, (d1, w1))"
    by (metis prod.exhaust)
  show ?thesis
    using assms e ensure_run [OF e]
    by (cases y)
      (auto simp: wd_destroy_realm_def prog_defs in_world_def warden_frame_def strong_count_def
        split: prod.splits sum.splits option.splits if_splits)
qed

lemma destroy_ok:
  assumes "wd_destroy_realm E u (d, w) = (Inr x, (d', w'))"
  shows "wd_clones d u = 0 \<and> hm_get (realms_managers d') u = None \<and>
         (\<exists>r r' w1 data. hm_get (realms_managers d) u = Some r \<and>
            r_get_realm_data (we_realm E) (r, w) = (Inr data, (r', w1)) \<and> realm_state data = Halted)"
  using assms
  by (auto simp: wd_destroy_realm_def warden_iffs strong_count_def dest!: ensure_run split: if_splits)

lemma destroy_refused:
  "hm_get (realms_managers d) u = None \<Longrightarrow>
     wd_destroy_realm E u (d, w) = (Inl (Failed (NoSuchRealm u)), (d, w))"
  "hm_get (realms_managers d) u = Some r \<Longrightarrow> wd_clones d u > 0 \<Longrightarrow>
     wd_destroy_realm E u (d, w) = (Inl (Failed RealmIsBusy), (d, w))"
  by (simp_all add: wd_destroy_realm_def ensure_realm_can_be_deleted_def prog_defs strong_count_def)

lemma create_refused:
  assumes "hm_get (realms_managers d) i \<noteq> None"
  shows "\<exists>w'. wd_create_realm E (Some i) config (d, w) = (Inl (RealmExists i), (d, w'))"
  using assms by (auto simp: wd_create_realm_def prog_defs in_world_def Let_def split: prod.splits)

lemma create_run:
  assumes "wd_create_realm E rid config (d, w) = (x, (d', w'))"
  shows "case x of
           Inl e \<Rightarrow> d' = d
         | Inr u \<Rightarrow> (\<forall>i. rid = Some i \<longrightarrow> u = i) \<and> hm_get (realms_managers d) u = None \<and>
             (\<exists>r w1 w2. create_realm_in (we_fabric E) u config w1 = (Inr r, w2) \<and>
                d' = d\<lparr>realms_managers := hm_insert u r (realms_managers d)\<rparr>)"
  using assms
  by (cases x)
    (auto simp: wd_create_realm_def warden_iffs Let_def split: if_splits option.splits prod.splits)

lemma describe_run:
  assumes "describe_realm E u r (d, w) = (x, (d', w'))" and "hm_get (realms_managers d) u \<noteq> None"
  shows "warden_frame u d d' \<and> hm_keys (realms_managers d') = hm_keys (realms_managers d)"
  using assms
  by (cases x) (auto simp: describe_realm_def warden_iffs warden_frame_def hm_keys_insert_mem)

lemma get_realm_run:
  assumes "wd_get_realm u (d, w) = (x, (d', w'))"
  shows "case x of
           Inl e \<Rightarrow> e = NoSuchRealm u \<and> hm_get (realms_managers d) u = None \<and> d' = d \<and> w' = w
         | Inr r \<Rightarrow> hm_get (realms_managers d) u = Some r \<and> w' = w \<and>
             d' = d\<lparr>wd_clones := (wd_clones d)(u := wd_clones d u + 1)\<rparr>"
  using assms by (cases x) (auto simp: wd_get_realm_def warden_iffs)

lemma describe_all_run:
  assumes "for_collect (\<lambda>(u, r). describe_realm E u r) rs (d, w) = (x, (d', w'))"
    and "fst ` set rs \<subseteq> set (hm_keys (realms_managers d))"
  shows "hm_keys (realms_managers d') = hm_keys (realms_managers d) \<and> wd_clones d' = wd_clones d"
  using assms
proof (induction rs arbitrary: d w x d' w')
  case Nil
  then show ?case by (simp add: run_iffs)
next
  case (Cons p rs)
  obtain y d1 w1 where h: "describe_realm E (fst p) (snd p) (d, w) = (y, (d1, w1))"
    by (metis prod.exhaust)
  with Cons.prems(2) have k: "hm_keys (realms_managers d1) = hm_keys (realms_managers d)"
    "wd_clones d1 = wd_clones d"
    by (auto simp: warden_frame_def hm_keys_iff dest: describe_run)
  show ?case
  proof (cases y)
    case (Inl e)
    with Cons.prems(1) h k show ?thesis by (auto simp: prog_defs split_beta)
  next
    case (Inr a)
    obtain z d2 w2 where t: "for_collect (\<lambda>(u, r). describe_realm E u r) rs (d1, w1) = (z, (d2, w2))"
      by (metis prod.exhaust)
    have "fst ` set rs \<subseteq> set (hm_keys (realms_managers d1))"
      using Cons.prems(2) k by simp
    from Cons.IH [OF t this] have "hm_keys (realms_managers d2) = hm_keys (realms_managers d)"
      "wd_clones d2 = wd_clones d" using k by simp_all
    moreover have "d' = d2"
      using Cons.prems(1) h t Inr by (cases p) (auto simp: prog_defs split: sum.splits)
    ultimately show ?thesis by simp
  qed
qed

lemma list_kept:
  assumes "wd_list_realms E (d, w) = (x, (d', w'))"
  shows "hm_keys (realms_managers d') = hm_keys (realms_managers d) \<and> wd_clones d' = wd_clones d"
proof -
  have "for_collect (\<lambda>(u, r). describe_realm E u r) (realms_managers d) (d, w) = (x, (d', w'))"
    using assms by (simp add: wd_list_realms_def prog_defs)
  from describe_all_run [OF this] show ?thesis
    by (simp add: hm_keys_def)
qed

section \<open>Interleaved client tasks\<close>

text \<open>
  Client tasks run concurrently. An operation of the Warden holds the Warden's lock and
  is one step; between taking a clone of a realm and dropping it, the task runs
  operations of that realm while other tasks go on. The second component is the list of
  clones held, one entry per task that is between the two.
\<close>

inductive warden_step ::
  "('realm, 'app, 'w) WardenEnv \<Rightarrow> 'realm WardenDaemon \<times> uuid list \<Rightarrow>
     'realm WardenDaemon \<times> uuid list \<Rightarrow> bool" for E where
  step_create: "wd_create_realm E rid config (d, w) = (x, (d', w')) \<Longrightarrow> warden_step E (d, h) (d', h)"
| step_destroy: "wd_destroy_realm E u (d, w) = (y, (d', w')) \<Longrightarrow> warden_step E (d, h) (d', h)"
| step_list: "wd_list_realms E (d, w) = (z, (d', w')) \<Longrightarrow> warden_step E (d, h) (d', h)"
| step_inspect: "wd_inspect_realm E u (d, w) = (v, (d', w')) \<Longrightarrow> warden_step E (d, h) (d', h)"
| step_get: "wd_get_realm u (d, w :: 'w) = (Inr r, (d', w')) \<Longrightarrow> warden_step E (d, h) (d', u # h)"
| step_use: "u \<in> set h \<Longrightarrow> hm_get (realms_managers d) u = Some r \<Longrightarrow>
     warden_step E (d, h) (d\<lparr>realms_managers := hm_insert u r' (realms_managers d)\<rparr>, h)"
| step_drop: "u \<in> set h \<Longrightarrow> warden_step E (d, h) (drop_realm u d, remove1 u h)"

inductive_cases warden_stepE: "warden_step E s t"

definition clones_ok :: "'realm WardenDaemon \<times> uuid list \<Rightarrow> bool" where
  "clones_ok s \<longleftrightarrow>
     (\<forall>u. wd_clones (fst s) u = count_list (snd s) u) \<and>
     (\<forall>u \<in> set (snd s). hm_get (realms_managers (fst s)) u \<noteq> None)"

lemma count_list_remove1:
  "count_list (remove1 u h) v = (if u \<in> set h \<and> v = u then count_list h v - 1 else count_list h v)"
  by (induction h) auto

lemma clones_ok_keys:
  assumes "clones_ok (d, h)" and "hm_keys (realms_managers d') = hm_keys (realms_managers d)"
    and "wd_clones d' = wd_clones d"
  shows "clones_ok (d', h)"
  using assms by (metis (no_types, lifting) clones_ok_def fst_conv hm_keys_iff snd_conv)

lemma inspect_kept:
  assumes "wd_inspect_realm E u (d, w) = (x, (d', w'))"
  shows "hm_keys (realms_managers d') = hm_keys (realms_managers d) \<and> wd_clones d' = wd_clones d"
proof (cases "hm_get (realms_managers d) u")
  case None
  with assms show ?thesis by (simp add: wd_inspect_realm_def prog_defs)
next
  case (Some r)
  with assms have "describe_realm E u r (d, w) = (x, (d', w'))"
    by (simp add: wd_inspect_realm_def prog_defs)
  from describe_run [OF this] Some show ?thesis by (simp add: warden_frame_def)
qed

lemma destroy_clones_ok:
  assumes "wd_destroy_realm E u (d, w) = (x, (d', w'))" and ok: "clones_ok (d, h)"
  shows "clones_ok (d', h)"
proof (cases "u \<in> set h")
  case True
  with ok obtain r where "hm_get (realms_managers d) u = Some r" "wd_clones d u > 0"
    by (auto simp: clones_ok_def count_list_0_iff neq0_conv [symmetric] simp del: neq0_conv)
  with assms(1) ok show ?thesis by (simp add: destroy_refused)
next
  case False
  with destroy_run [OF assms(1)] ok show ?thesis
    by (auto simp: clones_ok_def warden_frame_def)
qed

lemma warden_step_clones_ok:
  assumes "warden_step E s t" and "clones_ok s"
  shows "clones_ok t"
  using assms
proof (cases rule: warden_step.cases)
  case (step_create rid config d w x d' w' h)
  with create_run [OF step_create(3)] assms(2) show ?thesis
    by (cases x) (auto simp: clones_ok_def)
next
  case (step_get u d w r d' w' h)
  with get_realm_run [OF step_get(3)] assms(2) show ?thesis
    by (auto simp: clones_ok_def)
next
  case (step_drop u h d)
  with assms(2) show ?thesis
    by (auto simp: clones_ok_def drop_realm_def count_list_remove1 dest: notin_set_remove1)
qed (use assms(2) in \<open>auto intro: destroy_clones_ok clones_ok_keys dest: list_kept inspect_kept\<close>,
     auto simp: clones_ok_def)

lemma warden_steps_clones_ok: "(warden_step E)\<^sup>*\<^sup>* s t \<Longrightarrow> clones_ok s \<Longrightarrow> clones_ok t"
  by (induction rule: rtranclp_induct) (auto intro: warden_step_clones_ok)

section \<open>The Warden over lawful realms\<close>

locale warden =
  realm_object "we_realm E" st app_keys + realm_creator "we_fabric E" st app_keys
  for E :: "('realm, 'app, 'w) WardenEnv"
    and st :: "'realm \<Rightarrow> State"
    and app_keys :: "'realm \<Rightarrow> uuid list"
begin

lemma created:
  assumes "wd_create_realm E rid config (d, w) = (Inr u, (d', w'))"
  shows "hm_get (realms_managers d) u = None \<and>
         (\<exists>r. hm_get (realms_managers d') u = Some r \<and> st r = Halted \<and> app_keys r = [])"
  using create_run [OF assms] by (auto dest: created_halted)

lemma destroyed_halted:
  assumes "wd_destroy_realm E u (d, w) = (Inr x, (d', w'))"
  shows "\<exists>r. hm_get (realms_managers d) u = Some r \<and> st r = Halted"
  using destroy_ok [OF assms] by (auto dest: data_reported)

lemma destroy_not_halted:
  assumes "hm_get (realms_managers d) u = Some r" and "wd_clones d u = 0" and "st r \<noteq> Halted"
    and "r_get_realm_data (we_realm E) (r, w) = (y, (r', w'))"
  shows "wd_destroy_realm E u (d, w) =
     (Inl (Failed (case y of Inl e \<Rightarrow> RealmInspect (realm_error_to_string (we_us E) e)
                   | Inr _ \<Rightarrow> DestroyFail ''Can't destroy realm that isn't stopped.'')),
      (d\<lparr>realms_managers := hm_insert u r' (realms_managers d)\<rparr>, w'))"
  using assms data_reported [of r w "projr y" r' w']
  by (cases y) (auto simp: wd_destroy_realm_def ensure_realm_can_be_deleted_def on_realm_def zoom_def strong_count_def prog_defs)

lemma inspected:
  assumes "wd_inspect_realm E u (d, w) = (Inr x, (d', w'))"
  shows "\<exists>r. hm_get (realms_managers d) u = Some r \<and> realm_uuid x = u \<and>
           realm_state (realm_data x) = st r \<and> realm_applications (realm_data x) = app_keys r"
  using assms
  by (auto simp: wd_inspect_realm_def describe_realm_def warden_iffs dest: data_reported
      split: option.splits)

lemma described:
  "for_collect (\<lambda>(u, r). describe_realm E u r) rs s = (Inr ds, t) \<Longrightarrow>
     map (\<lambda>x. (realm_uuid x, realm_state (realm_data x))) ds = map (\<lambda>(u, r). (u, st r)) rs"
  by (induction rs arbitrary: s ds)
    (auto simp: run_iffs describe_realm_def on_realm_iff split: prod.splits dest: data_reported)

lemma listed:
  assumes "wd_list_realms E (d, w) = (Inr ds, (d', w'))"
  shows "map (\<lambda>x. (realm_uuid x, realm_state (realm_data x))) ds =
         map (\<lambda>(u, r). (u, st r)) (realms_managers d)"
  using assms by (auto simp: wd_list_realms_def run_iffs dest: described)

lemma loaded:
  assumes "create_warden read_dir parse (we_fabric E) workdir w = (Inr d, w')"
  shows "\<exists>uuids w1. read_subfolders_uuids read_dir parse workdir w = (Inr uuids, w1) \<and>
           set (hm_keys (realms_managers d)) = set uuids \<and> hm_wf (realms_managers d) \<and>
           (\<forall>u r. hm_get (realms_managers d) u = Some r \<longrightarrow> st r = Halted) \<and>
           wd_clones d = (\<lambda>_. 0)"
proof -
  obtain uuids w1 ls where r: "read_subfolders_uuids read_dir parse workdir w = (Inr uuids, w1)"
    and l: "for_collect (\<lambda>u. try_bind (map_err (Inr :: WardenError \<Rightarrow> io_error + WardenError)
                (load_realm_in (we_fabric E) u)) (\<lambda>r. ok (u, r))) uuids w1 = (Inr ls, w')"
    and d: "d = WardenDaemon_new (hm_collect ls)"
    using assms by (auto simp: create_warden_def run_iffs)
  from keyed_collect [OF l] r d show ?thesis
    by (force simp: WardenDaemon_new_def hm_keys_iff hm_collect_dom
        dest!: hm_collect_get dest: loaded_halted)
qed

end

end
