(* ===== verification/Client_Handler.thy ===== *)
theory Client_Handler
  imports Warden_Manager Realm_Client
begin

text \<open>
  The daemon's side of a client connection (\<open>client_handler/client_command_handler.rs\<close>):
  every command is carried out on the Warden and its realms, every outcome becomes one
  response, and the connection ends when the client closes it, a request cannot be
  read, a response cannot be sent or the daemon is cancelled.

  A command on a realm takes a clone of the realm, runs the operation and drops the
  clone (\<open>with_realm\<close>).
\<close>

section \<open>Errors\<close>

datatype ClientError =
    ClientInvalidRequest string
  | ClientWardenDaemonError WardenError
  | RealmManagerError RealmError
  | ClientApplicationError ApplicationError
  | SendingResponseFail string

fun client_error_to_string :: "(uuid \<Rightarrow> string) \<Rightarrow> ClientError \<Rightarrow> string" where
  "client_error_to_string us (ClientInvalidRequest m) = ''Failed to read request. Error: '' @ m"
| "client_error_to_string us (ClientWardenDaemonError e) =
     ''Warden error occured: '' @ warden_error_to_string us e"
| "client_error_to_string us (RealmManagerError e) =
     ''Realm error occured: '' @ realm_error_to_string us e"
| "client_error_to_string us (ClientApplicationError e) =
     ''Application error occured: '' @ application_error_to_string e"
| "client_error_to_string us (SendingResponseFail m) = ''Failed to send response. Error: '' @ m"

type_synonym ('realm, 'w, 'a) handler = "('realm WardenDaemon \<times> 'w, ClientError abort, 'a) prog"

section \<open>Commands\<close>

definition drop_clone :: "uuid \<Rightarrow> ('realm WardenDaemon \<times> 'w, 'e, unit) prog" where
  "drop_clone u = upd (\<lambda>(d, w). (drop_realm u d, w))"

definition ch_get_realm :: "uuid \<Rightarrow> ('realm, 'w, 'realm) handler" where
  "ch_get_realm u = map_err (\<lambda>e. Failed (ClientWardenDaemonError e)) (wd_get_realm u)"

definition with_realm ::
  "uuid \<Rightarrow> ('realm \<times> 'w, RealmError, 'a) prog \<Rightarrow> ('realm, 'w, 'a) handler" where
  "with_realm u m =
     try_bind (ch_get_realm u) (\<lambda>realm.
     attempt (map_err (\<lambda>e. Failed (RealmManagerError e)) (on_realm u realm m)) (\<lambda>res.
     try_bind (drop_clone u) (\<lambda>_.
     of_result res)))"

definition ch_get_application ::
  "('realm, 'app, 'w) WardenEnv \<Rightarrow> uuid \<Rightarrow> uuid \<Rightarrow> ('realm, 'w, 'app) handler" where
  "ch_get_application E realm_id application_id =
     with_realm realm_id (\<lambda>(r, w). (r_get_application (we_realm E) r application_id, (r, w)))"

text \<open>
  An application is used after the clone of its realm is gone; the realm it acts on is
  the one that is filed under the same identifier.
\<close>

definition on_application_of ::
  "uuid \<Rightarrow> ('realm \<times> 'w, ApplicationError, unit) prog \<Rightarrow> ('realm, 'w, unit) handler" where
  "on_application_of u m =
     try_bind (get (\<lambda>(d, w). hm_get (realms_managers d) u)) (\<lambda>found.
     case found of
       None \<Rightarrow> ok ()
     | Some realm \<Rightarrow> map_err (\<lambda>e. Failed (ClientApplicationError e)) (on_realm u realm m))"

fun handle_command ::
  "('realm, 'app, 'w) WardenEnv \<Rightarrow> WardenCommand \<Rightarrow> ('realm, 'w, WardenResponse) handler" where
  "handle_command E (FetchToken u challenge) =
     try_bind (with_realm u (r_fetch_attestation_token (we_realm E) challenge)) (\<lambda>token.
     ok (WAttestationToken token))"
| "handle_command E (StartRealm u) =
     try_bind (with_realm u (r_start (we_realm E))) (\<lambda>_. ok WOk)"
| "handle_command E (CreateRealm config) =
     try_bind (map_err (\<lambda>e. Failed (ClientWardenDaemonError e))
                (wd_create_realm E (c_id config) (realm_config_from config))) (\<lambda>u.
     ok (WCreatedRealm u))"
| "handle_command E (StopRealm u) =
     try_bind (with_realm u (r_stop (we_realm E))) (\<lambda>_. ok WOk)"
| "handle_command E (DestroyRealm u) =
     try_bind (map_err (map_abort ClientWardenDaemonError) (wd_destroy_realm E u)) (\<lambda>_. ok WOk)"
| "handle_command E (RebootRealm u) =
     try_bind (with_realm u (r_reboot (we_realm E))) (\<lambda>_. ok WOk)"
| "handle_command E (InspectRealm u) =
     try_bind (map_err (\<lambda>e. Failed (ClientWardenDaemonError e)) (wd_inspect_realm E u)) (\<lambda>data.
     ok (WInspectedRealm (c_realm_description_from data)))"
| "handle_command E ListRealms =
     try_bind (map_err (\<lambda>e. Failed (ClientWardenDaemonError e)) (wd_list_realms E)) (\<lambda>listed.
     ok (WListedRealms (map c_realm_description_from listed)))"
| "handle_command E (CreateApplication realm_id config) =
     try_bind (with_realm realm_id
                (r_create_application (we_realm E) (application_config_from config))) (\<lambda>u.
     ok (WCreatedApplication u))"
| "handle_command E (StartApplication realm_id application_id) =
     try_bind (ch_get_application E realm_id application_id) (\<lambda>application.
     try_bind (on_application_of realm_id (r_application_start (we_realm E) application)) (\<lambda>_.
     ok WOk))"
| "handle_command E (StopApplication realm_id application_id) =
     try_bind (ch_get_application E realm_id application_id) (\<lambda>application.
     try_bind (on_application_of realm_id (r_application_stop (we_realm E) application)) (\<lambda>_.
     ok WOk))"
| "handle_command E (UpdateApplication realm_id application_id config) =
     try_bind (with_realm realm_id
                (r_update_application (we_realm E) application_id (application_config_from config))) (\<lambda>_.
     ok WOk)"

fun create_response :: "WardenDaemonError + WardenResponse \<Rightarrow> WardenResponse" where
  "create_response (Inr response) = response"
| "create_response (Inl warden_error) = WError warden_error"

section \<open>A connection\<close>

record ('st, 'realm) Connection =
  communicator :: 'st
  conn_warden :: "'realm WardenDaemon"

definition on_communicator ::
  "('st \<times> 'w, 'e, 'a) prog \<Rightarrow> (('st, 'realm) Connection \<times> 'w, 'e, 'a) prog" where
  "on_communicator =
     zoom (\<lambda>(c, w). (communicator c, w)) (\<lambda>(s, w') (c, w). (c\<lparr>communicator := s\<rparr>, w'))"

definition on_warden ::
  "('realm WardenDaemon \<times> 'w, 'e, 'a) prog \<Rightarrow> (('st, 'realm) Connection \<times> 'w, 'e, 'a) prog" where
  "on_warden =
     zoom (\<lambda>(c, w). (conn_warden c, w)) (\<lambda>(d, w') (c, w). (c\<lparr>conn_warden := d\<rparr>, w'))"

definition send_response ::
  "('st, WardenCommand, WardenResponse, 'w) FrameOps \<Rightarrow> WardenResponse \<Rightarrow>
     (('st, 'realm) Connection \<times> 'w, ClientError abort, unit) prog" where
  "send_response F response =
     map_err (\<lambda>e. Failed (SendingResponseFail (json_framed_error_to_string e)))
       (on_communicator (json_send F response))"

definition send_handle_result ::
  "('st, WardenCommand, WardenResponse, 'w) FrameOps \<Rightarrow> WardenDaemonError + WardenResponse \<Rightarrow>
     (('st, 'realm) Connection \<times> 'w, ClientError abort, unit) prog" where
  "send_handle_result F handle_result = send_response F (create_response handle_result)"

definition handle_client_command ::
  "('realm, 'app, 'w) WardenEnv \<Rightarrow> ('st, WardenCommand, WardenResponse, 'w) FrameOps \<Rightarrow>
     WardenCommand \<Rightarrow> (('st, 'realm) Connection \<times> 'w, ClientError abort, unit) prog" where
  "handle_client_command E F command =
     attempt (on_warden (handle_command E command)) (\<lambda>res.
     case res of
       Inr response \<Rightarrow> send_handle_result F (Inr response)
     | Inl (Failed client_err) \<Rightarrow>
         send_handle_result F (Inl (WardenDaemonFail (client_error_to_string (we_us E) client_err)))
     | Inl (Panicked m) \<Rightarrow> fail (Panicked m))"

text \<open>
  The loop of a connection. \<open>cancelled\<close> is the runtime's choice, in each \<^verbatim>\<open>select!\<close>,
  of the cancellation over the next request. A connection may stay open for ever, so the
  loop has fuel; \<open>None\<close> is a connection that is still open.
\<close>

fun handle_client_requests ::
  "('realm, 'app, 'w) WardenEnv \<Rightarrow> ('st, WardenCommand, WardenResponse, 'w) FrameOps \<Rightarrow> ('w \<Rightarrow> bool) \<Rightarrow>
     nat \<Rightarrow> (('st, 'realm) Connection \<times> 'w, ClientError abort, unit option) prog" where
  "handle_client_requests E F cancelled 0 = ok None"
| "handle_client_requests E F cancelled (Suc n) =
     try_bind (get (\<lambda>(c, w). cancelled w)) (\<lambda>stop.
     if stop then ok (Some ())
     else
       attempt (on_communicator (json_recv F)) (\<lambda>command_result.
       case command_result of
         Inr command \<Rightarrow>
           try_bind (handle_client_command E F command) (\<lambda>_.
           handle_client_requests E F cancelled n)
       | Inl StreamIsClosed \<Rightarrow> ok (Some ())
       | Inl _ \<Rightarrow> try_bind (send_response F (WError ReadingRequestFail)) (\<lambda>_. ok (Some ()))))"

section \<open>What a command does\<close>

lemma with_realm_run:
  assumes "with_realm u m (d, w) = (x, (d', w'))"
  shows "case hm_get (realms_managers d) u of
           None \<Rightarrow> x = Inl (Failed (ClientWardenDaemonError (NoSuchRealm u))) \<and> d' = d \<and> w' = w
         | Some r \<Rightarrow> (\<exists>y r'. m (r, w) = (y, (r', w')) \<and>
             x = map_sum (\<lambda>e. Failed (RealmManagerError e)) id y \<and>
             d' = d\<lparr>realms_managers := hm_insert u r' (realms_managers d)\<rparr>)"
proof (cases "hm_get (realms_managers d) u")
  case None
  with assms show ?thesis by (auto simp: with_realm_def ch_get_realm_def wd_get_realm_def prog_defs)
next
  case (Some r)
  obtain y r' w1 where m: "m (r, w) = (y, (r', w1))" by (metis prod.exhaust)
  show ?thesis
    using assms Some m
    by (cases y)
      (auto simp: with_realm_def ch_get_realm_def wd_get_realm_def on_realm_def drop_clone_def
        drop_realm_def prog_defs)
qed

lemma warden_frame_insert: "warden_frame u d (d\<lparr>realms_managers := hm_insert u r (realms_managers d)\<rparr>)"
  by (simp add: warden_frame_def)

lemma warden_frame_refl [simp]: "warden_frame u d d"
  by (simp add: warden_frame_def)

lemma warden_frame_trans: "warden_frame u d e \<Longrightarrow> warden_frame u e f \<Longrightarrow> warden_frame u d f"
  by (auto simp: warden_frame_def)

lemma with_realm_frame:
  assumes "with_realm u m (d, w) = (x, (d', w'))"
  shows "warden_frame u d d' \<and> (\<forall>p. x \<noteq> Inl (Panicked p))"
  using with_realm_run [OF assms]
  by (auto simp: warden_frame_insert split: option.splits)

lemma on_application_of_frame:
  assumes "on_application_of u m (d, w) = (x, (d', w'))"
  shows "warden_frame u d d' \<and> (\<forall>p. x \<noteq> Inl (Panicked p))"
  using assms
  by (cases x)
    (auto simp: on_application_of_def warden_iffs warden_frame_insert split: option.splits)

text \<open>The realm that a command names.\<close>

fun target :: "WardenCommand \<Rightarrow> uuid option" where
  "target (FetchToken u challenge) = Some u"
| "target (StartRealm u) = Some u"
| "target (CreateRealm config) = None"
| "target (StopRealm u) = Some u"
| "target (DestroyRealm u) = Some u"
| "target (RebootRealm u) = Some u"
| "target (InspectRealm u) = Some u"
| "target ListRealms = None"
| "target (CreateApplication u config) = Some u"
| "target (StartApplication u application_id) = Some u"
| "target (StopApplication u application_id) = Some u"
| "target (UpdateApplication u application_id config) = Some u"

lemma try_ok_run:
  assumes "try_bind m (\<lambda>y. ok (f y)) s = (x, t)"
  shows "\<exists>y. m s = (y, t) \<and> x = map_sum id f y"
  using assms by (auto simp: prog_defs split: prod.splits sum.splits)

lemma application_command_frame:
  assumes "try_bind (ch_get_application E u a) (\<lambda>app.
             try_bind (on_application_of u (m app)) (\<lambda>_. ok WOk)) (d, w) = (x, (d', w'))"
  shows "warden_frame u d d' \<and> (\<forall>p. x \<noteq> Inl (Panicked p))"
proof -
  obtain y d1 w1 where g: "ch_get_application E u a (d, w) = (y, (d1, w1))" by (metis prod.exhaust)
  note f = with_realm_frame [OF g [unfolded ch_get_application_def]]
  show ?thesis
  proof (cases y)
    case (Inl e)
    with assms g f show ?thesis by (auto simp: prog_defs)
  next
    case (Inr app)
    with assms g have "try_bind (on_application_of u (m app)) (\<lambda>_. ok WOk) (d1, w1) = (x, (d', w'))"
      by (simp add: prog_defs)
    from try_ok_run [OF this] f show ?thesis
      by (auto dest!: on_application_of_frame intro: warden_frame_trans)
  qed
qed

lemma inspect_frame:
  assumes "wd_inspect_realm E u (d, w) = (x, (d', w'))"
  shows "warden_frame u d d'"
  using assms
  by (cases x)
    (auto simp: wd_inspect_realm_def describe_realm_def warden_iffs warden_frame_insert
      split: option.splits)

lemma handle_command_frame:
  assumes "handle_command E c (d, w) = (x, (d', w'))" and "target c = Some u"
  shows "warden_frame u d d'"
  using assms
  by (cases c)
    (auto dest!: try_ok_run map_err_run dest: with_realm_frame destroy_run inspect_frame
      application_command_frame)

lemma handle_command_no_panic:
  assumes "handle_command E c (d, w) = (x, (d', w'))"
  shows "x \<noteq> Inl (Panicked p)"
proof (cases c)
  case (DestroyRealm u)
  obtain y where y: "wd_destroy_realm E u (d, w) = (y, (d', w'))"
      "x = map_sum (map_abort ClientWardenDaemonError) (\<lambda>_. WOk) y"
    using assms DestroyRealm by (auto dest!: try_ok_run map_err_run simp: map_sum.compositionality comp_def)
  show ?thesis
  proof (cases y)
    case (Inl z)
    with y destroy_run [OF y(1)] show ?thesis by (cases z) auto
  qed (use y in auto)
qed (use assms in \<open>auto dest!: try_ok_run map_err_run dest: with_realm_frame application_command_frame\<close>)

text \<open>The response that belongs to a command.\<close>

fun answers :: "WardenCommand \<Rightarrow> WardenResponse \<Rightarrow> bool" where
  "answers (FetchToken u challenge) r = (\<exists>t. r = WAttestationToken t)"
| "answers (CreateRealm config) r = (\<exists>u. r = WCreatedRealm u \<and> (\<forall>i. c_id config = Some i \<longrightarrow> u = i))"
| "answers (InspectRealm u) r = (\<exists>x. r = WInspectedRealm x \<and> c_uuid x = u)"
| "answers ListRealms r = (\<exists>xs. r = WListedRealms xs)"
| "answers (CreateApplication u config) r = (\<exists>a. r = WCreatedApplication a)"
| "answers c r = (r = WOk)"

lemma inspect_uuid: "wd_inspect_realm E u s = (Inr x, t) \<Longrightarrow> realm_uuid x = u"
  by (cases s)
    (auto simp: wd_inspect_realm_def describe_realm_def warden_iffs split: option.splits)

lemma handle_command_answers:
  assumes "handle_command E c (d, w) = (Inr r, (d', w'))"
  shows "answers c r"
  using assms
  by (cases c)
    (auto simp: run_iffs c_realm_description_from_def dest!: inspect_uuid dest: create_run)

text \<open>A command for a realm that is not there changes nothing and says so.\<close>

lemma handle_command_no_such_realm:
  assumes "target c = Some u" and "hm_get (realms_managers d) u = None"
  shows "handle_command E c (d, w) =
           (Inl (Failed (ClientWardenDaemonError (NoSuchRealm u))), (d, w))"
  using assms
  by (cases c)
    (auto simp: with_realm_def ch_get_realm_def wd_get_realm_def ch_get_application_def
      wd_inspect_realm_def destroy_refused prog_defs)

section \<open>Serving a connection\<close>

text \<open>
  The specification of a connection: the commands one after the other, each answered
  once, in order.
\<close>

definition response_of :: "(uuid \<Rightarrow> string) \<Rightarrow> ClientError abort + WardenResponse \<Rightarrow> WardenResponse" where
  "response_of us res =
     (case res of
        Inr response \<Rightarrow> response
      | Inl (Failed e) \<Rightarrow> WError (WardenDaemonFail (client_error_to_string us e))
      | Inl (Panicked m) \<Rightarrow> WError WSendingResponseFail)"

fun serve ::
  "('realm, 'app, 'w) WardenEnv \<Rightarrow> WardenCommand list \<Rightarrow> 'realm WardenDaemon \<times> 'w \<Rightarrow>
     WardenResponse list \<times> ('realm WardenDaemon \<times> 'w)" where
  "serve E [] s = ([], s)"
| "serve E (c # cs) s =
     (case handle_command E c s of (res, s') \<Rightarrow>
      (case serve E cs s' of (rs, t) \<Rightarrow> (response_of (we_us E) res # rs, t)))"

text \<open>
  A transport that delivers a list of requests and then the end of the stream, and
  collects the responses.
\<close>

definition queue_frames :: "('i list \<times> 'o list, 'i, 'o, 'w) FrameOps" where
  "queue_frames =
     \<lparr>try_next = (\<lambda>((is, os), w). case is of [] \<Rightarrow> (Inr None, (([], os), w))
                               | i # is' \<Rightarrow> (Inr (Some i), ((is', os), w))),
      frame_send = (\<lambda>x ((is, os), w). (Inr (), ((is, os @ [x]), w)))\<rparr>"

lemma handle_client_command_queue:
  "handle_client_command E queue_frames c
     (\<lparr>communicator = (is, os), conn_warden = d\<rparr>, w) =
   (case handle_command E c (d, w) of (res, (d', w')) \<Rightarrow>
      (Inr (), (\<lparr>communicator = (is, os @ [response_of (we_us E) res]), conn_warden = d'\<rparr>, w')))"
  by (auto simp: handle_client_command_def send_handle_result_def send_response_def on_warden_def
      on_communicator_def json_send_def queue_frames_def response_of_def prog_defs
      split: prod.splits sum.splits abort.splits dest: handle_command_no_panic)

lemma handle_client_requests_queue:
  assumes "length cs < n"
  shows "handle_client_requests E queue_frames (\<lambda>_. False) n
           (\<lparr>communicator = (cs, os), conn_warden = d\<rparr>, w) =
         (case serve E cs (d, w) of (rs, (d', w')) \<Rightarrow>
            (Inr (Some ()), (\<lparr>communicator = ([], os @ rs), conn_warden = d'\<rparr>, w')))"
  using assms
proof (induction cs arbitrary: n os d w)
  case Nil
  then show ?case
    by (cases n) (auto simp: prog_defs on_communicator_def json_recv_def queue_frames_def)
next
  case (Cons c cs)
  then obtain k where n: "n = Suc k" "length cs < k" by (cases n) auto
  obtain res d1 w1 where h: "handle_command E c (d, w) = (res, (d1, w1))" by (metis prod.exhaust)
  note q = handle_client_command_queue [of E c cs os d w]
  show ?case
    using Cons.IH [OF n(2), of "os @ [response_of (we_us E) res]" d1 w1] n h q
    by (auto simp: prog_defs on_communicator_def json_recv_def queue_frames_def split: prod.splits)
qed

end
