(* ===== verification/Vsock_Server.thy ===== *)
theory Vsock_Server
  imports Realm_Client
begin

text \<open>
  The vsock server that realms connect to (\<open>socket/vsocket_server.rs\<close>): the map from
  context identifiers to the one-shot channel of whoever waits for that realm, and the
  accept loop. The channels are explicit: a channel is created pending, its sending half
  sits in the map and its receiving half with the waiting \<open>RealmClientHandler\<close>, and
  either half can be dropped.
\<close>

section \<open>One-shot channels\<close>

datatype 'snd Channel = Pending | Delivered 'snd | RxDropped | TxDropped

type_synonym 'snd Channels = "'snd Channel list"

definition oneshot :: "'snd Channels \<Rightarrow> nat \<times> 'snd Channels" where
  "oneshot cs = (length cs, cs @ [Pending])"

text \<open>Dropping a half changes only a channel on which nothing happened yet.\<close>

definition drop_tx :: "nat \<Rightarrow> 'snd Channels \<Rightarrow> 'snd Channels" where
  "drop_tx i cs = (if i < length cs \<and> cs ! i = Pending then cs[i := TxDropped] else cs)"

definition drop_rx :: "nat \<Rightarrow> 'snd Channels \<Rightarrow> 'snd Channels" where
  "drop_rx i cs = (if i < length cs \<and> cs ! i = Pending then cs[i := RxDropped] else cs)"

definition tx_send :: "nat \<Rightarrow> 'snd \<Rightarrow> ('snd Channels, unit, unit) prog" where
  "tx_send i x cs =
     (if i < length cs \<and> cs ! i = Pending then (Inr (), cs[i := Delivered x]) else (Inl (), cs))"

section \<open>The server\<close>

datatype VSockServerError =
    ChannelFail
  | UnexpectedConnection
  | SocketFail io_error

record VSockServerConfig =
  vs_cid :: u32
  vs_port :: u32

record VSockServer =
  vs_config :: VSockServerConfig
  waiting :: "(u32 \<times> nat) list"

definition VSockServer_new :: "VSockServerConfig \<Rightarrow> VSockServer" where
  "VSockServer_new config = \<lparr>vs_config = config, waiting = []\<rparr>"

text \<open>Inserting into the map drops the sender that was there for the same identifier.\<close>

definition vs_acquire_realm_sender ::
  "u32 \<Rightarrow> VSockServer \<times> 'snd Channels \<Rightarrow> nat \<times> (VSockServer \<times> 'snd Channels)" where
  "vs_acquire_realm_sender cid = (\<lambda>(s, cs).
     case oneshot cs of (i, cs1) \<Rightarrow>
       let cs2 = (case hm_get (waiting s) cid of None \<Rightarrow> cs1 | Some old \<Rightarrow> drop_tx old cs1) in
       (i, (s\<lparr>waiting := hm_insert cid i (waiting s)\<rparr>, cs2)))"

definition handle_accept ::
  "'snd \<Rightarrow> u32 \<Rightarrow> (VSockServer \<times> 'snd Channels, VSockServerError, unit) prog" where
  "handle_accept stream cid =
     try_bind (get (\<lambda>(s, cs). hm_get (waiting s) cid)) (\<lambda>removed.
     case removed of
       Some tx \<Rightarrow>
         try_bind (upd (\<lambda>(s, cs). (s\<lparr>waiting := hm_remove cid (waiting s)\<rparr>, cs))) (\<lambda>_.
         map_err (\<lambda>_. ChannelFail) (zoom snd (\<lambda>cs (s, _). (s, cs)) (tx_send tx stream)))
     | None \<Rightarrow> fail UnexpectedConnection)"

text \<open>
  The accept loop over what happens to it: connections, a failing \<open>accept\<close>, the
  cancellation. \<open>None\<close>: still listening when the events end.
\<close>

datatype 'snd ListenEvent = Accepted 'snd u32 | AcceptFailed io_error | ListenCancelled

fun listen_loop ::
  "'snd ListenEvent list \<Rightarrow> (VSockServer \<times> 'snd Channels, VSockServerError, unit option) prog" where
  "listen_loop [] = ok None"
| "listen_loop (Accepted stream cid # es) =
     try_bind (handle_accept stream cid) (\<lambda>_. listen_loop es)"
| "listen_loop (AcceptFailed err # es) = fail (SocketFail err)"
| "listen_loop (ListenCancelled # es) = ok (Some ())"

definition vs_listen ::
  "(u32 \<Rightarrow> u32 \<Rightarrow> io_error + unit) \<Rightarrow> 'snd ListenEvent list \<Rightarrow>
     (VSockServer \<times> 'snd Channels, VSockServerError, unit option) prog" where
  "vs_listen bind es =
     try_bind (get (\<lambda>(s, cs). vs_config s)) (\<lambda>config.
     try_bind (map_err SocketFail (of_result (bind (vs_cid config) (vs_port config)))) (\<lambda>_.
     listen_loop es))"

text \<open>What the holder of a receiver sees.\<close>

definition poll_rx :: "nat \<Rightarrow> 'snd Channels \<Rightarrow> 'snd Channel" where
  "poll_rx i cs = (if i < length cs then cs ! i else TxDropped)"

section \<open>Delivery\<close>

text \<open>
  The invariant of the map: every sender in it is the sending half of an existing channel
  on which nothing was delivered and whose sender was not dropped, and no two entries
  share a channel.
\<close>

definition vs_wf :: "VSockServer \<times> 'snd Channels \<Rightarrow> bool" where
  "vs_wf = (\<lambda>(s, cs).
     (\<forall>c i. hm_get (waiting s) c = Some i \<longrightarrow>
        i < length cs \<and> (cs ! i = Pending \<or> cs ! i = RxDropped)) \<and>
     (\<forall>c c' i. hm_get (waiting s) c = Some i \<and> hm_get (waiting s) c' = Some i \<longrightarrow> c = c'))"

lemma vs_wf_len: "vs_wf (s, cs) \<Longrightarrow> hm_get (waiting s) c = Some i \<Longrightarrow> i < length cs"
  by (auto simp: vs_wf_def)

lemma vs_wf_chan:
  "vs_wf (s, cs) \<Longrightarrow> hm_get (waiting s) c = Some i \<Longrightarrow> cs ! i = Pending \<or> cs ! i = RxDropped"
  by (auto simp: vs_wf_def)

lemma vs_wf_inj:
  "vs_wf (s, cs) \<Longrightarrow> hm_get (waiting s) c = Some i \<Longrightarrow> hm_get (waiting s) c' = Some i \<Longrightarrow> c = c'"
  by (auto simp: vs_wf_def)

lemma vs_wfI:
  assumes "\<And>c i. hm_get (waiting s) c = Some i \<Longrightarrow> i < length cs"
    and "\<And>c i. hm_get (waiting s) c = Some i \<Longrightarrow> cs ! i = Pending \<or> cs ! i = RxDropped"
    and "\<And>c c' i. hm_get (waiting s) c = Some i \<Longrightarrow> hm_get (waiting s) c' = Some i \<Longrightarrow> c = c'"
  shows "vs_wf (s, cs)"
  using assms by (auto simp: vs_wf_def)

lemma vs_wf_new: "vs_wf (VSockServer_new config, cs)"
  by (simp add: vs_wf_def VSockServer_new_def)

lemma acquire_run:
  "vs_acquire_realm_sender cid (s, cs) =
     (length cs,
      (s\<lparr>waiting := hm_insert cid (length cs) (waiting s)\<rparr>,
       (case hm_get (waiting s) cid of None \<Rightarrow> cs @ [Pending] | Some old \<Rightarrow> drop_tx old (cs @ [Pending]))))"
  by (simp add: vs_acquire_realm_sender_def oneshot_def)

lemma nth_drop_tx:
  "drop_tx i cs ! j = (if j = i \<and> i < length cs \<and> cs ! i = Pending then TxDropped else cs ! j)"
  by (simp add: drop_tx_def nth_list_update)

lemma length_drop_tx [simp]: "length (drop_tx i cs) = length cs"
  by (simp add: drop_tx_def)

lemma acquire_wf:
  assumes "vs_acquire_realm_sender cid s = (i, t)" and wf: "vs_wf s"
  shows "vs_wf t"
proof (cases s)
  case (Pair a cs)
  note wf = wf [unfolded Pair]
  let ?cs = "case hm_get (waiting a) cid of None \<Rightarrow> cs @ [Pending] | Some old \<Rightarrow> drop_tx old (cs @ [Pending])"
  have t: "t = (a\<lparr>waiting := hm_insert cid (length cs) (waiting a)\<rparr>, ?cs)"
    using assms(1) Pair by (auto simp: acquire_run)
  have len: "length ?cs = Suc (length cs)" by (simp split: option.split)
  have old: "?cs ! j = cs ! j" if "hm_get (waiting a) c = Some j" "c \<noteq> cid" for c j
  proof -
    have "j < length cs" using vs_wf_len [OF wf that(1)] .
    moreover have "hm_get (waiting a) cid \<noteq> Some j" using vs_wf_inj [OF wf that(1)] that(2) by blast
    ultimately show ?thesis by (auto simp: nth_drop_tx nth_append split: option.split)
  qed
  have new: "?cs ! length cs = Pending"
    by (auto simp: nth_drop_tx nth_append split: option.split dest: vs_wf_len [OF wf])
  show ?thesis
    unfolding t
  proof (rule vs_wfI, goal_cases)
    case (1 c i)
    then show ?case unfolding len by (auto dest: vs_wf_len [OF wf] split: if_splits)
  next
    case (2 c i)
    then show ?case using old [of c i] new by (auto dest: vs_wf_chan [OF wf] split: if_splits)
  next
    case (3 c c' i)
    then show ?case by (auto dest: vs_wf_len [OF wf] vs_wf_inj [OF wf] split: if_splits)
  qed
qed

lemma acquire_pending:
  assumes "vs_acquire_realm_sender cid (s, cs) = (i, (s', cs'))" and wf: "vs_wf (s, cs)"
  shows "poll_rx i cs' = Pending \<and> hm_get (waiting s') cid = Some i"
proof -
  have "old < length cs" if "hm_get (waiting s) cid = Some old" for old
    using vs_wf_len [OF wf that] .
  with assms(1) show ?thesis
    by (fastforce simp: acquire_run poll_rx_def nth_drop_tx split: option.splits)
qed

lemma acquire_other:
  assumes "vs_acquire_realm_sender cid (s, cs) = (i, (s', cs'))" and wf: "vs_wf (s, cs)"
    and "hm_get (waiting s) c = Some j" and "c \<noteq> cid"
  shows "hm_get (waiting s') c = Some j \<and> poll_rx j cs' = poll_rx j cs"
proof -
  have "j < length cs" using vs_wf_len [OF wf assms(3)] .
  moreover have "hm_get (waiting s) cid \<noteq> Some j" using vs_wf_inj [OF wf assms(3)] assms(4) by blast
  ultimately show ?thesis
    using assms(1,3,4)
    by (auto simp: acquire_run poll_rx_def nth_drop_tx nth_append split: option.splits)
qed

lemma acquire_displaced:
  assumes "vs_acquire_realm_sender cid (s, cs) = (i, (s', cs'))" and wf: "vs_wf (s, cs)"
    and "hm_get (waiting s) cid = Some j" and "poll_rx j cs = Pending"
  shows "poll_rx j cs' = TxDropped"
  using assms(1,3,4) vs_wf_len [OF wf assms(3)]
  by (auto simp: acquire_run poll_rx_def nth_drop_tx nth_append)

lemma handle_accept_run:
  "handle_accept stream cid (s, cs) =
     (case hm_get (waiting s) cid of
        None \<Rightarrow> (Inl UnexpectedConnection, (s, cs))
      | Some tx \<Rightarrow>
          (if tx < length cs \<and> cs ! tx = Pending
           then (Inr (), (s\<lparr>waiting := hm_remove cid (waiting s)\<rparr>, cs[tx := Delivered stream]))
           else (Inl ChannelFail, (s\<lparr>waiting := hm_remove cid (waiting s)\<rparr>, cs))))"
  by (simp add: handle_accept_def prog_defs tx_send_def split: option.split)

lemma handle_accept_wf:
  assumes "handle_accept stream cid s = (x, t)" and wf: "vs_wf s"
  shows "vs_wf t"
proof (cases s)
  case (Pair a cs)
  note wf = wf [unfolded Pair]
  show ?thesis
  proof (cases "hm_get (waiting a) cid")
    case None
    with assms(1) Pair wf show ?thesis by (simp add: handle_accept_run)
  next
    case (Some tx)
    have other: "cs[tx := v] ! i = cs ! i" if "hm_get (waiting a) c = Some i" "c \<noteq> cid" for c i v
      using vs_wf_inj [OF wf that(1)] Some that(2) by (metis nth_list_update_neq)
    have "vs_wf (a\<lparr>waiting := hm_remove cid (waiting a)\<rparr>, cs[tx := Delivered stream])"
      by (rule vs_wfI)
        (auto dest: vs_wf_len [OF wf] vs_wf_inj [OF wf] vs_wf_chan [OF wf] simp: other
          split: if_splits)
    moreover have "vs_wf (a\<lparr>waiting := hm_remove cid (waiting a)\<rparr>, cs)"
      by (rule vs_wfI)
        (auto dest: vs_wf_len [OF wf] vs_wf_chan [OF wf] vs_wf_inj [OF wf] split: if_splits)
    ultimately show ?thesis
      using assms(1) Pair Some by (auto simp: handle_accept_run split: if_splits)
  qed
qed

lemma handle_accept_delivers:
  assumes "hm_get (waiting s) cid = Some i" and "poll_rx i cs = Pending"
  shows "\<exists>s' cs'. handle_accept stream cid (s, cs) = (Inr (), (s', cs')) \<and>
           poll_rx i cs' = Delivered stream \<and> hm_get (waiting s') cid = None \<and>
           (\<forall>j. j \<noteq> i \<longrightarrow> poll_rx j cs' = poll_rx j cs)"
  using assms by (auto simp: handle_accept_run poll_rx_def split: if_splits)

end
