(* ===== verification/Dnsmasq.thy ===== *)
theory Dnsmasq
  imports Protocol Os
begin

text \<open>
  The DHCP and DNS server of the realm network (\<open>virtualization/dhcp.rs\<close>,
  \<open>virtualization/dnsmasq_server_handler.rs\<close>): its command line, the address range it hands
  out, starting and stopping it. The address arithmetic of the \<open>ipnet\<close> crate and the
  printing of addresses are arguments; \<open>net_lawful\<close> is the documented behaviour that the
  theorems about the range rely on.
\<close>

section \<open>Networks\<close>

record IpNet =
  ipnet_addr :: IpAddr
  prefix_len :: u8

record NetOps =
  ip_saturating_add :: "IpAddr \<Rightarrow> nat \<Rightarrow> IpAddr"
  ipnet_new :: "IpAddr \<Rightarrow> u8 \<Rightarrow> string + IpNet"
  show_ip :: "IpAddr \<Rightarrow> string"
  show_net :: "IpNet \<Rightarrow> string"

definition is_ipv6 :: "IpAddr \<Rightarrow> bool" where
  "is_ipv6 a = (case a of V4 _ \<Rightarrow> False | V6 _ \<Rightarrow> True)"

section \<open>The interface\<close>

datatype DHCPError = DHCPServerStart string | DHCPServerStop string

fun dhcp_error_to_string :: "DHCPError \<Rightarrow> string" where
  "dhcp_error_to_string (DHCPServerStart m) = ''Error while launching DHCP Server: '' @ m"
| "dhcp_error_to_string (DHCPServerStop m) = ''Error while stopping DHCP Server: '' @ m"

record ('d, 'w) DHCPServer =
  dhcp_start :: "IpNet \<Rightarrow> string \<Rightarrow> ('d \<times> 'w, DHCPError, unit) prog"
  dhcp_stop :: "('d \<times> 'w, DHCPError, unit) prog"

section \<open>The handler\<close>

datatype DnsmasqServerError =
    DInvalidPath
  | DAlreadyStarted
  | DSpawnFail io_error
  | DKillFail io_error
  | DWaitFail io_error
  | DAddressRange string

fun dnsmasq_error_to_string :: "DnsmasqServerError \<Rightarrow> string" where
  "dnsmasq_error_to_string DInvalidPath = ''Path to Dnsmasq server is invalid.''"
| "dnsmasq_error_to_string DAlreadyStarted = ''Dnsmasq Server already has been started.''"
| "dnsmasq_error_to_string (DSpawnFail e) = ''Spawning Dnsmasq failed: '' @ io_text e"
| "dnsmasq_error_to_string (DKillFail e) = ''Failed to kill Dnsmasq: '' @ io_text e"
| "dnsmasq_error_to_string (DWaitFail e) = ''Failed to wait for Dnsmasq exit: '' @ io_text e"
| "dnsmasq_error_to_string (DAddressRange m) = ''Can't calculate address range for DHCP: '' @ m"

record 'c DnsmasqServerHandler =
  dns_command :: Command
  dhcp_connections_number :: u8
  dns_child :: "'c option"

definition EXEC_NAME :: string where
  "EXEC_NAME = ''dnsmasq''"

text \<open>\<open>file_name p\<close> is \<^verbatim>\<open>Path::file_name\<close> as UTF-8 text, if there is one.\<close>

definition validate_exec_path ::
  "(path \<Rightarrow> string option) \<Rightarrow> path \<Rightarrow> DnsmasqServerError + unit" where
  "validate_exec_path file_name path_to_exec =
     (if file_name path_to_exec \<noteq> Some EXEC_NAME then Inl DInvalidPath else Inr ())"

definition add_dhcp_args :: "Command \<Rightarrow> Command" where
  "add_dhcp_args c =
     arg ''--bind-dynamic'' (arg ''--dhcp-authoritative'' (arg ''--dhcp-no-override'' (arg ''-k''
       (args [''-C'', ''/dev/null''] (args [''-I'', ''lo''] c)))))"

definition create_command :: "path \<Rightarrow> Command" where
  "create_command path_to_exec = add_dhcp_args (new_command path_to_exec)"

definition DnsmasqServerHandler_new ::
  "(path \<Rightarrow> string option) \<Rightarrow> path \<Rightarrow> u8 \<Rightarrow> DnsmasqServerError + 'c DnsmasqServerHandler" where
  "DnsmasqServerHandler_new file_name path_to_exec n =
     (case validate_exec_path file_name path_to_exec of
        Inl e \<Rightarrow> Inl e
      | Inr _ \<Rightarrow> Inr \<lparr>dns_command = create_command path_to_exec, dhcp_connections_number = n,
                       dns_child = None\<rparr>)"

definition add_dns_args :: "string list \<Rightarrow> 'c DnsmasqServerHandler \<Rightarrow> 'c DnsmasqServerHandler" where
  "add_dns_args dns_records s =
     s\<lparr>dns_command := foldl (\<lambda>c r. arg (''--address='' @ r) c) (dns_command s) dns_records\<rparr>"

definition calculate_next_addr :: "NetOps \<Rightarrow> IpNet \<Rightarrow> u8 \<Rightarrow> string + IpNet" where
  "calculate_next_addr N hostnet_ip offset =
     ipnet_new N (ip_saturating_add N (ipnet_addr hostnet_ip) (unat offset)) (prefix_len hostnet_ip)"

definition DHCP_POOL_START_OFFSET :: u8 where
  "DHCP_POOL_START_OFFSET = 1"

definition calculate_range_str :: "NetOps \<Rightarrow> IpNet \<Rightarrow> u8 \<Rightarrow> DnsmasqServerError + IpAddr \<times> IpAddr" where
  "calculate_range_str N hostnet_ip n =
     (case calculate_next_addr N hostnet_ip DHCP_POOL_START_OFFSET of
        Inl e \<Rightarrow> Inl (DAddressRange e)
      | Inr first \<Rightarrow>
          (case calculate_next_addr N hostnet_ip n of
             Inl e \<Rightarrow> Inl (DAddressRange e)
           | Inr final \<Rightarrow> Inr (ipnet_addr first, ipnet_addr final)))"

definition spawn_command ::
  "('c, 'w) ProcessOps \<Rightarrow> 'c DnsmasqServerHandler \<Rightarrow> ('w, DnsmasqServerError, 'c) prog" where
  "spawn_command P s =
     (if dns_child s \<noteq> None then fail DAlreadyStarted
      else map_err DSpawnFail (os_spawn P (dns_command s)))"

definition spawn_server ::
  "NetOps \<Rightarrow> ('c, 'w) ProcessOps \<Rightarrow> IpNet \<Rightarrow> string \<Rightarrow>
     ('c DnsmasqServerHandler \<times> 'w, DnsmasqServerError, unit) prog" where
  "spawn_server N P interface_ip interface_name =
     try_bind (get (\<lambda>(s, w). calculate_range_str N interface_ip (dhcp_connections_number s))) (\<lambda>range.
     try_bind (of_result range) (\<lambda>(first, final).
     try_bind (upd (\<lambda>(s, w). (s\<lparr>dns_command :=
         arg (''--dhcp-range='' @ show_ip N first @ '','' @ show_ip N final)
           (arg interface_name (arg ''-i'' (dns_command s)))\<rparr>, w))) (\<lambda>_.
     try_bind (get fst) (\<lambda>s.
     try_bind (in_world (spawn_command P s)) (\<lambda>child.
     upd (\<lambda>(s, w). (s\<lparr>dns_child := Some child\<rparr>, w)))))))"

definition kill_server ::
  "('c, 'w) ProcessOps \<Rightarrow> ('c DnsmasqServerHandler \<times> 'w, DnsmasqServerError, unit) prog" where
  "kill_server P =
     try_bind (get (\<lambda>(s, w). dns_child s)) (\<lambda>child.
     case child of
       None \<Rightarrow> ok ()
     | Some c \<Rightarrow>
         zoom (\<lambda>(s, w). (c, w)) (\<lambda>(c', w') (s, w). (s\<lparr>dns_child := Some c'\<rparr>, w'))
           (try_bind (map_err DKillFail (os_kill P)) (\<lambda>_.
            try_bind (map_err DWaitFail (os_wait P)) (\<lambda>_. ok ()))))"

definition Dnsmasq_ops ::
  "NetOps \<Rightarrow> ('c, 'w) ProcessOps \<Rightarrow> ('c DnsmasqServerHandler, 'w) DHCPServer" where
  "Dnsmasq_ops N P =
     \<lparr>dhcp_start = (\<lambda>ip name. map_err (\<lambda>e. DHCPServerStart (dnsmasq_error_to_string e)) (spawn_server N P ip name)),
      dhcp_stop = map_err (\<lambda>e. DHCPServerStop (dnsmasq_error_to_string e)) (kill_server P)\<rparr>"

section \<open>The address range\<close>

text \<open>
  Documented behaviour of the crate: the addition saturates at the highest address, and a
  network is built unless the prefix is longer than the address.
\<close>

fun add_saturating :: "IpAddr \<Rightarrow> nat \<Rightarrow> IpAddr" where
  "add_saturating (V4 a) n = V4 (if unat a + n < 2 ^ 32 then a + of_nat n else - 1)"
| "add_saturating (V6 a) n = V6 (if unat a + n < 2 ^ 128 then a + of_nat n else - 1)"

lemma sum_less_int: "(m :: nat) + n < k \<longleftrightarrow> int m + int n < int k"
  by linarith

lemma unat_sum_less: "unat (a :: 'a::len word) + n < k \<longleftrightarrow> uint a + int n < int k"
  by (metis of_nat_unat sum_less_int)

lemma add_saturating_code [code]:
  "add_saturating (V4 a) n = V4 (if uint a + int n < 4294967296 then a + of_nat n else - 1)"
  "add_saturating (V6 b) n = V6 (if uint b + int n < 340282366920938463463374607431768211456
                                 then b + of_nat n else - 1)"
  by (simp_all add: unat_sum_less)

definition addr_bits :: "IpAddr \<Rightarrow> nat" where
  "addr_bits a = (case a of V4 _ \<Rightarrow> 32 | V6 _ \<Rightarrow> 128)"

definition net_lawful :: "NetOps \<Rightarrow> bool" where
  "net_lawful N \<longleftrightarrow>
     (\<forall>a n. ip_saturating_add N a n = add_saturating a n) \<and>
     (\<forall>a p. unat p \<le> addr_bits a \<longrightarrow> ipnet_new N a p = Inr \<lparr>ipnet_addr = a, prefix_len = p\<rparr>)"

lemma addr_bits_add [simp]: "addr_bits (add_saturating a n) = addr_bits a"
  by (cases a) (auto simp: addr_bits_def)

lemma range_lawful:
  assumes "net_lawful N" and "unat (prefix_len ip) \<le> addr_bits (ipnet_addr ip)"
  shows "calculate_range_str N ip n =
         Inr (add_saturating (ipnet_addr ip) 1, add_saturating (ipnet_addr ip) (unat n))"
  using assms
  by (simp add: calculate_range_str_def calculate_next_addr_def net_lawful_def DHCP_POOL_START_OFFSET_def)

lemma unat_add_small:
  assumes "unat (a :: u32) + n < 2 ^ 32"
  shows "unat (a + of_nat n) = unat a + n"
  using assms by (simp add: unat_word_ariths unat_of_nat take_bit_eq_mod)

lemma spawn_server_ok:
  assumes "spawn_server N P ip name (s, w) = (Inr x, (s', w'))"
  shows "\<exists>first final c. calculate_range_str N ip (dhcp_connections_number s) = Inr (first, final) \<and>
           dns_child s = None \<and>
           dns_command s' = arg (''--dhcp-range='' @ show_ip N first @ '','' @ show_ip N final)
             (arg name (arg ''-i'' (dns_command s))) \<and>
           os_spawn P (dns_command s') w = (Inr c, w') \<and> dns_child s' = Some c"
  using assms
  by (auto simp: spawn_server_def spawn_command_def run_iffs split: if_splits)

text \<open>Stopping keeps the child, so a stopped server cannot be started again.\<close>

lemma kill_server_keeps_child:
  assumes "kill_server P (s, w) = (x, (s', w'))"
  shows "(dns_child s' = None) = (dns_child s = None)"
  using assms
  by (auto simp: kill_server_def prog_defs split: option.splits prod.splits)

end
