(* ===== verification/Daemon.thy ===== *)
theory Daemon
  imports Fabric Warden_Manager Client_Handler Vsock_Server Dnsmasq
begin

text \<open>
  The daemon as \<open>daemon.rs\<close> puts it together from the command line (\<open>cli.rs\<close>): the realm
  fabric with the runner that the flags choose, and the Warden over realms built by it.
  The interpretation discharges \<open>Warden_Manager.warden\<close> for that Warden.
\<close>

record Cli =
  cli_cid :: u32
  cli_port :: u32
  virtualizer_path :: path
  unix_sock_path :: path
  cli_warden_workdir_path :: path
  dhcp_exec_path :: path
  realm_connection_wait_time_secs :: u64
  realm_response_wait_time_secs :: u64
  bridge_name :: string
  network_address :: IpNet
  dhcp_total_clients :: u8
  dns_records :: "string list"
  lkvm_runner :: bool
  cca_enable :: bool

text \<open>The ranges that the \<^verbatim>\<open>value_parser\<close> attributes admit.\<close>

definition cli_valid :: "Cli \<Rightarrow> bool" where
  "cli_valid cli \<longleftrightarrow>
     2 \<le> unat (cli_cid cli) \<and> 80 \<le> unat (cli_port cli) \<and>
     2 \<le> unat (dhcp_total_clients cli) \<and> unat (dhcp_total_clients cli) < 253"

definition duration_from_secs :: "u64 \<Rightarrow> duration" where
  "duration_from_secs n = unat n"

definition create_vsock_server :: "u32 \<Rightarrow> u32 \<Rightarrow> VSockServer" where
  "create_vsock_server cid port = VSockServer_new \<lparr>vs_cid = cid, vs_port = port\<rparr>"

definition daemon_realm_fabric :: "Cli \<Rightarrow> 'c VmRunner RealmManagerFabric" where
  "daemon_realm_fabric cli =
     \<lparr>vm_manager_creator = daemon_vm_creator (lkvm_runner cli) (cca_enable cli) (virtualizer_path cli),
      warden_workdir_path = cli_warden_workdir_path cli,
      realm_connection_wait_time = duration_from_secs (realm_connection_wait_time_secs cli),
      realm_response_wait_time = duration_from_secs (realm_response_wait_time_secs cli)\<rparr>"

definition daemon_warden_env ::
  "('h, 'f, 'g, 'w) FabricEnv \<Rightarrow> ('c, 'w) ProcessOps \<Rightarrow> ('rx, 'snd, 'w) ClientEnv \<Rightarrow>
     ('w \<Rightarrow> uuid \<times> 'w) \<Rightarrow> (uuid list \<Rightarrow> 'w \<Rightarrow> uuid list) \<Rightarrow> ('w \<Rightarrow> nat) \<Rightarrow> ('w, string, unit) prog \<Rightarrow>
     Cli \<Rightarrow> (('c VmRunner, 'snd) BuiltRealm, ApplicationManager, 'w) WardenEnv" where
  "daemon_warden_env F P C new_v4 order late join cli =
     \<lparr>we_realm = RealmManager_ops (daemon_realm_env F P C new_v4 order late join),
      we_fabric = RealmManagerFabric_ops F (daemon_realm_fabric cli),
      we_new_v4 = new_v4, we_us = fe_us F\<rparr>"

interpretation dw: warden "daemon_warden_env F P C new_v4 order late join cli" rm_state realm_app_keys
  unfolding daemon_warden_env_def warden_def WardenEnv.simps
  by (intro conjI rmo.realm_object_axioms rmf.realm_creator_axioms)

lemma daemon_created_not_launched:
  assumes "rf_create_realm F (daemon_realm_fabric cli) rid config w = (Inr r, w')"
  shows "\<not> vm_launched (rm_vm r)"
  using assms
  by (auto simp: rf_create_realm_def run_iffs Let_def RealmManager_new_def daemon_realm_fabric_def
      daemon_vm_creator_def VmRunner_new_def vm_launched_def split: if_splits)

lemma daemon_loaded_not_launched:
  assumes "rf_load_realm F (daemon_realm_fabric cli) rid w = (Inr r, w')"
  shows "\<not> vm_launched (rm_vm r)"
  using assms
  by (auto simp: rf_load_realm_def run_iffs Let_def RealmManager_new_def daemon_realm_fabric_def
      daemon_vm_creator_def VmRunner_new_def vm_launched_def split: if_splits)

end
