(* ===== verification/Client_Lib.thy ===== *)
theory Client_Lib
  imports Client_Handler
begin

text \<open>
  The client library (\<open>warden/client_lib/src\<close>): one request handler per command, each
  sending the command and expecting the one response that belongs to it, and the
  \<open>WardenConnection\<close> that carries them. The last section joins the library with the
  daemon's command handler: what a caller of the library sees is exactly what the
  handler did.
\<close>

section \<open>Errors\<close>

datatype WardenClientError =
    ConnectionFailed path io_error
  | WardenOperationFail WardenDaemonError
  | ClientCommunicationFail JsonFramedError
  | ClientInvalidResponse WardenResponse

section \<open>Request handlers\<close>

type_synonym ('st, 'w) Communicator = "('st, WardenResponse, WardenCommand, 'w) FrameOps"

definition communicate ::
  "('st, 'w) Communicator \<Rightarrow> WardenCommand \<Rightarrow> ('st \<times> 'w, WardenClientError, WardenResponse) prog" where
  "communicate F command =
     try_bind (map_err ClientCommunicationFail (json_send F command)) (\<lambda>_.
     map_err ClientCommunicationFail (json_recv F))"

fun handle_error_response :: "WardenResponse \<Rightarrow> WardenClientError" where
  "handle_error_response (WError warden_error) = WardenOperationFail warden_error"
| "handle_error_response response = ClientInvalidResponse response"

definition cl_create_realm ::
  "('st, 'w) Communicator \<Rightarrow> C_RealmConfig \<Rightarrow> ('st \<times> 'w, WardenClientError, uuid) prog" where
  "cl_create_realm F config =
     try_bind (communicate F (CreateRealm config)) (\<lambda>response.
     case response of
       WCreatedRealm u \<Rightarrow> ok u
     | _ \<Rightarrow> fail (handle_error_response response))"

definition cl_start_realm ::
  "('st, 'w) Communicator \<Rightarrow> uuid \<Rightarrow> ('st \<times> 'w, WardenClientError, unit) prog" where
  "cl_start_realm F u =
     try_bind (communicate F (StartRealm u)) (\<lambda>response.
     case response of
       WOk \<Rightarrow> ok ()
     | _ \<Rightarrow> fail (handle_error_response response))"

definition cl_fetch_attestation_token ::
  "('st, 'w) Communicator \<Rightarrow> uuid \<Rightarrow> bytes \<Rightarrow> ('st \<times> 'w, WardenClientError, bytes) prog" where
  "cl_fetch_attestation_token F u challenge =
     try_bind (communicate F (FetchToken u challenge)) (\<lambda>response.
     case response of
       WAttestationToken token \<Rightarrow> ok token
     | _ \<Rightarrow> fail (handle_error_response response))"

definition cl_stop_realm ::
  "('st, 'w) Communicator \<Rightarrow> uuid \<Rightarrow> ('st \<times> 'w, WardenClientError, unit) prog" where
  "cl_stop_realm F u =
     try_bind (communicate F (StopRealm u)) (\<lambda>response.
     case response of
       WOk \<Rightarrow> ok ()
     | _ \<Rightarrow> fail (handle_error_response response))"

definition cl_reboot_realm ::
  "('st, 'w) Communicator \<Rightarrow> uuid \<Rightarrow> ('st \<times> 'w, WardenClientError, unit) prog" where
  "cl_reboot_realm F u =
     try_bind (communicate F (RebootRealm u)) (\<lambda>response.
     case response of
       WOk \<Rightarrow> ok ()
     | _ \<Rightarrow> fail (handle_error_response response))"

definition cl_destroy_realm ::
  "('st, 'w) Communicator \<Rightarrow> uuid \<Rightarrow> ('st \<times> 'w, WardenClientError, unit) prog" where
  "cl_destroy_realm F u =
     try_bind (communicate F (DestroyRealm u)) (\<lambda>response.
     case response of
       WOk \<Rightarrow> ok ()
     | _ \<Rightarrow> fail (handle_error_response response))"

definition cl_inspect_realm ::
  "('st, 'w) Communicator \<Rightarrow> uuid \<Rightarrow> ('st \<times> 'w, WardenClientError, C_RealmDescription) prog" where
  "cl_inspect_realm F u =
     try_bind (communicate F (InspectRealm u)) (\<lambda>response.
     case response of
       WInspectedRealm description \<Rightarrow> ok description
     | _ \<Rightarrow> fail (handle_error_response response))"

definition cl_list_realms ::
  "('st, 'w) Communicator \<Rightarrow> ('st \<times> 'w, WardenClientError, C_RealmDescription list) prog" where
  "cl_list_realms F =
     try_bind (communicate F ListRealms) (\<lambda>response.
     case response of
       WListedRealms descriptions \<Rightarrow> ok descriptions
     | _ \<Rightarrow> fail (handle_error_response response))"

definition cl_create_application ::
  "('st, 'w) Communicator \<Rightarrow> uuid \<Rightarrow> C_ApplicationConfig \<Rightarrow> ('st \<times> 'w, WardenClientError, uuid) prog" where
  "cl_create_application F realm_id config =
     try_bind (communicate F (CreateApplication realm_id config)) (\<lambda>response.
     case response of
       WCreatedApplication u \<Rightarrow> ok u
     | _ \<Rightarrow> fail (handle_error_response response))"

definition cl_update_application ::
  "('st, 'w) Communicator \<Rightarrow> uuid \<Rightarrow> uuid \<Rightarrow> C_ApplicationConfig \<Rightarrow> ('st \<times> 'w, WardenClientError, unit) prog" where
  "cl_update_application F realm_id application_id config =
     try_bind (communicate F (UpdateApplication realm_id application_id config)) (\<lambda>response.
     case response of
       WOk \<Rightarrow> ok ()
     | _ \<Rightarrow> fail (handle_error_response response))"

definition cl_start_application ::
  "('st, 'w) Communicator \<Rightarrow> uuid \<Rightarrow> uuid \<Rightarrow> ('st \<times> 'w, WardenClientError, unit) prog" where
  "cl_start_application F realm_id application_id =
     try_bind (communicate F (StartApplication realm_id application_id)) (\<lambda>response.
     case response of
       WOk \<Rightarrow> ok ()
     | _ \<Rightarrow> fail (handle_error_response response))"

definition cl_stop_application ::
  "('st, 'w) Communicator \<Rightarrow> uuid \<Rightarrow> uuid \<Rightarrow> ('st \<times> 'w, WardenClientError, unit) prog" where
  "cl_stop_application F realm_id application_id =
     try_bind (communicate F (StopApplication realm_id application_id)) (\<lambda>response.
     case response of
       WOk \<Rightarrow> ok ()
     | _ \<Rightarrow> fail (handle_error_response response))"

definition connect_to_warden_socket ::
  "(path \<Rightarrow> ('w, io_error, 'st) prog) \<Rightarrow> path \<Rightarrow> ('w, WardenClientError, 'st) prog" where
  "connect_to_warden_socket unix_connect warden_socket_path =
     map_err (ConnectionFailed warden_socket_path) (unix_connect warden_socket_path)"

section \<open>The connection\<close>

record 'st WardenConnection =
  wc_communicator :: 'st

definition WardenConnection_connect ::
  "(path \<Rightarrow> ('w, io_error, 'st) prog) \<Rightarrow> path \<Rightarrow> ('w, WardenClientError, 'st WardenConnection) prog" where
  "WardenConnection_connect unix_connect warden_socket_path =
     try_bind (connect_to_warden_socket unix_connect warden_socket_path) (\<lambda>stream.
     ok \<lparr>wc_communicator = stream\<rparr>)"

definition on_connection ::
  "('st \<times> 'w, 'e, 'a) prog \<Rightarrow> ('st WardenConnection \<times> 'w, 'e, 'a) prog" where
  "on_connection =
     zoom (\<lambda>(c, w). (wc_communicator c, w)) (\<lambda>(s, w') (c, w). (c\<lparr>wc_communicator := s\<rparr>, w'))"

definition wc_create_realm ::
  "('st, 'w) Communicator \<Rightarrow> C_RealmConfig \<Rightarrow>
     ('st WardenConnection \<times> 'w, WardenClientError, uuid) prog" where
  "wc_create_realm F config = on_connection (cl_create_realm F config)"

definition wc_start_realm ::
  "('st, 'w) Communicator \<Rightarrow> uuid \<Rightarrow>
     ('st WardenConnection \<times> 'w, WardenClientError, unit) prog" where
  "wc_start_realm F u = on_connection (cl_start_realm F u)"

definition wc_fetch_attestation_token ::
  "('st, 'w) Communicator \<Rightarrow> uuid \<Rightarrow> bytes \<Rightarrow>
     ('st WardenConnection \<times> 'w, WardenClientError, bytes) prog" where
  "wc_fetch_attestation_token F u challenge = on_connection (cl_fetch_attestation_token F u challenge)"

definition wc_stop_realm ::
  "('st, 'w) Communicator \<Rightarrow> uuid \<Rightarrow>
     ('st WardenConnection \<times> 'w, WardenClientError, unit) prog" where
  "wc_stop_realm F u = on_connection (cl_stop_realm F u)"

definition wc_reboot_realm ::
  "('st, 'w) Communicator \<Rightarrow> uuid \<Rightarrow>
     ('st WardenConnection \<times> 'w, WardenClientError, unit) prog" where
  "wc_reboot_realm F u = on_connection (cl_reboot_realm F u)"

definition wc_destroy_realm ::
  "('st, 'w) Communicator \<Rightarrow> uuid \<Rightarrow>
     ('st WardenConnection \<times> 'w, WardenClientError, unit) prog" where
  "wc_destroy_realm F u = on_connection (cl_destroy_realm F u)"

definition wc_inspect_realm ::
  "('st, 'w) Communicator \<Rightarrow> uuid \<Rightarrow>
     ('st WardenConnection \<times> 'w, WardenClientError, C_RealmDescription) prog" where
  "wc_inspect_realm F u = on_connection (cl_inspect_realm F u)"

definition wc_list_realms ::
  "('st, 'w) Communicator \<Rightarrow>
     ('st WardenConnection \<times> 'w, WardenClientError, C_RealmDescription list) prog" where
  "wc_list_realms F = on_connection (cl_list_realms F)"

definition wc_create_application ::
  "('st, 'w) Communicator \<Rightarrow> uuid \<Rightarrow> C_ApplicationConfig \<Rightarrow>
     ('st WardenConnection \<times> 'w, WardenClientError, uuid) prog" where
  "wc_create_application F realm_id config = on_connection (cl_create_application F realm_id config)"

definition wc_update_application ::
  "('st, 'w) Communicator \<Rightarrow> uuid \<Rightarrow> uuid \<Rightarrow> C_ApplicationConfig \<Rightarrow>
     ('st WardenConnection \<times> 'w, WardenClientError, unit) prog" where
  "wc_update_application F realm_id application_id config = on_connection (cl_update_application F realm_id application_id config)"

definition wc_start_application ::
  "('st, 'w) Communicator \<Rightarrow> uuid \<Rightarrow> uuid \<Rightarrow>
     ('st WardenConnection \<times> 'w, WardenClientError, unit) prog" where
  "wc_start_application F realm_id application_id = on_connection (cl_start_application F realm_id application_id)"

definition wc_stop_application ::
  "('st, 'w) Communicator \<Rightarrow> uuid \<Rightarrow> uuid \<Rightarrow>
     ('st WardenConnection \<times> 'w, WardenClientError, unit) prog" where
  "wc_stop_application F realm_id application_id = on_connection (cl_stop_application F realm_id application_id)"

section \<open>The library against the daemon\<close>

text \<open>
  A connection to a daemon that serves it: a sent command is handled and its response
  queued, and the next response is the oldest one queued.
\<close>

definition daemon_frames ::
  "('realm, 'app, 'w) WardenEnv \<Rightarrow>
     (WardenResponse list, 'realm WardenDaemon \<times> 'w) Communicator" where
  "daemon_frames E =
     \<lparr>try_next = (\<lambda>(q, s). case q of [] \<Rightarrow> (Inr None, ([], s)) | r # q' \<Rightarrow> (Inr (Some r), (q', s))),
      frame_send = (\<lambda>c (q, s). case handle_command E c s of (res, s') \<Rightarrow>
         (Inr (), (q @ [response_of (we_us E) res], s')))\<rparr>"

lemma communicate_daemon:
  "communicate (daemon_frames E) c ([], s) =
     (case handle_command E c s of (res, s') \<Rightarrow> (Inr (response_of (we_us E) res), ([], s')))"
  by (simp add: communicate_def daemon_frames_def json_send_def json_recv_def prog_defs
      split: prod.split)

text \<open>What the caller gets from the outcome of the handler.\<close>

definition client_view ::
  "(uuid \<Rightarrow> string) \<Rightarrow> ('r \<Rightarrow> 'a) \<Rightarrow> ClientError abort + 'r \<Rightarrow> WardenClientError + 'a" where
  "client_view us f res =
     (case res of
        Inr r \<Rightarrow> Inr (f r)
      | Inl (Failed e) \<Rightarrow> Inl (WardenOperationFail (WardenDaemonFail (client_error_to_string us e)))
      | Inl (Panicked m) \<Rightarrow> Inl (WardenOperationFail WSendingResponseFail))"

definition daemon_answer ::
  "('realm, 'app, 'w) WardenEnv \<Rightarrow> WardenCommand \<Rightarrow> (WardenResponse \<Rightarrow> 'a) \<Rightarrow>
     'realm WardenDaemon \<times> 'w \<Rightarrow>
     (WardenClientError + 'a) \<times> (WardenResponse list \<times> 'realm WardenDaemon \<times> 'w)" where
  "daemon_answer E c f s =
     (case handle_command E c s of (res, s') \<Rightarrow> (client_view (we_us E) f res, ([], s')))"

lemmas cl_defs =
  cl_create_realm_def cl_start_realm_def cl_fetch_attestation_token_def cl_stop_realm_def
  cl_reboot_realm_def cl_destroy_realm_def cl_inspect_realm_def cl_list_realms_def
  cl_create_application_def cl_update_application_def cl_start_application_def cl_stop_application_def

lemma request_daemon:
  assumes "\<And>r. answers c r \<Longrightarrow> k r = ok (f r)"
    and "\<And>e. k (WError e) = fail (WardenOperationFail e)"
  shows "try_bind (communicate (daemon_frames E) c) k ([], (d, w)) = daemon_answer E c f (d, w)"
  unfolding daemon_answer_def
proof -
  obtain res d' w' where h: "handle_command E c (d, w) = (res, (d', w'))" by (metis prod.exhaust)
  show "try_bind (communicate (daemon_frames E) c) k ([], (d, w)) =
     (case handle_command E c (d, w) of (res, s') \<Rightarrow> (client_view (we_us E) f res, ([], s')))"
  proof (cases res)
    case (Inl e)
    with h assms(2) show ?thesis
      by (cases e)
        (simp_all add: try_bind_def communicate_daemon response_of_def client_view_def fail_def)
  next
    case (Inr r)
    with h have "answers c r" by (auto dest: handle_command_answers)
    with Inr h assms(1) [of r] show ?thesis
      by (simp add: try_bind_def communicate_daemon response_of_def client_view_def ok_def)
  qed
qed

lemma client_view_inspect:
  "client_view us (\<lambda>_. ()) res = Inr () \<longleftrightarrow> (\<exists>r. res = Inr r)"
  by (auto simp: client_view_def split: sum.splits abort.splits)

end
