(* ===== verification/Simulation.thy ===== *)
theory Simulation
  imports Daemon Client_Lib
begin

text \<open>
  A small concrete host: files and directories in association lists, a partition table
  per disk file, processes that run until they are killed, and a guest that connects at
  once and answers each request. It instantiates every environment of the development
  at the same time, so that the whole daemon can be run on concrete commands; the
  witnesses of the properties evaluate their hypotheses on it.
\<close>

record Host =
  h_files :: "(path \<times> string) list"
  h_dirs :: "path list"
  h_parts :: "(path \<times> Partition list) list"
  h_next :: uuid

definition host0 :: Host where
  "host0 = \<lparr>h_files = [], h_dirs = [], h_parts = [], h_next = 1\<rparr>"

definition sim_error :: "string \<Rightarrow> io_error" where
  "sim_error m = \<lparr>io_kind = OtherKind, io_text = m\<rparr>"

section \<open>Files\<close>

definition sim_files :: "(path, Host) FileOps" where
  "sim_files =
     \<lparr>file_create = (\<lambda>p w. (Inr p, w\<lparr>h_files := hm_insert p [] (h_files w)\<rparr>)),
      file_open = (\<lambda>p w. (if hm_get (h_files w) p = None then Inl (sim_error ''not found'') else Inr p, w)),
      file_write_all = (\<lambda>p t w.
         (Inr (), w\<lparr>h_files := hm_insert p (the (hm_get (h_files w) p) @ t) (h_files w)\<rparr>)),
      file_flush = (\<lambda>p w. (Inr (), w)),
      file_read_to_string = (\<lambda>p w. (Inr (the (hm_get (h_files w) p)), w))\<rparr>"

text \<open>A codec with one entry per value it knows.\<close>

definition sim_yaml :: "('a \<times> string) list \<Rightarrow> 'a Yaml" where
  "sim_yaml known =
     \<lparr>yaml_to_string = (\<lambda>v. ok_or ''cannot print'' (hm_get known v)),
      yaml_from_str = (\<lambda>t. ok_or ''cannot parse'' (hm_get (map (\<lambda>(a, b). (b, a)) known) t))\<rparr>"

lemma sim_files_lawful: "fs_lawful sim_files"
  by (auto simp: fs_lawful_def write_out_def sim_files_def prog_defs)

lemma sim_yaml_lawful:
  assumes "distinct (map snd known)"
  shows "yaml_lawful (sim_yaml known)"
proof -
  have "distinct (map fst (map (\<lambda>(a, b). (b, a)) known))"
    using assms by (simp add: comp_def case_prod_unfold)
  then show ?thesis
    by (auto simp: yaml_lawful_def sim_yaml_def intro!: map_of_is_SomeI dest!: map_of_SomeD)
qed

section \<open>Disks\<close>

definition sim_add_partition :: "string \<Rightarrow> u64 \<Rightarrow> Partition list \<Rightarrow> Partition list" where
  "sim_add_partition name sz ps =
     (let first = (case ps of [] \<Rightarrow> 34 | _ \<Rightarrow> part_last_lba (last ps) + 1) in
      ps @ [\<lparr>part_guid = of_nat (length ps), part_name = name, part_first_lba = first,
             part_last_lba = first + sz div 512 - 1\<rparr>])"

definition sim_disk :: "(path, path, Host) DiskEnv" where
  "sim_disk =
     \<lparr>disk_open = (\<lambda>p w. (Inr p, w)),
      disk_seek = (\<lambda>f n w. (Inr (), w)),
      disk_write_all = (\<lambda>f b w. (Inr (), w)),
      disk_sync_all = (\<lambda>f w. (Inr (), w)),
      disk_close = (\<lambda>f w. (Inr (), w)),
      mbr_overwrite_lba0 = (\<lambda>f n w. (Inr (), w)),
      gpt_create_from_device = (\<lambda>f n w. (Inr f, w)),
      gpt_clear_partitions = (\<lambda>g w. (Inr (), w\<lparr>h_parts := hm_insert g [] (h_parts w)\<rparr>)),
      gpt_add_partition = (\<lambda>g name sz w.
         (Inr (), w\<lparr>h_parts := hm_insert g
            (sim_add_partition name sz (the (hm_get (h_parts w) g))) (h_parts w)\<rparr>)),
      gpt_write = (\<lambda>g w. (Inr (), w)),
      gpt_read = (\<lambda>p w. (ok_or ''no table'' (hm_get (h_parts w) p), w)),
      bytes_len = (\<lambda>p lba. Inr ((part_last_lba p - part_first_lba p + 1) * lba))\<rparr>"

definition sim_adm :: ApplicationDiskManager where
  "sim_adm = \<lparr>file_path = ''disk.raw'', image_part_bytes_size = 2097152, data_part_bytes_size = 1048576\<rparr>"

definition failing_disk :: "(path, path, Host) DiskEnv" where
  "failing_disk = sim_disk\<lparr>gpt_create_from_device := (\<lambda>f n w. (Inl ''no space'', w))\<rparr>"

section \<open>Processes, the guest, the network\<close>

definition sim_process :: "(unit, Host) ProcessOps" where
  "sim_process =
     \<lparr>os_spawn = (\<lambda>c w. (Inr (), w)),
      os_try_wait = (\<lambda>s. (Inr None, s)),
      os_kill = (\<lambda>s. (Inr (), s)),
      os_wait = (\<lambda>s. (Inr ''signal: 9 (SIGKILL)'', s)),
      os_take_stdout = (\<lambda>s. (True, s)),
      os_take_stderr = (\<lambda>s. (True, s))\<rparr>"

fun sim_answer :: "Request \<Rightarrow> RealmSenderError + Response" where
  "sim_answer Shutdown = Inl Disconnection"
| "sim_answer (GetAttestationToken ch) = Inr (AttestationToken ch)"
| "sim_answer GetIfAddrs = Inr (IfAddrs [])"
| "sim_answer r = Inr Success"

definition sim_client :: "(unit, Request, Host) ClientEnv" where
  "sim_client =
     \<lparr>connector = \<lparr>acquire_realm_sender = (\<lambda>cid w. ((), w)),
                   select_sender = (\<lambda>t rx w. (Received GetIfAddrs, w))\<rparr>,
      senders = \<lparr>send = (\<lambda>r (s, w). (Inr (), (r, w))),
                 receive_response = (\<lambda>t (s, w). (sim_answer s, (s, w)))\<rparr>,
      dbg_response = (\<lambda>_. ''response''), dbg_protocol_error = (\<lambda>_. ''error''),
      dbg_sender_error = (\<lambda>_. ''error'')\<rparr>"

definition sim_network :: "Host NetworkManager" where
  "sim_network =
     \<lparr>create_tap_device_for_realm = (\<lambda>name u w. (Inr (), w)),
      shutdown_tap_device_for_realm = (\<lambda>u w. (Inr (), w))\<rparr>"

definition sim_uuid :: "uuid \<Rightarrow> string" where
  "sim_uuid u = word_to_string u"

definition sim_read_dir :: "path \<Rightarrow> (Host, io_error, (io_error + DirEntry) list) prog" where
  "sim_read_dir p w =
     (let n = length p + 1;
          child = (\<lambda>d. take n d = p @ ''/'' \<and> CHR ''/'' \<notin> set (drop n d)) in
      (Inr (map (\<lambda>d. Inr \<lparr>entry_name = drop n d, entry_is_dir = Inr True\<rparr>) (filter child (h_dirs w))), w))"

definition sim_fabric ::
  "(ApplicationConfig \<times> string) list \<Rightarrow> (RealmConfig \<times> string) list \<Rightarrow> (path, path, path, Host) FabricEnv" where
  "sim_fabric apps realms =
     \<lparr>fe_us = sim_uuid,
      fe_parse = (\<lambda>t. Inr (of_nat (string_to_nat 0 t))),
      fe_files = sim_files,
      fe_create_dir = (\<lambda>p w. if p \<in> set (h_dirs w) then (Inl (sim_error ''exists''), w)
                             else (Inr (), w\<lparr>h_dirs := p # h_dirs w\<rparr>)),
      fe_create_dir_all = (\<lambda>p w. (Inr (), w\<lparr>h_dirs := p # h_dirs w\<rparr>)),
      fe_remove_dir_all = (\<lambda>p w. (Inr (), w\<lparr>h_dirs := removeAll p (h_dirs w)\<rparr>)),
      fe_read_dir = sim_read_dir,
      fe_app_yaml = sim_yaml apps,
      fe_realm_yaml = sim_yaml realms,
      fe_disk = sim_disk,
      fe_network = sim_network\<rparr>"

definition sim_new_v4 :: "Host \<Rightarrow> uuid \<times> Host" where
  "sim_new_v4 w = (h_next w, w\<lparr>h_next := h_next w + 1\<rparr>)"

section \<open>A configuration and the daemon on the simulated host\<close>

definition sim_app_config :: ApplicationConfig where
  "sim_app_config =
     \<lparr>app_name = ''app'', app_version = ''1'', image_registry = ''registry'',
      image_storage_size_mb = 2, data_storage_size_mb = 1\<rparr>"

definition sim_realm_config :: RealmConfig where
  "sim_realm_config =
     \<lparr>machine = ''virt'', cpu_config = \<lparr>cpu = ''max'', cores_number = 2\<rparr>,
      memory = \<lparr>ram_size = 512\<rparr>,
      network = \<lparr>vsock_cid = 3, tap_device = ''tap0'', mac_address = ''52:54:00:00:00:01'',
                 hardware_device = None, remote_terminal_uri = None\<rparr>,
      kernel = \<lparr>kernel_path = ''Image'', kernel_initramfs_path = None, kernel_cmd_params = None\<rparr>,
      metadata = None\<rparr>"

definition sim_cli :: Cli where
  "sim_cli =
     \<lparr>cli_cid = 2, cli_port = 80, virtualizer_path = ''lkvm'', unix_sock_path = ''sock'',
      cli_warden_workdir_path = ''warden'', dhcp_exec_path = ''dnsmasq'',
      realm_connection_wait_time_secs = 60, realm_response_wait_time_secs = 10,
      bridge_name = ''virtbWarden'', network_address = \<lparr>ipnet_addr = V4 3232261120, prefix_len = 24\<rparr>,
      dhcp_total_clients = 20, dns_records = [],
      lkvm_runner = True, cca_enable = False\<rparr>"

definition sim_fabric_env :: "(path, path, path, Host) FabricEnv" where
  "sim_fabric_env = sim_fabric [(sim_app_config, ''app'')] [(sim_realm_config, ''realm'')]"

definition sim_realm_env ::
  "(unit VmRunner, Request RealmClientHandler, ApplicationManager, ApplicationFabric, Host) RealmEnv" where
  "sim_realm_env =
     daemon_realm_env sim_fabric_env sim_process sim_client sim_new_v4 (\<lambda>us w. us) (\<lambda>w. 0) (\<lambda>w. (Inr (), w))"

definition sim_warden_env ::
  "((unit VmRunner, Request) BuiltRealm, ApplicationManager, Host) WardenEnv" where
  "sim_warden_env =
     daemon_warden_env sim_fabric_env sim_process sim_client sim_new_v4 (\<lambda>us w. us) (\<lambda>w. 0)
       (\<lambda>w. (Inr (), w)) sim_cli"

definition sim_realm :: "(unit VmRunner, Request) BuiltRealm" where
  "sim_realm =
     RealmManager_new \<lparr>repo_data = sim_realm_config, repo_path = ''config.yaml''\<rparr> []
       (VmRunner_new (LkvmRunner_new ''lkvm'' sim_realm_config) 7 ''warden/7'')
       (RealmClientHandler_new 60 10) \<lparr>realm_workdir_path = ''warden/7''\<rparr>"

text \<open>The realm with one application, and the realm after a start.\<close>

definition sim_created :: "(unit VmRunner, Request) BuiltRealm \<times> Host" where
  "sim_created = snd (rm_create_application sim_realm_env sim_app_config (sim_realm, host0))"

definition sim_started :: "(unit VmRunner, Request) BuiltRealm \<times> Host" where
  "sim_started = snd (rm_start sim_realm_env sim_created)"

text \<open>
  Two hosts on which a start fails half way: on the first the machine wipes its disks when it
  is spawned, on the second it exits soon after and the guest never connects.
\<close>

definition wiping_process :: "(unit, Host) ProcessOps" where
  "wiping_process = sim_process\<lparr>os_spawn := (\<lambda>c w. (Inr (), w\<lparr>h_parts := []\<rparr>))\<rparr>"

definition wiping_realm_env ::
  "(unit VmRunner, Request RealmClientHandler, ApplicationManager, ApplicationFabric, Host) RealmEnv" where
  "wiping_realm_env =
     daemon_realm_env sim_fabric_env wiping_process sim_client sim_new_v4 (\<lambda>us w. us) (\<lambda>w. 0)
       (\<lambda>w. (Inr (), w))"

definition exiting_process :: "(bool, Host) ProcessOps" where
  "exiting_process =
     \<lparr>os_spawn = (\<lambda>c w. (Inr False, w)),
      os_try_wait = (\<lambda>(c, w). (Inr (if c then Some ''exit status: 1'' else None), (True, w))),
      os_kill = (\<lambda>s. (Inr (), s)),
      os_wait = (\<lambda>s. (Inr ''exit status: 1'', s)),
      os_take_stdout = (\<lambda>s. (True, s)),
      os_take_stderr = (\<lambda>s. (True, s))\<rparr>"

definition silent_client :: "(unit, Request, Host) ClientEnv" where
  "silent_client =
     sim_client\<lparr>connector := \<lparr>acquire_realm_sender = (\<lambda>cid w. ((), w)),
                               select_sender = (\<lambda>t rx w. (TimedOut, w))\<rparr>\<rparr>"

definition exiting_realm_env ::
  "(bool VmRunner, Request RealmClientHandler, ApplicationManager, ApplicationFabric, Host) RealmEnv" where
  "exiting_realm_env =
     daemon_realm_env sim_fabric_env exiting_process silent_client sim_new_v4 (\<lambda>us w. us) (\<lambda>w. 0)
       (\<lambda>w. (Inr (), w))"

definition exiting_realm :: "(bool VmRunner, Request) BuiltRealm" where
  "exiting_realm =
     RealmManager_new \<lparr>repo_data = sim_realm_config, repo_path = ''config.yaml''\<rparr> []
       (VmRunner_new (LkvmRunner_new ''lkvm'' sim_realm_config) 7 ''warden/7'')
       (RealmClientHandler_new 60 10) \<lparr>realm_workdir_path = ''warden/7''\<rparr>"

definition sim_create_run :: "(WardenError + (unit VmRunner, Request) BuiltRealm) \<times> Host" where
  "sim_create_run =
     rf_create_realm sim_fabric_env (daemon_realm_fabric sim_cli) 7 sim_realm_config host0"

text \<open>The Warden of the simulated daemon with the realm 7 created.\<close>

definition sim_warden :: "(unit VmRunner, Request) BuiltRealm WardenDaemon \<times> Host" where
  "sim_warden = snd (wd_create_realm sim_warden_env (Some 7) sim_realm_config (WardenDaemon_new [], host0))"

text \<open>A daemon whose working directories cannot be removed.\<close>

definition busy_fabric_env :: "(path, path, path, Host) FabricEnv" where
  "busy_fabric_env =
     sim_fabric_env\<lparr>fe_remove_dir_all := (\<lambda>p w. (Inl (sim_error ''busy''), w))\<rparr>"

definition busy_warden_env ::
  "((unit VmRunner, Request) BuiltRealm, ApplicationManager, Host) WardenEnv" where
  "busy_warden_env =
     daemon_warden_env busy_fabric_env sim_process sim_client sim_new_v4 (\<lambda>us w. us) (\<lambda>w. 0)
       (\<lambda>w. (Inr (), w)) sim_cli"

text \<open>A run from the result that it returned.\<close>

lemma run_split: "fst p = x \<Longrightarrow> p = (x, (fst (snd p), snd (snd p)))"
  by (cases p) auto

end
