(* ===== verification/Realm_Properties.thy ===== *)
theory Realm_Properties
  imports Simulation
begin

text \<open>
  The properties of one realm as the daemon builds it: the virtual machine runner, the
  client handler and the application manager of the sources behind the realm manager.
  They follow from the locale \<open>Realm_Manager.realm\<close> through its interpretation \<open>dr\<close> in
  \<open>Fabric\<close>. The witnesses run the realm on the host of \<open>Simulation\<close>.
\<close>

section \<open>Starting and stopping\<close>

text \<open>
  (C1) A start that succeeds began in \<open>Halted\<close> with no machine running, and it leaves the
  realm \<open>Running\<close> with its machine launched, the guest connected and the same applications.
\<close>

theorem realm_start_ok:
  assumes "rm_start (daemon_realm_env F P C new_v4 order late join) (r, w) = (Inr x, (r', w'))"
  shows "rm_state r = Halted \<and> \<not> vm_launched (rm_vm r) \<and>
         rm_state r' = Running \<and> vm_launched (rm_vm r') \<and> rch_connected (rm_client r') \<and>
         realm_app_keys r' = realm_app_keys r"
proof -
  have "rm_state r = Halted"
    using assms by (cases "rm_state r = Halted") (auto simp: refused_not_halted)
  with dr.start_run [OF assms this] show ?thesis by (simp add: realm_app_keys_def)
qed

theorem realm_start_ok_witness:
  "rm_state (fst (snd (rm_start sim_realm_env (sim_realm, host0)))) = Running"
proof -
  have "fst (rm_start sim_realm_env (sim_realm, host0)) = Inr ()" by code_simp
  from realm_start_ok [OF run_split [OF this, unfolded sim_realm_env_def]] show ?thesis
    by (simp add: sim_realm_env_def)
qed

text \<open>
  (C22) A stop that succeeds ends a \<open>Running\<close> or \<open>NeedReboot\<close> realm: it is \<open>Halted\<close>, the
  machine that was launched is gone and so is the connection. A stop that fails leaves the
  state of the realm and the machine as they were.
\<close>

theorem realm_stop_run:
  assumes "rm_stop (daemon_realm_env F P C new_v4 order late join) (r, w) = (x, (r', w'))"
  shows "case x of
           Inr _ \<Rightarrow> (rm_state r = Running \<or> rm_state r = NeedReboot) \<and> rm_state r' = Halted \<and>
                    vm_launched (rm_vm r) \<and> \<not> vm_launched (rm_vm r') \<and>
                    rch_connected (rm_client r) \<and> \<not> rch_connected (rm_client r')
         | Inl _ \<Rightarrow> rm_state r' = rm_state r \<and> vm_launched (rm_vm r') = vm_launched (rm_vm r)"
  using dr.stop_op_run [OF assms] by (cases x) auto

theorem realm_stop_run_witness:
  "rm_state (fst (snd (rm_stop sim_realm_env (fst sim_started, snd sim_started)))) = Halted"
proof -
  have "fst (rm_stop sim_realm_env (fst sim_started, snd sim_started)) = Inr ()" by code_simp
  from realm_stop_run [OF run_split [OF this, unfolded sim_realm_env_def]] show ?thesis
    by (simp add: sim_realm_env_def)
qed

text \<open>
  (C3) When the machine is started the disk file of every application holds the partitions of its current
  configuration: at the moment of the launch the table in the file has the image and the data partition with exactly the configured
  number of megabytes, whatever the order in which the concurrent configuration tasks finished, and also when the
  sizes were changed since the disk was made.
\<close>

theorem realm_start_disks:
  fixes F P C new_v4 order late join
  defines "E \<equiv> daemon_realm_env F P C new_v4 order late join"
  assumes "disk_lawful (fe_disk F) hf hg table" and "\<And>v. table (snd (join v)) = table v"
    and "\<And>keys v. set keys \<subseteq> set (order keys v)"
    and "\<And>v b. hm_get (rm_applications r) v = Some b \<Longrightarrow> file_path (am_disk b) = disk_of v" and "inj_on disk_of (set (realm_app_keys r))"
    and "rm_start E (r, w) = (Inr x, (r', w'))" and "hm_get (rm_applications r') u = Some a"
  shows "\<exists>s w1 vm w2 ps i p n m. prepare_applications E (r, w) = (Inr (), (s, w1)) \<and>
    launch_vm (re_vm E) (realm_app_keys r) (rm_vm s, w1) = (Inr (), (vm, w2)) \<and>
    file_path (am_disk a) = disk_of u \<and> table w1 (disk_of u) = Some ps \<and>
    hm_get (collect_by_name ps) ''image'' = Some i \<and> bytes_len (fe_disk F) i 512 = Inr n \<and>
    unat n = unat (image_storage_size_mb (repo_data (am_config a))) * 1048576 \<and>
    hm_get (collect_by_name ps) ''data'' = Some p \<and> bytes_len (fe_disk F) p 512 = Inr m \<and>
    unat m = unat (data_storage_size_mb (repo_data (am_config a))) * 1048576"
proof -
  let ?P = "\<lambda>v b. v \<in> set (realm_app_keys r) \<and> file_path (am_disk b) = disk_of v"
  let ?Q = "\<lambda>v b z. ?P v b \<and> on_disk_ok (fe_disk F) table (am_disk b) z \<and>
     unat (image_part_bytes_size (am_disk b)) = unat (image_storage_size_mb (repo_data (am_config b))) * mb \<and>
     unat (data_part_bytes_size (am_disk b)) = unat (data_storage_size_mb (repo_data (am_config b))) * mb"
  have h: "rm_state r = Halted"
    using assms(7) by (cases "rm_state r = Halted") (auto simp: refused_not_halted)
  from start_cases [OF assms(7) h] obtain t u1 c u2 resp
    where l: "launch_with_applications E (r, w) = (Inr (), (t, u1))"
      and hs: "handle_start_response E resp (t\<lparr>rm_state := Provisioning, rm_client := c\<rparr>, u2) = (Inr x, (r', w'))"
    by auto
  from launch_prepared [OF l] obtain s w1 vm where s: "prepare_applications E (r, w) = (Inr (), (s, w1))"
      "launch_vm (re_vm E) (realm_app_keys r) (rm_vm s, w1) = (Inr (), (vm, u1))" "t = s\<lparr>rm_vm := vm\<rparr>"
      "join_tasks E (re_join_order E (realm_app_keys r) w) (r, w) = (Inr (), (s, w1))"
      "realm_app_keys s = realm_app_keys r" .
  have a: "hm_get (rm_applications s) u = Some a"
    using handle_start_run [OF hs] assms(8) s(3) by simp
  have conf: "app_configure_disk (re_app E) = am_configure_disk (fe_disk F)"
    by (simp add: E_def daemon_realm_env_def ApplicationManager_ops_def)
  have "?Q u a w1"
  proof (rule join_tasks_prepared [where P = ?P and Q = ?Q, OF s(4) _ _ _ _ a], unfold conf)
    show "?P v a' \<and> ?Q v a' z'" if "?P v b" "am_configure_disk (fe_disk F) (b, z) = (Inr (), (a', z'))" for v b z a' z'
      using am_configure_disk_table [OF assms(2) that(2)] am_configure_disk_sizes [OF that(2)] that(1) by simp
    show "?Q u b z'" if "v \<noteq> u" "?P v c" "am_configure_disk (fe_disk F) (c, z) = (Inr (), (a', z'))" "?P u b" "?Q u b z"
      for v c z a' z' b
    proof -
      have "disk_of u \<noteq> disk_of v" using that(1,2,4) inj_onD [OF assms(6), of u v] by auto
      then show ?thesis
        using am_configure_disk_table(2) [OF assms(2) that(3)] that by (auto simp: on_disk_ok_def other_tables_def)
    qed
    show "?Q u b (snd (re_join E z))" if "?Q u b z" for b z
      using that assms(3) by (auto simp: on_disk_ok_def E_def daemon_realm_env_def)
    show "?P v b" if "hm_get (rm_applications r) v = Some b" for v b
      using assms(5) [OF that] that hm_keys_iff [of v "rm_applications r"] by (simp add: realm_app_keys_def)
    have "u \<in> set (realm_app_keys r)" using a s(5) hm_keys_iff [of u "rm_applications s"] by (simp add: realm_app_keys_def)
    then show "u \<in> set (re_join_order E (realm_app_keys r) w) \<or> (\<forall>b. hm_get (rm_applications r) u = Some b \<longrightarrow> ?Q u b w)"
      using assms(4) by (auto simp: E_def daemon_realm_env_def)
  qed
  then obtain ps i p where t: "table w1 (disk_of u) = Some ps" "hm_get (collect_by_name ps) ''image'' = Some i"
      "bytes_len (fe_disk F) i 512 = Inr (image_part_bytes_size (am_disk a))" "hm_get (collect_by_name ps) ''data'' = Some p"
      "bytes_len (fe_disk F) p 512 = Inr (data_part_bytes_size (am_disk a))" "file_path (am_disk a) = disk_of u"
      "unat (image_part_bytes_size (am_disk a)) = unat (image_storage_size_mb (repo_data (am_config a))) * 1048576"
      "unat (data_part_bytes_size (am_disk a)) = unat (data_storage_size_mb (repo_data (am_config a))) * 1048576"
    by (auto simp: on_disk_ok_def partitions_ok_def IMAGE_PARTITION_def DATA_PARTITION_def LBA_SIZE_def mb_def)
  show ?thesis by (intro exI conjI) (rule s(1) s(2) t)+
qed

lemma sim_disk_lawful: "disk_lawful sim_disk id id (\<lambda>w p. hm_get (h_parts w) p)"
  by (auto simp: disk_lawful_def sim_disk_def other_tables_def ok_or_def split: option.splits)

text \<open>The application was given two more megabytes since its disk was made.\<close>

definition sim_resized :: "(unit VmRunner, Request) BuiltRealm \<times> Host" where
  "sim_resized = snd (rm_update_application sim_realm_env 1 (sim_app_config\<lparr>data_storage_size_mb := 3\<rparr>) sim_created)"

lemma sim_resized_facts:
  "fst (rm_start sim_realm_env (fst sim_resized, snd sim_resized)) = Inr ()"
  "map (\<lambda>(v, b). (v, file_path (am_disk b))) (rm_applications (fst sim_resized)) = [(1, ''warden/7/1/disk.raw'')]"
  "map (\<lambda>(v, b). (v, data_storage_size_mb (repo_data (am_config b))))
     (rm_applications (fst (snd (rm_start sim_realm_env (fst sim_resized, snd sim_resized))))) = [(1, 3)]"
  by code_simp+

theorem realm_start_disks_witness:
  "\<exists>w1 s ps p m. prepare_applications sim_realm_env (fst sim_resized, snd sim_resized) = (Inr (), (s, w1)) \<and>
     hm_get (h_parts w1) ''warden/7/1/disk.raw'' = Some ps \<and>
     hm_get (collect_by_name ps) ''data'' = Some p \<and> bytes_len sim_disk p 512 = Inr m \<and> unat m = 3 * 1048576"
proof -
  let ?t = "rm_start sim_realm_env (fst sim_resized, snd sim_resized)"
  obtain b where b: "rm_applications (fst sim_resized) = [(1, b)]" "file_path (am_disk b) = ''warden/7/1/disk.raw''"
    using sim_resized_facts(2) by (auto simp: map_eq_Cons_conv)
  obtain a where a: "rm_applications (fst (snd ?t)) = [(1, a)]" "data_storage_size_mb (repo_data (am_config a)) = 3"
    using sim_resized_facts(3) by (auto simp: map_eq_Cons_conv)
  have D: "disk_lawful (fe_disk sim_fabric_env) id id (\<lambda>w p. hm_get (h_parts w) p)"
    using sim_disk_lawful by (simp add: sim_fabric_env_def sim_fabric_def)
  have k: "hm_get (rm_applications (fst sim_resized)) v = Some c \<Longrightarrow> file_path (am_disk c) = ''warden/7/1/disk.raw''" for v c
    using b by (simp split: if_splits)
  have i: "inj_on (\<lambda>v. ''warden/7/1/disk.raw'') (set (realm_app_keys (fst sim_resized)))"
    by (simp add: realm_app_keys_def hm_keys_def b(1))
  have u: "hm_get (rm_applications (fst (snd ?t))) 1 = Some a" unfolding a(1) by simp
  have f: "fe_disk sim_fabric_env = sim_disk" by (simp add: sim_fabric_env_def sim_fabric_def)
  have "\<exists>s w1 vm w2 ps i p n m. prepare_applications sim_realm_env (fst sim_resized, snd sim_resized) = (Inr (), (s, w1)) \<and>
    launch_vm (re_vm sim_realm_env) (realm_app_keys (fst sim_resized)) (rm_vm s, w1) = (Inr (), (vm, w2)) \<and>
    file_path (am_disk a) = ''warden/7/1/disk.raw'' \<and> hm_get (h_parts w1) ''warden/7/1/disk.raw'' = Some ps \<and>
    hm_get (collect_by_name ps) ''image'' = Some i \<and> bytes_len sim_disk i 512 = Inr n \<and>
    unat n = unat (image_storage_size_mb (repo_data (am_config a))) * 1048576 \<and>
    hm_get (collect_by_name ps) ''data'' = Some p \<and> bytes_len sim_disk p 512 = Inr m \<and>
    unat m = unat (data_storage_size_mb (repo_data (am_config a))) * 1048576"
    unfolding sim_realm_env_def f [symmetric]
    by (rule realm_start_disks [OF D _ _ k i run_split [OF sim_resized_facts(1), unfolded sim_realm_env_def]
          u [unfolded sim_realm_env_def]]) simp_all
  then show ?thesis unfolding a(2) by (elim exE conjE) (intro exI conjI, assumption+, simp)
qed

section \<open>The state machine\<close>

text \<open>
  (C2) Whatever sequence of operations a realm created by the daemon goes through, successful
  or not and on whatever host: outside \<open>Halted\<close> its machine is launched, and every application
  is filed under its own identifier.
\<close>

theorem realm_reachable_inv:
  assumes "rf_create_realm F (daemon_realm_fabric cli) rid config w = (Inr r0, w')"
    and "realm_reach (daemon_realm_env F P C new_v4 order late join) r0 r"
  shows "realm_inv vm_launched am_uuid r"
proof (rule dr.reach_inv [OF assms(2)])
  show "realm_inv vm_launched am_uuid r0"
    using rf_create_ok [OF assms(1)] by (simp add: realm_inv_def apps_ok_def)
qed

theorem realm_reachable_inv_witness:
  "realm_inv vm_launched am_uuid
     (fst (snd (rm_start sim_realm_env (projr (fst sim_create_run), host0))))"
proof -
  let ?r = "projr (fst sim_create_run)"
  have "isl (fst sim_create_run) = False" by code_simp
  then have c: "sim_create_run = (Inr ?r, snd sim_create_run)"
    by (cases "fst sim_create_run") (auto simp: prod_eq_iff)
  let ?s = "run_op sim_realm_env OpStart (?r, host0)"
  have "realm_step sim_realm_env ?r (fst (snd ?s))"
    by (rule realm_stepI [of _ OpStart ?r host0 "fst ?s" _ "snd (snd ?s)"]) simp
  then have "realm_reach sim_realm_env ?r (fst (snd ?s))"
    by (rule reach_step [OF reach_refl])
  from realm_reachable_inv [OF c [unfolded sim_create_run_def] this [unfolded sim_create_run_def sim_realm_env_def]]
  show ?thesis
    by (simp add: run_op_def sim_realm_env_def sim_create_run_def)
qed

text \<open>
  (C23) Every operation moves the state along an arrow of the realm's state machine or leaves
  it: only a halted realm starts, only a running realm comes to need a reboot, and a realm
  that is running or needs a reboot can be halted or rebooted.
\<close>

theorem realm_state_machine:
  assumes "run_op (daemon_realm_env F P C new_v4 order late join) op (r, w) = (x, (r', w'))"
  shows "may_become (rm_state r) (rm_state r')"
  using dr.run_op_advances [OF assms] by (simp add: advances_def)

theorem realm_state_machine_witness:
  "may_become Halted (rm_state (fst (snd (run_op sim_realm_env OpStart (sim_realm, host0)))))"
proof -
  have "rm_state sim_realm = Halted" by code_simp
  with realm_state_machine [OF run_split [OF refl, of "run_op sim_realm_env OpStart (sim_realm, host0)",
        unfolded sim_realm_env_def]]
  show ?thesis by (simp add: sim_realm_env_def)
qed

text \<open>
  A start whose provisioning data cannot be read (the disks were prepared and the machine
  launched) fails and leaves the realm in \<open>Provisioning\<close> with the machine running. From
  there no operation gets out: whatever is tried, the realm stays in \<open>Provisioning\<close>, and
  starting, stopping, rebooting, fetching a token, creating and updating applications are all
  refused.
\<close>

lemma realm_provisioning_wedge:
  fixes F P C new_v4 order late join
  defines "E \<equiv> daemon_realm_env F P C new_v4 order late join"
  assumes "rm_state r = Halted"
    and "launch_with_applications E (r, w) = (Inr (), (s, u))"
    and "create_provisioning_config E (s\<lparr>rm_state := Provisioning\<rparr>) u = (Inl e, w1)"
  shows "\<exists>r1. rm_start E (r, w) = (Inl e, (r1, w1)) \<and> vm_launched (rm_vm r1) \<and>
           (\<forall>t. realm_reach E r1 t \<longrightarrow> rm_state t = Provisioning \<and>
              (\<forall>v. (\<exists>m. rm_start E (t, v) = (Inl (UnsupportedAction m), (t, v))) \<and>
                   (\<exists>m. rm_stop E (t, v) = (Inl (UnsupportedAction m), (t, v))) \<and>
                   (\<exists>m. rm_reboot E (t, v) = (Inl (UnsupportedAction m), (t, v))) \<and>
                   (\<forall>ch. \<exists>m. rm_fetch_attestation_token E ch (t, v) =
                             (Inl (UnsupportedAction m), (t, v))) \<and>
                   (\<forall>cfg. \<exists>m. rm_create_application E cfg (t, v) =
                             (Inl (UnsupportedAction m), (t, v))) \<and>
                   (\<forall>a cfg. \<exists>m. rm_update_application E a cfg (t, v) =
                             (Inl (UnsupportedAction m), (t, v)))))"
proof -
  let ?r1 = "s\<lparr>rm_state := Provisioning\<rparr>"
  have "rm_start E (r, w) = (Inl e, (?r1, w1))"
    using assms(2-4) by (simp add: rm_start_def prog_defs set_state_def in_world_run)
  moreover have "vm_launched (rm_vm ?r1)"
    using dr.launch_run [OF assms(3) [unfolded E_def]] by simp
  moreover have "rm_state t = Provisioning" if "realm_reach E ?r1 t" for t
    using dr.reach_provisioning [OF that [unfolded E_def]] by simp
  ultimately show ?thesis
    by (intro exI [of _ ?r1]) (simp add: refused_not_halted refused_not_running refused_provisioning)
qed

lemma realm_provisioning_wedge_witness:
  "\<exists>e r1 w1. rm_start wiping_realm_env (fst sim_created, snd sim_created) = (Inl e, (r1, w1)) \<and>
     (\<forall>t. realm_reach wiping_realm_env r1 t \<longrightarrow> rm_state t = Provisioning)"
proof -
  let ?l = "launch_with_applications wiping_realm_env (fst sim_created, snd sim_created)"
  let ?p = "create_provisioning_config wiping_realm_env ((fst (snd ?l))\<lparr>rm_state := Provisioning\<rparr>) (snd (snd ?l))"
  have h: "rm_state (fst sim_created) = Halted" by code_simp
  have l: "fst ?l = Inr ()" by code_simp
  have "isl (fst ?p)" by code_simp
  then have p: "?p = (Inl (projl (fst ?p)), snd ?p)" by (simp add: prod_eq_iff)
  from realm_provisioning_wedge [OF h run_split [OF l, unfolded wiping_realm_env_def]
      p [unfolded wiping_realm_env_def]]
  show ?thesis unfolding wiping_realm_env_def by blast
qed

text \<open>
  A start whose guest does not connect and whose machine has meanwhile exited by itself
  fails with the realm \<open>Halted\<close>, yet the exited machine is kept. From then on the realm is
  \<open>Halted\<close> for ever and every further start fails, whatever happens in between.
\<close>

lemma realm_exited_start_stuck:
  fixes F P C new_v4 order late join
  defines "E \<equiv> daemon_realm_env F P C new_v4 order late join"
  assumes "rm_state r = Halted"
    and "launch_with_applications E (r, w) = (Inr (), (s, u))"
    and "create_provisioning_config E (s\<lparr>rm_state := Provisioning\<rparr>) u = (Inr cfg, u0)"
    and "rch_try_connect_and_provision_apps C (realm_cid s) cfg (rm_client s, u0) = (Inl err, (c, u1))"
    and "VmRunner_get_status P (rm_vm s, u1) = (Inr (Exited m), (v, w1))"
  shows "\<exists>e r1. rm_start E (r, w) = (Inl e, (r1, w1)) \<and>
           (\<forall>t. realm_reach E r1 t \<longrightarrow> stuck_halted vm_launched t \<and>
              (\<forall>w2. \<exists>e t'. rm_start E (t, w2) = (Inl e, t')))"
proof -
  let ?r1 = "s\<lparr>rm_client := c, rm_state := Halted, rm_vm := v\<rparr>"
  have env: "re_client E = RealmClientHandler_ops C" "re_vm E = VmRunner_ops (fe_us F) P"
    by (simp_all add: E_def daemon_realm_env_def)
  have cid: "realm_cid (s\<lparr>rm_state := Provisioning\<rparr>) = realm_cid s" by (simp add: realm_cid_def)
  have "\<exists>e. rm_start E (r, w) = (Inl e, (?r1, w1))"
    using assms(2-6)
    by (simp add: rm_start_def prog_defs set_state_def in_world_run on_client_def on_vm_def env cid
        handle_start_response_def RealmClientHandler_ops_def VmRunner_ops_def)
  moreover have "stuck_halted vm_launched ?r1"
    using runner_status_vm [OF assms(6)] by (auto simp: stuck_halted_def vm_launched_def)
  then have "stuck_halted vm_launched t" if "realm_reach E ?r1 t" for t
    using dr.reach_stuck [OF that [unfolded E_def]] by simp
  moreover have "\<exists>e t'. rm_start E (t, w2) = (Inl e, t')" if "stuck_halted vm_launched t" for t w2
    unfolding E_def by (rule dr.stuck_start_fails [OF that])
  ultimately show ?thesis by blast
qed

lemma realm_exited_start_stuck_witness:
  "\<exists>e r1 w1. rm_start exiting_realm_env (exiting_realm, host0) = (Inl e, (r1, w1)) \<and>
     (\<forall>t. realm_reach exiting_realm_env r1 t \<longrightarrow> stuck_halted vm_launched t)"
proof -
  let ?l = "launch_with_applications exiting_realm_env (exiting_realm, host0)"
  let ?s = "fst (snd ?l)"
  let ?p = "create_provisioning_config exiting_realm_env (?s\<lparr>rm_state := Provisioning\<rparr>) (snd (snd ?l))"
  let ?c = "rch_try_connect_and_provision_apps silent_client (realm_cid ?s) \<lparr>applications_data = []\<rparr>
     (rm_client ?s, snd ?p)"
  let ?v = "VmRunner_get_status exiting_process (rm_vm ?s, snd (snd ?c))"
  have h: "rm_state exiting_realm = Halted" by code_simp
  have l: "fst ?l = Inr ()" by code_simp
  have "fst ?p = Inr \<lparr>applications_data = []\<rparr>" by code_simp
  then have p: "?p = (Inr \<lparr>applications_data = []\<rparr>, snd ?p)" by (simp add: prod_eq_iff)
  have c: "fst ?c = Inl (RealmConnectionFail ''Timeout on listening for realm connection.'')"
    by code_simp
  have v: "fst ?v = Inr (Exited ''exit status: 1'')" by code_simp
  from realm_exited_start_stuck [OF h run_split [OF l, unfolded exiting_realm_env_def]
      p [unfolded exiting_realm_env_def] run_split [OF c, unfolded exiting_realm_env_def]
      run_split [OF v, unfolded exiting_realm_env_def]]
  show ?thesis unfolding exiting_realm_env_def by blast
qed

section \<open>The other operations\<close>

text \<open>
  (C25) An update that succeeds stores the new configuration in exactly the application it
  names, touches no other application and not the machine, and marks a running realm as
  needing a reboot.
\<close>

theorem realm_update_application_ok:
  assumes "rm_update_application (daemon_realm_env F P C new_v4 order late join) u cfg (r, w) =
           (Inr x, (r', w'))"
  shows "\<exists>a. hm_get (rm_applications r) u = Some a \<and>
           hm_get (rm_applications r') =
             (hm_get (rm_applications r))(u \<mapsto> a\<lparr>am_config := (am_config a)\<lparr>repo_data := cfg\<rparr>\<rparr>) \<and>
           rm_vm r' = rm_vm r \<and> rm_client r' = rm_client r \<and>
           rm_state r' = (if rm_state r = Running then NeedReboot else rm_state r)"
  using assms
  by (auto simp: rm_update_application_def realm_iffs daemon_realm_env_def ApplicationManager_ops_def
      dest!: am_update_config_run split: if_splits option.splits)

theorem realm_update_application_ok_witness:
  "rm_state (fst (snd (rm_update_application sim_realm_env 1 sim_app_config
     (fst sim_started, snd sim_started)))) = NeedReboot"
proof -
  let ?u = "rm_update_application sim_realm_env 1 sim_app_config (fst sim_started, snd sim_started)"
  have u: "fst ?u = Inr ()" by code_simp
  have "rm_state (fst sim_started) = Running" by code_simp
  with realm_update_application_ok [OF run_split [OF u, unfolded sim_realm_env_def]]
  show ?thesis by (auto simp: sim_realm_env_def)
qed

text \<open>
  (C24) A token that is fetched from a halted realm is the guest's own answer, obtained on a
  machine that was launched for it: afterwards the realm is \<open>Halted\<close> again with no machine and
  no connection.
\<close>

theorem realm_token_halted:
  assumes "rm_fetch_attestation_token (daemon_realm_env F P C new_v4 order late join) ch (r, w) =
           (Inr token, (r', w'))"
    and "rm_state r = Halted"
  shows "\<not> vm_launched (rm_vm r) \<and> rm_state r' = Halted \<and> \<not> vm_launched (rm_vm r') \<and>
         \<not> rch_connected (rm_client r') \<and>
         (\<exists>w1 h2 w2. rch_try_connect_and_fetch_attestation_token C (realm_cid r) ch (rm_client r, w1) =
            (Inr token, (h2, w2)))"
proof -
  let ?E = "daemon_realm_env F P C new_v4 order late join"
  obtain s u c u1 where l: "launch_with_applications ?E (r, w) = (Inr (), (s, u))"
    and t: "try_connect_and_fetch_attestation_token (re_client ?E) (realm_cid r) ch (rm_client s, u) =
            (Inr token, (c, u1))"
    and st: "stop_client_and_vm ?E (s\<lparr>rm_client := c\<rparr>, u1) = (Inr (), (r', w'))"
    using assms by (auto simp: rm_fetch_attestation_token_def realm_iffs)
  from dr.launch_run [OF l] dr.stop_run [OF st] assms(2) t show ?thesis
    by (auto simp: daemon_realm_env_def RealmClientHandler_ops_def)
qed

theorem realm_token_halted_witness:
  "\<not> vm_launched (rm_vm (fst (snd (rm_fetch_attestation_token sim_realm_env [1, 2] (sim_realm, host0)))))"
proof -
  have t: "fst (rm_fetch_attestation_token sim_realm_env [1, 2] (sim_realm, host0)) = Inr [1, 2]"
    by code_simp
  have h: "rm_state sim_realm = Halted" by code_simp
  from realm_token_halted [OF run_split [OF t, unfolded sim_realm_env_def] h] show ?thesis
    by (simp add: sim_realm_env_def)
qed

text \<open>
  (C27) The refusals that the state alone decides, with their texts: nothing of the realm or the
  world changes.
\<close>

theorem realm_guards:
  "(rm_state r \<noteq> Halted \<longrightarrow>
      rm_start E (r, w) =
        (Inl (UnsupportedAction ''Can't start realm that is not halted.''), (r, w)) \<and>
      rm_create_application E cfg (r, w) =
        (Inl (UnsupportedAction ''Can't create application when realm is not halted.''), (r, w))) \<and>
   (rm_state r = Halted \<or> rm_state r = Provisioning \<longrightarrow>
      rm_stop E (r, w) =
        (Inl (UnsupportedAction
          (''Can't stop realm that is in '' @ dbg_State (rm_state r) @ '' state.'')), (r, w)) \<and>
      rm_reboot E (r, w) =
        (Inl (UnsupportedAction
          (''Can't stop realm that is in '' @ dbg_State (rm_state r) @ '' state.'')), (r, w)) \<and>
      rm_get_application r u =
        Inl (UnsupportedAction ''Can't get application while realm isn't running.'')) \<and>
   (rm_state r = Provisioning \<longrightarrow>
      rm_fetch_attestation_token E ch (r, w) =
        (Inl (UnsupportedAction ''Can't fetch real token that is being provisioned''), (r, w)) \<and>
      rm_update_application E u cfg (r, w) =
        (Inl (UnsupportedAction
          ''Can't update application when realm is in provisioning phase.''), (r, w)))"
  by (simp add: refused_not_halted refused_not_running refused_provisioning)

theorem realm_guards_witness:
  "rm_stop sim_realm_env (sim_realm, host0) =
     (Inl (UnsupportedAction ''Can't stop realm that is in Halted state.''), (sim_realm, host0))"
proof -
  have h: "rm_state sim_realm = Halted" by code_simp
  with realm_guards [of sim_realm sim_realm_env host0] show ?thesis by simp
qed

text \<open>
  (C26) A reboot that succeeds needs a realm that is running or needs a reboot and a live
  connection; it leaves the realm \<open>Running\<close> and connected on the same machine, so a pending
  \<open>NeedReboot\<close> is cleared. A failed reboot keeps the state.
\<close>

theorem realm_reboot_run:
  assumes "rm_reboot (daemon_realm_env F P C new_v4 order late join) (r, w) = (x, (r', w'))"
  shows "rm_vm r' = rm_vm r \<and> rm_applications r' = rm_applications r \<and>
         (case x of
            Inr _ \<Rightarrow> (rm_state r = Running \<or> rm_state r = NeedReboot) \<and> rm_state r' = Running \<and>
                     rch_connected (rm_client r) \<and> rch_connected (rm_client r')
          | Inl _ \<Rightarrow> rm_state r' = rm_state r)"
  using dr.reboot_run [OF assms] by (cases x) auto

theorem realm_reboot_run_witness:
  "rm_state (fst (snd (rm_reboot sim_realm_env (fst sim_started, snd sim_started)))) = Running"
proof -
  have "fst (rm_reboot sim_realm_env (fst sim_started, snd sim_started)) = Inr ()" by code_simp
  from realm_reboot_run [OF run_split [OF this, unfolded sim_realm_env_def]] show ?thesis
    by (simp add: sim_realm_env_def)
qed

end
