(* ===== verification/Storage_Properties.thy ===== *)
theory Storage_Properties
  imports Simulation
begin

text \<open>
  The properties of what the daemon keeps on disk: configurations, the raw disks of the
  applications with their partitions, and the working directories; and that the machine is
  given the disks that the applications formatted.
\<close>

section \<open>Configurations\<close>

text \<open>
  (C32) An application configuration that was updated successfully is what a restarted daemon
  reads: loading the repository at the same path gives the new configuration, on every file
  store that reads back what was written and every codec that parses what it prints.
\<close>

theorem config_update_persistent:
  assumes "fs_lawful Fo" and "yaml_lawful Y"
    and "am_update_config Fo Y cfg (a, w) = (Inr x, (a', w'))"
  shows "repo_data (am_config a') = cfg \<and>
         (\<exists>w2. YamlConfigRepository_from Fo Y (repo_path (am_config a)) w' = (Inr (am_config a'), w2))"
proof -
  have a': "a' = a\<lparr>am_config := (am_config a)\<lparr>repo_data := cfg\<rparr>\<rparr>"
    using am_update_config_run [OF assms(3)] .
  obtain yaml where "yaml_to_string Y cfg = Inr yaml"
    and "write_out Fo (repo_path (am_config a)) yaml w = (Inr x, w')"
    using assms(3)
    by (auto simp: am_update_config_def run_iffs on_config_def zoom_Inr_iff
        YamlConfigRepository_save_ok FileRepository_save_ok)
  from written_is_read [OF assms(1,2) this] show ?thesis
    by (auto simp: a')
qed

theorem config_update_persistent_witness:
  "\<exists>w2. YamlConfigRepository_from sim_files (sim_yaml [(sim_app_config, ''app'')]) ''config.yaml''
     (snd (snd (am_update_config sim_files (sim_yaml [(sim_app_config, ''app'')]) sim_app_config
       (\<lparr>am_uuid = 1, am_config = \<lparr>repo_data = sim_app_config\<lparr>app_version := ''0''\<rparr>, repo_path = ''config.yaml''\<rparr>,
         am_disk = \<lparr>file_path = ''disk.raw'', image_part_bytes_size = 1, data_part_bytes_size = 1\<rparr>\<rparr>, host0)))) =
     (Inr \<lparr>repo_data = sim_app_config, repo_path = ''config.yaml''\<rparr>, w2)"
proof -
  let ?Y = "sim_yaml [(sim_app_config, ''app'')]"
  let ?a = "\<lparr>am_uuid = 1, am_config = \<lparr>repo_data = sim_app_config\<lparr>app_version := ''0''\<rparr>, repo_path = ''config.yaml''\<rparr>,
         am_disk = \<lparr>file_path = ''disk.raw'', image_part_bytes_size = 1, data_part_bytes_size = 1\<rparr>\<rparr>"
  let ?u = "am_update_config sim_files ?Y sim_app_config (?a, host0)"
  have u: "fst ?u = Inr ()" by code_simp
  have y: "yaml_lawful ?Y" by (rule sim_yaml_lawful) simp
  have "am_config (fst (snd ?u)) = \<lparr>repo_data = sim_app_config, repo_path = ''config.yaml''\<rparr>"
    by code_simp
  with config_update_persistent [OF sim_files_lawful y run_split [OF u]] show ?thesis by simp
qed

section \<open>Disks\<close>

text \<open>
  The partition sizes that are accepted: from one megabyte to a hundred gigabytes, and the
  size in bytes is exact, without wrap-around; larger and empty partitions are refused with
  their own errors.
\<close>

lemma disk_size_validation:
  "(validate_and_convert_to_bytes n = Inr b \<longleftrightarrow>
      1 \<le> unat n \<and> unat n \<le> 102400 \<and> unat b = unat n * 1048576) \<and>
   (validate_and_convert_to_bytes n = Inl RequestedEmptyPartition \<longleftrightarrow> n = 0) \<and>
   ((\<exists>m. validate_and_convert_to_bytes n = Inl (RequestedTooBigPartition m)) \<longleftrightarrow> unat n > 102400)"
proof -
  have "unat MAX_PARTITION_SIZE_MB = 102400" by (simp add: MAX_PARTITION_SIZE_MB_def)
  then have "n > MAX_PARTITION_SIZE_MB \<longleftrightarrow> unat n > 102400" by (simp add: word_less_nat_alt)
  then show ?thesis
    using validate_Inr [of n b] by (auto simp: validate_and_convert_to_bytes_def mb_def)
qed

text \<open>
  (C20) The layout arithmetic of every disk manager that can be built is exact: the file holds
  both partitions and 68 blocks for the two partition tables, nothing overflows in 64 bits, and
  the number of blocks written to the protective record fits its 32 bits.
\<close>

theorem disk_layout_exact:
  assumes "ADM_new workdir image_mb data_mb = Inr d"
  shows "unat (calculate_total_size d) = (unat image_mb + unat data_mb) * 1048576 + 68 * 512 \<and>
         unat (mbr_lb_size d) = unat (calculate_total_size d) div 512 - 1 \<and>
         file_path d = path_push workdir ''disk.raw''"
proof -
  have wf: "adm_wf d" using assms by (rule ADM_new_wf)
  have "unat (image_part_bytes_size d) = unat image_mb * mb" "unat (data_part_bytes_size d) = unat data_mb * mb"
    "file_path d = path_push workdir ADM_DISK_NAME"
    using assms by (auto simp: ADM_new_def validate_Inr split: sum.splits)
  then show ?thesis
    using total_size [OF wf] mbr_lb_size_exact [OF wf] by (simp add: mb_def ADM_DISK_NAME_def)
qed

theorem disk_layout_exact_witness:
  "unat (calculate_total_size (projr (ADM_new ''w'' 102400 102400))) = 204800 * 1048576 + 68 * 512"
proof -
  have "isl (ADM_new ''w'' 102400 102400) = False" by code_simp
  then have "ADM_new ''w'' 102400 102400 = Inr (projr (ADM_new ''w'' 102400 102400))"
    by (cases "ADM_new ''w'' 102400 102400") auto
  from disk_layout_exact [OF this] show ?thesis by simp
qed

text \<open>
  Creating an application's disk: if it succeeds, the partition table that is read last
  holds both partitions with exactly the configured sizes; and a disk that is already right is
  only read, never rewritten.
\<close>

lemma disk_create_ok:
  assumes "create_disk_with_partitions D d w = (Inr x, w')"
  shows "(\<exists>w1 partitions. read_partitions D d w1 = (Inr partitions, w') \<and> partitions_ok D d partitions) \<and>
         (ensure_partitions_correctness D d w = (Inr (), w1) \<longrightarrow> w' = w1)"
proof -
  obtain y w2 where e: "ensure_partitions_correctness D d w = (y, w2)" by (metis prod.exhaust)
  show ?thesis
  proof (cases y)
    case (Inl err)
    with assms e have "create_application_disk D d w2 = (Inr x, w')"
      by (auto simp: create_disk_with_partitions_def run_iffs)
    from create_application_disk_ok [OF this] e Inl show ?thesis
      by (auto simp: ensure_ok)
  next
    case (Inr z)
    with assms e have "w' = w2"
      by (auto simp: create_disk_with_partitions_def run_iffs)
    with e Inr show ?thesis by (auto simp: ensure_ok)
  qed
qed

lemma disk_create_ok_witness:
  "\<exists>w1 partitions.
     read_partitions sim_disk sim_adm w1 =
       (Inr partitions, snd (create_disk_with_partitions sim_disk sim_adm host0)) \<and>
     partitions_ok sim_disk sim_adm partitions"
proof -
  have "fst (create_disk_with_partitions sim_disk sim_adm host0) = Inr ()" by code_simp
  then have "create_disk_with_partitions sim_disk sim_adm host0 =
      (Inr (), snd (create_disk_with_partitions sim_disk sim_adm host0))"
    by (simp add: prod_eq_iff)
  from disk_create_ok [OF this, of host0] show ?thesis by blast
qed

text \<open>
  (C15) Updating a disk to the configured sizes: if it succeeds, the manager has exactly those
  sizes, keeps its file, and the table on disk was checked against them last; and when the
  sizes did not change, the disk is only checked.
\<close>

theorem disk_update_ok:
  assumes "update_disk_with_partitions D data_mb image_mb (d, w) = (Inr x, (d', w'))"
  shows "file_path d' = file_path d \<and>
         unat (image_part_bytes_size d') = unat image_mb * 1048576 \<and>
         unat (data_part_bytes_size d') = unat data_mb * 1048576 \<and>
         (\<exists>w1 partitions. read_partitions D d' w1 = (Inr partitions, w') \<and> partitions_ok D d' partitions) \<and>
         (unat (image_part_bytes_size d) = unat image_mb * 1048576 \<and>
          unat (data_part_bytes_size d) = unat data_mb * 1048576 \<longrightarrow>
            d' = d \<and> ensure_partitions_correctness D d w = (Inr (), w'))"
proof -
  have u: "update_partitions_if_sizes_differ D data_mb image_mb (d, w) = (Inr x, (d', w'))"
    using assms by (simp add: update_disk_with_partitions_def)
  note s = update_ok_sizes [OF u]
  have "d' = d \<and> ensure_partitions_correctness D d w = (Inr (), w')"
    if "unat (image_part_bytes_size d) = unat image_mb * 1048576"
      "unat (data_part_bytes_size d) = unat data_mb * 1048576"
  proof (rule update_same_sizes [OF u])
    show "validate_and_convert_to_bytes image_mb = Inr (image_part_bytes_size d)"
      "validate_and_convert_to_bytes data_mb = Inr (data_part_bytes_size d)"
      using s that by (simp_all add: validate_Inr mb_def)
  qed
  with s show ?thesis by (simp add: validate_Inr ensure_ok mb_def)
qed

theorem disk_update_ok_witness:
  "unat (data_part_bytes_size (fst (snd (update_disk_with_partitions sim_disk 3 2
     (sim_adm, snd (create_disk_with_partitions sim_disk sim_adm host0)))))) = 3 * 1048576"
proof -
  have "fst (update_disk_with_partitions sim_disk 3 2
     (sim_adm, snd (create_disk_with_partitions sim_disk sim_adm host0))) = Inr ()" by code_simp
  from disk_update_ok [OF run_split [OF this]] show ?thesis by simp
qed

text \<open>
  A resize that fails while the new table is written leaves the manager with the new sizes
  in memory. From then on, as long as the table on disk does not match them, every update fails
  at its first check and the disk is never written again, even for the sizes that were asked
  for.
\<close>

lemma disk_failed_resize_not_retried:
  assumes "update_partitions_if_sizes_differ D data_mb image_mb (d, w) = (Inl e, (d', w'))"
    and "d' \<noteq> d"
    and "ensure_partitions_correctness D d' w' = (Inl e', w'')"
  shows "validate_and_convert_to_bytes image_mb = Inr (image_part_bytes_size d') \<and>
         validate_and_convert_to_bytes data_mb = Inr (data_part_bytes_size d') \<and>
         update_partitions_if_sizes_differ D data2 image2 (d', w') = (Inl e', (d', w''))"
proof -
  have "update_partitions_if_sizes_differ D data2 image2 (d', w') = (Inl e', (d', w''))"
    using assms(3) by (simp add: update_partitions_if_sizes_differ_def prog_defs in_world_run)
  with update_run [OF assms(1)] assms(2) show ?thesis by auto
qed

lemma disk_failed_resize_not_retried_witness:
  "\<exists>e d' w' w''. d' \<noteq> sim_adm \<and>
     update_partitions_if_sizes_differ failing_disk 3 2 (d', w') = (Inl e, (d', w''))"
proof -
  let ?w = "snd (create_disk_with_partitions sim_disk sim_adm host0)"
  let ?u = "update_partitions_if_sizes_differ failing_disk 3 2 (sim_adm, ?w)"
  let ?e = "ensure_partitions_correctness failing_disk (fst (snd ?u)) (snd (snd ?u))"
  have u: "fst ?u = Inl (GPTConfiguration ''no space'')" by code_simp
  have "data_part_bytes_size (fst (snd ?u)) \<noteq> data_part_bytes_size sim_adm" by code_simp
  then have d: "fst (snd ?u) \<noteq> sim_adm" by auto
  have "fst ?e = Inl DataPartitionSizeIncorrect" by code_simp
  then have e: "?e = (Inl DataPartitionSizeIncorrect, snd ?e)" by (simp add: prod_eq_iff)
  from disk_failed_resize_not_retried [OF run_split [OF u] d e] d show ?thesis by blast
qed

section \<open>Working directories\<close>

text \<open>
  The identifiers found at start-up are those of the sub-directories: each comes from a
  directory of that name, and when every entry can be read no directory is missed.
\<close>

lemma subfolders_exact:
  assumes "read_dir root w = (Inr entries, w')"
    and "read_subfolders_uuids read_dir parse root w = (Inr us, w'')"
  shows "(\<forall>u \<in> set us. \<exists>e. Inr e \<in> set entries \<and> entry_is_dir e = Inr True \<and> parse (entry_name e) = Inr u) \<and>
         ((\<forall>x \<in> set entries. \<exists>e. x = Inr e) \<longrightarrow>
            (\<forall>e. Inr e \<in> set entries \<and> entry_is_dir e = Inr True \<longrightarrow>
               (\<exists>u \<in> set us. parse (entry_name e) = Inr u)))"
proof -
  have c: "collect_uuids parse entries = Inr us"
    using assms by (auto simp: read_subfolders_uuids_def run_iffs)
  from collect_uuids_dirs [OF c] collect_uuids_complete [OF _ c] show ?thesis by blast
qed

lemma subfolders_exact_witness:
  "\<exists>u \<in> set [7 :: uuid]. (Inr (of_nat (string_to_nat 0 ''7'')) :: string + uuid) = Inr u"
proof -
  let ?es = "[Inr \<lparr>entry_name = ''7'', entry_is_dir = Inr True\<rparr>,
              Inr \<lparr>entry_name = ''x'', entry_is_dir = Inr False\<rparr>] :: (io_error + DirEntry) list"
  let ?rd = "\<lambda>p w. (Inr ?es, w) :: (io_error + (io_error + DirEntry) list) \<times> Host"
  let ?parse = "\<lambda>t. Inr (of_nat (string_to_nat 0 t)) :: string + uuid"
  have r: "read_subfolders_uuids ?rd ?parse ''warden'' host0 = (Inr [7], host0)"
    by (simp add: read_subfolders_uuids_def prog_defs)
  from subfolders_exact [of ?rd "''warden''" host0 ?es host0 ?parse "[7]" host0] r
  show ?thesis by simp
qed

section \<open>Disks and the machine\<close>

text \<open>
  (C14) The machine gets the disks that the applications formatted: for an application that was
  created in a realm's working directory, the command line of the realm's runner attaches
  exactly the file of the application's disk manager, after the arguments of the
  configuration, for every list of applications, with either virtualizer.
\<close>

theorem disks_attached:
  assumes "af_create_application F \<lparr>realm_workdir_path = wd\<rparr> u config w = (Inr a, w')"
  shows "cmd_args (prepare_run_command (fe_us F) (VmRunner_new (LkvmRunner_new p rc) rid wd) (us @ [u])) =
           cmd_args (prepare_run_command (fe_us F) (VmRunner_new (LkvmRunner_new p rc) rid wd) us) @
           [''-d'', file_path (am_disk a)] \<and>
         cmd_args (prepare_run_command (fe_us F) (VmRunner_new (QemuRunner_new p rc) rid wd) (us @ [u])) =
           cmd_args (prepare_run_command (fe_us F) (VmRunner_new (QemuRunner_new p rc) rid wd) us) @
           [''-drive'', ''file='' @ file_path (am_disk a)]"
proof -
  have "file_path (am_disk a) = app_disk_path (fe_us F) wd u"
    using assms
    by (auto simp: af_create_application_def run_iffs Let_def ADM_new_def app_disk_path_def create_workdir_path_with_uuid_def split: sum.splits
        dest!: ApplicationManager_new_ok)
  then show ?thesis
    by (simp add: prepare_run_command_def VmRunner_new_def LkvmRunner_new_def QemuRunner_new_def
        lkvm_setup_disk_def qemu_setup_disk_def)
qed

theorem disks_attached_witness:
  "file_path (am_disk (projr (fst (af_create_application sim_fabric_env
     \<lparr>realm_workdir_path = ''warden/7''\<rparr> 1 sim_app_config host0)))) \<in>
   set (cmd_args (prepare_run_command sim_uuid
     (VmRunner_new (LkvmRunner_new ''lkvm'' sim_realm_config) 7 ''warden/7'' :: unit VmRunner) ([] @ [1])))"
proof -
  let ?c = "af_create_application sim_fabric_env \<lparr>realm_workdir_path = ''warden/7''\<rparr> 1 sim_app_config host0"
  have "isl (fst ?c) = False" by code_simp
  then have c: "?c = (Inr (projr (fst ?c)), snd ?c)"
    by (cases "fst ?c") (auto simp: prod_eq_iff)
  have u: "fe_us sim_fabric_env = sim_uuid" by (simp add: sim_fabric_env_def sim_fabric_def)
  from disks_attached [OF c, of "''lkvm''" sim_realm_config 7 "[]", unfolded u]
  have "cmd_args (prepare_run_command sim_uuid
      (VmRunner_new (LkvmRunner_new ''lkvm'' sim_realm_config) 7 ''warden/7'' :: unit VmRunner) ([] @ [1])) =
    cmd_args (prepare_run_command sim_uuid
      (VmRunner_new (LkvmRunner_new ''lkvm'' sim_realm_config) 7 ''warden/7'' :: unit VmRunner) []) @
    [''-d'', file_path (am_disk (projr (fst ?c)))]" by (rule conjunct1)
  then show ?thesis by simp
qed

end
