(* ===== verification/Warden_Properties.thy ===== *)
theory Warden_Properties
  imports Simulation
begin

text \<open>
  The properties of the Warden over the daemon's realms and of the client tasks that share it.
\<close>

section \<open>Creating and destroying realms\<close>

text \<open>
  (C28) Creating a realm: on success the identifier is the requested one, if one was requested,
  it was not in use, and the Warden has exactly one more realm, which is \<open>Halted\<close> and has no
  applications; on failure the Warden's realms are unchanged.
\<close>

theorem warden_create:
  assumes "wd_create_realm (daemon_warden_env F P C new_v4 order late join cli) rid config (d, w) =
           (x, (d', w'))"
  shows "case x of
           Inl e \<Rightarrow> d' = d
         | Inr u \<Rightarrow> (\<forall>i. rid = Some i \<longrightarrow> u = i) \<and> hm_get (realms_managers d) u = None \<and>
             (\<exists>r. hm_get (realms_managers d') = (hm_get (realms_managers d))(u \<mapsto> r) \<and>
                  rm_state r = Halted \<and> rm_applications r = [] \<and> repo_data (rm_config r) = config)"
  using create_run [OF assms]
  by (cases x)
    (auto simp: daemon_warden_env_def RealmManagerFabric_ops_def dest!: rf_create_ok)

theorem warden_create_witness:
  "\<exists>r. hm_get (realms_managers (fst sim_warden)) 7 = Some r \<and> rm_state r = Halted"
proof -
  have "fst (wd_create_realm sim_warden_env (Some 7) sim_realm_config (WardenDaemon_new [], host0)) = Inr 7"
    by code_simp
  from warden_create [OF run_split [OF this, unfolded sim_warden_env_def]] show ?thesis
    by (auto simp: sim_warden_def sim_warden_env_def)
qed

text \<open>What a realm of the daemon answers when it is asked for its data.\<close>

lemma data_answer:
  assumes "r_get_realm_data (we_realm (daemon_warden_env F P C new_v4 order late join cli)) (r, w) = (y, (r', w'))"
  shows "case if rm_state r = Running \<or> rm_state r = NeedReboot
              then fst (rch_read_realm_ifs C (rm_client r, w)) else Inr [] of
           Inr _ \<Rightarrow> \<exists>d. y = Inr d
         | Inl e \<Rightarrow> y = Inl (RealmAcuireIpsFail (realm_client_error_to_string e))"
proof -
  obtain z h v where z: "rch_read_realm_ifs C (rm_client r, w) = (z, (h, v))" by (metis surj_pair)
  then show ?thesis
    using assms
    by (cases z)
      (auto simp: daemon_warden_env_def RealmManager_ops_def rm_get_realm_data_def daemon_realm_env_def
        RealmClientHandler_ops_def on_client_def zoom_def prog_defs split: if_splits)
qed

text \<open>
  (C9) Destroying a realm never reaches the panic of the owned-\<open>Arc\<close> expectation, never touches
  another realm, and succeeds only for a realm that was registered, \<open>Halted\<close> and not in use by
  another client; the realm is then gone. A realm in use is refused as busy, an unknown one as
  missing. One that nobody else uses but that is not \<open>Halted\<close> stays registered and is refused as not stopped, unless
  its addresses had to be read from the running guest for that and could not: then this failure is reported.
\<close>

theorem warden_destroy:
  fixes F P C new_v4 order late join cli
  defines "E \<equiv> daemon_warden_env F P C new_v4 order late join cli"
  assumes "wd_destroy_realm E u (d, w) = (x, (d', w'))"
  shows "(\<forall>m. x \<noteq> Inl (Panicked m)) \<and>
         (\<forall>v. v \<noteq> u \<longrightarrow> hm_get (realms_managers d') v = hm_get (realms_managers d) v) \<and>
         (x = Inr () \<longrightarrow> wd_clones d u = 0 \<and> hm_get (realms_managers d') u = None \<and>
            (\<exists>r. hm_get (realms_managers d) u = Some r \<and> rm_state r = Halted)) \<and>
         (hm_get (realms_managers d) u = None \<longrightarrow> x = Inl (Failed (NoSuchRealm u)) \<and> d' = d) \<and>
         (hm_get (realms_managers d) u \<noteq> None \<and> wd_clones d u > 0 \<longrightarrow>
            x = Inl (Failed RealmIsBusy) \<and> d' = d) \<and>
         (\<forall>r. hm_get (realms_managers d) u = Some r \<and> wd_clones d u = 0 \<and> rm_state r \<noteq> Halted \<longrightarrow>
            hm_get (realms_managers d') u \<noteq> None \<and>
            x = Inl (Failed
              (case if rm_state r = Running \<or> rm_state r = NeedReboot
                    then fst (rch_read_realm_ifs C (rm_client r, w)) else Inr [] of
                 Inr _ \<Rightarrow> DestroyFail ''Can't destroy realm that isn't stopped.''
               | Inl e \<Rightarrow> RealmInspect (realm_error_to_string (fe_us F)
                             (RealmAcuireIpsFail (realm_client_error_to_string e))))))"
proof -
  have ok: "wd_clones d u = 0 \<and> hm_get (realms_managers d') u = None \<and>
            (\<exists>r. hm_get (realms_managers d) u = Some r \<and> rm_state r = Halted)" if "x = Inr ()"
    using destroy_ok [of E u d w "()" d' w'] dw.destroyed_halted [of F P C new_v4 order late join cli u d w "()" d' w']
      assms that by (auto simp: E_def)
  have nh: "hm_get (realms_managers d') u \<noteq> None \<and>
            x = Inl (Failed
              (case if rm_state r = Running \<or> rm_state r = NeedReboot
                    then fst (rch_read_realm_ifs C (rm_client r, w)) else Inr [] of
                 Inr _ \<Rightarrow> DestroyFail ''Can't destroy realm that isn't stopped.''
               | Inl e \<Rightarrow> RealmInspect (realm_error_to_string (fe_us F)
                             (RealmAcuireIpsFail (realm_client_error_to_string e)))))"
    if r: "hm_get (realms_managers d) u = Some r" "wd_clones d u = 0" "rm_state r \<noteq> Halted" for r
  proof -
    obtain y r' v where data: "r_get_realm_data (we_realm E) (r, w) = (y, (r', v))" by (metis surj_pair)
    from data_answer [OF data [unfolded E_def]] dw.destroy_not_halted [OF r data [unfolded E_def]] assms(2)
    show ?thesis by (auto simp: E_def daemon_warden_env_def split: sum.splits)
  qed
  show ?thesis
    using destroy_run [OF assms(2)] ok nh assms(2)
    by (auto simp: warden_frame_def destroy_refused)
qed

theorem warden_destroy_witness:
  "hm_get (realms_managers (fst (snd (wd_destroy_realm sim_warden_env 7 (fst sim_warden, snd sim_warden))))) 7 = None"
proof -
  have "fst (wd_destroy_realm sim_warden_env 7 (fst sim_warden, snd sim_warden)) = Inr ()" by code_simp
  from warden_destroy [OF run_split [OF this, unfolded sim_warden_env_def]] show ?thesis
    by (simp add: sim_warden_env_def)
qed

text \<open>
  When the clean-up of a destroyed realm fails (its tap device or its directory cannot be
  removed), the caller gets an error but the realm is no longer registered, so that destroying
  it again can only report that there is no such realm: what was left behind cannot be removed
  through the Warden.
\<close>

lemma warden_destroy_cleanup_lost:
  assumes "ensure_realm_can_be_deleted E u (d, w) = (Inr (), (d1, w1))"
    and "hm_get (realms_managers d1) u = Some r"
    and "r_destroy (we_realm E) (r, w1) = (y, (r', w2))"
    and "clean_up_realm_in (we_fabric E) u w2 = (Inl e, w3)"
  shows "\<exists>d'. wd_destroy_realm E u (d, w) = (Inl (Failed e), (d', w3)) \<and>
           hm_get (realms_managers d') u = None \<and>
           (\<forall>v. wd_destroy_realm E u (d', v) = (Inl (Failed (NoSuchRealm u)), (d', v)))"
proof -
  have c: "wd_clones d1 u = 0"
    using ensure_run [OF assms(1)] by auto
  let ?d = "d1\<lparr>realms_managers := hm_remove u (realms_managers d1)\<rparr>"
  have "wd_destroy_realm E u (d, w) = (Inl (Failed e), (?d, w3))"
    using assms c by (simp add: wd_destroy_realm_def prog_defs in_world_run strong_count_def)
  then show ?thesis by (intro exI [of _ ?d]) (simp add: destroy_refused)
qed

lemma warden_destroy_cleanup_lost_witness:
  "\<exists>d'. hm_get (realms_managers d') 7 = None \<and>
     wd_destroy_realm busy_warden_env 7 (d', host0) = (Inl (Failed (NoSuchRealm 7)), (d', host0))"
proof -
  let ?e = "ensure_realm_can_be_deleted busy_warden_env 7 (fst sim_warden, snd sim_warden)"
  let ?r = "the (hm_get (realms_managers (fst (snd ?e))) 7)"
  let ?y = "r_destroy (we_realm busy_warden_env) (?r, snd (snd ?e))"
  let ?c = "clean_up_realm_in (we_fabric busy_warden_env) 7 (snd (snd ?y))"
  have e: "fst ?e = Inr ()" by code_simp
  have "hm_get (realms_managers (fst (snd ?e))) 7 \<noteq> None" by code_simp
  then have r: "hm_get (realms_managers (fst (snd ?e))) 7 = Some ?r" by simp
  have "fst ?c = Inl (DestroyFail ''busy'')" by code_simp
  then have c: "?c = (Inl (DestroyFail ''busy''), snd ?c)" by (simp add: prod_eq_iff)
  from warden_destroy_cleanup_lost [OF run_split [OF e] r run_split [OF refl] c] show ?thesis by blast
qed

text \<open>
  Listing the realms reports every registered realm once, in the order of the map, with its
  own state.
\<close>

lemma warden_list_exact:
  assumes "wd_list_realms (daemon_warden_env F P C new_v4 order late join cli) (d, w) = (Inr ds, (d', w'))"
  shows "map (\<lambda>x. (realm_uuid x, realm_state (realm_data x))) ds =
           map (\<lambda>(u, r). (u, rm_state r)) (realms_managers d) \<and>
         hm_keys (realms_managers d') = hm_keys (realms_managers d)"
  using dw.listed [OF assms] list_kept [OF assms] by simp

lemma warden_list_exact_witness:
  "map (\<lambda>x. (realm_uuid x, realm_state (realm_data x)))
     (projr (fst (wd_list_realms sim_warden_env (fst sim_warden, snd sim_warden)))) = [(7, Halted)]"
proof -
  let ?l = "wd_list_realms sim_warden_env (fst sim_warden, snd sim_warden)"
  have "isl (fst ?l) = False" by code_simp
  then have l: "fst ?l = Inr (projr (fst ?l))" by (cases "fst ?l") auto
  have k: "map (\<lambda>(u, r). (u, rm_state r)) (realms_managers (fst sim_warden)) = [(7, Halted)]" by code_simp
  from warden_list_exact [OF run_split [OF l, unfolded sim_warden_env_def]] k show ?thesis
    by (simp add: sim_warden_env_def)
qed

text \<open>
  (C29) A daemon that starts registers exactly the realms whose directories it finds, each once,
  all of them \<open>Halted\<close> and none in use.
\<close>

theorem warden_load:
  assumes "create_warden read_dir parse
             (we_fabric (daemon_warden_env F P C new_v4 order late join cli)) workdir w = (Inr d, w')"
  shows "\<exists>uuids w1. read_subfolders_uuids read_dir parse workdir w = (Inr uuids, w1) \<and>
           set (hm_keys (realms_managers d)) = set uuids \<and> distinct (hm_keys (realms_managers d)) \<and>
           (\<forall>u r. hm_get (realms_managers d) u = Some r \<longrightarrow> rm_state r = Halted) \<and>
           clones_ok (d, [])"
  using dw.loaded [OF assms] by (auto simp: clones_ok_def hm_wf_keys)

theorem warden_load_witness:
  "\<exists>uuids w1. read_subfolders_uuids (fe_read_dir sim_fabric_env) (fe_parse sim_fabric_env) ''warden''
     (snd sim_warden) = (Inr uuids, w1) \<and>
     set (hm_keys (realms_managers (projr (fst (create_warden (fe_read_dir sim_fabric_env)
       (fe_parse sim_fabric_env) (we_fabric sim_warden_env) ''warden'' (snd sim_warden)))))) = set uuids"
proof -
  let ?c = "create_warden (fe_read_dir sim_fabric_env) (fe_parse sim_fabric_env)
     (we_fabric sim_warden_env) ''warden'' (snd sim_warden)"
  have "isl (fst ?c) = False" by code_simp
  then have c: "?c = (Inr (projr (fst ?c)), snd ?c)" by (cases "fst ?c") (auto simp: prod_eq_iff)
  from warden_load [OF c [unfolded sim_warden_env_def]] show ?thesis
    unfolding sim_warden_env_def by blast
qed

text \<open>
  (C8) Client tasks may interleave in any way: as long as a task holds a clone of a realm, that
  realm stays registered, and the number of clones the Warden sees is the number of holders. So
  no task ever works on a realm that was destroyed under it.
\<close>

theorem warden_interleaving:
  assumes "(warden_step E)\<^sup>*\<^sup>* (d, []) (d', holders)" and "wd_clones d = (\<lambda>_. 0)"
  shows "\<forall>u \<in> set holders. hm_get (realms_managers d') u \<noteq> None \<and>
           wd_destroy_realm E u (d', w) = (Inl (Failed RealmIsBusy), (d', w))"
proof -
  have ok: "clones_ok (d', holders)"
    using warden_steps_clones_ok [OF assms(1)] assms(2) by (simp add: clones_ok_def)
  show ?thesis
  proof
    fix u assume u: "u \<in> set holders"
    with ok obtain r where r: "hm_get (realms_managers d') u = Some r" by (auto simp: clones_ok_def)
    from ok u have "wd_clones d' u \<noteq> 0" by (simp add: clones_ok_def count_list_0_iff)
    with r show "hm_get (realms_managers d') u \<noteq> None \<and>
        wd_destroy_realm E u (d', w) = (Inl (Failed RealmIsBusy), (d', w))"
      by (simp add: destroy_refused)
  qed
qed

theorem warden_interleaving_witness:
  "wd_destroy_realm sim_warden_env 7 (fst (snd (wd_get_realm 7 sim_warden)), host0) =
     (Inl (Failed RealmIsBusy), (fst (snd (wd_get_realm 7 sim_warden)), host0))"
proof -
  let ?g = "wd_get_realm 7 (fst sim_warden, snd sim_warden)"
  have "isl (fst ?g) = False" by code_simp
  then have "fst ?g = Inr (projr (fst ?g))" by (cases "fst ?g") auto
  from step_get [OF run_split [OF this], of sim_warden_env "[]"]
  have s: "(warden_step sim_warden_env)\<^sup>*\<^sup>* (fst sim_warden, []) (fst (snd ?g), [7])" by simp
  have "\<And>u. wd_clones (fst sim_warden) u = 0"
    using create_run [OF run_split [OF refl,
        of "wd_create_realm sim_warden_env (Some 7) sim_realm_config (WardenDaemon_new [], host0)"]]
    by (auto simp: sim_warden_def WardenDaemon_new_def split: sum.splits)
  then have "wd_clones (fst sim_warden) = (\<lambda>_. 0)" by auto
  from warden_interleaving [OF s this, of host0] show ?thesis by simp
qed

end
