(* ===== verification/Cmd_Client.thy ===== *)
theory Cmd_Client
  imports Client_Lib
begin

text \<open>
  The command-line client (\<open>warden/cmd_client/src\<close>): a terminal that reads a line, parses it
  into a command, sends the command through the client library and reports the answer. The parser
  (clap, shlex), the hex decoder, the identifier parser and the token verifier are third-party code
  and, with the terminal itself, arguments of the model (\<open>Terminal\<close>). The last section joins the
  terminal with the library and the daemon.
\<close>

section \<open>Commands\<close>

text \<open>
  What the user can type (\<open>commands.rs\<close>). The fourteen options of \<open>CreateRealm\<close> are a record; the
  defaults that clap fills in belong to the parser.
\<close>

record CreateRealmArgs =
  cr_id :: "uuid option"
  cr_cpu :: string
  cr_machine :: string
  cr_core_count :: usize
  cr_ram_size :: usize
  cr_tap_device :: string
  cr_mac_address :: string
  cr_network_device :: "string option"
  cr_remote_terminal_uri :: "string option"
  cr_kernel_initramfs :: "path option"
  cr_kernel_options :: "string option"
  cr_kernel :: path
  cr_vsock_cid :: u32
  cr_metadata :: "path option"

datatype ClientCommand =
    CmdCreateRealm CreateRealmArgs
  | CmdFetchAttestationToken string string "path option"
  | CmdListRealms
  | CmdStartRealm string
  | CmdInspectRealm string
  | CmdStopRealm string
  | CmdRebootRealm string
  | CmdDestroyRealm string
  | CmdCreateApplication string string string string u32 u32
  | CmdStartApplication string string
  | CmdStopApplication string string
  | CmdUpdateApplication string string string string string u32 u32

text \<open>What \<open>anyhow::Error\<close> can hold here, by the call that raised it.\<close>

datatype CmdError =
    CmdUuid string
  | CmdHex string
  | CmdClient WardenClientError
  | CmdIo io_error
  | CmdToken string
  | CmdParse string

record ('claims, 'w) Terminal =
  t_uuid_from_str :: "string \<Rightarrow> string + uuid"
  t_hex_decode :: "string \<Rightarrow> string + bytes"
  t_verify_token :: "bytes \<Rightarrow> string + 'claims"
  t_print_token :: "'claims \<Rightarrow> 'w \<Rightarrow> 'w"
  t_fs_write :: "path \<Rightarrow> bytes \<Rightarrow> ('w, io_error, unit) prog"
  t_uuid_string :: "uuid \<Rightarrow> string"
  t_dbg_description :: "C_RealmDescription \<Rightarrow> string"
  t_dbg_descriptions :: "C_RealmDescription list \<Rightarrow> string"
  t_dbg_path :: "path \<Rightarrow> string"
  t_err_string :: "CmdError \<Rightarrow> string"
  t_dbg_error :: "CmdError \<Rightarrow> string"
  t_info :: "string \<Rightarrow> 'w \<Rightarrow> 'w"
  t_error :: "string \<Rightarrow> 'w \<Rightarrow> 'w"
  t_stdout_write :: "string \<Rightarrow> ('w, io_error, unit) prog"
  t_stdout_flush :: "('w, io_error, unit) prog"
  t_stdin_read_line :: "('w, io_error, string) prog"
  t_shlex_split :: "string \<Rightarrow> string list option"
  t_try_parse_from :: "string list \<Rightarrow> string + ClientCommand"

section \<open>The command handler\<close>

record 'st CommandHandler =
  ch_connection :: "'st WardenConnection"

definition CommandHandler_new :: "'st WardenConnection \<Rightarrow> 'st CommandHandler" where
  "CommandHandler_new c = \<lparr>ch_connection = c\<rparr>"

definition ch_call ::
  "('st WardenConnection \<times> 'w, WardenClientError, 'a) prog \<Rightarrow> ('st CommandHandler \<times> 'w, CmdError, 'a) prog" where
  "ch_call m =
     map_err CmdClient
       (zoom (\<lambda>(h, w). (ch_connection h, w)) (\<lambda>(c, w') (h, w). (h\<lparr>ch_connection := c\<rparr>, w')) m)"

definition log_info :: "('claims, 'w) Terminal \<Rightarrow> string \<Rightarrow> ('h \<times> 'w, CmdError, unit) prog" where
  "log_info T msg = upd (\<lambda>(h, w). (h, t_info T msg w))"

definition log_error :: "('claims, 'w) Terminal \<Rightarrow> string \<Rightarrow> ('h \<times> 'w, CmdError, unit) prog" where
  "log_error T msg = upd (\<lambda>(h, w). (h, t_error T msg w))"

definition parse_uuid :: "('claims, 'w) Terminal \<Rightarrow> string \<Rightarrow> ('s, CmdError, uuid) prog" where
  "parse_uuid T s = map_err CmdUuid (of_result (t_uuid_from_str T s))"

definition realm_config_of :: "CreateRealmArgs \<Rightarrow> C_RealmConfig" where
  "realm_config_of a =
     \<lparr>c_id = cr_id a, c_machine = cr_machine a,
      c_cpu_config = \<lparr>c_cpu = cr_cpu a, c_cores_number = cr_core_count a\<rparr>,
      c_memory = \<lparr>c_ram_size = cr_ram_size a\<rparr>,
      c_network_config =
        \<lparr>c_vsock_cid = cr_vsock_cid a, c_tap_device = cr_tap_device a, c_mac_address = cr_mac_address a,
         c_hardware_device = cr_network_device a, c_remote_terminal_uri = cr_remote_terminal_uri a\<rparr>,
      c_kernel =
        \<lparr>c_kernel_path = cr_kernel a, c_kernel_initramfs_path = cr_kernel_initramfs a,
         c_kernel_cmd_params = cr_kernel_options a\<rparr>,
      c_metadata = cr_metadata a\<rparr>"

definition application_config_of :: "string \<Rightarrow> string \<Rightarrow> string \<Rightarrow> u32 \<Rightarrow> u32 \<Rightarrow> C_ApplicationConfig" where
  "application_config_of name version registry image_mb data_mb =
     \<lparr>c_app_name = name, c_app_version = version, c_image_registry = registry,
      c_image_storage_size_mb = image_mb, c_data_storage_size_mb = data_mb\<rparr>"

definition report_token ::
  "('claims, 'w) Terminal \<Rightarrow> path option \<Rightarrow> bytes \<Rightarrow> ('h \<times> 'w, CmdError, unit) prog" where
  "report_token T output token =
     try_bind (log_info T ''Fetched attestation token'') (\<lambda>_.
     case output of
       Some path \<Rightarrow>
         try_bind (map_err CmdIo (in_world (t_fs_write T path token))) (\<lambda>_.
         log_info T (''Token written to '' @ t_dbg_path T path))
     | None \<Rightarrow>
         try_bind (log_info T ''Attestiation token:'') (\<lambda>_.
         try_bind (map_err CmdToken (of_result (t_verify_token T token))) (\<lambda>claims.
         upd (\<lambda>(h, w). (h, t_print_token T claims w)))))"

fun cmd_handle_command ::
  "('claims, 'w) Terminal \<Rightarrow> ('st, 'w) Communicator \<Rightarrow> ClientCommand \<Rightarrow>
     ('st CommandHandler \<times> 'w, CmdError, unit) prog" where
  "cmd_handle_command T F (CmdCreateRealm a) =
     try_bind (ch_call (wc_create_realm F (realm_config_of a))) (\<lambda>realm_uuid.
     log_info T (''Created realm with uuid: '' @ t_uuid_string T realm_uuid))"
| "cmd_handle_command T F (CmdStartRealm i) =
     try_bind (parse_uuid T i) (\<lambda>u. ch_call (wc_start_realm F u))"
| "cmd_handle_command T F (CmdFetchAttestationToken i challenge output) =
     try_bind (map_err CmdHex (of_result (t_hex_decode T challenge))) (\<lambda>raw_chall.
     try_bind (parse_uuid T i) (\<lambda>u.
     try_bind (ch_call (wc_fetch_attestation_token F u raw_chall)) (\<lambda>token.
     report_token T output token)))"
| "cmd_handle_command T F (CmdStopRealm i) =
     try_bind (parse_uuid T i) (\<lambda>u. ch_call (wc_stop_realm F u))"
| "cmd_handle_command T F (CmdInspectRealm i) =
     try_bind (parse_uuid T i) (\<lambda>u.
     try_bind (ch_call (wc_inspect_realm F u)) (\<lambda>realm_data.
     log_info T (''Realm data: '' @ t_dbg_description T realm_data)))"
| "cmd_handle_command T F CmdListRealms =
     try_bind (ch_call (wc_list_realms F)) (\<lambda>realms_data.
     log_info T (''Realms data: '' @ t_dbg_descriptions T realms_data))"
| "cmd_handle_command T F (CmdDestroyRealm i) =
     try_bind (parse_uuid T i) (\<lambda>u. ch_call (wc_destroy_realm F u))"
| "cmd_handle_command T F (CmdRebootRealm i) =
     try_bind (parse_uuid T i) (\<lambda>u. ch_call (wc_reboot_realm F u))"
| "cmd_handle_command T F (CmdCreateApplication i name version registry image_mb data_mb) =
     try_bind (parse_uuid T i) (\<lambda>u.
     try_bind (ch_call (wc_create_application F u (application_config_of name version registry image_mb data_mb))) (\<lambda>a.
     log_info T (''Application uuid: '' @ t_uuid_string T a)))"
| "cmd_handle_command T F (CmdStartApplication aid i) =
     try_bind (parse_uuid T i) (\<lambda>u.
     try_bind (parse_uuid T aid) (\<lambda>a. ch_call (wc_start_application F u a)))"
| "cmd_handle_command T F (CmdStopApplication aid i) =
     try_bind (parse_uuid T i) (\<lambda>u.
     try_bind (parse_uuid T aid) (\<lambda>a. ch_call (wc_stop_application F u a)))"
| "cmd_handle_command T F (CmdUpdateApplication aid i name version registry image_mb data_mb) =
     try_bind (parse_uuid T i) (\<lambda>u.
     try_bind (parse_uuid T aid) (\<lambda>a.
     ch_call (wc_update_application F u a (application_config_of name version registry image_mb data_mb))))"

section \<open>The terminal\<close>

definition write_line_begining :: "('claims, 'w) Terminal \<Rightarrow> ('w, CmdError, unit) prog" where
  "write_line_begining T =
     try_bind (map_err CmdIo (t_stdout_write T ''$ '')) (\<lambda>_. map_err CmdIo (t_stdout_flush T))"

definition terminal_read_line :: "('claims, 'w) Terminal \<Rightarrow> ('w, CmdError, string) prog" where
  "terminal_read_line T = map_err CmdIo (t_stdin_read_line T)"

definition parse_users_input :: "('claims, 'w) Terminal \<Rightarrow> ('w, CmdError, ClientCommand) prog" where
  "parse_users_input T =
     try_bind (write_line_begining T) (\<lambda>_.
     try_bind (terminal_read_line T) (\<lambda>line.
     try_bind (of_result (ok_or (CmdIo \<lparr>io_kind = OtherKind, io_text = ''Can't split readed line!''\<rparr>)
                (t_shlex_split T (trim line)))) (\<lambda>argv.
     map_err CmdParse (of_result (t_try_parse_from T argv)))))"

definition handle_cmd ::
  "('claims, 'w) Terminal \<Rightarrow> ('st, 'w) Communicator \<Rightarrow> ClientCommand \<Rightarrow>
     ('st CommandHandler \<times> 'w, CmdError, unit) prog" where
  "handle_cmd T F cmd =
     attempt (cmd_handle_command T F cmd) (\<lambda>r.
     case r of
       Inl err \<Rightarrow> log_error T (''Error occured why handling command: '' @ t_dbg_error T err @ ''!'')
     | Inr _ \<Rightarrow> log_info T ''Command handled successfully.'')"

text \<open>One turn of the loop of \<open>main\<close>, and its first turns; the loop itself has no exit.\<close>

definition cmd_turn ::
  "('claims, 'w) Terminal \<Rightarrow> ('st, 'w) Communicator \<Rightarrow> ('st CommandHandler \<times> 'w, CmdError, unit) prog" where
  "cmd_turn T F =
     try_bind (log_info T ''Insert new command:'') (\<lambda>_.
     attempt (in_world (parse_users_input T)) (\<lambda>r.
     case r of
       Inr cmd \<Rightarrow> handle_cmd T F cmd
     | Inl err \<Rightarrow> log_error T (t_err_string T err)))"

primrec cmd_turns ::
  "('claims, 'w) Terminal \<Rightarrow> ('st, 'w) Communicator \<Rightarrow> nat \<Rightarrow> ('st CommandHandler \<times> 'w, CmdError, unit) prog" where
  "cmd_turns T F 0 = ok ()"
| "cmd_turns T F (Suc n) = try_bind (cmd_turn T F) (\<lambda>_. cmd_turns T F n)"

definition cmd_main ::
  "(path \<Rightarrow> ('w, io_error, 'st) prog) \<Rightarrow> ('claims, 'w) Terminal \<Rightarrow> ('st, 'w) Communicator \<Rightarrow>
     path \<Rightarrow> nat \<Rightarrow> ('w, CmdError, unit) prog" where
  "cmd_main unix_connect T F unix_socket_path n =
     try_bind (upd (t_info T ''Starting Warden cmd client! Press Ctrl^C to exit.'')) (\<lambda>_.
     try_bind (map_err CmdClient (WardenConnection_connect unix_connect unix_socket_path)) (\<lambda>connection.
     zoom (\<lambda>w. (CommandHandler_new connection, w)) (\<lambda>(h, w') w. w') (cmd_turns T F n)))"

section \<open>The terminal against the daemon\<close>

text \<open>What the user asked for: the one request that a command stands for, or why it stands for none.\<close>

definition with_uuid :: "('claims, 'w) Terminal \<Rightarrow> string \<Rightarrow> (uuid \<Rightarrow> CmdError + 'a) \<Rightarrow> CmdError + 'a" where
  "with_uuid T i f = (case t_uuid_from_str T i of Inl e \<Rightarrow> Inl (CmdUuid e) | Inr u \<Rightarrow> f u)"

fun cmd_request :: "('claims, 'w) Terminal \<Rightarrow> ClientCommand \<Rightarrow> CmdError + WardenCommand" where
  "cmd_request T (CmdCreateRealm a) = Inr (CreateRealm (realm_config_of a))"
| "cmd_request T (CmdStartRealm i) = with_uuid T i (\<lambda>u. Inr (StartRealm u))"
| "cmd_request T (CmdFetchAttestationToken i challenge output) =
     (case t_hex_decode T challenge of
        Inl e \<Rightarrow> Inl (CmdHex e)
      | Inr raw \<Rightarrow> with_uuid T i (\<lambda>u. Inr (FetchToken u raw)))"
| "cmd_request T (CmdStopRealm i) = with_uuid T i (\<lambda>u. Inr (StopRealm u))"
| "cmd_request T (CmdInspectRealm i) = with_uuid T i (\<lambda>u. Inr (InspectRealm u))"
| "cmd_request T CmdListRealms = Inr ListRealms"
| "cmd_request T (CmdDestroyRealm i) = with_uuid T i (\<lambda>u. Inr (DestroyRealm u))"
| "cmd_request T (CmdRebootRealm i) = with_uuid T i (\<lambda>u. Inr (RebootRealm u))"
| "cmd_request T (CmdCreateApplication i name version registry image_mb data_mb) =
     with_uuid T i (\<lambda>u. Inr (CreateApplication u (application_config_of name version registry image_mb data_mb)))"
| "cmd_request T (CmdStartApplication aid i) =
     with_uuid T i (\<lambda>u. with_uuid T aid (\<lambda>a. Inr (StartApplication u a)))"
| "cmd_request T (CmdStopApplication aid i) =
     with_uuid T i (\<lambda>u. with_uuid T aid (\<lambda>a. Inr (StopApplication u a)))"
| "cmd_request T (CmdUpdateApplication aid i name version registry image_mb data_mb) =
     with_uuid T i (\<lambda>u. with_uuid T aid (\<lambda>a.
       Inr (UpdateApplication u a (application_config_of name version registry image_mb data_mb))))"

text \<open>What is shown or written once the daemon has answered.\<close>

fun cmd_report ::
  "('claims, 'w) Terminal \<Rightarrow> ClientCommand \<Rightarrow> WardenResponse \<Rightarrow> ('h \<times> 'w, CmdError, unit) prog" where
  "cmd_report T (CmdFetchAttestationToken i challenge output) (WAttestationToken token) = report_token T output token"
| "cmd_report T c (WCreatedRealm u) = log_info T (''Created realm with uuid: '' @ t_uuid_string T u)"
| "cmd_report T c (WCreatedApplication a) = log_info T (''Application uuid: '' @ t_uuid_string T a)"
| "cmd_report T c (WInspectedRealm x) = log_info T (''Realm data: '' @ t_dbg_description T x)"
| "cmd_report T c (WListedRealms xs) = log_info T (''Realms data: '' @ t_dbg_descriptions T xs)"
| "cmd_report T c r = ok ()"

text \<open>The terminal (its screen, its files) is not where the daemon keeps its realms.\<close>

definition terminal_keeps :: "('claims, 'd \<times> 'w) Terminal \<Rightarrow> bool" where
  "terminal_keeps T \<longleftrightarrow>
     (\<forall>s. (\<forall>m. fst (t_info T m s) = fst s \<and> fst (t_error T m s) = fst s) \<and>
        (\<forall>x. fst (t_print_token T x s) = fst s) \<and> (\<forall>p b. fst (snd (t_fs_write T p b s)) = fst s) \<and>
        (\<forall>m. fst (snd (t_stdout_write T m s)) = fst s) \<and> fst (snd (t_stdout_flush T s)) = fst s \<and>
        fst (snd (t_stdin_read_line T s)) = fst s)"

text \<open>How a command that the daemon could not carry out fails at the terminal.\<close>

definition reported_failure :: "(uuid \<Rightarrow> string) \<Rightarrow> ClientError abort \<Rightarrow> CmdError" where
  "reported_failure us x = CmdClient (WardenOperationFail
     (case x of Failed e \<Rightarrow> WardenDaemonFail (client_error_to_string us e) | Panicked m \<Rightarrow> WSendingResponseFail))"

definition idle_handler :: "WardenResponse list CommandHandler" where
  "idle_handler = \<lparr>ch_connection = \<lparr>wc_communicator = []\<rparr>\<rparr>"

lemmas wc_defs =
  wc_create_realm_def wc_start_realm_def wc_fetch_attestation_token_def wc_stop_realm_def
  wc_reboot_realm_def wc_destroy_realm_def wc_inspect_realm_def wc_list_realms_def
  wc_create_application_def wc_update_application_def wc_start_application_def wc_stop_application_def

lemma call_daemon:
  assumes "\<And>r. answers c r \<Longrightarrow> k r = ok (f r)" and "\<And>e. k (WError e) = fail (WardenOperationFail e)"
  shows "ch_call (on_connection (try_bind (communicate (daemon_frames E) c) k)) (idle_handler, s) =
     (case handle_command E c s of (res, s') \<Rightarrow>
        (map_sum CmdClient id (client_view (we_us E) f res), (idle_handler, s')))"
  using request_daemon [where c = c and k = k and f = f and E = E and d = "fst s" and w = "snd s", OF assms]
  by (auto simp: ch_call_def on_connection_def idle_handler_def daemon_answer_def map_err_def zoom_def
      split: prod.split sum.split)

lemma call_report:
  assumes "\<And>r. answers c r \<Longrightarrow> k r = ok (f r)" and "\<And>e. k (WError e) = fail (WardenOperationFail e)"
    and "\<And>r. answers c r \<Longrightarrow> g (f r) = report r"
  shows "try_bind (ch_call (on_connection (try_bind (communicate (daemon_frames E) c) k))) g (idle_handler, s) =
     (case handle_command E c s of
        (Inl x, s') \<Rightarrow> (Inl (reported_failure (we_us E) x), (idle_handler, s'))
      | (Inr r, s') \<Rightarrow> report r (idle_handler, s'))"
proof -
  obtain res s' where h: "handle_command E c s = (res, s')" by (cases "handle_command E c s")
  then have "\<forall>r. res = Inr r \<longrightarrow> answers c r" by (cases s, cases s') (auto dest: handle_command_answers)
  with h assms(3) show ?thesis
    by (auto simp: try_bind_def call_daemon [OF assms(1,2)] client_view_def reported_failure_def split: sum.split abort.split)
qed

lemma call_plain:
  assumes "\<And>r. answers c r \<Longrightarrow> k r = ok ()" and "\<And>e. k (WError e) = fail (WardenOperationFail e)"
    and "\<And>r. answers c r \<Longrightarrow> report r = ok ()"
  shows "ch_call (on_connection (try_bind (communicate (daemon_frames E) c) k)) (idle_handler, s) =
     (case handle_command E c s of
        (Inl x, s') \<Rightarrow> (Inl (reported_failure (we_us E) x), (idle_handler, s'))
      | (Inr r, s') \<Rightarrow> report r (idle_handler, s'))"
  using call_report [where f = "\<lambda>_. ()" and g = ok and report = report and E = E and s = s, OF assms(1,2)] assms(3)
  by simp

lemma parse_uuid_run:
  "try_bind (parse_uuid T i) f s =
     (case t_uuid_from_str T i of Inl e \<Rightarrow> (Inl (CmdUuid e), s) | Inr u \<Rightarrow> f u s)"
  by (simp add: parse_uuid_def prog_defs split: sum.split)

lemma hex_run:
  "try_bind (map_err CmdHex (of_result r)) f s = (case r of Inl e \<Rightarrow> (Inl (CmdHex e), s) | Inr x \<Rightarrow> f x s)"
  by (simp add: prog_defs split: sum.split)

lemmas cmd_steps = cmd_handle_command.simps cmd_request.simps with_uuid_def parse_uuid_run hex_run wc_defs cl_defs

lemma cmd_handle_command_daemon:
  "cmd_handle_command T (daemon_frames E) c (idle_handler, s) =
     (case cmd_request T c of
        Inl e \<Rightarrow> (Inl e, (idle_handler, s))
      | Inr wc \<Rightarrow>
          (case handle_command E wc s of
             (Inl x, s') \<Rightarrow> (Inl (reported_failure (we_us E) x), (idle_handler, s'))
           | (Inr r, s') \<Rightarrow> cmd_report T c r (idle_handler, s')))"
proof (cases c)
  case (CmdCreateRealm a)
  then show ?thesis
    by (simp only: cmd_steps sum.case) (rule call_report [where f = "\<lambda>r. case r of WCreatedRealm u \<Rightarrow> u"]; auto)
next
  case CmdListRealms
  then show ?thesis
    by (simp only: cmd_steps sum.case) (rule call_report [where f = "\<lambda>r. case r of WListedRealms u \<Rightarrow> u"]; auto)
next
  case (CmdInspectRealm i)
  then show ?thesis
    by (simp only: cmd_steps split: sum.split)
      (auto simp del: handle_command.simps intro!: call_report [where f = "\<lambda>r. case r of WInspectedRealm u \<Rightarrow> u"])
next
  case (CmdCreateApplication i n v r im da)
  then show ?thesis
    by (simp only: cmd_steps split: sum.split)
      (auto simp del: handle_command.simps intro!: call_report [where f = "\<lambda>r. case r of WCreatedApplication u \<Rightarrow> u"])
next
  case (CmdFetchAttestationToken i ch out)
  then show ?thesis
    by (simp only: cmd_steps split: sum.split)
      (auto simp del: handle_command.simps intro!: call_report [where f = "\<lambda>r. case r of WAttestationToken u \<Rightarrow> u"])
qed (simp only: cmd_steps split: sum.split, auto simp del: handle_command.simps intro!: call_plain)+

section \<open>The loop\<close>

lemma terminal_keepsD:
  assumes "terminal_keeps T"
  shows "fst (t_info T m s) = fst s" "fst (t_error T m s) = fst s" "fst (t_print_token T x s) = fst s"
    "t_fs_write T p b s = (r, s') \<Longrightarrow> fst s' = fst s" "t_stdout_write T m s = (r, s') \<Longrightarrow> fst s' = fst s"
    "t_stdout_flush T s = (r, s') \<Longrightarrow> fst s' = fst s" "t_stdin_read_line T s = (q, s') \<Longrightarrow> fst s' = fst s"
proof -
  note k = assms [unfolded terminal_keeps_def, rule_format, of s]
  show "fst (t_info T m s) = fst s" "fst (t_error T m s) = fst s" "fst (t_print_token T x s) = fst s"
    using k by simp_all
  show "t_fs_write T p b s = (r, s') \<Longrightarrow> fst s' = fst s" using k by (metis snd_conv)
  show "t_stdout_write T m s = (r, s') \<Longrightarrow> fst s' = fst s" using k by (metis snd_conv)
  show "t_stdout_flush T s = (r, s') \<Longrightarrow> fst s' = fst s" using k by (metis snd_conv)
  show "t_stdin_read_line T s = (q, s') \<Longrightarrow> fst s' = fst s" using k by (metis snd_conv)
qed

lemma report_token_keeps:
  assumes "terminal_keeps T" and "report_token T output token (h, s) = (r, (h', s'))"
  shows "h' = h \<and> fst s' = fst s"
  using assms(2)
  by (auto simp: report_token_def log_info_def in_world_run prog_defs terminal_keepsD [OF assms(1)]
      dest: terminal_keepsD(4) [OF assms(1)] split: option.splits sum.splits prod.splits)

lemma log_info_run: "log_info T m (h, s) = (Inr (), (h, t_info T m s))"
  by (simp add: log_info_def upd_def)

lemma log_error_run: "log_error T m (h, s) = (Inr (), (h, t_error T m s))"
  by (simp add: log_error_def upd_def)

lemma cmd_report_keeps:
  assumes "terminal_keeps T" and "cmd_report T c r (h, s) = (x, (h', s'))"
  shows "h' = h \<and> fst s' = fst s"
  using assms(2)
  by (cases "(T, c, r)" rule: cmd_report.cases)
    (auto simp: log_info_run ok_def terminal_keepsD [OF assms(1)] dest: report_token_keeps [OF assms(1)])

lemma parse_users_input_keeps:
  assumes "terminal_keeps T" and "parse_users_input T s = (r, s')"
  shows "fst s' = fst s"
  using assms(2)
  by (auto simp: parse_users_input_def write_line_begining_def terminal_read_line_def prog_defs
      dest!: terminal_keepsD(5-7) [OF assms(1)] split: sum.splits prod.splits)

lemma terminal_never_returns:
  assumes "\<And>s. isl (fst (parse_users_input T s))"
  shows "\<exists>w'. cmd_turns T F n (h, w) = (Inr (), (h, w'))"
proof (induction n arbitrary: w)
  case (Suc n)
  obtain e v where p: "parse_users_input T (t_info T ''Insert new command:'' w) = (Inl e, v)"
    using assms [of "t_info T ''Insert new command:'' w"]
    by (cases "parse_users_input T (t_info T ''Insert new command:'' w)") (auto simp: isl_def)
  then have "cmd_turn T F (h, w) = (Inr (), (h, t_error T (t_err_string T e) v))"
    by (simp add: cmd_turn_def log_info_run try_bind_def attempt_def in_world_run log_error_run)
  with Suc show ?case by (simp add: try_bind_def)
qed (simp add: ok_def)

text \<open>What a line typed at the terminal does to the realms of the daemon.\<close>

definition typed_effect ::
  "('claims, 'realm WardenDaemon \<times> 'w) Terminal \<Rightarrow> ('realm, 'app, 'w) WardenEnv \<Rightarrow>
     (CmdError + ClientCommand) \<Rightarrow> 'realm WardenDaemon \<times> 'w \<Rightarrow> 'realm WardenDaemon" where
  "typed_effect T E line s =
     (case line of
        Inl _ \<Rightarrow> fst s
      | Inr c \<Rightarrow> (case cmd_request T c of Inl _ \<Rightarrow> fst s | Inr wc \<Rightarrow> fst (snd (handle_command E wc s))))"

lemma handle_cmd_effect:
  assumes "terminal_keeps T"
  shows "\<exists>s'. handle_cmd T (daemon_frames E) c (idle_handler, s) = (Inr (), (idle_handler, s')) \<and>
    fst s' = typed_effect T E (Inr c) s"
proof -
  obtain r h s' where run: "cmd_handle_command T (daemon_frames E) c (idle_handler, s) = (r, (h, s'))"
    by (metis prod.exhaust)
  then have "h = idle_handler \<and> fst s' = typed_effect T E (Inr c) s"
    by (auto simp: cmd_handle_command_daemon typed_effect_def simp del: handle_command.simps
        dest: cmd_report_keeps [OF assms] split: sum.splits prod.splits)
  with run show ?thesis
    by (cases r) (simp_all add: handle_cmd_def attempt_def log_error_run log_info_run terminal_keepsD [OF assms]
        del: split_paired_Ex)
qed

lemma cmd_turn_effect:
  assumes "terminal_keeps T" and "parse_users_input T (t_info T ''Insert new command:'' s) = (line, s1)"
  shows "fst s1 = fst s \<and> (\<exists>s'. cmd_turn T (daemon_frames E) (idle_handler, s) = (Inr (), (idle_handler, s')) \<and>
    fst s' = typed_effect T E line s1)"
proof -
  have s1: "fst s1 = fst s" using parse_users_input_keeps [OF assms] terminal_keepsD(1) [OF assms(1)] by simp
  have "cmd_turn T (daemon_frames E) (idle_handler, s) =
     (case line of Inr cmd \<Rightarrow> handle_cmd T (daemon_frames E) cmd
      | Inl err \<Rightarrow> log_error T (t_err_string T err)) (idle_handler, s1)"
    by (simp add: cmd_turn_def log_info_run try_bind_def attempt_def in_world_run assms(2))
  with s1 handle_cmd_effect [OF assms(1), of E _ s1] show ?thesis
    by (cases line) (simp_all add: log_error_run terminal_keepsD [OF assms(1)] typed_effect_def del: split_paired_Ex)
qed

text \<open>
  A session: the requests that the typed lines stand for, in order, and a daemon that carries out a
  list of commands, whatever else happens to the world between them.
\<close>

fun line_requests :: "('claims, 'w) Terminal \<Rightarrow> (CmdError + ClientCommand) \<Rightarrow> WardenCommand list" where
  "line_requests T (Inl e) = []"
| "line_requests T (Inr c) = (case cmd_request T c of Inl e \<Rightarrow> [] | Inr wc \<Rightarrow> [wc])"

primrec typed_requests ::
  "('claims, 'realm WardenDaemon \<times> 'w) Terminal \<Rightarrow> ('realm, 'app, 'w) WardenEnv \<Rightarrow> nat \<Rightarrow>
     'realm WardenDaemon \<times> 'w \<Rightarrow> WardenCommand list" where
  "typed_requests T E 0 s = []"
| "typed_requests T E (Suc n) s =
     line_requests T (fst (parse_users_input T (t_info T ''Insert new command:'' s))) @
     typed_requests T E n (snd (snd (cmd_turn T (daemon_frames E) (idle_handler, s))))"

inductive served ::
  "('realm, 'app, 'w) WardenEnv \<Rightarrow> WardenCommand list \<Rightarrow> 'realm WardenDaemon \<Rightarrow> 'realm WardenDaemon \<Rightarrow> bool"
  for E where
  served_none: "served E [] d d"
| served_next: "handle_command E c (d, w) = (r, (d1, w1)) \<Longrightarrow> served E cs d1 d2 \<Longrightarrow> served E (c # cs) d d2"

lemma served_effect:
  assumes "served E cs (typed_effect T E line s) d"
  shows "served E (line_requests T line @ cs) (fst s) d"
proof (cases "\<exists>c wc. line = Inr c \<and> cmd_request T c = Inr wc")
  case True
  then obtain c wc where c: "line = Inr c" "cmd_request T c = Inr wc" by blast
  obtain r d1 w1 where h: "handle_command E wc (fst s, snd s) = (r, (d1, w1))" by (metis prod.exhaust)
  with assms c have "served E cs d1 d" by (simp add: typed_effect_def del: handle_command.simps)
  with served_next [OF h] c show ?thesis by simp
next
  case False
  with assms show ?thesis by (cases line) (auto simp: typed_effect_def split: sum.splits)
qed

lemma session_served:
  assumes "terminal_keeps T"
  shows "\<exists>s'. cmd_turns T (daemon_frames E) n (idle_handler, s) = (Inr (), (idle_handler, s')) \<and>
    served E (typed_requests T E n s) (fst s) (fst s')"
proof (induction n arbitrary: s)
  case 0
  then show ?case by (auto simp: ok_def intro: served_none)
next
  case (Suc n)
  obtain line s1 where p: "parse_users_input T (t_info T ''Insert new command:'' s) = (line, s1)"
    by (metis prod.exhaust)
  from cmd_turn_effect [OF assms p, of E] obtain s2
    where t: "cmd_turn T (daemon_frames E) (idle_handler, s) = (Inr (), (idle_handler, s2))"
      "fst s2 = typed_effect T E line s1" "fst s1 = fst s" by blast
  from Suc [of s2] obtain s' where n: "cmd_turns T (daemon_frames E) n (idle_handler, s2) = (Inr (), (idle_handler, s'))"
      "served E (typed_requests T E n s2) (fst s2) (fst s')" by blast
  then have "served E (typed_requests T E (Suc n) s) (fst s) (fst s')"
    using served_effect [of E _ T line s1] p t by simp
  with t n show ?case by (simp add: try_bind_def del: split_paired_Ex)
qed

end
