(* ===== verification/Client_Properties.thy ===== *)
theory Client_Properties
  imports Simulation Cmd_Client
begin

text \<open>
  The properties of the daemon's interfaces: the command handler and its connections, the
  client library and the command-line client against the handler, and the vsock server that realms connect to.
\<close>

section \<open>Commands\<close>

text \<open>
  (C13) A command that names a realm touches only that realm: every other realm is the same
  object afterwards, no clone is left behind, and handling it never panics, whatever the
  command, its outcome and the state of the realm.
\<close>

theorem command_isolated:
  assumes "handle_command E c (d, w) = (x, (d', w'))" and "target c = Some u"
  shows "(\<forall>v. v \<noteq> u \<longrightarrow> hm_get (realms_managers d') v = hm_get (realms_managers d) v) \<and>
         wd_clones d' = wd_clones d \<and> (\<forall>m. x \<noteq> Inl (Panicked m))"
  using handle_command_frame [OF assms] handle_command_no_panic [OF assms(1)]
  by (auto simp: warden_frame_def)

theorem command_isolated_witness:
  "wd_clones (fst (snd (handle_command sim_warden_env (StartRealm 7) (fst sim_warden, snd sim_warden)))) =
     wd_clones (fst sim_warden)"
  using command_isolated [OF run_split [OF refl,
      of "handle_command sim_warden_env (StartRealm 7) (fst sim_warden, snd sim_warden)"], of 7]
  by simp

text \<open>
  A command that succeeds is answered with the response that belongs to it, in particular
  a creation with the requested identifier and an inspection with the inspected one; a command
  for a realm that is not registered changes nothing and reports that realm as missing.
\<close>

lemma command_answered:
  "(\<forall>r s'. handle_command E c (d, w) = (Inr r, s') \<longrightarrow> answers c r) \<and>
   (\<forall>u. target c = Some u \<and> hm_get (realms_managers d) u = None \<longrightarrow>
      handle_command E c (d, w) = (Inl (Failed (ClientWardenDaemonError (NoSuchRealm u))), (d, w)))"
  by (auto dest: handle_command_answers simp: handle_command_no_such_realm)

lemma command_answered_witness:
  "answers (StartRealm 7)
     (projr (fst (handle_command sim_warden_env (StartRealm 7) (fst sim_warden, snd sim_warden))))"
proof -
  let ?h = "handle_command sim_warden_env (StartRealm 7) (fst sim_warden, snd sim_warden)"
  have "fst ?h = Inr WOk" by code_simp
  then have "?h = (Inr WOk, snd ?h)" by (simp add: prod_eq_iff)
  with command_answered [of sim_warden_env "StartRealm 7" "fst sim_warden" "snd sim_warden"]
  have "answers (StartRealm 7) WOk" by blast
  with \<open>fst ?h = Inr WOk\<close> show ?thesis by simp
qed

text \<open>
  (C10) A connection on which the client sends some commands and then closes is served to the
  end: with fuel for the commands and the end of the stream the loop returns normally, every
  command has been carried out, in order and once, and the responses went out in that order.
\<close>

theorem connection_served:
  assumes "length cs < n"
  shows "handle_client_requests E queue_frames (\<lambda>_. False) n
           (\<lparr>communicator = (cs, []), conn_warden = d\<rparr>, w) =
         (case serve E cs (d, w) of (rs, (d', w')) \<Rightarrow>
            (Inr (Some ()), (\<lparr>communicator = ([], rs), conn_warden = d'\<rparr>, w')))"
  using handle_client_requests_queue [OF assms, of E "[]" d w] by simp

theorem connection_served_witness:
  "fst (handle_client_requests sim_warden_env queue_frames (\<lambda>_. False) 3
     (\<lparr>communicator = ([StartRealm 7, StopRealm 7], []), conn_warden = fst sim_warden\<rparr>, snd sim_warden)) =
   Inr (Some ())"
  using connection_served [of "[StartRealm 7, StopRealm 7]" 3 sim_warden_env "fst sim_warden" "snd sim_warden"]
  by (simp split: prod.splits)

section \<open>The client library\<close>

text \<open>
  (C11) The library against the daemon: every request returns exactly what the command handler
  did, the value of the response on success and the handler's error text as a failed Warden
  operation otherwise; no request ends with an invalid response, and the connection is left
  with no response pending.
\<close>

theorem client_library_view:
  "cl_start_realm (daemon_frames E) u ([], (d, w)) = daemon_answer E (StartRealm u) (\<lambda>_. ()) (d, w) \<and>
   cl_stop_realm (daemon_frames E) u ([], (d, w)) = daemon_answer E (StopRealm u) (\<lambda>_. ()) (d, w) \<and>
   cl_reboot_realm (daemon_frames E) u ([], (d, w)) = daemon_answer E (RebootRealm u) (\<lambda>_. ()) (d, w) \<and>
   cl_destroy_realm (daemon_frames E) u ([], (d, w)) = daemon_answer E (DestroyRealm u) (\<lambda>_. ()) (d, w) \<and>
   cl_create_realm (daemon_frames E) config ([], (d, w)) =
     daemon_answer E (CreateRealm config) (\<lambda>r. case r of WCreatedRealm i \<Rightarrow> i) (d, w) \<and>
   cl_fetch_attestation_token (daemon_frames E) u challenge ([], (d, w)) =
     daemon_answer E (FetchToken u challenge) (\<lambda>r. case r of WAttestationToken t \<Rightarrow> t) (d, w) \<and>
   cl_inspect_realm (daemon_frames E) u ([], (d, w)) =
     daemon_answer E (InspectRealm u) (\<lambda>r. case r of WInspectedRealm x \<Rightarrow> x) (d, w) \<and>
   cl_list_realms (daemon_frames E) ([], (d, w)) =
     daemon_answer E ListRealms (\<lambda>r. case r of WListedRealms xs \<Rightarrow> xs) (d, w) \<and>
   cl_create_application (daemon_frames E) u app_config ([], (d, w)) =
     daemon_answer E (CreateApplication u app_config) (\<lambda>r. case r of WCreatedApplication i \<Rightarrow> i) (d, w) \<and>
   cl_update_application (daemon_frames E) u a app_config ([], (d, w)) =
     daemon_answer E (UpdateApplication u a app_config) (\<lambda>_. ()) (d, w) \<and>
   cl_start_application (daemon_frames E) u a ([], (d, w)) =
     daemon_answer E (StartApplication u a) (\<lambda>_. ()) (d, w) \<and>
   cl_stop_application (daemon_frames E) u a ([], (d, w)) =
     daemon_answer E (StopApplication u a) (\<lambda>_. ()) (d, w)"
  unfolding cl_defs
  by (intro conjI; rule request_daemon; auto)

section \<open>The command-line client\<close>

definition sim_terminal :: "(unit, 'w) Terminal" where
  "sim_terminal =
     \<lparr>t_uuid_from_str = (\<lambda>i. if i = ''7'' then Inr 7 else Inl ''invalid character''), t_hex_decode = (\<lambda>c. Inr []),
      t_verify_token = (\<lambda>t. Inr ()), t_print_token = (\<lambda>x w. w), t_fs_write = (\<lambda>p b w. (Inr (), w)),
      t_uuid_string = (\<lambda>u. []), t_dbg_description = (\<lambda>x. []), t_dbg_descriptions = (\<lambda>x. []), t_dbg_path = (\<lambda>p. p),
      t_err_string = (\<lambda>e. []), t_dbg_error = (\<lambda>e. []), t_info = (\<lambda>m w. w), t_error = (\<lambda>m w. w),
      t_stdout_write = (\<lambda>m w. (Inr (), w)), t_stdout_flush = (\<lambda>w. (Inr (), w)),
      t_stdin_read_line = (\<lambda>w. (Inr ''start-realm -r 7 '', w)),
      t_shlex_split = (\<lambda>l. if l = ''start-realm -r 7'' then Some [''start-realm'', ''-r'', ''7''] else None),
      t_try_parse_from = (\<lambda>as. if as = [''start-realm'', ''-r'', ''7''] then Inr (CmdStartRealm ''7'') else Inl ''usage'')\<rparr>"

lemma sim_terminal_keeps: "terminal_keeps sim_terminal"
  by (simp add: terminal_keeps_def sim_terminal_def)

lemma sim_terminal_line: "fst (parse_users_input sim_terminal w) = Inr (CmdStartRealm ''7'')"
  by (simp add: parse_users_input_def write_line_begining_def terminal_read_line_def sim_terminal_def prog_defs
      trim_def is_whitespace_def)

lemma sim_terminal_requests: "line_requests sim_terminal (Inr (CmdStartRealm ''7'')) = [StartRealm 7]"
  by (simp add: with_uuid_def sim_terminal_def)

text \<open>
  (C12) A session at the command-line client: after any number of turns the connection is idle again, and
  the daemon has carried out exactly the requests that the typed lines stand for, in their order;
  a line that does not parse, or names a realm by something that is no identifier, does nothing.
\<close>

theorem terminal_session:
  assumes "terminal_keeps T"
  shows "\<exists>s'. cmd_turns T (daemon_frames E) n (idle_handler, s) = (Inr (), (idle_handler, s')) \<and>
    served E (typed_requests T E n s) (fst s) (fst s')"
  using session_served [OF assms] .

theorem terminal_session_witness:
  "\<exists>s'. cmd_turns sim_terminal (daemon_frames sim_warden_env) 2 (idle_handler, sim_warden) = (Inr (), (idle_handler, s')) \<and>
     served sim_warden_env [StartRealm 7, StartRealm 7] (fst sim_warden) (fst s')"
proof -
  have "typed_requests sim_terminal sim_warden_env 2 sim_warden = [StartRealm 7, StartRealm 7]"
    by (simp add: numeral_2_eq_2 sim_terminal_line sim_terminal_requests del: line_requests.simps)
  with terminal_session [OF sim_terminal_keeps, of sim_warden_env 2 sim_warden] show ?thesis by simp
qed

section \<open>The vsock server\<close>

text \<open>
  (C21) A realm that connects reaches the handler that waits for it: after registering interest
  in a context identifier, the next connection from that identifier is delivered on that
  channel, and nobody else who is waiting notices.
\<close>

theorem vsock_delivery:
  assumes "vs_wf (s, cs)" and "vs_acquire_realm_sender cid (s, cs) = (i, (s1, cs1))"
  shows "\<exists>s2 cs2. handle_accept stream cid (s1, cs1) = (Inr (), (s2, cs2)) \<and>
           poll_rx i cs2 = Delivered stream \<and> vs_wf (s2, cs2) \<and>
           (\<forall>c j. c \<noteq> cid \<and> hm_get (waiting s) c = Some j \<longrightarrow>
              hm_get (waiting s2) c = Some j \<and> poll_rx j cs2 = poll_rx j cs)"
proof -
  from acquire_pending [OF assms(2,1)]
  have p: "poll_rx i cs1 = Pending" "hm_get (waiting s1) cid = Some i" by auto
  have wf1: "vs_wf (s1, cs1)" using acquire_wf [OF assms(2,1)] .
  from handle_accept_delivers [OF p(2,1), of stream] obtain s2 cs2
    where h: "handle_accept stream cid (s1, cs1) = (Inr (), (s2, cs2))"
      and d: "poll_rx i cs2 = Delivered stream" and o: "\<And>j. j \<noteq> i \<Longrightarrow> poll_rx j cs2 = poll_rx j cs1"
    by auto
  have w2: "waiting s2 = hm_remove cid (waiting s1)"
    using h p by (auto simp: handle_accept_run poll_rx_def split: if_splits)
  have "hm_get (waiting s2) c = Some j \<and> poll_rx j cs2 = poll_rx j cs"
    if c: "c \<noteq> cid" "hm_get (waiting s) c = Some j" for c j
  proof -
    have a: "hm_get (waiting s1) c = Some j" "poll_rx j cs1 = poll_rx j cs"
      using acquire_other [OF assms(2,1) c(2,1)] by auto
    then have "j \<noteq> i" using vs_wf_inj [OF wf1 a(1)] p(2) c(1) by blast
    with a o c(1) w2 show ?thesis by simp
  qed
  with h d handle_accept_wf [OF h wf1] show ?thesis by blast
qed

theorem vsock_delivery_witness:
  "\<exists>s2 cs2. handle_accept ''stream'' 3
     (snd (vs_acquire_realm_sender 3 (create_vsock_server 2 80, []))) = (Inr (), (s2, cs2)) \<and>
     poll_rx 0 cs2 = Delivered ''stream''"
proof -
  have wf: "vs_wf (create_vsock_server 2 80, [] :: string Channels)"
    by (simp add: create_vsock_server_def vs_wf_new)
  have "vs_acquire_realm_sender 3 (create_vsock_server 2 80, [] :: string Channels) =
     (0, ((create_vsock_server 2 80)\<lparr>waiting := [(3, 0)]\<rparr>, [Pending]))"
    by (simp add: acquire_run create_vsock_server_def VSockServer_new_def)
  from vsock_delivery [OF wf this, of "''stream''"] this show ?thesis by auto
qed

text \<open>
  A connection that nobody waits for, or whose waiter has given up, ends the accept loop
  with an error, whatever else would have happened: the server stops listening.
\<close>

lemma vsock_unexpected_ends_listening:
  "(hm_get (waiting s) cid = None \<longrightarrow>
      listen_loop (Accepted stream cid # es) (s, cs) = (Inl UnexpectedConnection, (s, cs))) \<and>
   (hm_get (waiting s) cid = Some i \<and> i < length cs \<and> cs ! i = RxDropped \<longrightarrow>
      (\<exists>s'. listen_loop (Accepted stream cid # es) (s, cs) = (Inl ChannelFail, (s', cs))))"
  by (auto simp: try_bind_def handle_accept_run)

lemma vsock_unexpected_ends_listening_witness:
  "fst (listen_loop [Accepted ''stream'' 5, ListenCancelled] (create_vsock_server 2 80, [])) =
     Inl UnexpectedConnection"
  using vsock_unexpected_ends_listening
    [of "create_vsock_server 2 80" 5 "''stream''" "[ListenCancelled]" "[]" 0]
  by (simp add: create_vsock_server_def VSockServer_new_def)

end
