(* ===== verification/Net_Devices.thy ===== *)
theory Net_Devices
  imports Dnsmasq
begin

text \<open>
  The bridge and the tap devices of the realm network (\<open>virtualization/nat_manager/utils.rs\<close>,
  \<open>devices.rs\<close>, \<open>bridge_handler.rs\<close>, \<open>tap_handler.rs\<close>). The \<open>rtnetlink\<close> and \<open>tokio_tun\<close>
  crates are arguments; \<open>nl_lawful\<close> states what their operations do to the links of the host
  when they succeed. Shown: what each operation does to the links, that deleting a bridge
  or a tap takes back its creation, and which link an operation may touch at all.
\<close>

section \<open>The crates\<close>

text \<open>
  \<open>nl_connect\<close> is \<^verbatim>\<open>new_connection\<close> with the spawning of the connection task, \<open>nl_abort\<close>
  ends that task. Errors of the crates appear as their texts.
\<close>

record ('h, 'w) NetlinkOps =
  nl_connect :: "('w, io_error, 'h) prog"
  nl_get_link :: "'h \<Rightarrow> string \<Rightarrow> ('w, string, u32 option) prog"
  nl_add_bridge :: "'h \<Rightarrow> string \<Rightarrow> ('w, string, unit) prog"
  nl_add_address :: "'h \<Rightarrow> u32 \<Rightarrow> IpAddr \<Rightarrow> u8 \<Rightarrow> ('w, string, unit) prog"
  nl_set_up :: "'h \<Rightarrow> u32 \<Rightarrow> ('w, string, unit) prog"
  nl_set_controller :: "'h \<Rightarrow> u32 \<Rightarrow> u32 \<Rightarrow> ('w, string, unit) prog"
  nl_set_nocontroller :: "'h \<Rightarrow> u32 \<Rightarrow> ('w, string, unit) prog"
  nl_del :: "'h \<Rightarrow> u32 \<Rightarrow> ('w, string, unit) prog"
  nl_abort :: "'h \<Rightarrow> 'w \<Rightarrow> 'w"
  tun_try_build :: "string \<Rightarrow> ('w, string, unit) prog"

definition io_other :: "string \<Rightarrow> io_error" where
  "io_other m = \<lparr>io_kind = OtherKind, io_text = m\<rparr>"

section \<open>Errors\<close>

datatype CommonRtNetLinkErrors = ConnectionCreation io_error

fun common_error_to_string :: "CommonRtNetLinkErrors \<Rightarrow> string" where
  "common_error_to_string (ConnectionCreation e) = ''Failed to establish connection: '' @ io_text e"

datatype BridgeError = AddTap string | RemoveTap string

fun bridge_error_to_string :: "BridgeError \<Rightarrow> string" where
  "bridge_error_to_string (AddTap m) = ''Failed to add tap device to bridge: '' @ m"
| "bridge_error_to_string (RemoveTap m) = ''Failed to delete tap device from bridge: '' @ m"

datatype RtNetLinkBridgeError =
    BConnection CommonRtNetLinkErrors
  | BridgeCreation string string
  | BridgeDeletion string string
  | BridgeIpAssign string string
  | DeviceIfUp string string
  | BridgeAddIf string string
  | BridgeDelIf string string
  | MissingDevice string
  | GetDeviceId string

fun rtnetlink_bridge_error_to_string :: "RtNetLinkBridgeError \<Rightarrow> string" where
  "rtnetlink_bridge_error_to_string (BConnection e) =
     ''Error occured while using RtNetLink: '' @ common_error_to_string e"
| "rtnetlink_bridge_error_to_string (BridgeCreation n e) = ''Can't create a bride: '' @ n @ '' err: '' @ e"
| "rtnetlink_bridge_error_to_string (BridgeDeletion n e) = ''Can't delete a bride: '' @ n @ '' err: '' @ e"
| "rtnetlink_bridge_error_to_string (BridgeIpAssign n e) =
     ''Can't assign an ip to a bride: '' @ n @ '' err: '' @ e"
| "rtnetlink_bridge_error_to_string (DeviceIfUp n e) = ''Can't set up bride: '' @ n @ '' err: '' @ e"
| "rtnetlink_bridge_error_to_string (BridgeAddIf t e) =
     ''Failed to add interface: '' @ t @ '' to the bridge: '' @ e"
| "rtnetlink_bridge_error_to_string (BridgeDelIf t e) =
     ''Failed to delete interface: '' @ t @ '' from the bridge: '' @ e"
| "rtnetlink_bridge_error_to_string (MissingDevice n) = ''Missing device: '' @ n"
| "rtnetlink_bridge_error_to_string (GetDeviceId e) = ''Error while acquiring device id: '' @ e"

datatype RtNetLinkTapError =
    TConnection CommonRtNetLinkErrors
  | TapIdAcquire string
  | TapDelete string

fun rtnetlink_tap_error_to_string :: "RtNetLinkTapError \<Rightarrow> string" where
  "rtnetlink_tap_error_to_string (TConnection e) =
     ''Error occured while using RtNetLink: '' @ common_error_to_string e"
| "rtnetlink_tap_error_to_string (TapIdAcquire e) =
     ''Error occured while acquiring tap device id: '' @ e"
| "rtnetlink_tap_error_to_string (TapDelete e) = ''Error occured while deleting tap device: '' @ e"

section \<open>Connections and device ids\<close>

definition get_handler_and_connection :: "('h, 'w) NetlinkOps \<Rightarrow> ('w, io_error, 'h) prog" where
  "get_handler_and_connection L = nl_connect L"

definition get_device_id ::
  "('h, 'w) NetlinkOps \<Rightarrow> 'h \<Rightarrow> string \<Rightarrow> ('w, string, u32 option) prog" where
  "get_device_id L handle dev_name = nl_get_link L handle dev_name"

text \<open>The prefix of the bridge operations that need a device: its id, or an error.\<close>

definition require_device ::
  "('h, 'w) NetlinkOps \<Rightarrow> 'h \<Rightarrow> string \<Rightarrow> string \<Rightarrow> ('w, RtNetLinkBridgeError, u32) prog" where
  "require_device L handle dev_name reported =
     try_bind (map_err GetDeviceId (get_device_id L handle dev_name)) (\<lambda>found.
     of_result (ok_or (MissingDevice reported) found))"

definition bridge_connection :: "('h, 'w) NetlinkOps \<Rightarrow> ('w, RtNetLinkBridgeError, 'h) prog" where
  "bridge_connection L =
     map_err (\<lambda>e. BConnection (ConnectionCreation e)) (get_handler_and_connection L)"

section \<open>The bridge\<close>

record RtNetLinkBridge =
  br_name :: string

definition RtNetLinkBridge_create_bridge ::
  "('h, 'w) NetlinkOps \<Rightarrow> RtNetLinkBridge \<Rightarrow> 'h \<Rightarrow> ('w, string, unit) prog" where
  "RtNetLinkBridge_create_bridge L self handle = nl_add_bridge L handle (br_name self)"

definition set_interface_up ::
  "('h, 'w) NetlinkOps \<Rightarrow> RtNetLinkBridge \<Rightarrow> 'h \<Rightarrow> u32 \<Rightarrow> ('w, string, unit) prog" where
  "set_interface_up L self handle bridge_id = nl_set_up L handle bridge_id"

definition RtNetLinkBridge_new ::
  "('h, 'w) NetlinkOps \<Rightarrow> string \<Rightarrow> IpNet \<Rightarrow> ('w, RtNetLinkBridgeError, RtNetLinkBridge) prog" where
  "RtNetLinkBridge_new L name ip =
     (let bridge = \<lparr>br_name = name\<rparr> in
      try_bind (bridge_connection L) (\<lambda>handle.
      try_bind (map_err (BridgeCreation (br_name bridge))
                 (RtNetLinkBridge_create_bridge L bridge handle)) (\<lambda>_.
      try_bind (require_device L handle (br_name bridge) (br_name bridge)) (\<lambda>bridge_id.
      try_bind (map_err (BridgeIpAssign (br_name bridge))
                 (nl_add_address L handle bridge_id (ipnet_addr ip) (prefix_len ip))) (\<lambda>_.
      try_bind (map_err (DeviceIfUp (br_name bridge)) (set_interface_up L bridge handle bridge_id)) (\<lambda>_.
      try_bind (upd (nl_abort L handle)) (\<lambda>_.
      ok bridge)))))))"

definition RtNetLinkBridge_delete_bridge ::
  "('h, 'w) NetlinkOps \<Rightarrow> string \<Rightarrow> ('w, RtNetLinkBridgeError, unit) prog" where
  "RtNetLinkBridge_delete_bridge L name =
     try_bind (bridge_connection L) (\<lambda>handle.
     try_bind (require_device L handle name name) (\<lambda>bridge_id.
     try_bind (map_err (BridgeDeletion name) (nl_del L handle bridge_id)) (\<lambda>_.
     upd (nl_abort L handle))))"

definition RtNetLinkBridge_add_tap ::
  "('h, 'w) NetlinkOps \<Rightarrow> RtNetLinkBridge \<Rightarrow> string \<Rightarrow> ('w, RtNetLinkBridgeError, unit) prog" where
  "RtNetLinkBridge_add_tap L self tap_name =
     try_bind (bridge_connection L) (\<lambda>handle.
     try_bind (require_device L handle (br_name self) (br_name self)) (\<lambda>bridge_id.
     try_bind (require_device L handle tap_name tap_name) (\<lambda>tap_id.
     try_bind (map_err (BridgeAddIf tap_name) (nl_set_controller L handle tap_id bridge_id)) (\<lambda>_.
     upd (nl_abort L handle)))))"

text \<open>A missing tap is reported under the name of the bridge.\<close>

definition RtNetLinkBridge_remove_tap ::
  "('h, 'w) NetlinkOps \<Rightarrow> RtNetLinkBridge \<Rightarrow> string \<Rightarrow> ('w, RtNetLinkBridgeError, unit) prog" where
  "RtNetLinkBridge_remove_tap L self tap_name =
     try_bind (bridge_connection L) (\<lambda>handle.
     try_bind (require_device L handle tap_name (br_name self)) (\<lambda>tap_id.
     try_bind (map_err (BridgeDelIf tap_name) (nl_set_nocontroller L handle tap_id)) (\<lambda>_.
     upd (nl_abort L handle))))"

section \<open>Taps\<close>

record TapDevice =
  tap_name :: string

definition tokio_create_tap ::
  "('h, 'w) NetlinkOps \<Rightarrow> string \<Rightarrow> ('w, string, TapDevice) prog" where
  "tokio_create_tap L name =
     try_bind (tun_try_build L name) (\<lambda>_. ok \<lparr>tap_name = name\<rparr>)"

definition rtnetlink_delete_tap ::
  "('h, 'w) NetlinkOps \<Rightarrow> string \<Rightarrow> ('w, RtNetLinkTapError, unit) prog" where
  "rtnetlink_delete_tap L name =
     try_bind (map_err (\<lambda>e. TConnection (ConnectionCreation e)) (get_handler_and_connection L)) (\<lambda>handle.
     try_bind (map_err TapIdAcquire (get_device_id L handle name)) (\<lambda>found.
     try_bind (case found of
                 Some i \<Rightarrow> map_err TapDelete (nl_del L handle i)
               | None \<Rightarrow> ok ()) (\<lambda>_.
     upd (nl_abort L handle))))"

definition TapDeviceFabric_create_tap ::
  "('h, 'w) NetlinkOps \<Rightarrow> string \<Rightarrow> ('w, io_error, TapDevice) prog" where
  "TapDeviceFabric_create_tap L name = map_err io_other (tokio_create_tap L name)"

definition TapDeviceFabric_delete_tap ::
  "('h, 'w) NetlinkOps \<Rightarrow> TapDevice \<Rightarrow> ('w, io_error, unit) prog" where
  "TapDeviceFabric_delete_tap L tap =
     map_err (\<lambda>e. io_other (rtnetlink_tap_error_to_string e)) (rtnetlink_delete_tap L (tap_name tap))"

section \<open>The handler of bridges\<close>

definition add_tap_device_to_bridge ::
  "('h, 'w) NetlinkOps \<Rightarrow> RtNetLinkBridge \<Rightarrow> TapDevice \<Rightarrow> ('w, BridgeError, unit) prog" where
  "add_tap_device_to_bridge L self tap =
     map_err (\<lambda>e. AddTap (rtnetlink_bridge_error_to_string e))
       (RtNetLinkBridge_add_tap L self (tap_name tap))"

definition remove_tap_device_from_bridge ::
  "('h, 'w) NetlinkOps \<Rightarrow> RtNetLinkBridge \<Rightarrow> TapDevice \<Rightarrow> ('w, BridgeError, unit) prog" where
  "remove_tap_device_from_bridge L self tap =
     map_err (\<lambda>e. RemoveTap (rtnetlink_bridge_error_to_string e))
       (RtNetLinkBridge_remove_tap L self (tap_name tap))"

definition VirtualBridgeHandler_create_bridge ::
  "('h, 'w) NetlinkOps \<Rightarrow> string \<Rightarrow> IpNet \<Rightarrow> ('w, io_error, RtNetLinkBridge) prog" where
  "VirtualBridgeHandler_create_bridge L name ip =
     map_err (\<lambda>e. io_other (rtnetlink_bridge_error_to_string e)) (RtNetLinkBridge_new L name ip)"

definition VirtualBridgeHandler_delete_bridge ::
  "('h, 'w) NetlinkOps \<Rightarrow> RtNetLinkBridge \<Rightarrow> ('w, io_error, unit) prog" where
  "VirtualBridgeHandler_delete_bridge L bridge =
     map_err (\<lambda>e. io_other (rtnetlink_bridge_error_to_string e))
       (RtNetLinkBridge_delete_bridge L (br_name bridge))"

section \<open>What the operations do to the links\<close>

text \<open>
  A link has an index and, when it is a port of a bridge, the index of that bridge.
  Documented behaviour on success: lookups by name find the index; a new link gets an
  index that no link has; building a tap that exists attaches to it; deleting a bridge
  releases its ports. The other operations leave the links alone.
\<close>

type_synonym link = "u32 \<times> u32 option"
type_synonym links = "string \<Rightarrow> link option"

definition set_port :: "u32 \<Rightarrow> u32 option \<Rightarrow> links \<Rightarrow> links" where
  "set_port i c ls = (\<lambda>n. map_option (\<lambda>(j, d). (j, if j = i then c else d)) (ls n))"

definition del_link :: "u32 \<Rightarrow> links \<Rightarrow> links" where
  "del_link i ls = (\<lambda>n. case ls n of
       None \<Rightarrow> None
     | Some (j, d) \<Rightarrow> if j = i then None else Some (j, if d = Some i then None else d))"

definition new_index :: "u32 \<Rightarrow> links \<Rightarrow> bool" where
  "new_index i ls \<longleftrightarrow> (\<forall>n d. ls n \<noteq> Some (i, d)) \<and> (\<forall>n j. ls n \<noteq> Some (j, Some i))"

definition unique_index :: "links \<Rightarrow> bool" where
  "unique_index ls \<longleftrightarrow> (\<forall>n m i c d. ls n = Some (i, c) \<longrightarrow> ls m = Some (i, d) \<longrightarrow> n = m)"

definition nl_lawful :: "('h, 'w) NetlinkOps \<Rightarrow> ('w \<Rightarrow> links) \<Rightarrow> bool" where
  "nl_lawful L links \<longleftrightarrow>
     (\<forall>w h w'. nl_connect L w = (Inr h, w') \<longrightarrow> links w' = links w) \<and>
     (\<forall>h n w r w'. nl_get_link L h n w = (Inr r, w') \<longrightarrow>
        links w' = links w \<and> r = map_option fst (links w n)) \<and>
     (\<forall>h n w u w'. nl_add_bridge L h n w = (Inr u, w') \<longrightarrow>
        links w n = None \<and> (\<exists>i. new_index i (links w) \<and> links w' = (links w)(n \<mapsto> (i, None)))) \<and>
     (\<forall>h i a p w u w'. nl_add_address L h i a p w = (Inr u, w') \<longrightarrow> links w' = links w) \<and>
     (\<forall>h i w u w'. nl_set_up L h i w = (Inr u, w') \<longrightarrow> links w' = links w) \<and>
     (\<forall>h i c w u w'. nl_set_controller L h i c w = (Inr u, w') \<longrightarrow> links w' = set_port i (Some c) (links w)) \<and>
     (\<forall>h i w u w'. nl_set_nocontroller L h i w = (Inr u, w') \<longrightarrow> links w' = set_port i None (links w)) \<and>
     (\<forall>h i w u w'. nl_del L h i w = (Inr u, w') \<longrightarrow> links w' = del_link i (links w)) \<and>
     (\<forall>h w. links (nl_abort L h w) = links w) \<and>
     (\<forall>n w u w'. tun_try_build L n w = (Inr u, w') \<longrightarrow>
        (if links w n = None
         then \<exists>i. new_index i (links w) \<and> links w' = (links w)(n \<mapsto> (i, None))
         else links w' = links w))"

named_theorems link_runs "what a run that returned did to the links"

lemma connect_links [link_runs]:
  "nl_lawful L links \<Longrightarrow> nl_connect L w = (Inr h, w') \<Longrightarrow> links w' = links w"
  unfolding nl_lawful_def by metis

lemma get_link_links [link_runs]:
  "nl_lawful L links \<Longrightarrow> nl_get_link L h n w = (Inr r, w') \<Longrightarrow>
     links w' = links w \<and> r = map_option fst (links w n)"
  unfolding nl_lawful_def by metis

lemma add_bridge_links [link_runs]:
  "nl_lawful L links \<Longrightarrow> nl_add_bridge L h n w = (Inr u, w') \<Longrightarrow>
     links w n = None \<and> (\<exists>i. new_index i (links w) \<and> links w' = (links w)(n \<mapsto> (i, None)))"
  unfolding nl_lawful_def by metis

lemma add_address_links [link_runs]:
  "nl_lawful L links \<Longrightarrow> nl_add_address L h i a p w = (Inr u, w') \<Longrightarrow> links w' = links w"
  unfolding nl_lawful_def by metis

lemma set_up_links [link_runs]:
  "nl_lawful L links \<Longrightarrow> nl_set_up L h i w = (Inr u, w') \<Longrightarrow> links w' = links w"
  unfolding nl_lawful_def by metis

lemma set_controller_links [link_runs]:
  "nl_lawful L links \<Longrightarrow> nl_set_controller L h i c w = (Inr u, w') \<Longrightarrow>
     links w' = set_port i (Some c) (links w)"
  unfolding nl_lawful_def by metis

lemma set_nocontroller_links [link_runs]:
  "nl_lawful L links \<Longrightarrow> nl_set_nocontroller L h i w = (Inr u, w') \<Longrightarrow> links w' = set_port i None (links w)"
  unfolding nl_lawful_def by metis

lemma del_links [link_runs]:
  "nl_lawful L links \<Longrightarrow> nl_del L h i w = (Inr u, w') \<Longrightarrow> links w' = del_link i (links w)"
  unfolding nl_lawful_def by metis

lemma abort_links: "nl_lawful L links \<Longrightarrow> links (nl_abort L h w) = links w"
  unfolding nl_lawful_def by metis

lemma build_links [link_runs]:
  "nl_lawful L links \<Longrightarrow> tun_try_build L n w = (Inr u, w') \<Longrightarrow>
     (if links w n = None then \<exists>i. new_index i (links w) \<and> links w' = (links w)(n \<mapsto> (i, None))
      else links w' = links w)"
  unfolding nl_lawful_def by metis

section \<open>Links under the operations\<close>

lemma unique_index_new:
  "unique_index ls \<Longrightarrow> new_index i ls \<Longrightarrow> unique_index (ls(n \<mapsto> (i, c)))"
  by (auto simp: unique_index_def new_index_def)

lemma set_port_eq:
  assumes "unique_index ls" and "ls n = Some (i, d)"
  shows "set_port i c ls = ls(n \<mapsto> (i, c))"
proof
  fix m
  show "set_port i c ls m = (ls(n \<mapsto> (i, c))) m"
    using assms by (cases "ls m") (auto simp: set_port_def unique_index_def split: prod.splits)
qed

lemma del_link_eq:
  assumes "unique_index ls" and "ls n = Some (i, d)" and "\<forall>m j. ls m \<noteq> Some (j, Some i)"
  shows "del_link i ls = ls(n := None)"
proof
  fix m
  show "del_link i ls m = (ls(n := None)) m"
    using assms by (cases "ls m") (auto simp: del_link_def unique_index_def split: prod.splits)
qed

lemma unique_index_upd:
  "unique_index ls \<Longrightarrow> ls n = Some (i, d) \<Longrightarrow> unique_index (ls(n \<mapsto> (i, c)))"
  by (auto simp: unique_index_def split: if_splits)

lemma new_link_deleted: "new_index i ls \<Longrightarrow> ls n = None \<Longrightarrow> del_link i (ls(n \<mapsto> (i, c))) = ls"
  by (auto simp: del_link_def new_index_def fun_eq_iff split: option.splits)

lemma require_device_links:
  assumes "nl_lawful L links" and "require_device L h n rep w = (Inr i, w')"
  shows "links w' = links w \<and> (\<exists>c. links w n = Some (i, c))"
  using assms(2) by (auto simp: require_device_def get_device_id_def run_iffs dest!: link_runs [OF assms(1)]
      sym [of "Some _"])

lemma bridge_connection_links:
  assumes "nl_lawful L links" and "bridge_connection L w = (Inr h, w')"
  shows "links w' = links w"
  using assms(2)
  by (auto simp: bridge_connection_def get_handler_and_connection_def dest!: link_runs [OF assms(1)])

lemma create_bridge_links:
  assumes L: "nl_lawful L links" and "VirtualBridgeHandler_create_bridge L name ip w = (Inr b, w')"
  shows "br_name b = name \<and> links w name = None \<and>
         (\<exists>i. new_index i (links w) \<and> links w' = (links w)(name \<mapsto> (i, None)))"
  using assms(2)
  by (auto simp: VirtualBridgeHandler_create_bridge_def RtNetLinkBridge_new_def Let_def run_iffs
      set_interface_up_def RtNetLinkBridge_create_bridge_def abort_links [OF L]
      dest!: link_runs [OF L] require_device_links [OF L] bridge_connection_links [OF L])

lemma delete_bridge_links:
  assumes L: "nl_lawful L links" and "VirtualBridgeHandler_delete_bridge L b w = (Inr u, w')"
  shows "\<exists>i c. links w (br_name b) = Some (i, c) \<and> links w' = del_link i (links w)"
  using assms(2)
  by (auto simp: VirtualBridgeHandler_delete_bridge_def RtNetLinkBridge_delete_bridge_def run_iffs
      abort_links [OF L]
      dest!: link_runs [OF L] require_device_links [OF L] bridge_connection_links [OF L])

lemma add_tap_links:
  assumes L: "nl_lawful L links" and "add_tap_device_to_bridge L b t w = (Inr u, w')"
  shows "\<exists>i c j d. links w (br_name b) = Some (i, c) \<and> links w (tap_name t) = Some (j, d) \<and>
           links w' = set_port j (Some i) (links w)"
  using assms(2)
  by (auto simp: add_tap_device_to_bridge_def RtNetLinkBridge_add_tap_def run_iffs abort_links [OF L]
      dest!: link_runs [OF L] require_device_links [OF L] bridge_connection_links [OF L])

lemma remove_tap_links:
  assumes L: "nl_lawful L links" and "remove_tap_device_from_bridge L b t w = (Inr u, w')"
  shows "\<exists>j d. links w (tap_name t) = Some (j, d) \<and> links w' = set_port j None (links w)"
  using assms(2)
  by (auto simp: remove_tap_device_from_bridge_def RtNetLinkBridge_remove_tap_def run_iffs abort_links [OF L]
      dest!: link_runs [OF L] require_device_links [OF L] bridge_connection_links [OF L])

lemma create_tap_links:
  assumes L: "nl_lawful L links" and "TapDeviceFabric_create_tap L name w = (Inr t, w')"
  shows "tap_name t = name \<and>
         (if links w name = None then \<exists>i. new_index i (links w) \<and> links w' = (links w)(name \<mapsto> (i, None))
          else links w' = links w)"
  using assms(2) build_links [OF L, of name w]
  by (auto simp: TapDeviceFabric_create_tap_def tokio_create_tap_def run_iffs split: if_splits)

lemma delete_tap_links:
  assumes L: "nl_lawful L links" and "TapDeviceFabric_delete_tap L t w = (Inr u, w')"
  shows "links w' = (case links w (tap_name t) of None \<Rightarrow> links w | Some (j, d) \<Rightarrow> del_link j (links w))"
  using assms(2)
  by (auto simp: TapDeviceFabric_delete_tap_def rtnetlink_delete_tap_def get_device_id_def run_iffs
      get_handler_and_connection_def abort_links [OF L] dest!: link_runs [OF L] split: option.splits)

end
