(* ===== verification/Ip_Tables.thy ===== *)
theory Ip_Tables
  imports Dnsmasq
begin

text \<open>
  The firewall rules of the realm network (\<open>virtualization/nat_manager/ip_table_handler.rs\<close>,
  \<open>nat_table_handler.rs\<close>, \<open>filter_table_handler.rs\<close>, \<open>mangle_table_handler.rs\<close>): chains of the
  daemon's own, jumps to them from the built-in chains, and the rules in them. The
  \<open>iptables\<close> crate is an argument; \<open>ipt_lawful\<close> states what its operations do to the tables
  when they succeed. The main result: removing the rules restores every table as it was
  before they were inserted.
\<close>

section \<open>The interface\<close>

datatype IpTableHandlerError =
    HandlerError string
  | RuleAdd string string string
  | ChainAdd string string string
  | ChainRemove string string string

fun ip_table_error_to_string :: "IpTableHandlerError \<Rightarrow> string" where
  "ip_table_error_to_string (HandlerError m) = ''Failed to create handler: '' @ m"
| "ip_table_error_to_string (RuleAdd chain table m) =
     ''Failed to insert rule to chain: '' @ chain @ '' in table: '' @ table @ '' message: '' @ m"
| "ip_table_error_to_string (ChainAdd chain table m) =
     ''Failed to insert chain: '' @ chain @ '' to table: '' @ table @ '' message: '' @ m"
| "ip_table_error_to_string (ChainRemove chain table m) =
     ''Failed to remove chain: '' @ chain @ '' from table: '' @ table @ '' message: '' @ m"

record ('h, 'w) IpTablesOps =
  ipt_new :: "bool \<Rightarrow> ('w, string, 'h) prog"
  ipt_chain_exists :: "'h \<Rightarrow> string \<Rightarrow> string \<Rightarrow> ('w, string, bool) prog"
  ipt_new_chain :: "'h \<Rightarrow> string \<Rightarrow> string \<Rightarrow> ('w, string, unit) prog"
  ipt_append_replace :: "'h \<Rightarrow> string \<Rightarrow> string \<Rightarrow> string \<Rightarrow> ('w, string, unit) prog"
  ipt_flush_chain :: "'h \<Rightarrow> string \<Rightarrow> string \<Rightarrow> ('w, string, unit) prog"
  ipt_delete :: "'h \<Rightarrow> string \<Rightarrow> string \<Rightarrow> string \<Rightarrow> ('w, string, unit) prog"
  ipt_delete_chain :: "'h \<Rightarrow> string \<Rightarrow> string \<Rightarrow> ('w, string, unit) prog"

section \<open>The nat table\<close>

definition NAT_TABLE_NAME :: string where "NAT_TABLE_NAME = ''nat''"

record 'h NatIpTableManager =
  nat_handler :: 'h
  nat_if_ip :: IpNet
  nat_chain_name :: string

definition NatIpTableManager_new ::
  "('h, 'w) IpTablesOps \<Rightarrow> string \<Rightarrow> IpNet \<Rightarrow> ('w, IpTableHandlerError, 'h NatIpTableManager) prog" where
  "NatIpTableManager_new I if_name if_ip =
     try_bind (map_err HandlerError (ipt_new I (is_ipv6 (ipnet_addr if_ip)))) (\<lambda>handler.
     ok \<lparr>nat_handler = handler, nat_if_ip = if_ip, nat_chain_name = if_name @ ''_PRT''\<rparr>)"

definition nat_postrouting :: "'h NatIpTableManager \<Rightarrow> string \<times> string" where
  "nat_postrouting m = (''POSTROUTING'', ''-j '' @ nat_chain_name m)"

definition nat_rules :: "NetOps \<Rightarrow> 'h NatIpTableManager \<Rightarrow> string list" where
  "nat_rules N m =
     (let net = show_net N (nat_if_ip m) in
      [''-s '' @ net @ '' -d 224.0.0.0/24 -j RETURN'',
       ''-s '' @ net @ '' -d 225.255.255.255 -j RETURN'',
       ''-s '' @ net @ '' ! -d '' @ net @ '' -p tcp -j MASQUERADE --to-ports 1024-65535'',
       ''-s '' @ net @ '' ! -d '' @ net @ '' -p udp -j MASQUERADE --to-ports 1024-65535'',
       ''-s '' @ net @ '' ! -d '' @ net @ '' -j MASQUERADE''])"

definition nat_create_chain ::
  "('h, 'w) IpTablesOps \<Rightarrow> 'h NatIpTableManager \<Rightarrow> ('w, string, unit) prog" where
  "nat_create_chain I m =
     try_bind (ipt_chain_exists I (nat_handler m) NAT_TABLE_NAME (nat_chain_name m)) (\<lambda>exists.
     try_bind (if \<not> exists then ipt_new_chain I (nat_handler m) NAT_TABLE_NAME (nat_chain_name m)
               else ok ()) (\<lambda>_.
     case nat_postrouting m of (chain, rule) \<Rightarrow>
       ipt_append_replace I (nat_handler m) NAT_TABLE_NAME chain rule))"

definition nat_insert_rules ::
  "NetOps \<Rightarrow> ('h, 'w) IpTablesOps \<Rightarrow> 'h NatIpTableManager \<Rightarrow> ('w, string, unit) prog" where
  "nat_insert_rules N I m =
     for_each (ipt_append_replace I (nat_handler m) NAT_TABLE_NAME (nat_chain_name m)) (nat_rules N m)"

definition nat_delete_chain ::
  "('h, 'w) IpTablesOps \<Rightarrow> 'h NatIpTableManager \<Rightarrow> ('w, string, unit) prog" where
  "nat_delete_chain I m =
     try_bind (ipt_flush_chain I (nat_handler m) NAT_TABLE_NAME (nat_chain_name m)) (\<lambda>_.
     try_bind (case nat_postrouting m of (chain, rule) \<Rightarrow>
                 ipt_delete I (nat_handler m) NAT_TABLE_NAME chain rule) (\<lambda>_.
     ipt_delete_chain I (nat_handler m) NAT_TABLE_NAME (nat_chain_name m)))"

definition nat_insert_ip_table_rules ::
  "NetOps \<Rightarrow> ('h, 'w) IpTablesOps \<Rightarrow> 'h NatIpTableManager \<Rightarrow> ('w, IpTableHandlerError, unit) prog" where
  "nat_insert_ip_table_rules N I m =
     try_bind (map_err (ChainAdd (nat_chain_name m) NAT_TABLE_NAME) (nat_create_chain I m)) (\<lambda>_.
     map_err (RuleAdd (nat_chain_name m) NAT_TABLE_NAME) (nat_insert_rules N I m))"

definition nat_remove_ip_table_rules ::
  "('h, 'w) IpTablesOps \<Rightarrow> 'h NatIpTableManager \<Rightarrow> ('w, IpTableHandlerError, unit) prog" where
  "nat_remove_ip_table_rules I m =
     map_err (ChainRemove (nat_chain_name m) NAT_TABLE_NAME) (nat_delete_chain I m)"

section \<open>The mangle table\<close>

definition MANGLE_TABLE_NAME :: string where "MANGLE_TABLE_NAME = ''mangle''"

record 'h MangleTableManager =
  mangle_handler :: 'h
  mangle_if_name :: string
  mangle_chain_name :: string

definition MangleTableManager_new ::
  "('h, 'w) IpTablesOps \<Rightarrow> string \<Rightarrow> IpNet \<Rightarrow> ('w, IpTableHandlerError, 'h MangleTableManager) prog" where
  "MangleTableManager_new I if_name if_ip =
     try_bind (map_err HandlerError (ipt_new I (is_ipv6 (ipnet_addr if_ip)))) (\<lambda>handler.
     ok \<lparr>mangle_handler = handler, mangle_if_name = if_name, mangle_chain_name = if_name @ ''_PRT''\<rparr>)"

definition mangle_postrouting :: "'h MangleTableManager \<Rightarrow> string \<times> string" where
  "mangle_postrouting m = (''POSTROUTING'', ''-j '' @ mangle_chain_name m)"

definition mangle_create_chain ::
  "('h, 'w) IpTablesOps \<Rightarrow> 'h MangleTableManager \<Rightarrow> ('w, string, unit) prog" where
  "mangle_create_chain I m =
     try_bind (ipt_chain_exists I (mangle_handler m) MANGLE_TABLE_NAME (mangle_chain_name m)) (\<lambda>exists.
     try_bind (if \<not> exists then ipt_new_chain I (mangle_handler m) MANGLE_TABLE_NAME (mangle_chain_name m)
               else ok ()) (\<lambda>_.
     case mangle_postrouting m of (chain, rule) \<Rightarrow>
       ipt_append_replace I (mangle_handler m) MANGLE_TABLE_NAME chain rule))"

definition mangle_insert_rules ::
  "('h, 'w) IpTablesOps \<Rightarrow> 'h MangleTableManager \<Rightarrow> ('w, string, unit) prog" where
  "mangle_insert_rules I m =
     ipt_append_replace I (mangle_handler m) MANGLE_TABLE_NAME (mangle_chain_name m)
       (''-o '' @ mangle_if_name m @ '' -p udp -m udp --dport 68 -j CHECKSUM --checksum-fill'')"

definition mangle_delete_chain ::
  "('h, 'w) IpTablesOps \<Rightarrow> 'h MangleTableManager \<Rightarrow> ('w, string, unit) prog" where
  "mangle_delete_chain I m =
     try_bind (ipt_flush_chain I (mangle_handler m) MANGLE_TABLE_NAME (mangle_chain_name m)) (\<lambda>_.
     try_bind (case mangle_postrouting m of (chain, rule) \<Rightarrow>
                 ipt_delete I (mangle_handler m) MANGLE_TABLE_NAME chain rule) (\<lambda>_.
     ipt_delete_chain I (mangle_handler m) MANGLE_TABLE_NAME (mangle_chain_name m)))"

definition mangle_insert_ip_table_rules ::
  "('h, 'w) IpTablesOps \<Rightarrow> 'h MangleTableManager \<Rightarrow> ('w, IpTableHandlerError, unit) prog" where
  "mangle_insert_ip_table_rules I m =
     try_bind (map_err (ChainAdd (mangle_chain_name m) MANGLE_TABLE_NAME) (mangle_create_chain I m)) (\<lambda>_.
     map_err (RuleAdd (mangle_chain_name m) MANGLE_TABLE_NAME) (mangle_insert_rules I m))"

definition mangle_remove_ip_table_rules ::
  "('h, 'w) IpTablesOps \<Rightarrow> 'h MangleTableManager \<Rightarrow> ('w, IpTableHandlerError, unit) prog" where
  "mangle_remove_ip_table_rules I m =
     map_err (ChainRemove (mangle_chain_name m) MANGLE_TABLE_NAME) (mangle_delete_chain I m)"

section \<open>The filter table\<close>

definition FILTER_TABLE_NAME :: string where "FILTER_TABLE_NAME = ''filter''"

record 'h FilterIpTableManager =
  flt_if_name :: string
  flt_if_ip :: IpNet
  flt_handler :: 'h
  fwi_chain_name :: string
  fwo_chain_name :: string
  fwx_chain_name :: string
  inp_chain_name :: string
  out_chain_name :: string

definition FilterIpTableManager_new ::
  "('h, 'w) IpTablesOps \<Rightarrow> string \<Rightarrow> IpNet \<Rightarrow> ('w, IpTableHandlerError, 'h FilterIpTableManager) prog" where
  "FilterIpTableManager_new I if_name if_ip =
     try_bind (map_err HandlerError (ipt_new I (is_ipv6 (ipnet_addr if_ip)))) (\<lambda>handler.
     ok \<lparr>flt_if_name = if_name, flt_if_ip = if_ip, flt_handler = handler,
         fwi_chain_name = if_name @ ''_FWI'', fwo_chain_name = if_name @ ''_FWO'',
         fwx_chain_name = if_name @ ''_FWX'', inp_chain_name = if_name @ ''_INP'',
         out_chain_name = if_name @ ''_OUT''\<rparr>)"

definition get_input_chain_command :: "'h FilterIpTableManager \<Rightarrow> string \<times> string" where
  "get_input_chain_command m = (''INPUT'', ''-j '' @ inp_chain_name m)"

definition get_forward_chain_command :: "string \<Rightarrow> string \<times> string" where
  "get_forward_chain_command chain_name = (''FORWARD'', ''-j '' @ chain_name)"

definition get_output_chain_command :: "'h FilterIpTableManager \<Rightarrow> string \<times> string" where
  "get_output_chain_command m = (''OUTPUT'', ''-j '' @ out_chain_name m)"

definition filter_chains :: "'h FilterIpTableManager \<Rightarrow> string list" where
  "filter_chains m =
     [fwi_chain_name m, fwo_chain_name m, fwx_chain_name m, inp_chain_name m, out_chain_name m]"

definition filter_jumps :: "'h FilterIpTableManager \<Rightarrow> (string \<times> string) list" where
  "filter_jumps m =
     [get_input_chain_command m, get_output_chain_command m,
      get_forward_chain_command (fwi_chain_name m), get_forward_chain_command (fwo_chain_name m),
      get_forward_chain_command (fwx_chain_name m)]"

definition filter_rules :: "NetOps \<Rightarrow> 'h FilterIpTableManager \<Rightarrow> (string \<times> string) list" where
  "filter_rules N m =
     (let n = flt_if_name m; net = show_net N (flt_if_ip m) in
      [(fwi_chain_name m, ''-d '' @ net @ '' -o '' @ n @ '' -m conntrack --ctstate RELATED,ESTABLISHED -j ACCEPT''),
       (fwi_chain_name m, ''-o '' @ n @ '' -j REJECT --reject-with icmp-port-unreachable''),
       (fwo_chain_name m, ''-s '' @ net @ '' -i '' @ n @ '' -j ACCEPT''),
       (fwo_chain_name m, ''-i '' @ n @ '' -j REJECT --reject-with icmp-port-unreachable''),
       (fwx_chain_name m, ''-i '' @ n @ '' -o '' @ n @ '' -j ACCEPT''),
       (inp_chain_name m, ''-i '' @ n @ '' -p udp -m udp --dport 53 -j ACCEPT''),
       (inp_chain_name m, ''-i '' @ n @ '' -p tcp -m tcp --dport 53 -j ACCEPT''),
       (inp_chain_name m, ''-i '' @ n @ '' -p udp -m udp --dport 67 -j ACCEPT''),
       (inp_chain_name m, ''-i '' @ n @ '' -p tcp -m tcp --dport 67 -j ACCEPT''),
       (out_chain_name m, ''-o '' @ n @ '' -p udp -m udp --dport 53 -j ACCEPT''),
       (out_chain_name m, ''-o '' @ n @ '' -p tcp -m tcp --dport 53 -j ACCEPT''),
       (out_chain_name m, ''-o '' @ n @ '' -p udp -m udp --dport 68 -j ACCEPT''),
       (out_chain_name m, ''-o '' @ n @ '' -p tcp -m tcp --dport 68 -j ACCEPT'')])"

definition filter_create_chains ::
  "('h, 'w) IpTablesOps \<Rightarrow> 'h FilterIpTableManager \<Rightarrow> ('w, string \<times> string, unit) prog" where
  "filter_create_chains I m =
     try_bind (for_each (\<lambda>c. map_err (Pair c) (ipt_new_chain I (flt_handler m) FILTER_TABLE_NAME c))
                (filter_chains m)) (\<lambda>_.
     for_each (\<lambda>(chain, rule). map_err (Pair chain)
                 (ipt_append_replace I (flt_handler m) FILTER_TABLE_NAME chain rule)) (filter_jumps m))"

definition filter_insert_rules ::
  "NetOps \<Rightarrow> ('h, 'w) IpTablesOps \<Rightarrow> 'h FilterIpTableManager \<Rightarrow> ('w, string \<times> string, unit) prog" where
  "filter_insert_rules N I m =
     for_each (\<lambda>(chain, rule). map_err (Pair chain)
                 (ipt_append_replace I (flt_handler m) FILTER_TABLE_NAME chain rule)) (filter_rules N m)"

definition filter_delete_chains ::
  "('h, 'w) IpTablesOps \<Rightarrow> 'h FilterIpTableManager \<Rightarrow> ('w, string \<times> string, unit) prog" where
  "filter_delete_chains I m =
     try_bind (for_each (\<lambda>c. map_err (Pair c) (ipt_flush_chain I (flt_handler m) FILTER_TABLE_NAME c))
                (filter_chains m)) (\<lambda>_.
     try_bind (for_each (\<lambda>(chain, rule). map_err (Pair chain)
                 (ipt_delete I (flt_handler m) FILTER_TABLE_NAME chain rule)) (filter_jumps m)) (\<lambda>_.
     for_each (\<lambda>c. map_err (Pair c) (ipt_delete_chain I (flt_handler m) FILTER_TABLE_NAME c))
       (filter_chains m)))"

definition filter_insert_ip_table_rules ::
  "NetOps \<Rightarrow> ('h, 'w) IpTablesOps \<Rightarrow> 'h FilterIpTableManager \<Rightarrow> ('w, IpTableHandlerError, unit) prog" where
  "filter_insert_ip_table_rules N I m =
     try_bind (map_err (\<lambda>(chain, err). ChainAdd chain FILTER_TABLE_NAME err) (filter_create_chains I m)) (\<lambda>_.
     map_err (\<lambda>(chain, err). RuleAdd chain FILTER_TABLE_NAME err) (filter_insert_rules N I m))"

definition filter_remove_ip_table_rules ::
  "('h, 'w) IpTablesOps \<Rightarrow> 'h FilterIpTableManager \<Rightarrow> ('w, IpTableHandlerError, unit) prog" where
  "filter_remove_ip_table_rules I m =
     map_err (\<lambda>(chain, err). ChainRemove chain FILTER_TABLE_NAME err) (filter_delete_chains I m)"

section \<open>What the operations do to the tables\<close>

text \<open>
  The rules of a chain, by address family, table and chain. \<open>fam h\<close> is the family that a
  handle was made for. Documented behaviour of the crate on success: \<open>append_replace\<close> drops
  the first equal rule before it appends, \<open>delete\<close> drops the first equal rule.
\<close>

type_synonym chain_key = "bool \<times> string \<times> string"
type_synonym ip_tables = "chain_key \<Rightarrow> string list option"

definition ipt_lawful :: "('h, 'w) IpTablesOps \<Rightarrow> ('h \<Rightarrow> bool) \<Rightarrow> ('w \<Rightarrow> ip_tables) \<Rightarrow> bool" where
  "ipt_lawful I fam tabs \<longleftrightarrow>
     (\<forall>v6 w h w'. ipt_new I v6 w = (Inr h, w') \<longrightarrow> fam h = v6 \<and> tabs w' = tabs w) \<and>
     (\<forall>h t c w b w'. ipt_chain_exists I h t c w = (Inr b, w') \<longrightarrow>
        tabs w' = tabs w \<and> b = (tabs w (fam h, t, c) \<noteq> None)) \<and>
     (\<forall>h t c w u w'. ipt_new_chain I h t c w = (Inr u, w') \<longrightarrow>
        tabs w (fam h, t, c) = None \<and> tabs w' = (tabs w)((fam h, t, c) \<mapsto> [])) \<and>
     (\<forall>h t c r w u w'. ipt_append_replace I h t c r w = (Inr u, w') \<longrightarrow>
        (\<exists>rs. tabs w (fam h, t, c) = Some rs \<and>
              tabs w' = (tabs w)((fam h, t, c) \<mapsto> remove1 r rs @ [r]))) \<and>
     (\<forall>h t c w u w'. ipt_flush_chain I h t c w = (Inr u, w') \<longrightarrow>
        tabs w (fam h, t, c) \<noteq> None \<and> tabs w' = (tabs w)((fam h, t, c) \<mapsto> [])) \<and>
     (\<forall>h t c r w u w'. ipt_delete I h t c r w = (Inr u, w') \<longrightarrow>
        (\<exists>rs. tabs w (fam h, t, c) = Some rs \<and> tabs w' = (tabs w)((fam h, t, c) \<mapsto> remove1 r rs))) \<and>
     (\<forall>h t c w u w'. ipt_delete_chain I h t c w = (Inr u, w') \<longrightarrow>
        tabs w (fam h, t, c) = Some [] \<and> tabs w' = (tabs w)((fam h, t, c) := None))"

text \<open>
  \<open>added T0 C J T\<close>: the tables \<open>T\<close> are \<open>T0\<close> with the chains \<open>C\<close>, which \<open>T0\<close> does not have,
  and the rules \<open>J\<close>, which its chains do not hold, appended in order.
\<close>

definition jumps_at :: "(chain_key \<times> string) list \<Rightarrow> chain_key \<Rightarrow> string list" where
  "jumps_at J k = map snd (filter (\<lambda>j. fst j = k) J)"

definition new_jump :: "ip_tables \<Rightarrow> chain_key \<times> string \<Rightarrow> bool" where
  "new_jump T0 j \<longleftrightarrow> (\<exists>rs. T0 (fst j) = Some rs \<and> snd j \<notin> set rs)"

definition added ::
  "ip_tables \<Rightarrow> chain_key set \<Rightarrow> (chain_key \<times> string) list \<Rightarrow> ip_tables \<Rightarrow> bool" where
  "added T0 C J T \<longleftrightarrow>
     (\<forall>k. if k \<in> C then T0 k = None \<and> T k \<noteq> None
          else T k = map_option (\<lambda>rs. rs @ jumps_at J k) (T0 k)) \<and>
     (\<forall>j \<in> set J. new_jump T0 j) \<and> distinct J"

lemma jumps_at_Nil [simp]: "jumps_at [] k = []"
  by (simp add: jumps_at_def)

lemma jumps_at_Cons: "jumps_at (j # J) k = (if fst j = k then [snd j] else []) @ jumps_at J k"
  by (simp add: jumps_at_def)

lemma jumps_at_append [simp]: "jumps_at (J @ K) k = jumps_at J k @ jumps_at K k"
  by (simp add: jumps_at_def)

lemma set_jumps_at: "r \<in> set (jumps_at J k) \<longleftrightarrow> (k, r) \<in> set J"
  by (force simp: jumps_at_def)

lemma added_refl [simp]: "added T {} [] T"
  by (simp add: added_def option.map_ident)

lemma added_nothing: "added T0 {} [] T \<Longrightarrow> T = T0"
  by (simp add: added_def option.map_ident fun_eq_iff)

lemma added_own: "added T0 C J T \<Longrightarrow> k \<in> C \<Longrightarrow> T0 k = None \<and> T k \<noteq> None"
  unfolding added_def by metis

lemma added_other: "added T0 C J T \<Longrightarrow> k \<notin> C \<Longrightarrow> T k = map_option (\<lambda>rs. rs @ jumps_at J k) (T0 k)"
  unfolding added_def by metis

lemma added_touch_own:
  assumes "added T0 C J T" and "k \<in> C"
  shows "added T0 C J (T(k \<mapsto> rs))"
  using assms unfolding added_def fun_upd_def by (metis option.distinct(1))

lemma added_new_chain:
  assumes "added T0 C J T" and "T k = None"
  shows "added T0 (insert k C) J (T(k \<mapsto> rs))"
  using assms unfolding added_def fun_upd_def
  by (metis (no_types, lifting) insert_iff map_option_is_None option.distinct(1))

lemma added_delete_chain:
  assumes "added T0 C J T" and "k \<in> C"
  shows "added T0 (C - {k}) J (T(k := None))"
  using assms unfolding added_def fun_upd_def
  by (metis (no_types, lifting) Diff_iff singleton_iff option.map_disc_iff)

lemma added_jump:
  assumes A: "added T0 C J T" and new: "new_jump T0 (k, r)" and "(k, r) \<notin> set J" and T: "T k = Some rs"
  shows "added T0 C (J @ [(k, r)]) (T(k \<mapsto> remove1 r rs @ [r]))"
proof -
  from new obtain os where os: "T0 k = Some os" "r \<notin> set os" by (auto simp: new_jump_def)
  with A have "k \<notin> C" using added_own by fastforce
  with A T os have rs: "rs = os @ jumps_at J k" using added_other by fastforce
  with os assms(3) have "remove1 r rs = rs" by (simp add: remove1_idem set_jumps_at)
  with A new os rs \<open>k \<notin> C\<close> assms(3) show ?thesis
    by (auto simp: added_def jumps_at_Cons split: if_splits)
qed

lemma added_unjump:
  assumes A: "added T0 C ((k, r) # J) T" and T: "T k = Some rs"
  shows "added T0 C J (T(k \<mapsto> remove1 r rs))"
proof -
  from A obtain os where os: "T0 k = Some os" "r \<notin> set os" by (auto simp: added_def new_jump_def)
  with A have "k \<notin> C" using added_own by fastforce
  with A T os have rs: "rs = os @ r # jumps_at J k" using added_other by (fastforce simp: jumps_at_Cons)
  with os have "remove1 r rs = os @ jumps_at J k" by (simp add: remove1_append)
  with A os \<open>k \<notin> C\<close> show ?thesis
    by (auto simp: added_def jumps_at_Cons split: if_splits)
qed

text \<open>Each operation, run on tables in that relation.\<close>

lemma run_new_chain:
  assumes "ipt_lawful I fam tabs" and "ipt_new_chain I h t c w = (Inr u, w')"
    and "added T0 C J (tabs w)"
  shows "added T0 (insert (fam h, t, c) C) J (tabs w')"
  using assms added_new_chain unfolding ipt_lawful_def by metis

lemma run_append_own:
  assumes "ipt_lawful I fam tabs" and "ipt_append_replace I h t c r w = (Inr u, w')"
    and "added T0 C J (tabs w)" and "(fam h, t, c) \<in> C"
  shows "added T0 C J (tabs w')"
  using assms added_touch_own unfolding ipt_lawful_def by metis

lemma run_append_jump:
  assumes "ipt_lawful I fam tabs" and "ipt_append_replace I h t c r w = (Inr u, w')"
    and "added T0 C J (tabs w)"
    and "new_jump T0 ((fam h, t, c), r)" and "((fam h, t, c), r) \<notin> set J"
  shows "added T0 C (J @ [((fam h, t, c), r)]) (tabs w')"
  using assms added_jump unfolding ipt_lawful_def by metis

lemma run_flush:
  assumes "ipt_lawful I fam tabs" and "ipt_flush_chain I h t c w = (Inr u, w')"
    and "added T0 C J (tabs w)" and "(fam h, t, c) \<in> C"
  shows "added T0 C J (tabs w')"
  using assms added_touch_own unfolding ipt_lawful_def by metis

lemma run_delete:
  assumes "ipt_lawful I fam tabs" and "ipt_delete I h t c r w = (Inr u, w')"
    and "added T0 C (((fam h, t, c), r) # J) (tabs w)"
  shows "added T0 C J (tabs w')"
  using assms added_unjump unfolding ipt_lawful_def by metis

lemma run_delete_chain:
  assumes "ipt_lawful I fam tabs" and "ipt_delete_chain I h t c w = (Inr u, w')"
    and "added T0 C J (tabs w)" and "(fam h, t, c) \<in> C"
  shows "added T0 (C - {(fam h, t, c)}) J (tabs w')"
  using assms added_delete_chain unfolding ipt_lawful_def by metis

lemma run_chain_exists:
  assumes "ipt_lawful I fam tabs" and "ipt_chain_exists I h t c w = (Inr b, w')"
  shows "tabs w' = tabs w \<and> b = (tabs w (fam h, t, c) \<noteq> None)"
  using assms unfolding ipt_lawful_def by metis

lemma run_ipt_new:
  assumes "ipt_lawful I fam tabs" and "ipt_new I v6 w = (Inr h, w')"
  shows "fam h = v6 \<and> tabs w' = tabs w"
  using assms unfolding ipt_lawful_def by metis

text \<open>Loops over chains and over jumps.\<close>

lemma run_new_chains:
  assumes "ipt_lawful I fam tabs"
    and "for_each (\<lambda>c. map_err (g c) (ipt_new_chain I h t c)) cs w = (Inr u, w')"
    and "added T0 C J (tabs w)"
  shows "added T0 ((\<lambda>c. (fam h, t, c)) ` set cs \<union> C) J (tabs w')"
proof -
  let ?k = "\<lambda>c. (fam h, t, c)"
  have "\<exists>D. added T0 D J (tabs w') \<and> ?k ` set cs \<union> C = ?k ` set [] \<union> D"
  proof (rule for_each_rule [OF assms(2), where P = "\<lambda>ys v. \<exists>D. added T0 D J (tabs v) \<and>
             ?k ` set cs \<union> C = ?k ` set ys \<union> D"], goal_cases)
    case 1
    show ?case using assms(3) by blast
  next
    case (2 c ys v y v')
    then obtain D where "added T0 D J (tabs v)" and D: "?k ` set cs \<union> C = ?k ` set (c # ys) \<union> D"
      by blast
    with 2 have "added T0 (insert (?k c) D) J (tabs v')"
      by (auto intro: run_new_chain [OF assms(1)])
    with D show ?case by (intro exI [of _ "insert (?k c) D"]) auto
  qed
  then show ?thesis by simp
qed

lemma run_flushes:
  assumes "ipt_lawful I fam tabs"
    and "for_each (\<lambda>c. map_err (g c) (ipt_flush_chain I h t c)) cs w = (Inr u, w')"
    and "added T0 C J (tabs w)" and "(\<lambda>c. (fam h, t, c)) ` set cs \<subseteq> C"
  shows "added T0 C J (tabs w')"
proof -
  let ?P = "\<lambda>ys v. added T0 C J (tabs v) \<and> (\<lambda>c. (fam h, t, c)) ` set ys \<subseteq> C"
  have "?P [] w'"
    by (rule for_each_rule [OF assms(2), where P = ?P]) (use assms in \<open>auto dest: run_flush\<close>)
  then show ?thesis by simp
qed

lemma run_delete_chains:
  assumes "ipt_lawful I fam tabs"
    and "for_each (\<lambda>c. map_err (g c) (ipt_delete_chain I h t c)) cs w = (Inr u, w')"
    and "added T0 ((\<lambda>c. (fam h, t, c)) ` set cs \<union> D) J (tabs w)"
    and "distinct cs" and "(\<lambda>c. (fam h, t, c)) ` set cs \<inter> D = {}"
  shows "added T0 D J (tabs w')"
proof -
  let ?k = "\<lambda>c. (fam h, t, c)"
  let ?P = "\<lambda>ys v. added T0 (?k ` set ys \<union> D) J (tabs v) \<and> distinct ys \<and> ?k ` set ys \<inter> D = {}"
  have "?P [] w'"
  proof (rule for_each_rule [OF assms(2), where P = ?P], goal_cases)
    case 1
    show ?case using assms by simp
  next
    case (2 c ys v y v')
    then have "?k ` set (c # ys) \<union> D - {?k c} = ?k ` set ys \<union> D" by auto
    with 2 run_delete_chain [OF assms(1), of h t c v y v' T0 "?k ` set (c # ys) \<union> D" J] show ?case
      by (simp del: Diff_insert Un_insert_left)
  qed
  then show ?thesis by simp
qed

lemma run_append_owns:
  assumes "ipt_lawful I fam tabs"
    and "for_each (\<lambda>(c, r). map_err (g c) (ipt_append_replace I h t c r)) rs w = (Inr u, w')"
    and "added T0 C J (tabs w)" and "(\<lambda>(c, r). (fam h, t, c)) ` set rs \<subseteq> C"
  shows "added T0 C J (tabs w')"
proof -
  let ?P = "\<lambda>(ys :: (string \<times> string) list) v.
              added T0 C J (tabs v) \<and> (\<lambda>(c, r). (fam h, t, c)) ` set ys \<subseteq> C"
  have "?P [] w'"
    by (rule for_each_rule [OF assms(2), where P = ?P])
      (use assms in \<open>auto dest: run_append_own split: prod.splits\<close>)
  then show ?thesis by simp
qed

definition jump_keys :: "bool \<Rightarrow> string \<Rightarrow> (string \<times> string) list \<Rightarrow> (chain_key \<times> string) list" where
  "jump_keys v6 t js = map (\<lambda>(c, r). ((v6, t, c), r)) js"

lemma jump_keys_simps [simp]:
  "jump_keys v6 t [] = []" "jump_keys v6 t ((c, r) # js) = ((v6, t, c), r) # jump_keys v6 t js"
  by (simp_all add: jump_keys_def)

lemma run_append_jumps:
  assumes "ipt_lawful I fam tabs"
    and "for_each (\<lambda>(c, r). map_err (g c) (ipt_append_replace I h t c r)) js w = (Inr u, w')"
    and "added T0 C J (tabs w)" and "\<forall>j \<in> set (jump_keys (fam h) t js). new_jump T0 j"
    and "distinct (J @ jump_keys (fam h) t js)"
  shows "added T0 C (J @ jump_keys (fam h) t js) (tabs w')"
proof -
  let ?k = "jump_keys (fam h) t"
  let ?P = "\<lambda>ys v. \<exists>K. added T0 C K (tabs v) \<and> J @ ?k js = K @ ?k ys \<and>
              (\<forall>j \<in> set (?k ys). new_jump T0 j) \<and> distinct (K @ ?k ys)"
  have "?P [] w'"
  proof (rule for_each_rule [OF assms(2), where P = ?P], goal_cases)
    case 1
    show ?case using assms by blast
  next
    case (2 j ys v y v')
    then obtain K c r where j: "j = (c, r)" and "J @ ?k js = K @ ?k (j # ys)"
        "\<forall>j \<in> set (?k (j # ys)). new_jump T0 j" "distinct (K @ ?k (j # ys))"
        "added T0 C K (tabs v)" "ipt_append_replace I h t c r v = (Inr y, v')"
      by (cases j) auto
    then show ?case
      using run_append_jump [OF assms(1)] by (intro exI [of _ "K @ [((fam h, t, c), r)]"]) auto
  qed
  then show ?thesis by auto
qed

lemma run_deletes:
  assumes "ipt_lawful I fam tabs"
    and "for_each (\<lambda>(c, r). map_err (g c) (ipt_delete I h t c r)) js w = (Inr u, w')"
    and "added T0 C (jump_keys (fam h) t js @ J) (tabs w)"
  shows "added T0 C J (tabs w')"
proof -
  let ?P = "\<lambda>ys v. added T0 C (jump_keys (fam h) t ys @ J) (tabs v)"
  have "?P [] w'"
    by (rule for_each_rule [OF assms(2), where P = ?P])
      (use assms(1,3) in \<open>auto dest: run_delete split: prod.splits\<close>)
  then show ?thesis by simp
qed

text \<open>A table with one chain, reached by one jump, as the nat and the mangle table have it.\<close>

lemma run_create_lone:
  assumes L: "ipt_lawful I fam tabs" and A: "added T0 C J (tabs w)"
    and run: "try_bind (ipt_chain_exists I h t c) (\<lambda>exists.
                try_bind (if \<not> exists then ipt_new_chain I h t c else ok ()) (\<lambda>_.
                ipt_append_replace I h t b r)) w = (Inr u, w')"
    and fresh: "(fam h, t, c) \<notin> C" "T0 (fam h, t, c) = None"
    and jump: "new_jump T0 ((fam h, t, b), r)" "((fam h, t, b), r) \<notin> set J"
  shows "added T0 (insert (fam h, t, c) C) (J @ [((fam h, t, b), r)]) (tabs w')"
proof -
  from added_other [OF A fresh(1)] fresh(2) have "tabs w (fam h, t, c) = None" by simp
  with run obtain v v' where "tabs v = tabs w" "ipt_new_chain I h t c v = (Inr (), v')"
      and app: "ipt_append_replace I h t b r v' = (Inr u, w')"
    by (auto simp: run_iffs dest!: run_chain_exists [OF L])
  with A have "added T0 (insert (fam h, t, c) C) J (tabs v')"
    by (metis run_new_chain [OF L])
  from run_append_jump [OF L app this jump] show ?thesis .
qed

lemma run_delete_lone:
  assumes L: "ipt_lawful I fam tabs"
    and A: "added T0 (insert (fam h, t, c) C) (((fam h, t, b), r) # J) (tabs w)"
    and run: "try_bind (ipt_flush_chain I h t c) (\<lambda>_. try_bind (ipt_delete I h t b r) (\<lambda>_.
                ipt_delete_chain I h t c)) w = (Inr u, w')"
    and "(fam h, t, c) \<notin> C"
  shows "added T0 C J (tabs w')"
proof -
  from run obtain v v' where runs: "ipt_flush_chain I h t c w = (Inr (), v)"
      "ipt_delete I h t b r v = (Inr (), v')" "ipt_delete_chain I h t c v' = (Inr u, w')"
    by (auto simp: run_iffs)
  from run_flush [OF L runs(1) A] have "added T0 (insert (fam h, t, c) C) (((fam h, t, b), r) # J) (tabs v)"
    by simp
  from run_delete_chain [OF L runs(3) run_delete [OF L runs(2) this]] assms(4) show ?thesis by simp
qed

section \<open>The handlers restore the tables\<close>

text \<open>
  The contract of \<^verbatim>\<open>IpTableHandler\<close>: making a handler leaves the tables alone, inserting
  adds the chains and the jumps of the handler, removing takes them out again, whatever
  other chains and jumps were added in between.
\<close>

locale ip_table_handler =
  fixes make :: "('h, 'w) IpTablesOps \<Rightarrow> string \<Rightarrow> IpNet \<Rightarrow> ('w, IpTableHandlerError, 'm) prog"
    and insert_into :: "NetOps \<Rightarrow> ('h, 'w) IpTablesOps \<Rightarrow> 'm \<Rightarrow> ('w, IpTableHandlerError, unit) prog"
    and remove_from :: "('h, 'w) IpTablesOps \<Rightarrow> 'm \<Rightarrow> ('w, IpTableHandlerError, unit) prog"
    and own_chains :: "string \<Rightarrow> IpNet \<Rightarrow> chain_key set"
    and own_jumps :: "string \<Rightarrow> IpNet \<Rightarrow> (chain_key \<times> string) list"
  assumes make_keeps:
      "ipt_lawful I fam tabs \<Longrightarrow> make I n ip w = (Inr m, w') \<Longrightarrow> tabs w' = tabs w"
    and insert_adds:
      "ipt_lawful I fam tabs \<Longrightarrow> make I n ip w0 = (Inr m, w1) \<Longrightarrow>
       insert_into N I m w = (Inr (), w') \<Longrightarrow> added T0 C J (tabs w) \<Longrightarrow>
       C \<inter> own_chains n ip = {} \<Longrightarrow> (\<forall>k \<in> own_chains n ip. T0 k = None) \<Longrightarrow>
       (\<forall>j \<in> set (own_jumps n ip). new_jump T0 j) \<Longrightarrow> distinct (J @ own_jumps n ip) \<Longrightarrow>
       added T0 (own_chains n ip \<union> C) (J @ own_jumps n ip) (tabs w')"
    and remove_drops:
      "ipt_lawful I fam tabs \<Longrightarrow> make I n ip w0 = (Inr m, w1) \<Longrightarrow>
       remove_from I m w = (Inr (), w') \<Longrightarrow>
       added T0 (own_chains n ip \<union> C) (own_jumps n ip @ J) (tabs w) \<Longrightarrow>
       own_chains n ip \<inter> C = {} \<Longrightarrow> added T0 C J (tabs w')"

definition nat_chains :: "string \<Rightarrow> IpNet \<Rightarrow> chain_key set" where
  "nat_chains n ip = {(is_ipv6 (ipnet_addr ip), NAT_TABLE_NAME, n @ ''_PRT'')}"

definition nat_jumps :: "string \<Rightarrow> IpNet \<Rightarrow> (chain_key \<times> string) list" where
  "nat_jumps n ip = [((is_ipv6 (ipnet_addr ip), NAT_TABLE_NAME, ''POSTROUTING''), ''-j '' @ n @ ''_PRT'')]"

lemma nat_made:
  assumes "ipt_lawful I fam tabs" and "NatIpTableManager_new I n ip w = (Inr m, w')"
  shows "tabs w' = tabs w \<and> nat_chain_name m = n @ ''_PRT'' \<and> fam (nat_handler m) = is_ipv6 (ipnet_addr ip)"
  using assms(2) by (auto simp: NatIpTableManager_new_def run_iffs dest!: run_ipt_new [OF assms(1)])

lemma nat_insert_adds:
  assumes L: "ipt_lawful I fam tabs" and m: "NatIpTableManager_new I n ip w0 = (Inr m, w1)"
    and run: "nat_insert_ip_table_rules N I m w = (Inr (), w')" and A: "added T0 C J (tabs w)"
    and fresh: "C \<inter> nat_chains n ip = {}" "\<forall>k \<in> nat_chains n ip. T0 k = None"
    and jumps: "\<forall>j \<in> set (nat_jumps n ip). new_jump T0 j" "distinct (J @ nat_jumps n ip)"
  shows "added T0 (nat_chains n ip \<union> C) (J @ nat_jumps n ip) (tabs w')"
proof -
  have made: "nat_chain_name m = n @ ''_PRT''" "is_ipv6 (ipnet_addr ip) = fam (nat_handler m)"
    using nat_made [OF L m] by simp_all
  from run obtain v where v: "nat_create_chain I m w = (Inr (), v)"
      "for_each (ipt_append_replace I (nat_handler m) NAT_TABLE_NAME (nat_chain_name m)) (nat_rules N m) v
         = (Inr (), w')"
    by (auto simp: nat_insert_ip_table_rules_def nat_insert_rules_def run_iffs)
  have "added T0 (nat_chains n ip \<union> C) (J @ nat_jumps n ip) (tabs v)"
    using run_create_lone [OF L A v(1) [unfolded nat_create_chain_def nat_postrouting_def prod.case]]
      fresh jumps by (simp add: nat_chains_def nat_jumps_def made)
  moreover have "(fam (nat_handler m), NAT_TABLE_NAME, nat_chain_name m) \<in> nat_chains n ip \<union> C"
    by (simp add: nat_chains_def made)
  ultimately show ?thesis
    by (intro for_each_rule [OF v(2), where P = "\<lambda>_ v. added T0 (nat_chains n ip \<union> C) (J @ nat_jumps n ip) (tabs v)"])
      (assumption, metis run_append_own [OF L])
qed

lemma nat_remove_drops:
  assumes L: "ipt_lawful I fam tabs" and m: "NatIpTableManager_new I n ip w0 = (Inr m, w1)"
    and run: "nat_remove_ip_table_rules I m w = (Inr (), w')"
    and A: "added T0 (nat_chains n ip \<union> C) (nat_jumps n ip @ J) (tabs w)" and "nat_chains n ip \<inter> C = {}"
  shows "added T0 C J (tabs w')"
proof -
  have made: "nat_chain_name m = n @ ''_PRT''" "is_ipv6 (ipnet_addr ip) = fam (nat_handler m)"
    using nat_made [OF L m] by simp_all
  from run have "nat_delete_chain I m w = (Inr (), w')"
    by (simp add: nat_remove_ip_table_rules_def)
  from run_delete_lone [OF L _ this [unfolded nat_delete_chain_def nat_postrouting_def prod.case]] A assms(5)
  show ?thesis by (simp add: nat_chains_def nat_jumps_def made)
qed

interpretation nat_table: ip_table_handler
  NatIpTableManager_new nat_insert_ip_table_rules nat_remove_ip_table_rules nat_chains nat_jumps
  by unfold_locales (blast dest: nat_made, rule nat_insert_adds, assumption+, rule nat_remove_drops)

definition mangle_chains :: "string \<Rightarrow> IpNet \<Rightarrow> chain_key set" where
  "mangle_chains n ip = {(is_ipv6 (ipnet_addr ip), MANGLE_TABLE_NAME, n @ ''_PRT'')}"

definition mangle_jumps :: "string \<Rightarrow> IpNet \<Rightarrow> (chain_key \<times> string) list" where
  "mangle_jumps n ip =
     [((is_ipv6 (ipnet_addr ip), MANGLE_TABLE_NAME, ''POSTROUTING''), ''-j '' @ n @ ''_PRT'')]"

lemma mangle_made:
  assumes "ipt_lawful I fam tabs" and "MangleTableManager_new I n ip w = (Inr m, w')"
  shows "tabs w' = tabs w \<and> mangle_chain_name m = n @ ''_PRT'' \<and>
         fam (mangle_handler m) = is_ipv6 (ipnet_addr ip)"
  using assms(2) by (auto simp: MangleTableManager_new_def run_iffs dest!: run_ipt_new [OF assms(1)])

lemma mangle_insert_adds:
  assumes L: "ipt_lawful I fam tabs" and m: "MangleTableManager_new I n ip w0 = (Inr m, w1)"
    and run: "mangle_insert_ip_table_rules I m w = (Inr (), w')" and A: "added T0 C J (tabs w)"
    and fresh: "C \<inter> mangle_chains n ip = {}" "\<forall>k \<in> mangle_chains n ip. T0 k = None"
    and jumps: "\<forall>j \<in> set (mangle_jumps n ip). new_jump T0 j" "distinct (J @ mangle_jumps n ip)"
  shows "added T0 (mangle_chains n ip \<union> C) (J @ mangle_jumps n ip) (tabs w')"
proof -
  have made: "mangle_chain_name m = n @ ''_PRT''" "is_ipv6 (ipnet_addr ip) = fam (mangle_handler m)"
    using mangle_made [OF L m] by simp_all
  from run obtain v where v: "mangle_create_chain I m w = (Inr (), v)"
      "mangle_insert_rules I m v = (Inr (), w')"
    by (auto simp: mangle_insert_ip_table_rules_def run_iffs)
  have "added T0 (mangle_chains n ip \<union> C) (J @ mangle_jumps n ip) (tabs v)"
    using run_create_lone [OF L A v(1) [unfolded mangle_create_chain_def mangle_postrouting_def prod.case]]
      fresh jumps by (simp add: mangle_chains_def mangle_jumps_def made)
  from run_append_own [OF L v(2) [unfolded mangle_insert_rules_def] this] show ?thesis
    by (simp add: mangle_chains_def made)
qed

lemma mangle_remove_drops:
  assumes L: "ipt_lawful I fam tabs" and m: "MangleTableManager_new I n ip w0 = (Inr m, w1)"
    and run: "mangle_remove_ip_table_rules I m w = (Inr (), w')"
    and A: "added T0 (mangle_chains n ip \<union> C) (mangle_jumps n ip @ J) (tabs w)"
    and "mangle_chains n ip \<inter> C = {}"
  shows "added T0 C J (tabs w')"
proof -
  have made: "mangle_chain_name m = n @ ''_PRT''" "is_ipv6 (ipnet_addr ip) = fam (mangle_handler m)"
    using mangle_made [OF L m] by simp_all
  from run have "mangle_delete_chain I m w = (Inr (), w')"
    by (simp add: mangle_remove_ip_table_rules_def)
  from run_delete_lone [OF L _ this [unfolded mangle_delete_chain_def mangle_postrouting_def prod.case]] A assms(5)
  show ?thesis by (simp add: mangle_chains_def mangle_jumps_def made)
qed

interpretation mangle_table: ip_table_handler
  MangleTableManager_new "\<lambda>_. mangle_insert_ip_table_rules" mangle_remove_ip_table_rules
  mangle_chains mangle_jumps
  by unfold_locales (blast dest: mangle_made, rule mangle_insert_adds, assumption+, rule mangle_remove_drops)

text \<open>The filter table: five chains and five jumps.\<close>

definition flt_chain_names :: "string \<Rightarrow> string list" where
  "flt_chain_names n = map (\<lambda>s. n @ s) [''_FWI'', ''_FWO'', ''_FWX'', ''_INP'', ''_OUT'']"

definition flt_chains :: "string \<Rightarrow> IpNet \<Rightarrow> chain_key set" where
  "flt_chains n ip = (\<lambda>c. (is_ipv6 (ipnet_addr ip), FILTER_TABLE_NAME, c)) ` set (flt_chain_names n)"

definition flt_jumps :: "string \<Rightarrow> IpNet \<Rightarrow> (chain_key \<times> string) list" where
  "flt_jumps n ip =
     jump_keys (is_ipv6 (ipnet_addr ip)) FILTER_TABLE_NAME
       [(''INPUT'', ''-j '' @ n @ ''_INP''), (''OUTPUT'', ''-j '' @ n @ ''_OUT''),
        (''FORWARD'', ''-j '' @ n @ ''_FWI''), (''FORWARD'', ''-j '' @ n @ ''_FWO''),
        (''FORWARD'', ''-j '' @ n @ ''_FWX'')]"

lemma filter_made:
  assumes "ipt_lawful I fam tabs" and "FilterIpTableManager_new I n ip w = (Inr m, w')"
  shows "tabs w' = tabs w \<and> fam (flt_handler m) = is_ipv6 (ipnet_addr ip) \<and>
         filter_chains m = flt_chain_names n \<and>
         jump_keys (fam (flt_handler m)) FILTER_TABLE_NAME (filter_jumps m) = flt_jumps n ip \<and>
         fst ` set (filter_rules N m) \<subseteq> set (filter_chains m)"
  using assms(2)
  by (auto simp: FilterIpTableManager_new_def run_iffs filter_chains_def flt_chain_names_def
      filter_jumps_def flt_jumps_def get_input_chain_command_def get_output_chain_command_def
      get_forward_chain_command_def filter_rules_def Let_def dest!: run_ipt_new [OF assms(1)])

lemma flt_chains_eq:
  assumes "ipt_lawful I fam tabs" and "FilterIpTableManager_new I n ip w = (Inr m, w')"
  shows "flt_chains n ip = (\<lambda>c. (fam (flt_handler m), FILTER_TABLE_NAME, c)) ` set (filter_chains m)"
  using filter_made [OF assms] by (simp add: flt_chains_def)

lemma filter_insert_adds:
  assumes L: "ipt_lawful I fam tabs" and m: "FilterIpTableManager_new I n ip w0 = (Inr m, w1)"
    and run: "filter_insert_ip_table_rules N I m w = (Inr (), w')" and A: "added T0 C J (tabs w)"
    and jumps: "\<forall>j \<in> set (flt_jumps n ip). new_jump T0 j" "distinct (J @ flt_jumps n ip)"
  shows "added T0 (flt_chains n ip \<union> C) (J @ flt_jumps n ip) (tabs w')"
proof -
  note made = filter_made [OF L m] flt_chains_eq [OF L m]
  have jk: "jump_keys (fam (flt_handler m)) FILTER_TABLE_NAME (filter_jumps m) = flt_jumps n ip"
    using made(1) by blast
  from run obtain v v' where runs:
      "for_each (\<lambda>c. map_err (Pair c) (ipt_new_chain I (flt_handler m) FILTER_TABLE_NAME c))
         (filter_chains m) w = (Inr (), v)"
      "for_each (\<lambda>(c, r). map_err (Pair c) (ipt_append_replace I (flt_handler m) FILTER_TABLE_NAME c r))
         (filter_jumps m) v = (Inr (), v')"
      "for_each (\<lambda>(c, r). map_err (Pair c) (ipt_append_replace I (flt_handler m) FILTER_TABLE_NAME c r))
         (filter_rules N m) v' = (Inr (), w')"
    by (auto simp: filter_insert_ip_table_rules_def filter_create_chains_def filter_insert_rules_def run_iffs)
  from run_new_chains [OF L runs(1) A] have "added T0 (flt_chains n ip \<union> C) J (tabs v)"
    by (simp add: made(2))
  from run_append_jumps [OF L runs(2) this, unfolded jk] jumps
  have "added T0 (flt_chains n ip \<union> C) (J @ flt_jumps n ip) (tabs v')" by blast
  then show ?thesis
  proof (rule run_append_owns [OF L runs(3)])
    have "fst ` set (filter_rules N m) \<subseteq> set (filter_chains m)" using made(1) by blast
    then show "(\<lambda>(c, r). (fam (flt_handler m), FILTER_TABLE_NAME, c)) ` set (filter_rules N m)
               \<subseteq> flt_chains n ip \<union> C"
      unfolding made(2) by force
  qed
qed

lemma filter_remove_drops:
  assumes L: "ipt_lawful I fam tabs" and m: "FilterIpTableManager_new I n ip w0 = (Inr m, w1)"
    and run: "filter_remove_ip_table_rules I m w = (Inr (), w')"
    and A: "added T0 (flt_chains n ip \<union> C) (flt_jumps n ip @ J) (tabs w)"
    and disj: "flt_chains n ip \<inter> C = {}"
  shows "added T0 C J (tabs w')"
proof -
  note made = filter_made [OF L m] flt_chains_eq [OF L m]
  have jk: "jump_keys (fam (flt_handler m)) FILTER_TABLE_NAME (filter_jumps m) = flt_jumps n ip"
    using made(1) by blast
  have dist: "distinct (filter_chains m)" using made(1) by (simp add: flt_chain_names_def)
  from run obtain v v' where runs:
      "for_each (\<lambda>c. map_err (Pair c) (ipt_flush_chain I (flt_handler m) FILTER_TABLE_NAME c))
         (filter_chains m) w = (Inr (), v)"
      "for_each (\<lambda>(c, r). map_err (Pair c) (ipt_delete I (flt_handler m) FILTER_TABLE_NAME c r))
         (filter_jumps m) v = (Inr (), v')"
      "for_each (\<lambda>c. map_err (Pair c) (ipt_delete_chain I (flt_handler m) FILTER_TABLE_NAME c))
         (filter_chains m) v' = (Inr (), w')"
    by (auto simp: filter_remove_ip_table_rules_def filter_delete_chains_def run_iffs)
  from run_flushes [OF L runs(1) A] made(2)
  have "added T0 (flt_chains n ip \<union> C) (flt_jumps n ip @ J) (tabs v)" by simp
  from run_deletes [OF L runs(2), unfolded jk, OF this]
  have "added T0 (flt_chains n ip \<union> C) J (tabs v')" .
  then show ?thesis
    using made(2) disj by (intro run_delete_chains [OF L runs(3) _ dist]) simp_all
qed

interpretation filter_table: ip_table_handler
  FilterIpTableManager_new filter_insert_ip_table_rules filter_remove_ip_table_rules flt_chains flt_jumps
  by unfold_locales (blast dest: filter_made, rule filter_insert_adds, assumption+, rule filter_remove_drops)

end
