(* ===== verification/Nat_Manager.thy ===== *)
theory Nat_Manager
  imports Net_Devices Ip_Tables Fabric
begin

text \<open>
  The network manager of the daemon (\<open>virtualization/nat_manager.rs\<close>, \<open>network.rs\<close>): it
  creates the bridge, the routing rules and the DHCP server, and a tap device per realm.
  The state is \<open>NetworkManagerHandler\<close>; its operations are those that the realm fabric
  calls through \<open>Fabric.NetworkManager\<close>.

  Shown: inserting and removing the routing rules restores every firewall table; a tap that
  was created is a port of the bridge, and shutting it down removes exactly that link.
\<close>

section \<open>State\<close>

record NatNetworkConfig =
  cfg_if_name :: string
  cfg_if_ip :: IpNet

record 'd NetworkManagerHandler =
  nm_config :: NatNetworkConfig
  nm_bridge :: RtNetLinkBridge
  nm_dhcp_server :: 'd
  nm_taps :: "(uuid \<times> TapDevice) list"

text \<open>What the manager calls: the crates, the DHCP server and the printing of identifiers.\<close>

record ('i, 'l, 'd, 'w) NatEnv =
  ne_net :: NetOps
  ne_ipt :: "('i, 'w) IpTablesOps"
  ne_link :: "('l, 'w) NetlinkOps"
  ne_dhcp :: "('d, 'w) DHCPServer"
  ne_us :: "uuid \<Rightarrow> string"

section \<open>Routing\<close>

definition cleanup_routing_sync ::
  "('i, 'l, 'd, 'w) NatEnv \<Rightarrow> NatNetworkConfig \<Rightarrow> ('w, IpTableHandlerError, unit) prog" where
  "cleanup_routing_sync E config =
     (let I = ne_ipt E; name = cfg_if_name config; ip = cfg_if_ip config in
      try_bind (NatIpTableManager_new I name ip) (\<lambda>m.
      try_bind (nat_remove_ip_table_rules I m) (\<lambda>_.
      try_bind (FilterIpTableManager_new I name ip) (\<lambda>m.
      try_bind (filter_remove_ip_table_rules I m) (\<lambda>_.
      try_bind (MangleTableManager_new I name ip) (\<lambda>m.
      mangle_remove_ip_table_rules I m))))))"

definition cleanup_routing ::
  "('i, 'l, 'd, 'w) NatEnv \<Rightarrow> NatNetworkConfig \<Rightarrow> ('w, NetworkManagerError, unit) prog" where
  "cleanup_routing E config =
     map_err (\<lambda>e. DestroyNatNetwork (ip_table_error_to_string e)) (cleanup_routing_sync E config)"

definition prepare_routing_sync ::
  "('i, 'l, 'd, 'w) NatEnv \<Rightarrow> NatNetworkConfig \<Rightarrow> ('w, IpTableHandlerError, unit) prog" where
  "prepare_routing_sync E config =
     (let I = ne_ipt E; N = ne_net E; name = cfg_if_name config; ip = cfg_if_ip config in
      try_bind (NatIpTableManager_new I name ip) (\<lambda>m.
      try_bind (nat_insert_ip_table_rules N I m) (\<lambda>_.
      try_bind (FilterIpTableManager_new I name ip) (\<lambda>m.
      try_bind (filter_insert_ip_table_rules N I m) (\<lambda>_.
      try_bind (MangleTableManager_new I name ip) (\<lambda>m.
      mangle_insert_ip_table_rules I m))))))"

definition prepare_routing ::
  "('i, 'l, 'd, 'w) NatEnv \<Rightarrow> NatNetworkConfig \<Rightarrow> ('w, NetworkManagerError, unit) prog" where
  "prepare_routing E config =
     map_err (\<lambda>e. CreateNatNetwork (ip_table_error_to_string e)) (prepare_routing_sync E config)"

definition calculate_bridge_addr :: "NetOps \<Rightarrow> IpNet \<Rightarrow> NetworkManagerError + IpNet" where
  "calculate_bridge_addr N hostnet_ip =
     (case ipnet_new N (ip_saturating_add N (ipnet_addr hostnet_ip) 1) (prefix_len hostnet_ip) of
        Inl err \<Rightarrow> Inl (CreateNatNetwork (''Failed to compute bridge addr: '' @ err))
      | Inr ip \<Rightarrow> Inr ip)"

definition destroy_bridge ::
  "('i, 'l, 'd, 'w) NatEnv \<Rightarrow> RtNetLinkBridge \<Rightarrow> ('w, NetworkManagerError, unit) prog" where
  "destroy_bridge E bridge =
     map_err (\<lambda>e. DestroyNatNetwork (io_text e)) (VirtualBridgeHandler_delete_bridge (ne_link E) bridge)"

definition setup_routing ::
  "('i, 'l, 'd, 'w) NatEnv \<Rightarrow> NatNetworkConfig \<Rightarrow> RtNetLinkBridge \<Rightarrow>
     ('w, NetworkManagerError, unit) prog" where
  "setup_routing E config bridge =
     attempt (prepare_routing E config) (\<lambda>res.
     case res of
       Inl err \<Rightarrow> try_bind (destroy_bridge E bridge) (\<lambda>_. fail err)
     | Inr _ \<Rightarrow> ok ())"

definition handle_dhcp_serve_start ::
  "('i, 'l, 'd, 'w) NatEnv \<Rightarrow> DHCPError + unit \<Rightarrow> RtNetLinkBridge \<Rightarrow> NatNetworkConfig \<Rightarrow>
     ('w, NetworkManagerError, unit) prog" where
  "handle_dhcp_serve_start E result bridge config =
     (case result of
        Inl err \<Rightarrow>
          try_bind (destroy_bridge E bridge) (\<lambda>_.
          try_bind (cleanup_routing E config) (\<lambda>_.
          fail (CreateNatNetwork (dhcp_error_to_string err))))
      | Inr _ \<Rightarrow> ok ())"

section \<open>The network\<close>

text \<open>Running a method of an owned object: its result and the object after it.\<close>

definition on_owned :: "'o \<Rightarrow> ('o \<times> 'w, 'e, 'a) prog \<Rightarrow> ('w, 'f, ('e + 'a) \<times> 'o) prog" where
  "on_owned x m w = (case m (x, w) of (r, x', w') \<Rightarrow> (Inr (r, x'), w'))"

definition create_nat ::
  "('i, 'l, 'd, 'w) NatEnv \<Rightarrow> NatNetworkConfig \<Rightarrow> 'd \<Rightarrow>
     ('w, NetworkManagerError, 'd NetworkManagerHandler) prog" where
  "create_nat E config dhcp_server =
     try_bind (of_result (calculate_bridge_addr (ne_net E) (cfg_if_ip config))) (\<lambda>bridge_ip.
     try_bind (map_err (\<lambda>e. CreateNatNetwork (io_text e))
                (VirtualBridgeHandler_create_bridge (ne_link E) (cfg_if_name config) bridge_ip)) (\<lambda>bridge.
     try_bind (setup_routing E config bridge) (\<lambda>_.
     try_bind (on_owned dhcp_server (dhcp_start (ne_dhcp E) bridge_ip (cfg_if_name config))) (\<lambda>(res, dhcp_server).
     try_bind (handle_dhcp_serve_start E res bridge config) (\<lambda>_.
     ok \<lparr>nm_config = config, nm_bridge = bridge, nm_dhcp_server = dhcp_server, nm_taps = []\<rparr>)))))"

definition nm_create_tap_device_for_realm ::
  "('i, 'l, 'd, 'w) NatEnv \<Rightarrow> string \<Rightarrow> uuid \<Rightarrow>
     ('d NetworkManagerHandler \<times> 'w, NetworkManagerError, unit) prog" where
  "nm_create_tap_device_for_realm E name rid =
     try_bind (in_world (map_err (\<lambda>e. CreateTapDevice (io_text e))
                (TapDeviceFabric_create_tap (ne_link E) name))) (\<lambda>tap.
     try_bind (get (nm_bridge \<circ> fst)) (\<lambda>bridge.
     try_bind (in_world (map_err (\<lambda>e. CreateTapDevice (bridge_error_to_string e))
                (add_tap_device_to_bridge (ne_link E) bridge tap))) (\<lambda>_.
     upd (\<lambda>(s, w). (s\<lparr>nm_taps := hm_insert rid tap (nm_taps s)\<rparr>, w)))))"

definition nm_shutdown_tap_device_for_realm ::
  "('i, 'l, 'd, 'w) NatEnv \<Rightarrow> uuid \<Rightarrow>
     ('d NetworkManagerHandler \<times> 'w, NetworkManagerError, unit) prog" where
  "nm_shutdown_tap_device_for_realm E rid =
     try_bind (get (\<lambda>(s, w). hm_get (nm_taps s) rid)) (\<lambda>found.
     try_bind (upd (\<lambda>(s, w). (s\<lparr>nm_taps := hm_remove rid (nm_taps s)\<rparr>, w))) (\<lambda>_.
     try_bind (of_result (ok_or (DestroyTapDevice (''No tap device for realm: '' @ ne_us E rid)) found)) (\<lambda>tap.
     try_bind (get (nm_bridge \<circ> fst)) (\<lambda>bridge.
     try_bind (in_world (map_err (\<lambda>e. DestroyTapDevice (bridge_error_to_string e))
                (remove_tap_device_from_bridge (ne_link E) bridge tap))) (\<lambda>_.
     in_world (map_err (\<lambda>e. DestroyTapDevice (io_text e))
       (TapDeviceFabric_delete_tap (ne_link E) tap)))))))"

definition shutdown_all_taps ::
  "('i, 'l, 'd, 'w) NatEnv \<Rightarrow> ('d NetworkManagerHandler \<times> 'w, NetworkManagerError, unit) prog" where
  "shutdown_all_taps E =
     try_bind (get (\<lambda>(s, w). hm_keys (nm_taps s))) (\<lambda>ids.
     for_each (nm_shutdown_tap_device_for_realm E) ids)"

text \<open>Every error of the shutdown is logged and the next step runs.\<close>

definition shutdown_nat ::
  "('i, 'l, 'd, 'w) NatEnv \<Rightarrow> ('d NetworkManagerHandler \<times> 'w, NetworkManagerError, unit) prog" where
  "shutdown_nat E =
     attempt (shutdown_all_taps E) (\<lambda>_.
     attempt (zoom (\<lambda>(s, w). (nm_dhcp_server s, w)) (\<lambda>(d, w') (s, w). (s\<lparr>nm_dhcp_server := d\<rparr>, w'))
                (dhcp_stop (ne_dhcp E))) (\<lambda>_.
     try_bind (get (nm_bridge \<circ> fst)) (\<lambda>bridge.
     attempt (in_world (destroy_bridge E bridge)) (\<lambda>_.
     try_bind (get (nm_config \<circ> fst)) (\<lambda>config.
     attempt (in_world (cleanup_routing E config)) (\<lambda>_. ok ()))))))"

text \<open>The operations that the fabrics see; the manager is shared and lives in the world.\<close>

definition NetworkManagerHandler_ops ::
  "('i, 'l, 'd, 'w) NatEnv \<Rightarrow> ('d NetworkManagerHandler \<times> 'w) NetworkManager" where
  "NetworkManagerHandler_ops E =
     \<lparr>create_tap_device_for_realm = nm_create_tap_device_for_realm E,
      shutdown_tap_device_for_realm = nm_shutdown_tap_device_for_realm E\<rparr>"

section \<open>The firewall tables\<close>

definition routing_chains :: "NatNetworkConfig \<Rightarrow> chain_key set" where
  "routing_chains config =
     mangle_chains (cfg_if_name config) (cfg_if_ip config) \<union>
     (flt_chains (cfg_if_name config) (cfg_if_ip config) \<union>
      (nat_chains (cfg_if_name config) (cfg_if_ip config) \<union> {}))"

definition routing_jumps :: "NatNetworkConfig \<Rightarrow> (chain_key \<times> string) list" where
  "routing_jumps config =
     nat_jumps (cfg_if_name config) (cfg_if_ip config) @
     flt_jumps (cfg_if_name config) (cfg_if_ip config) @
     mangle_jumps (cfg_if_name config) (cfg_if_ip config)"

definition routing_absent :: "NatNetworkConfig \<Rightarrow> ip_tables \<Rightarrow> bool" where
  "routing_absent config T \<longleftrightarrow>
     (\<forall>k \<in> routing_chains config. T k = None) \<and> (\<forall>j \<in> set (routing_jumps config). new_jump T j)"

lemmas table_names = NAT_TABLE_NAME_def FILTER_TABLE_NAME_def MANGLE_TABLE_NAME_def

lemma chains_disjoint:
  "nat_chains n ip \<inter> flt_chains n ip = {}" "flt_chains n ip \<inter> nat_chains n ip = {}"
  "mangle_chains n ip \<inter> (flt_chains n ip \<union> nat_chains n ip) = {}"
  "(flt_chains n ip \<union> nat_chains n ip) \<inter> mangle_chains n ip = {}"
  by (auto simp: nat_chains_def flt_chains_def mangle_chains_def table_names)

lemma jumps_distinct: "distinct (routing_jumps config)"
  by (simp add: routing_jumps_def nat_jumps_def flt_jumps_def mangle_jumps_def jump_keys_def table_names)

lemma prepare_routing_adds:
  assumes L: "ipt_lawful (ne_ipt E) fam tabs" and "routing_absent config (tabs w)"
    and run: "prepare_routing E config w = (Inr u, w')"
  shows "added (tabs w) (routing_chains config) (routing_jumps config) (tabs w')"
proof -
  let ?n = "cfg_if_name config" and ?ip = "cfg_if_ip config"
  from run obtain nm w1 w2 fm w3 w4 mm w5 where runs:
      "NatIpTableManager_new (ne_ipt E) ?n ?ip w = (Inr nm, w1)"
      "nat_insert_ip_table_rules (ne_net E) (ne_ipt E) nm w1 = (Inr (), w2)"
      "FilterIpTableManager_new (ne_ipt E) ?n ?ip w2 = (Inr fm, w3)"
      "filter_insert_ip_table_rules (ne_net E) (ne_ipt E) fm w3 = (Inr (), w4)"
      "MangleTableManager_new (ne_ipt E) ?n ?ip w4 = (Inr mm, w5)"
      "mangle_insert_ip_table_rules (ne_ipt E) mm w5 = (Inr (), w')"
    by (auto simp: prepare_routing_def prepare_routing_sync_def Let_def run_iffs)
  have dist: "distinct (nat_jumps ?n ?ip)" "distinct (nat_jumps ?n ?ip @ flt_jumps ?n ?ip)"
      "distinct ((nat_jumps ?n ?ip @ flt_jumps ?n ?ip) @ mangle_jumps ?n ?ip)"
    using jumps_distinct [of config] by (auto simp: routing_jumps_def)
  note abs = assms(2) [unfolded routing_absent_def routing_chains_def routing_jumps_def set_append ball_Un]
  have "added (tabs w) {} [] (tabs w1)" using nat_table.make_keeps [OF L runs(1)] by simp
  from nat_table.insert_adds [OF L runs(1,2) this] abs dist
  have "added (tabs w) (nat_chains ?n ?ip \<union> {}) (nat_jumps ?n ?ip) (tabs w3)"
    using filter_table.make_keeps [OF L runs(3)] by simp
  from filter_table.insert_adds [OF L runs(3,4) this] abs dist chains_disjoint [of ?n ?ip]
  have "added (tabs w) (flt_chains ?n ?ip \<union> (nat_chains ?n ?ip \<union> {}))
          (nat_jumps ?n ?ip @ flt_jumps ?n ?ip) (tabs w5)"
    using mangle_table.make_keeps [OF L runs(5)] by simp
  from mangle_table.insert_adds [OF L runs(5,6) this] abs dist chains_disjoint [of ?n ?ip]
  show ?thesis by (simp add: routing_chains_def routing_jumps_def)
qed

lemma cleanup_routing_drops:
  assumes L: "ipt_lawful (ne_ipt E) fam tabs"
    and A: "added T0 (routing_chains config) (routing_jumps config) (tabs w)"
    and run: "cleanup_routing E config w = (Inr u, w')"
  shows "tabs w' = T0"
proof -
  let ?n = "cfg_if_name config" and ?ip = "cfg_if_ip config"
  from run obtain nm w1 w2 fm w3 w4 mm w5 where runs:
      "NatIpTableManager_new (ne_ipt E) ?n ?ip w = (Inr nm, w1)"
      "nat_remove_ip_table_rules (ne_ipt E) nm w1 = (Inr (), w2)"
      "FilterIpTableManager_new (ne_ipt E) ?n ?ip w2 = (Inr fm, w3)"
      "filter_remove_ip_table_rules (ne_ipt E) fm w3 = (Inr (), w4)"
      "MangleTableManager_new (ne_ipt E) ?n ?ip w4 = (Inr mm, w5)"
      "mangle_remove_ip_table_rules (ne_ipt E) mm w5 = (Inr (), w')"
    by (auto simp: cleanup_routing_def cleanup_routing_sync_def Let_def run_iffs)
  have "added T0 (nat_chains ?n ?ip \<union> (flt_chains ?n ?ip \<union> mangle_chains ?n ?ip))
          (nat_jumps ?n ?ip @ flt_jumps ?n ?ip @ mangle_jumps ?n ?ip) (tabs w1)"
    using A nat_table.make_keeps [OF L runs(1)]
    by (simp add: routing_chains_def routing_jumps_def Un_ac)
  from nat_table.remove_drops [OF L runs(1,2) this] chains_disjoint [of ?n ?ip]
  have "added T0 (flt_chains ?n ?ip \<union> mangle_chains ?n ?ip)
          (flt_jumps ?n ?ip @ mangle_jumps ?n ?ip) (tabs w3)"
    using filter_table.make_keeps [OF L runs(3)] by (simp add: Int_Un_distrib Int_Un_distrib2 Int_commute)
  from filter_table.remove_drops [OF L runs(3,4) this] chains_disjoint [of ?n ?ip]
  have "added T0 (mangle_chains ?n ?ip \<union> {}) (mangle_jumps ?n ?ip @ []) (tabs w5)"
    using mangle_table.make_keeps [OF L runs(5)] by (simp add: Int_Un_distrib Int_Un_distrib2 Int_commute)
  from added_nothing [OF mangle_table.remove_drops [OF L runs(5,6) this]] show ?thesis by simp
qed

section \<open>Tap devices\<close>

lemma create_tap_run:
  assumes "nm_create_tap_device_for_realm E name rid (s, w) = (Inr u, (s', w'))"
  shows "\<exists>tap v. TapDeviceFabric_create_tap (ne_link E) name w = (Inr tap, v) \<and>
           add_tap_device_to_bridge (ne_link E) (nm_bridge s) tap v = (Inr (), w') \<and>
           s' = s\<lparr>nm_taps := hm_insert rid tap (nm_taps s)\<rparr>"
  using assms by (auto simp: nm_create_tap_device_for_realm_def run_iffs)

lemma shutdown_tap_run:
  assumes "nm_shutdown_tap_device_for_realm E rid (s, w) = (Inr u, (s', w'))"
  shows "\<exists>tap v. hm_get (nm_taps s) rid = Some tap \<and>
           remove_tap_device_from_bridge (ne_link E) (nm_bridge s) tap w = (Inr (), v) \<and>
           TapDeviceFabric_delete_tap (ne_link E) tap v = (Inr (), w') \<and>
           s' = s\<lparr>nm_taps := hm_remove rid (nm_taps s)\<rparr>"
  using assms by (auto simp: nm_shutdown_tap_device_for_realm_def run_iffs)

lemma create_tap_effect:
  assumes L: "nl_lawful (ne_link E) links" and U: "unique_index (links w)"
    and run: "nm_create_tap_device_for_realm E name rid (s, w) = (Inr u, (s', w'))"
  shows "\<exists>i j c d. links w' = (links w)(name \<mapsto> (j, Some i)) \<and>
           ((links w)(name \<mapsto> (j, d))) (br_name (nm_bridge s)) = Some (i, c) \<and>
           (links w name = None \<and> new_index j (links w) \<or> (\<exists>d. links w name = Some (j, d))) \<and>
           unique_index (links w')"
proof -
  obtain tap v where mk: "TapDeviceFabric_create_tap (ne_link E) name w = (Inr tap, v)"
      and add: "add_tap_device_to_bridge (ne_link E) (nm_bridge s) tap v = (Inr (), w')"
    using create_tap_run [OF run] by blast
  note made = create_tap_links [OF L mk]
  obtain i c j d where p: "links v (br_name (nm_bridge s)) = Some (i, c)" "links v name = Some (j, d)"
      "links w' = set_port j (Some i) (links v)"
    using add_tap_links [OF L add] made by auto
  have v: "links v = (links w)(name \<mapsto> (j, d)) \<and> unique_index (links v) \<and>
           (links w name = None \<and> new_index j (links w) \<or> (\<exists>d. links w name = Some (j, d)))"
    using made p(2) U unique_index_new by (auto split: if_splits)
  have w': "links w' = (links v)(name \<mapsto> (j, Some i))"
    unfolding p(3) by (rule set_port_eq) (use v p(2) in blast)+
  have "unique_index (links w')"
    unfolding w' by (rule unique_index_upd) (use v p(2) in blast)+
  with w' v p(1) show ?thesis by (metis fun_upd_upd)
qed

lemma shutdown_tap_effect:
  assumes L: "nl_lawful (ne_link E) links" and U: "unique_index (links w)"
    and run: "nm_shutdown_tap_device_for_realm E rid (s, w) = (Inr u, (s', w'))"
    and tap: "hm_get (nm_taps s) rid = Some tap"
    and leaf: "\<And>j d n i. links w (tap_name tap) = Some (j, d) \<Longrightarrow> links w n \<noteq> Some (i, Some j)"
  shows "links w (tap_name tap) \<noteq> None \<and> links w' = (links w)(tap_name tap := None)"
proof -
  obtain v where rm: "remove_tap_device_from_bridge (ne_link E) (nm_bridge s) tap w = (Inr (), v)"
      and del: "TapDeviceFabric_delete_tap (ne_link E) tap v = (Inr (), w')"
    using shutdown_tap_run [OF run] tap by auto
  obtain j d where j: "links w (tap_name tap) = Some (j, d)" "links v = set_port j None (links w)"
    using remove_tap_links [OF L rm] by auto
  have v: "links v = (links w)(tap_name tap \<mapsto> (j, None))"
    using j set_port_eq [OF U] by simp
  then have "links w' = del_link j (links v)"
    using delete_tap_links [OF L del] by simp
  also have "\<dots> = (links v)(tap_name tap := None)"
    unfolding v
  proof (rule del_link_eq)
    show "\<forall>m i. ((links w)(tap_name tap \<mapsto> (j, None))) m \<noteq> Some (i, Some j)" using leaf [OF j(1)] by auto
  qed (use unique_index_upd [OF U j(1)] in simp_all)
  finally show ?thesis using v j by simp
qed

section \<open>The life of the network\<close>

text \<open>Operations of the link crate that leave a part of the world alone, on every path.\<close>

definition nl_keeps :: "('w \<Rightarrow> bool) \<Rightarrow> ('h, 'w) NetlinkOps \<Rightarrow> bool" where
  "nl_keeps P L \<longleftrightarrow>
     keeps P (nl_connect L) \<and> (\<forall>h n. keeps P (nl_get_link L h n)) \<and> (\<forall>h n. keeps P (nl_add_bridge L h n)) \<and>
     (\<forall>h i a p. keeps P (nl_add_address L h i a p)) \<and> (\<forall>h i. keeps P (nl_set_up L h i)) \<and>
     (\<forall>h i c. keeps P (nl_set_controller L h i c)) \<and> (\<forall>h i. keeps P (nl_set_nocontroller L h i)) \<and>
     (\<forall>h i. keeps P (nl_del L h i)) \<and> (\<forall>h w. P w \<longrightarrow> P (nl_abort L h w)) \<and>
     (\<forall>n. keeps P (tun_try_build L n))"

definition dhcp_keeps :: "('w \<Rightarrow> bool) \<Rightarrow> ('d, 'w) DHCPServer \<Rightarrow> bool" where
  "dhcp_keeps P D \<longleftrightarrow>
     (\<forall>ip n. keeps (\<lambda>(d, w). P w) (dhcp_start D ip n)) \<and> keeps (\<lambda>(d, w). P w) (dhcp_stop D)"

lemma nl_keepsD:
  assumes "nl_keeps P L"
  shows "keeps P (nl_connect L)" "keeps P (nl_get_link L h n)" "keeps P (nl_add_bridge L h n)"
    "keeps P (nl_add_address L h i a p)" "keeps P (nl_set_up L h i)" "keeps P (nl_set_controller L h i c)"
    "keeps P (nl_set_nocontroller L h i)" "keeps P (nl_del L h i)" "keeps P (upd (nl_abort L h))"
    "keeps P (tun_try_build L n)"
  using assms by (auto simp: nl_keeps_def intro: keeps_upd)

lemma keeps_require:
  "nl_keeps P L \<Longrightarrow> keeps P (require_device L h n rep)"
  by (auto simp: require_device_def get_device_id_def intro!: keeps_rules nl_keepsD)

lemma keeps_bridge_connection: "nl_keeps P L \<Longrightarrow> keeps P (bridge_connection L)"
  by (auto simp: bridge_connection_def get_handler_and_connection_def intro!: keeps_rules nl_keepsD)

lemmas link_keeps = keeps_rules nl_keepsD keeps_require keeps_bridge_connection

lemma keeps_delete_bridge: "nl_keeps P L \<Longrightarrow> keeps P (VirtualBridgeHandler_delete_bridge L b)"
  by (auto simp: VirtualBridgeHandler_delete_bridge_def RtNetLinkBridge_delete_bridge_def intro!: link_keeps)

lemma keeps_create_bridge: "nl_keeps P L \<Longrightarrow> keeps P (VirtualBridgeHandler_create_bridge L n ip)"
  by (auto simp: VirtualBridgeHandler_create_bridge_def RtNetLinkBridge_new_def set_interface_up_def
      RtNetLinkBridge_create_bridge_def Let_def intro!: link_keeps)

lemma keeps_add_tap: "nl_keeps P L \<Longrightarrow> keeps P (add_tap_device_to_bridge L b t)"
  by (auto simp: add_tap_device_to_bridge_def RtNetLinkBridge_add_tap_def intro!: link_keeps)

lemma keeps_remove_tap: "nl_keeps P L \<Longrightarrow> keeps P (remove_tap_device_from_bridge L b t)"
  by (auto simp: remove_tap_device_from_bridge_def RtNetLinkBridge_remove_tap_def intro!: link_keeps)

lemma keeps_create_tap: "nl_keeps P L \<Longrightarrow> keeps P (TapDeviceFabric_create_tap L n)"
  by (auto simp: TapDeviceFabric_create_tap_def tokio_create_tap_def intro!: link_keeps)

lemma keeps_delete_tap: "nl_keeps P L \<Longrightarrow> keeps P (TapDeviceFabric_delete_tap L t)"
  by (auto simp: TapDeviceFabric_delete_tap_def rtnetlink_delete_tap_def get_device_id_def
      get_handler_and_connection_def intro!: link_keeps split: option.split)

text \<open>The state of a network that its tap operations never change: the tables, the
  configuration, the bridge; and the map of taps stays well formed.\<close>

definition nat_fixed ::
  "('w \<Rightarrow> bool) \<Rightarrow> NatNetworkConfig \<Rightarrow> RtNetLinkBridge \<Rightarrow> 'd NetworkManagerHandler \<times> 'w \<Rightarrow> bool" where
  "nat_fixed P config bridge =
     (\<lambda>(s, w). P w \<and> nm_config s = config \<and> nm_bridge s = bridge \<and> hm_wf (nm_taps s))"

lemma keeps_in_fixed: "keeps P m \<Longrightarrow> keeps (nat_fixed P config bridge) (in_world m)"
  by (auto simp: keeps_def nat_fixed_def in_world_run split: prod.splits)

lemma keeps_create_tap_device:
  assumes "nl_keeps P (ne_link E)"
  shows "keeps (nat_fixed P config bridge) (nm_create_tap_device_for_realm E name rid)"
  unfolding nm_create_tap_device_for_realm_def
  by (intro keeps_rules keeps_in_fixed keeps_create_tap keeps_add_tap assms keeps_upd)
    (auto simp: nat_fixed_def)

lemma keeps_shutdown_tap_device:
  assumes "nl_keeps P (ne_link E)"
  shows "keeps (nat_fixed P config bridge) (nm_shutdown_tap_device_for_realm E rid)"
  unfolding nm_shutdown_tap_device_for_realm_def
  by (intro keeps_rules keeps_in_fixed keeps_delete_tap keeps_remove_tap assms keeps_upd)
    (auto simp: nat_fixed_def)

lemma keeps_shutdown_all_taps:
  "nl_keeps P (ne_link E) \<Longrightarrow> keeps (nat_fixed P config bridge) (shutdown_all_taps E)"
  unfolding shutdown_all_taps_def by (intro keeps_rules keeps_shutdown_tap_device)

text \<open>Tap operations in any order, with any outcome.\<close>

inductive nat_step ::
  "('i, 'l, 'd, 'w) NatEnv \<Rightarrow> 'd NetworkManagerHandler \<times> 'w \<Rightarrow> 'd NetworkManagerHandler \<times> 'w \<Rightarrow> bool"
  for E where
  create_tap: "nm_create_tap_device_for_realm E name rid t = (r, t') \<Longrightarrow> nat_step E t t'"
| shutdown_tap: "nm_shutdown_tap_device_for_realm E rid t = (r, t') \<Longrightarrow> nat_step E t t'"

inductive_cases nat_stepE: "nat_step E t t'"

lemma nat_steps_fixed:
  assumes "(nat_step E)\<^sup>*\<^sup>* t t'" and "nl_keeps P (ne_link E)" and "nat_fixed P config bridge t"
  shows "nat_fixed P config bridge t'"
  using assms(1,3)
proof (induction rule: rtranclp_induct)
  case base
  then show ?case .
next
  case (step y z)
  from step(2) step.IH [OF step.prems] show ?case
    by (elim nat_stepE)
      (blast dest: keepsD [OF keeps_create_tap_device [OF assms(2)]]
        keepsD [OF keeps_shutdown_tap_device [OF assms(2)]])+
qed

lemma setup_routing_Inr:
  "setup_routing E config bridge w = (Inr u, w') \<longleftrightarrow> prepare_routing E config w = (Inr u, w')"
  by (auto simp: setup_routing_def prog_defs split: prod.splits sum.splits)

lemma handle_dhcp_Inr:
  "handle_dhcp_serve_start E result bridge config w = (Inr u, w') \<longleftrightarrow> result = Inr () \<and> w' = w"
  by (auto simp: handle_dhcp_serve_start_def prog_defs split: prod.splits sum.splits)

lemma on_owned_iff:
  "on_owned x m w = (r, w') \<longleftrightarrow> (\<exists>y x'. m (x, w) = (y, (x', w')) \<and> r = Inr (y, x'))"
  by (auto simp: on_owned_def split: prod.splits)

lemma create_nat_run:
  assumes "create_nat E config d w = (Inr s, w')"
  shows "\<exists>bridge_ip v1 v2 d'. calculate_bridge_addr (ne_net E) (cfg_if_ip config) = Inr bridge_ip \<and>
           VirtualBridgeHandler_create_bridge (ne_link E) (cfg_if_name config) bridge_ip w = (Inr (nm_bridge s), v1) \<and>
           prepare_routing E config v1 = (Inr (), v2) \<and>
           dhcp_start (ne_dhcp E) bridge_ip (cfg_if_name config) (d, v2) = (Inr (), (d', w')) \<and>
           nm_config s = config \<and> nm_dhcp_server s = d' \<and> nm_taps s = []"
  using assms
  by (auto simp: create_nat_def setup_routing_Inr handle_dhcp_Inr on_owned_iff run_iffs)

lemma create_nat_tables:
  assumes L: "ipt_lawful (ne_ipt E) fam tabs"
    and K: "\<And>T. nl_keeps (\<lambda>w. tabs w = T) (ne_link E)" "\<And>T. dhcp_keeps (\<lambda>w. tabs w = T) (ne_dhcp E)"
    and absent: "routing_absent config (tabs w)" and run: "create_nat E config d w = (Inr s, w')"
  shows "added (tabs w) (routing_chains config) (routing_jumps config) (tabs w')"
proof -
  from create_nat_run [OF run] obtain ip v1 v2 d' where runs:
      "VirtualBridgeHandler_create_bridge (ne_link E) (cfg_if_name config) ip w = (Inr (nm_bridge s), v1)"
      "prepare_routing E config v1 = (Inr (), v2)"
      "dhcp_start (ne_dhcp E) ip (cfg_if_name config) (d, v2) = (Inr (), (d', w'))"
    by blast
  have v1: "tabs v1 = tabs w" using keepsD [OF keeps_create_bridge [OF K(1)] _ runs(1)] by simp
  have "keeps (\<lambda>(d, w). tabs w = tabs v2) (dhcp_start (ne_dhcp E) ip (cfg_if_name config))"
    using K(2) by (simp add: dhcp_keeps_def)
  from keepsD [OF this _ runs(3)] have "tabs w' = tabs v2" by simp
  with prepare_routing_adds [OF L _ runs(2)] absent v1 show ?thesis by simp
qed

lemma shutdown_nat_run:
  assumes K: "nl_keeps P (ne_link E)" "dhcp_keeps P (ne_dhcp E)"
    and fixed: "nat_fixed P config bridge (s, w)" and run: "shutdown_nat E (s, w) = (r, (s', w'))"
  shows "\<exists>w1 res. P w1 \<and> cleanup_routing E config w1 = (res, w')"
proof -
  from run obtain x1 t1 x2 t2 x3 t3 res where runs:
      "shutdown_all_taps E (s, w) = (x1, t1)"
      "zoom (\<lambda>(s, w). (nm_dhcp_server s, w)) (\<lambda>(d, w') (s, w). (s\<lparr>nm_dhcp_server := d\<rparr>, w'))
         (dhcp_stop (ne_dhcp E)) t1 = (x2, t2)"
      "in_world (destroy_bridge E (nm_bridge (fst t2))) t2 = (x3, t3)"
      "in_world (cleanup_routing E (nm_config (fst t3))) t3 = (res, (s', w'))"
    by (auto simp: shutdown_nat_def attempt_iff ok_iff try_bind_def get_def)
  have 1: "nat_fixed P config bridge t1"
    using keepsD [OF keeps_shutdown_all_taps [OF K(1)] fixed runs(1)] .
  have "keeps (\<lambda>(d, w). P w) (dhcp_stop (ne_dhcp E))" using K(2) by (simp add: dhcp_keeps_def)
  with 1 runs(2) have 2: "nat_fixed P config bridge t2"
    by (auto simp: zoom_def nat_fixed_def keeps_def split: prod.splits) (metis case_prodD snd_conv)
  have "keeps P (destroy_bridge E (nm_bridge (fst t2)))"
    by (auto simp: destroy_bridge_def intro!: keeps_rules keeps_delete_bridge K(1))
  from keepsD [OF keeps_in_fixed [OF this] 2 runs(3)] have "nat_fixed P config bridge t3" .
  with runs(4) show ?thesis by (cases t3) (auto simp: nat_fixed_def)
qed

end
