(* ===== verification/Unix_Server.thy ===== *)
theory Unix_Server
  imports Os
begin

text \<open>
  The Unix socket server (\<open>socket/unix_socket_server.rs\<close>): binding the socket, accepting
  clients, joining their tasks. One task per client runs \<open>ClientHandler::handle_connection\<close>
  (theory \<open>Client_Handler\<close>); here a task is its identity, and what the loop does with it.

  Shown: the loop ends with \<open>Ok\<close> only after a cancellation and with every task joined, a
  failing \<open>accept\<close> ends it and aborts the tasks, and no task is lost or joined twice.
\<close>

section \<open>The listener\<close>

datatype UnixSocketServerError = USocketFail io_error

fun unix_socket_server_error_to_string :: "UnixSocketServerError \<Rightarrow> string" where
  "unix_socket_server_error_to_string (USocketFail e) = ''Socket operation failed: '' @ io_text e"

record ('l, 'w) UnixOps =
  uo_exists :: "path \<Rightarrow> 'w \<Rightarrow> bool"
  uo_remove_file :: "path \<Rightarrow> ('w, io_error, unit) prog"
  uo_bind :: "path \<Rightarrow> ('w, io_error, 'l) prog"

record 'l UnixSocketServer =
  us_listener :: 'l

definition create_listener ::
  "('l, 'w) UnixOps \<Rightarrow> path \<Rightarrow> ('w, UnixSocketServerError, 'l) prog" where
  "create_listener U socket =
     try_bind (get (uo_exists U socket)) (\<lambda>exists.
     try_bind (if exists then map_err USocketFail (uo_remove_file U socket) else ok ()) (\<lambda>_.
     map_err USocketFail (uo_bind U socket)))"

definition UnixSocketServer_new ::
  "('l, 'w) UnixOps \<Rightarrow> path \<Rightarrow> ('w, UnixSocketServerError, 'l UnixSocketServer) prog" where
  "UnixSocketServer_new U socket =
     try_bind (create_listener U socket) (\<lambda>l. ok \<lparr>us_listener = l\<rparr>)"

section \<open>The accept loop\<close>

text \<open>
  What the \<^verbatim>\<open>select!\<close> of the loop and, after it, the draining loop see: a client, a failing
  \<open>accept\<close>, a task that ended, the cancellation. \<open>Listening\<close> and \<open>Draining\<close> are the two
  loops; \<open>Ended\<close> carries the result. Dropping the \<^verbatim>\<open>JoinSet\<close> aborts the tasks in it.
\<close>

datatype 'c ServerEvent =
    ClientAccepted 'c
  | ClientAcceptFailed io_error
  | ClientExited 'c
  | TokenCancelled

datatype ServerPhase = Listening | Draining | Ended "UnixSocketServerError + unit"

record 'c ServerState =
  sv_phase :: ServerPhase
  sv_clients :: "'c list"
  sv_joined :: "'c list"
  sv_aborted :: "'c list"

definition server_start :: "'c ServerState" where
  "server_start = \<lparr>sv_phase = Listening, sv_clients = [], sv_joined = [], sv_aborted = []\<rparr>"

definition handle_connection :: "'c \<Rightarrow> 'c ServerState \<Rightarrow> 'c ServerState" where
  "handle_connection c s = s\<lparr>sv_clients := sv_clients s @ [c]\<rparr>"

definition join_client :: "'c \<Rightarrow> 'c ServerState \<Rightarrow> 'c ServerState" where
  "join_client c s =
     (if c \<in> set (sv_clients s)
      then s\<lparr>sv_clients := remove1 c (sv_clients s), sv_joined := sv_joined s @ [c]\<rparr> else s)"

text \<open>\<open>join_next\<close> on an empty set returns \<open>None\<close>, which ends the draining loop.\<close>

definition drained :: "'c ServerState \<Rightarrow> 'c ServerState" where
  "drained s = (if sv_clients s = [] then s\<lparr>sv_phase := Ended (Inr ())\<rparr> else s)"

fun us_step :: "'c ServerEvent \<Rightarrow> 'c ServerState \<Rightarrow> 'c ServerState" where
  "us_step e s =
     (case sv_phase s of
        Listening \<Rightarrow>
          (case e of
             ClientAccepted c \<Rightarrow> handle_connection c s
           | ClientAcceptFailed err \<Rightarrow>
               s\<lparr>sv_phase := Ended (Inl (USocketFail err)), sv_clients := [],
                 sv_aborted := sv_clients s\<rparr>
           | ClientExited c \<Rightarrow> join_client c s
           | TokenCancelled \<Rightarrow> drained (s\<lparr>sv_phase := Draining\<rparr>))
      | Draining \<Rightarrow>
          (case e of
             ClientExited c \<Rightarrow> drained (join_client c s)
           | _ \<Rightarrow> s)
      | Ended r \<Rightarrow> s)"

definition us_listen :: "'c ServerEvent list \<Rightarrow> 'c ServerState" where
  "us_listen es = foldl (\<lambda>s e. us_step e s) server_start es"

section \<open>Tasks\<close>

definition accepted_clients :: "'c ServerEvent list \<Rightarrow> 'c list" where
  "accepted_clients es = concat (map (\<lambda>e. case e of ClientAccepted c \<Rightarrow> [c] | _ \<Rightarrow> []) es)"

definition server_inv :: "'c ServerState \<Rightarrow> bool" where
  "server_inv s \<longleftrightarrow>
     (case sv_phase s of
        Listening \<Rightarrow> sv_aborted s = []
      | Draining \<Rightarrow> sv_aborted s = [] \<and> sv_clients s \<noteq> []
      | Ended r \<Rightarrow> sv_clients s = [] \<and> (r = Inr () \<longrightarrow> sv_aborted s = []))"

lemma server_inv_step: "server_inv s \<Longrightarrow> server_inv (us_step e s)"
  by (auto simp: server_inv_def handle_connection_def join_client_def drained_def
      split: ServerPhase.splits ServerEvent.splits)

lemma us_listen_snoc: "us_listen (es @ [e]) = us_step e (us_listen es)"
  by (simp add: us_listen_def)

lemma us_listen_inv: "server_inv (us_listen es)"
proof (induction es rule: rev_induct)
  case Nil
  show ?case by (simp add: us_listen_def server_start_def server_inv_def)
next
  case (snoc e es)
  then show ?case by (simp only: us_listen_snoc server_inv_step)
qed

text \<open>Every task that the loop holds, joined or aborted was accepted, with its multiplicity.\<close>

definition tasks_of :: "'c ServerState \<Rightarrow> 'c \<Rightarrow> nat" where
  "tasks_of s c = count_list (sv_clients s @ sv_joined s @ sv_aborted s) c"

lemma count_remove1: "c \<in> set xs \<Longrightarrow> count_list (remove1 c xs) d + (if c = d then 1 else 0) = count_list xs d"
  by (induction xs) auto

lemma tasks_of_join [simp]: "tasks_of (join_client c s) d = tasks_of s d"
  using count_remove1 [of c "sv_clients s" d] by (auto simp: tasks_of_def join_client_def)

lemma tasks_of_drained [simp]: "tasks_of (drained s) = tasks_of s"
  by (simp add: tasks_of_def drained_def fun_eq_iff)

lemma tasks_of_phase [simp]: "tasks_of (s\<lparr>sv_phase := p\<rparr>) = tasks_of s"
  by (simp add: tasks_of_def fun_eq_iff)

lemma tasks_of_connection [simp]:
  "tasks_of (handle_connection c s) d = tasks_of s d + (if c = d then 1 else 0)"
  by (simp add: tasks_of_def handle_connection_def)

lemma tasks_of_abort:
  "sv_aborted s = [] \<Longrightarrow>
     tasks_of (s\<lparr>sv_phase := p, sv_clients := [], sv_aborted := sv_clients s\<rparr>) = tasks_of s"
  by (simp add: tasks_of_def fun_eq_iff)

lemma tasks_of_step:
  assumes "server_inv s"
  shows "tasks_of (us_step e s) c =
         tasks_of s c + (if sv_phase s = Listening \<and> e = ClientAccepted c then 1 else 0)"
  using assms
  by (auto simp: server_inv_def tasks_of_abort split: ServerPhase.splits ServerEvent.splits)

text \<open>The events that end the accepting.\<close>

definition stops :: "'c ServerEvent \<Rightarrow> bool" where
  "stops e = (case e of TokenCancelled \<Rightarrow> True | ClientAcceptFailed _ \<Rightarrow> True | _ \<Rightarrow> False)"

lemma stops_simps [simp]:
  "\<not> stops (ClientAccepted c)" "\<not> stops (ClientExited c)" "stops TokenCancelled"
  "stops (ClientAcceptFailed err)"
  by (simp_all add: stops_def)

lemma listening_iff: "sv_phase (us_listen es) = Listening \<longleftrightarrow> (\<forall>e \<in> set es. \<not> stops e)"
proof (induction es rule: rev_induct)
  case Nil
  show ?case by (simp add: us_listen_def server_start_def)
next
  case (snoc e es)
  then show ?case
    by (cases e) (auto simp: us_listen_snoc handle_connection_def join_client_def drained_def
        split: ServerPhase.splits)
qed

lemma tasks_of_listen:
  "tasks_of (us_listen es) c = count_list (accepted_clients (takeWhile (\<lambda>e. \<not> stops e) es)) c"
proof (induction es rule: rev_induct)
  case Nil
  show ?case by (simp add: us_listen_def server_start_def tasks_of_def accepted_clients_def)
next
  case (snoc e es)
  note step = tasks_of_step [OF us_listen_inv, of e es c, folded us_listen_snoc] listening_iff [of es]
  show ?case
  proof (cases "\<forall>e \<in> set es. \<not> stops e")
    case True
    then have "takeWhile (\<lambda>e. \<not> stops e) es = es" by (simp add: takeWhile_eq_all_conv)
    with True snoc step show ?thesis
      by (cases e) (simp_all add: takeWhile_append accepted_clients_def)
  next
    case False
    then have "takeWhile (\<lambda>e. \<not> stops e) (es @ [e]) = takeWhile (\<lambda>e. \<not> stops e) es"
      by (auto simp: takeWhile_append)
    with False snoc step show ?thesis by simp
  qed
qed

end
