(* ===== verification/Daemon_Builder.thy ===== *)
theory Daemon_Builder
  imports Daemon Nat_Manager Unix_Server
begin

text \<open>
  \<open>DaemonBuilder\<close> and \<open>Daemon::run\<close> of \<open>daemon.rs\<close>: the DHCP server and the network, the Warden
  with the realms found on disk, the Unix socket, and the clean-up when a later step fails.
  The network manager is shared: once it exists it is part of the world that the realm
  fabric works on.
\<close>

section \<open>Building\<close>

text \<open>The causes that \<^verbatim>\<open>anyhow::Error\<close> can hold here.\<close>

datatype BuildError =
    BuildDnsmasq DnsmasqServerError
  | BuildNetwork NetworkManagerError
  | BuildWorkdir io_error
  | BuildWarden "io_error + WardenError"
  | BuildSocket UnixSocketServerError
  | BuildSignal io_error

definition create_dhcp_and_dns_server ::
  "(path \<Rightarrow> string option) \<Rightarrow> path \<Rightarrow> u8 \<Rightarrow> string list \<Rightarrow>
     DnsmasqServerError + 'c DnsmasqServerHandler" where
  "create_dhcp_and_dns_server file_name exec_path total_clients records =
     map_sum id (add_dns_args records) (DnsmasqServerHandler_new file_name exec_path total_clients)"

text \<open>The state of the builder: the network manager, once there is one, and the world.\<close>

type_synonym ('d, 'w) Builder = "'d NetworkManagerHandler option \<times> 'w"

definition create_network_manager ::
  "('i, 'l, 'd, 'w) NatEnv \<Rightarrow> string \<Rightarrow> IpNet \<Rightarrow> 'd \<Rightarrow>
     (('d, 'w) Builder, NetworkManagerError, 'd NetworkManagerHandler) prog" where
  "create_network_manager E name ip server =
     try_bind (in_world (create_nat E \<lparr>cfg_if_name = name, cfg_if_ip = ip\<rparr> server)) (\<lambda>nm.
     try_bind (upd (\<lambda>(b, w). (Some nm, w))) (\<lambda>_. ok nm))"

text \<open>Running on the shared manager \<open>nm\<close>, whose present state the builder holds.\<close>

definition on_manager ::
  "'d NetworkManagerHandler \<Rightarrow> ('d NetworkManagerHandler \<times> 'w, 'e, 'a) prog \<Rightarrow>
     (('d, 'w) Builder, 'e, 'a) prog" where
  "on_manager nm m =
     zoom (\<lambda>(b, w). (case b of Some n \<Rightarrow> n | None \<Rightarrow> nm, w)) (\<lambda>(n, w') _. (Some n, w')) m"

record ('realm, 'l) DaemonParts =
  dp_vsock_server :: VSockServer
  dp_warden :: "'realm WardenDaemon"
  dp_usock_server :: "'l UnixSocketServer"
  dp_cancelled :: bool

text \<open>
  \<open>F\<close> is the environment of the fabrics over the world with the manager in it; its network
  is \<open>NetworkManagerHandler_ops E\<close> in the daemon.
\<close>

definition build_daemon ::
  "(path \<Rightarrow> string option) \<Rightarrow> ('i, 'n, 'c DnsmasqServerHandler, 'w) NatEnv \<Rightarrow>
     ('h, 'f, 'g, 'c DnsmasqServerHandler NetworkManagerHandler \<times> 'w) FabricEnv \<Rightarrow>
     ('l, 'c DnsmasqServerHandler NetworkManagerHandler \<times> 'w) UnixOps \<Rightarrow> Cli \<Rightarrow>
     (('c DnsmasqServerHandler, 'w) Builder, BuildError, (('c VmRunner, 'snd) BuiltRealm, 'l) DaemonParts) prog" where
  "build_daemon file_name E F U cli =
     (let vsock_server = create_vsock_server (cli_cid cli) (cli_port cli) in
      try_bind (map_err BuildDnsmasq (of_result (create_dhcp_and_dns_server file_name
                 (dhcp_exec_path cli) (dhcp_total_clients cli) (dns_records cli)))) (\<lambda>dhcp_dns_server.
      try_bind (map_err BuildNetwork (create_network_manager E (bridge_name cli) (network_address cli)
                 dhcp_dns_server)) (\<lambda>network_manager.
      on_manager network_manager
       (try_bind (map_err BuildWorkdir
                   (WardenFabric_new (fe_create_dir_all F) (cli_warden_workdir_path cli))) (\<lambda>workdir.
        try_bind (map_err BuildWarden (create_warden (fe_read_dir F) (fe_parse F)
                   (RealmManagerFabric_ops F (daemon_realm_fabric cli)) workdir)) (\<lambda>warden.
        try_bind (map_err BuildSocket (UnixSocketServer_new U (unix_sock_path cli))) (\<lambda>usock_server.
        ok \<lparr>dp_vsock_server = vsock_server, dp_warden = warden, dp_usock_server = usock_server,
            dp_cancelled = False\<rparr>)))))))"

definition builder_cleanup ::
  "('i, 'n, 'd, 'w) NatEnv \<Rightarrow> (('d, 'w) Builder, BuildError, unit) prog" where
  "builder_cleanup E =
     try_bind (get fst) (\<lambda>nm.
     case nm of
       None \<Rightarrow> ok ()
     | Some nm \<Rightarrow> map_err BuildNetwork (on_manager nm (shutdown_nat E)))"

definition DaemonBuilder_build ::
  "(path \<Rightarrow> string option) \<Rightarrow> ('i, 'n, 'c DnsmasqServerHandler, 'w) NatEnv \<Rightarrow>
     ('h, 'f, 'g, 'c DnsmasqServerHandler NetworkManagerHandler \<times> 'w) FabricEnv \<Rightarrow>
     ('l, 'c DnsmasqServerHandler NetworkManagerHandler \<times> 'w) UnixOps \<Rightarrow> Cli \<Rightarrow>
     (('c DnsmasqServerHandler, 'w) Builder, BuildError, (('c VmRunner, 'snd) BuiltRealm, 'l) DaemonParts) prog" where
  "DaemonBuilder_build file_name E F U cli =
     attempt (build_daemon file_name E F U cli) (\<lambda>res.
     case res of
       Inl error \<Rightarrow> try_bind (builder_cleanup E) (\<lambda>_. fail error)
     | Inr daemon \<Rightarrow> ok daemon)"

section \<open>Running\<close>

text \<open>
  \<open>run\<close> registers the signals, then waits for the first of four events, cancels the token,
  shuts the network down and joins the two server tasks that are still running (\<open>join\<close>).
\<close>

datatype StopCause = SigInt | SigTerm | VsockThreadEnded | UsockThreadEnded

definition Daemon_run ::
  "('i, 'n, 'd, 'w) NatEnv \<Rightarrow> (bool \<Rightarrow> ('d NetworkManagerHandler \<times> 'w, io_error, unit) prog) \<Rightarrow>
     (StopCause \<Rightarrow> ('d NetworkManagerHandler \<times> 'w, BuildError, unit) prog) \<Rightarrow> StopCause \<Rightarrow>
     ('r, 'l) DaemonParts \<Rightarrow>
     ('d NetworkManagerHandler \<times> 'w, BuildError, ('r, 'l) DaemonParts) prog" where
  "Daemon_run E signal join cause self =
     try_bind (map_err BuildSignal (signal True)) (\<lambda>_.
     try_bind (map_err BuildSignal (signal False)) (\<lambda>_.
     try_bind (map_err BuildNetwork (shutdown_nat E)) (\<lambda>_.
     try_bind (join cause) (\<lambda>_.
     ok (self\<lparr>dp_cancelled := True\<rparr>)))))"

type_synonym ('c, 'snd, 'l, 'w) build =
  "(('c DnsmasqServerHandler, 'w) Builder, BuildError, (('c VmRunner, 'snd) BuiltRealm, 'l) DaemonParts) prog"

section \<open>Clean-up\<close>

lemma shutdown_nat_ok: "\<exists>t'. shutdown_nat E t = (Inr (), t')"
  by (auto simp: shutdown_nat_def prog_defs split: prod.splits)

lemma builder_cleanup_run:
  "builder_cleanup E (b, w) =
     (Inr (), (case b of None \<Rightarrow> (None, w)
               | Some nm \<Rightarrow> (case snd (shutdown_nat E (nm, w)) of (nm', w') \<Rightarrow> (Some nm', w'))))"
proof (cases b)
  case None
  then show ?thesis by (simp add: builder_cleanup_def prog_defs)
next
  case (Some nm)
  obtain nm' w' where "shutdown_nat E (nm, w) = (Inr (), (nm', w'))"
    using shutdown_nat_ok by (metis surj_pair)
  with Some show ?thesis by (simp add: builder_cleanup_def on_manager_def prog_defs)
qed

text \<open>
  A build that fails reports the error of the step that failed, and runs the shutdown of
  the network on the state that this step left.
\<close>

lemma build_failure_run:
  assumes "(DaemonBuilder_build file_name E F U cli :: ('c, 'snd, 'l, 'w) build) (None, w) = (Inl e, t)"
  shows "\<exists>b w1. (build_daemon file_name E F U cli :: ('c, 'snd, 'l, 'w) build) (None, w) = (Inl e, (b, w1)) \<and>
           builder_cleanup E (b, w1) = (Inr (), t)"
proof -
  obtain r b w1 where b: "(build_daemon file_name E F U cli :: ('c, 'snd, 'l, 'w) build) (None, w) = (r, (b, w1))"
    by (metis surj_pair)
  then show ?thesis
    using assms builder_cleanup_run [of E b w1]
    by (cases r) (auto simp: DaemonBuilder_build_def attempt_def try_bind_def fail_def ok_def)
qed

text \<open>The network exists exactly when the failing step came after it.\<close>

definition needs_network :: "BuildError \<Rightarrow> bool" where
  "needs_network e = (case e of BuildDnsmasq _ \<Rightarrow> False | BuildNetwork _ \<Rightarrow> False | _ \<Rightarrow> True)"

lemma build_daemon_failure:
  assumes "build_daemon file_name E F U cli (None, w) = (Inl e, (b, w1))"
  shows "needs_network e \<longleftrightarrow> b \<noteq> None"
  using assms
  by (auto simp: build_daemon_def Let_def try_bind_def map_err_def of_result_def ok_def on_manager_def
      zoom_def create_network_manager_def in_world_run upd_def needs_network_def
      split: sum.splits prod.splits)

end
