(* ===== verification/Network_Simulation.thy ===== *)
theory Network_Simulation
  imports Daemon_Builder Simulation
begin

text \<open>
  A concrete network host: firewall tables and links as association lists, every operation
  of the crates on them, and a DHCP server whose process always starts. It satisfies the
  laws that the theorems about the network assume, and the witnesses run on it.
\<close>

record NetHost =
  nh_tabs :: "(chain_key \<times> string list) list"
  nh_links :: "(string \<times> link) list"
  nh_next :: u32

definition sim_tabs :: "NetHost \<Rightarrow> ip_tables" where
  "sim_tabs w = map_of (nh_tabs w)"

definition sim_links :: "NetHost \<Rightarrow> links" where
  "sim_links w = map_of (nh_links w)"

section \<open>Firewall\<close>

definition on_chain ::
  "(string list \<Rightarrow> string list option) \<Rightarrow> bool \<Rightarrow> string \<Rightarrow> string \<Rightarrow> (NetHost, string, unit) prog" where
  "on_chain f h t c w =
     (case map_of (nh_tabs w) (h, t, c) of
        None \<Rightarrow> (Inl ''No chain by that name'', w)
      | Some rs \<Rightarrow>
          (case f rs of
             None \<Rightarrow> (Inl ''Bad rule'', w)
           | Some rs' \<Rightarrow> (Inr (), w\<lparr>nh_tabs := AList.update (h, t, c) rs' (nh_tabs w)\<rparr>)))"

definition sim_ipt :: "(bool, NetHost) IpTablesOps" where
  "sim_ipt =
     \<lparr>ipt_new = (\<lambda>v6 w. (Inr v6, w)),
      ipt_chain_exists = (\<lambda>h t c w. (Inr (map_of (nh_tabs w) (h, t, c) \<noteq> None), w)),
      ipt_new_chain = (\<lambda>h t c w.
        if map_of (nh_tabs w) (h, t, c) \<noteq> None then (Inl ''Chain already exists'', w)
        else (Inr (), w\<lparr>nh_tabs := AList.update (h, t, c) [] (nh_tabs w)\<rparr>)),
      ipt_append_replace = (\<lambda>h t c r. on_chain (\<lambda>rs. Some (remove1 r rs @ [r])) h t c),
      ipt_flush_chain = on_chain (\<lambda>rs. Some []),
      ipt_delete = (\<lambda>h t c r. on_chain (\<lambda>rs. if r \<in> set rs then Some (remove1 r rs) else None) h t c),
      ipt_delete_chain = (\<lambda>h t c w.
        if map_of (nh_tabs w) (h, t, c) = Some [] then (Inr (), w\<lparr>nh_tabs := AList.delete (h, t, c) (nh_tabs w)\<rparr>)
        else (Inl ''Chain is not empty'', w))\<rparr>"

lemma sim_ipt_lawful: "ipt_lawful sim_ipt id sim_tabs"
  by (auto simp: ipt_lawful_def sim_ipt_def sim_tabs_def on_chain_def update_conv' delete_conv'
      split: option.splits if_splits)

section \<open>Links\<close>

definition free_index :: "u32 \<Rightarrow> (string \<times> link) list \<Rightarrow> bool" where
  "free_index i ls \<longleftrightarrow> list_all (\<lambda>(n, j, c). j \<noteq> i \<and> c \<noteq> Some i) ls"

definition add_link :: "string \<Rightarrow> (NetHost, string, unit) prog" where
  "add_link n w =
     (if free_index (nh_next w) (nh_links w)
      then (Inr (), w\<lparr>nh_links := AList.update n (nh_next w, None) (nh_links w), nh_next := nh_next w + 1\<rparr>)
      else (Inl ''No free index'', w))"

definition sim_link :: "(unit, NetHost) NetlinkOps" where
  "sim_link =
     \<lparr>nl_connect = (\<lambda>w. (Inr (), w)),
      nl_get_link = (\<lambda>h n w. (Inr (map_option fst (map_of (nh_links w) n)), w)),
      nl_add_bridge = (\<lambda>h n w. if map_of (nh_links w) n = None then add_link n w else (Inl ''File exists'', w)),
      nl_add_address = (\<lambda>h i a p w. (Inr (), w)),
      nl_set_up = (\<lambda>h i w. (Inr (), w)),
      nl_set_controller = (\<lambda>h i c w. (Inr (), w\<lparr>nh_links :=
        map (\<lambda>(n, j, d). (n, j, if j = i then Some c else d)) (nh_links w)\<rparr>)),
      nl_set_nocontroller = (\<lambda>h i w. (Inr (), w\<lparr>nh_links :=
        map (\<lambda>(n, j, d). (n, j, if j = i then None else d)) (nh_links w)\<rparr>)),
      nl_del = (\<lambda>h i w. if distinct (map fst (nh_links w))
        then (Inr (), w\<lparr>nh_links :=
          map (\<lambda>(n, j, d). (n, j, if d = Some i then None else d))
            (filter (\<lambda>(n, j, d). j \<noteq> i) (nh_links w))\<rparr>)
        else (Inl ''Bad table'', w)),
      nl_abort = (\<lambda>h w. w),
      tun_try_build = (\<lambda>n w. if map_of (nh_links w) n = None then add_link n w else (Inr (), w))\<rparr>"

lemma free_index_new: "free_index i ls \<Longrightarrow> new_index i (map_of ls)"
  by (auto simp: free_index_def new_index_def list_all_iff dest!: map_of_SomeD)

lemma map_of_ports:
  "map_of (map (\<lambda>(n, j, d). (n, j, if j = i then c else d)) ls) = set_port i c (map_of ls)"
  by (induction ls) (auto simp: set_port_def fun_eq_iff)

lemma map_of_deleted:
  "distinct (map fst ls) \<Longrightarrow>
   map_of (map (\<lambda>(n, j, d). (n, j, if d = Some i then None else d)) (filter (\<lambda>(n, j, d). j \<noteq> i) ls))
     = del_link i (map_of ls)"
proof (induction ls)
  case Nil
  then show ?case by (simp add: del_link_def fun_eq_iff)
next
  case (Cons p ls)
  obtain n j d where p: "p = (n, j, d)" by (cases p)
  from Cons have "map_of ls n = None" by (simp add: p map_of_eq_None_iff)
  with Cons p show ?case by (auto simp: del_link_def fun_eq_iff)
qed

lemma sim_link_lawful: "nl_lawful sim_link sim_links"
  by (auto simp: nl_lawful_def sim_link_def sim_links_def add_link_def map_of_ports map_of_deleted
      update_conv' dest!: free_index_new split: if_splits)

lemma sim_link_keeps: "nl_keeps (\<lambda>w. sim_tabs w = T) sim_link"
  by (auto simp: nl_keeps_def keeps_def sim_link_def sim_tabs_def add_link_def)

section \<open>Addresses, the server and the network\<close>

definition sim_net :: NetOps where
  "sim_net =
     \<lparr>ip_saturating_add = add_saturating,
      ipnet_new = (\<lambda>a p. if unat p \<le> addr_bits a then Inr \<lparr>ipnet_addr = a, prefix_len = p\<rparr>
                         else Inl ''invalid IP prefix length''),
      show_ip = (\<lambda>a. ''a''), show_net = (\<lambda>n. ''n'')\<rparr>"

lemma sim_net_lawful: "net_lawful sim_net"
  by (simp add: net_lawful_def sim_net_def)

definition net_process :: "(unit, NetHost) ProcessOps" where
  "net_process =
     \<lparr>os_spawn = (\<lambda>c w. (Inr (), w)), os_try_wait = (\<lambda>s. (Inr None, s)), os_kill = (\<lambda>s. (Inr (), s)),
      os_wait = (\<lambda>s. (Inr ''exit status: 0'', s)), os_take_stdout = (\<lambda>s. (True, s)),
      os_take_stderr = (\<lambda>s. (True, s))\<rparr>"

definition sim_nat_env :: "(bool, unit, unit DnsmasqServerHandler, NetHost) NatEnv" where
  "sim_nat_env =
     \<lparr>ne_net = sim_net, ne_ipt = sim_ipt, ne_link = sim_link, ne_dhcp = Dnsmasq_ops sim_net net_process,
      ne_us = (\<lambda>u. ''u'')\<rparr>"

definition net_host0 :: NetHost where
  "net_host0 =
     \<lparr>nh_tabs = [((False, ''nat'', ''POSTROUTING''), [''-j DOCKER'']), ((False, ''mangle'', ''POSTROUTING''), []),
                 ((False, ''filter'', ''INPUT''), []), ((False, ''filter'', ''OUTPUT''), []),
                 ((False, ''filter'', ''FORWARD''), [''-j DOCKER''])],
      nh_links = [(''lo'', 1, None)], nh_next = 2\<rparr>"

definition sim_nat_config :: NatNetworkConfig where
  "sim_nat_config =
     \<lparr>cfg_if_name = ''br'', cfg_if_ip = \<lparr>ipnet_addr = V4 3232261120, prefix_len = 24\<rparr>\<rparr>"

definition sim_dhcp :: "unit DnsmasqServerHandler" where
  "sim_dhcp = \<lparr>dns_command = create_command ''dnsmasq'', dhcp_connections_number = 20, dns_child = None\<rparr>"

section \<open>A daemon on a host whose disk is read-only\<close>

type_synonym NetWorld = "unit DnsmasqServerHandler NetworkManagerHandler \<times> NetHost"

definition read_only :: "('w, io_error, 'a) prog" where
  "read_only = fail (sim_error ''Read-only file system'')"

definition ro_files :: "(unit, NetWorld) FileOps" where
  "ro_files =
     \<lparr>file_create = (\<lambda>p. read_only), file_open = (\<lambda>p. read_only), file_write_all = (\<lambda>f t. read_only),
      file_flush = (\<lambda>f. read_only), file_read_to_string = (\<lambda>f. read_only)\<rparr>"

definition ro_disk :: "(unit, unit, NetWorld) DiskEnv" where
  "ro_disk =
     \<lparr>disk_open = (\<lambda>p. read_only), disk_seek = (\<lambda>f n. read_only), disk_write_all = (\<lambda>f b. read_only),
      disk_sync_all = (\<lambda>f. read_only), disk_close = (\<lambda>f. read_only), mbr_overwrite_lba0 = (\<lambda>f n. fail ''ro''),
      gpt_create_from_device = (\<lambda>f n. fail ''ro''), gpt_clear_partitions = (\<lambda>g. fail ''ro''),
      gpt_add_partition = (\<lambda>g n sz. fail ''ro''), gpt_write = (\<lambda>g. fail ''ro''), gpt_read = (\<lambda>p. fail ''ro''),
      bytes_len = (\<lambda>p n. Inl ''ro'')\<rparr>"

definition ro_fabric :: "(unit, unit, unit, NetWorld) FabricEnv" where
  "ro_fabric =
     \<lparr>fe_us = (\<lambda>u. ''u''), fe_parse = (\<lambda>t. Inl ''bad''), fe_files = ro_files, fe_create_dir = (\<lambda>p. read_only),
      fe_create_dir_all = (\<lambda>p. read_only), fe_remove_dir_all = (\<lambda>p. read_only), fe_read_dir = (\<lambda>p. read_only),
      fe_app_yaml = \<lparr>yaml_to_string = (\<lambda>c. Inl ''ro''), yaml_from_str = (\<lambda>t. Inl ''ro'')\<rparr>,
      fe_realm_yaml = \<lparr>yaml_to_string = (\<lambda>c. Inl ''ro''), yaml_from_str = (\<lambda>t. Inl ''ro'')\<rparr>,
      fe_disk = ro_disk, fe_network = NetworkManagerHandler_ops sim_nat_env\<rparr>"

definition ro_unix :: "(unit, NetWorld) UnixOps" where
  "ro_unix = \<lparr>uo_exists = (\<lambda>p w. False), uo_remove_file = (\<lambda>p. read_only), uo_bind = (\<lambda>p. read_only)\<rparr>"

definition ro_build :: "(unit, Request, unit, NetHost) build" where
  "ro_build = DaemonBuilder_build Some sim_nat_env ro_fabric ro_unix sim_cli"

end
