(* ===== verification/Network_Properties.thy ===== *)
theory Network_Properties
  imports Network_Simulation
begin

text \<open>The properties of the realm network, the Unix socket server and the daemon's start.\<close>

text \<open>
  (C34) The routing rules leave no trace: when the chains and jumps of the daemon were absent,
  inserting the rules of all three tables and later removing them brings every chain of every
  table back to what it was, rule for rule, whatever other rules the host has.
\<close>

theorem routing_restored:
  assumes "ipt_lawful (ne_ipt E) fam tabs" and "routing_absent config (tabs w)"
    and "prepare_routing E config w = (Inr (), w1)" and "tabs w2 = tabs w1"
    and "cleanup_routing E config w2 = (Inr (), w3)"
  shows "tabs w3 = tabs w"
  using cleanup_routing_drops [OF assms(1) _ assms(5)] prepare_routing_adds [OF assms(1-3)] assms(4)
  by metis

definition routed_host :: NetHost where
  "routed_host = snd (prepare_routing sim_nat_env sim_nat_config net_host0)"

definition unrouted_host :: NetHost where
  "unrouted_host = snd (cleanup_routing sim_nat_env sim_nat_config routed_host)"

lemma sim_absent: "routing_absent sim_nat_config (sim_tabs net_host0)"
  by (simp add: routing_absent_def routing_chains_def routing_jumps_def nat_chains_def flt_chains_def
      mangle_chains_def nat_jumps_def flt_jumps_def mangle_jumps_def flt_chain_names_def table_names
      sim_nat_config_def net_host0_def sim_tabs_def new_jump_def is_ipv6_def)

lemma routed_host_run: "prepare_routing sim_nat_env sim_nat_config net_host0 = (Inr (), routed_host)"
proof -
  have "fst (prepare_routing sim_nat_env sim_nat_config net_host0) = Inr ()" by code_simp
  then show ?thesis by (simp add: routed_host_def prod_eq_iff)
qed

lemma unrouted_host_run: "cleanup_routing sim_nat_env sim_nat_config routed_host = (Inr (), unrouted_host)"
proof -
  have "fst (cleanup_routing sim_nat_env sim_nat_config routed_host) = Inr ()" by code_simp
  then show ?thesis by (simp add: unrouted_host_def prod_eq_iff)
qed

theorem routing_restored_witness: "sim_tabs unrouted_host = sim_tabs net_host0"
  using routing_restored [of sim_nat_env id sim_tabs sim_nat_config net_host0 routed_host routed_host
      unrouted_host] sim_ipt_lawful sim_absent routed_host_run unrouted_host_run
  by (simp add: sim_nat_env_def)

text \<open>
  (C35) The life of the network: from a host without the daemon's chains, after the network was
  created and tap devices were created and shut down in any order and with any outcome, the
  shutdown always returns, removes the rules last with the configuration they were inserted
  with, and, unless that removal itself reports an error, every firewall table is as before.
\<close>

theorem network_life_tables:
  assumes "ipt_lawful (ne_ipt E) fam tabs"
    and "\<And>T. nl_keeps (\<lambda>w. tabs w = T) (ne_link E)" and "\<And>T. dhcp_keeps (\<lambda>w. tabs w = T) (ne_dhcp E)"
    and "routing_absent config (tabs w)" and "create_nat E config d w = (Inr s, w1)"
    and "(nat_step E)\<^sup>*\<^sup>* (s, w1) (s2, w2)" and "shutdown_nat E (s2, w2) = (r, (s3, w3))"
  shows "r = Inr () \<and>
         (\<exists>v res. cleanup_routing E config v = (res, w3) \<and> (res = Inr () \<longrightarrow> tabs w3 = tabs w))"
proof -
  let ?P = "\<lambda>v. tabs v = tabs w1"
  have "nat_fixed ?P config (nm_bridge s) (s, w1)"
    using create_nat_run [OF assms(5)] by (auto simp: nat_fixed_def)
  from nat_steps_fixed [OF assms(6,2) this]
  obtain v res where "tabs v = tabs w1" "cleanup_routing E config v = (res, w3)"
    using shutdown_nat_run [OF assms(2,3) _ assms(7)] by blast
  moreover have "r = Inr ()" using shutdown_nat_ok [of E "(s2, w2)"] assms(7) by simp
  ultimately show ?thesis
    using create_nat_tables [OF assms(1-5)] cleanup_routing_drops [OF assms(1)] by metis
qed

definition sim_nat_run ::
  "(NetworkManagerError + unit DnsmasqServerHandler NetworkManagerHandler) \<times> NetHost" where
  "sim_nat_run = create_nat sim_nat_env sim_nat_config sim_dhcp net_host0"

definition sim_nat :: "unit DnsmasqServerHandler NetworkManagerHandler" where
  "sim_nat = (case fst sim_nat_run of Inr s \<Rightarrow> s | Inl _ \<Rightarrow>
     \<lparr>nm_config = sim_nat_config, nm_bridge = \<lparr>br_name = []\<rparr>, nm_dhcp_server = sim_dhcp, nm_taps = []\<rparr>)"

definition sim_tap_run where
  "sim_tap_run = nm_create_tap_device_for_realm sim_nat_env ''tap0'' 7 (sim_nat, snd sim_nat_run)"

definition sim_shutdown_run where
  "sim_shutdown_run = shutdown_nat sim_nat_env (snd sim_tap_run)"

lemma sim_nat_ok: "sim_nat_run = (Inr sim_nat, snd sim_nat_run)"
proof -
  have "\<not> isl (fst sim_nat_run)" by code_simp
  then show ?thesis by (cases "fst sim_nat_run") (auto simp: sim_nat_def prod_eq_iff)
qed

lemma sim_dhcp_keeps: "dhcp_keeps (\<lambda>w. sim_tabs w = T) (Dnsmasq_ops N net_process)"
  by (auto simp: dhcp_keeps_def keeps_def Dnsmasq_ops_def spawn_server_def spawn_command_def kill_server_def
      net_process_def prog_defs in_world_run split: sum.splits prod.splits option.splits)

theorem network_life_tables_witness:
  "\<exists>v res. fst sim_shutdown_run = Inr () \<and>
     cleanup_routing sim_nat_env sim_nat_config v = (res, snd (snd sim_shutdown_run)) \<and>
     (res = Inr () \<longrightarrow> sim_tabs (snd (snd sim_shutdown_run)) = sim_tabs net_host0)"
proof -
  obtain r t where tap: "sim_tap_run = (r, t)" by (cases sim_tap_run)
  then have step: "(nat_step sim_nat_env)\<^sup>*\<^sup>* (sim_nat, snd sim_nat_run) (fst t, snd t)"
    by (auto simp: sim_tap_run_def intro: nat_step.create_tap)
  have run: "shutdown_nat sim_nat_env (fst t, snd t) =
      (fst sim_shutdown_run, (fst (snd sim_shutdown_run), snd (snd sim_shutdown_run)))"
    by (simp add: sim_shutdown_run_def tap)
  have created: "create_nat sim_nat_env sim_nat_config sim_dhcp net_host0 = (Inr sim_nat, snd sim_nat_run)"
    using sim_nat_ok by (simp add: sim_nat_run_def)
  have laws: "ipt_lawful (ne_ipt sim_nat_env) id sim_tabs" "nl_keeps (\<lambda>w. sim_tabs w = T) (ne_link sim_nat_env)"
      "dhcp_keeps (\<lambda>w. sim_tabs w = T) (ne_dhcp sim_nat_env)" for T
    by (simp_all add: sim_nat_env_def sim_ipt_lawful sim_link_keeps sim_dhcp_keeps)
  from network_life_tables [OF laws sim_absent created step run] show ?thesis by blast
qed

text \<open>
  The addresses of an IPv4 network that a host may have: those of the network, less its own address and
  the broadcast address.
\<close>

definition host_addresses :: "u32 \<Rightarrow> u8 \<Rightarrow> u32 set" where
  "host_addresses a p =
     {x. unat x div 2 ^ (32 - unat p) = unat a div 2 ^ (32 - unat p) \<and>
         unat x mod 2 ^ (32 - unat p) \<notin> {0, 2 ^ (32 - unat p) - 1}}"

lemma block_interior:
  assumes "0 < (k :: nat)"
  shows "n div k = q \<and> n mod k \<notin> {0, k - 1} \<longleftrightarrow> k * q < n \<and> n + 1 < k * q + k"
proof (cases "n div k = q")
  case True
  then obtain m where m: "n = k * q + m" "n mod k = m" "m < k"
    using assms mult_div_mod_eq [of k n] by (metis mod_less_divisor)
  then show ?thesis using True by auto
next
  case False
  then have "\<not> (k * q \<le> n \<and> n < k * q + k)"
    using div_nat_eqI [of k q n] by (auto simp: algebra_simps)
  with False show ?thesis by auto
qed

lemma host_address_iff:
  assumes "2 ^ (32 - unat p) dvd unat a"
  shows "x \<in> host_addresses a p \<longleftrightarrow> unat a < unat x \<and> unat x + 1 < unat a + 2 ^ (32 - unat p)"
proof -
  let ?k = "(2 :: nat) ^ (32 - unat p)"
  from assms obtain q where q: "unat a = ?k * q" by (elim dvdE)
  then have "unat a div ?k = q" by simp
  then show ?thesis using block_interior [of ?k "unat x" q] q by (simp add: host_addresses_def)
qed

lemma network_fits:
  assumes "unat (p :: u8) \<le> 32" and "2 ^ (32 - unat p) dvd unat (a :: u32)"
  shows "unat a + 2 ^ (32 - unat p) \<le> 2 ^ 32"
proof -
  let ?k = "(2 :: nat) ^ (32 - unat p)"
  from assms(2) obtain q where q: "unat a = ?k * q" by (elim dvdE)
  have k: "(2 :: nat) ^ 32 = ?k * 2 ^ unat p" using assms(1) by (simp flip: power_add)
  have "unat a < 2 ^ 32" using unsigned_less [of a] by simp
  then have "q < 2 ^ unat p" unfolding q k by simp
  then have "?k * (q + 1) \<le> ?k * 2 ^ unat p" by (intro mult_le_mono2) simp
  then show ?thesis unfolding k q by (simp add: algebra_simps)
qed

lemma card_word_interval: "card {x..y} = unat y + 1 - unat (x :: u32)"
proof -
  have y: "unat y < 2 ^ 32" using unsigned_less [of y] by simp
  have "{x..y} = of_nat ` {unat x..unat y}"
  proof (rule set_eqI)
    fix z
    show "z \<in> {x..y} \<longleftrightarrow> z \<in> of_nat ` {unat x..unat y}"
    proof
      assume "z \<in> {x..y}"
      then have "z = of_nat (unat z)" "unat z \<in> {unat x..unat y}" by (simp_all add: word_le_nat_alt)
      then show "z \<in> of_nat ` {unat x..unat y}" by blast
    next
      assume "z \<in> of_nat ` {unat x..unat y}"
      then obtain m where m: "z = of_nat m" "unat x \<le> m" "m \<le> unat y" by auto
      have "unat z = m" using m(1,3) y by (simp add: unat_of_nat take_bit_eq_mod)
      then show "z \<in> {x..y}" using m by (simp add: word_le_nat_alt)
    qed
  qed
  moreover have "inj_on (of_nat :: nat \<Rightarrow> u32) {unat x..unat y}"
  proof (rule inj_onI)
    fix i j assume "i \<in> {unat x..unat y}" "j \<in> {unat x..unat y}" "(of_nat i :: u32) = of_nat j"
    then show "i = j" using y by (simp add: word_unat_eq_iff unat_of_nat take_bit_eq_mod)
  qed
  ultimately show ?thesis by (simp add: card_image)
qed

lemma unat_saturating:
  "add_saturating (V4 a) n = V4 b \<Longrightarrow> unat b = min (unat a + n) (2 ^ 32 - 1)"
  by (auto simp: unat_add_small unsigned_minus_1_eq_mask mask_eq_exp_minus_1 min_def split: if_splits)

text \<open>
  (C36) The addresses of an IPv4 realm network, given by its network address and prefix: for every number of clients that the command line
  admits, the bridge and the pool handed to the DHCP server are computed, and the whole pool consists of host
  addresses of that network exactly when the prefix leaves room for the clients, the bridge, the network and the broadcast
  address. Then the bridge has the first host address and the pool is the block of exactly as many addresses as there
  are clients right behind it. Otherwise, which the command line does not rule out, the pool ends outside the hosts of the network.
\<close>

theorem dhcp_pool_addresses:
  assumes "net_lawful N" and "cli_valid cli"
    and "network_address cli = \<lparr>ipnet_addr = V4 a, prefix_len = p\<rparr>" and "unat p \<le> 32" and "2 ^ (32 - unat p) dvd unat a"
  shows "\<exists>b lo hi. calculate_bridge_addr N (network_address cli) = Inr \<lparr>ipnet_addr = V4 b, prefix_len = p\<rparr> \<and>
           calculate_range_str N \<lparr>ipnet_addr = V4 b, prefix_len = p\<rparr> (dhcp_total_clients cli) = Inr (V4 lo, V4 hi) \<and>
           (if unat (dhcp_total_clients cli) + 2 < 2 ^ (32 - unat p)
            then unat b = unat a + 1 \<and> unat lo = unat b + 1 \<and> unat hi = unat b + unat (dhcp_total_clients cli) \<and>
                 b \<in> host_addresses a p \<and> {lo..hi} \<subseteq> host_addresses a p \<and> b \<notin> {lo..hi} \<and>
                 card {lo..hi} = unat (dhcp_total_clients cli)
            else hi \<notin> host_addresses a p)"
proof -
  let ?n = "unat (dhcp_total_clients cli)" and ?k = "(2 :: nat) ^ (32 - unat p)"
  obtain b where b: "add_saturating (V4 a) 1 = V4 b" by simp
  obtain lo where lo: "add_saturating (V4 b) 1 = V4 lo" by simp
  obtain hi where hi: "add_saturating (V4 b) ?n = V4 hi" by simp
  note sat = unat_saturating [OF b] unat_saturating [OF lo] unat_saturating [OF hi]
  have n: "2 \<le> ?n" using assms(2) by (simp add: cli_valid_def)
  have "calculate_bridge_addr N (network_address cli) = Inr \<lparr>ipnet_addr = V4 b, prefix_len = p\<rparr>"
    using assms(1,3,4) b by (simp add: calculate_bridge_addr_def net_lawful_def addr_bits_def del: add_saturating.simps)
  moreover have "calculate_range_str N \<lparr>ipnet_addr = V4 b, prefix_len = p\<rparr> (dhcp_total_clients cli) = Inr (V4 lo, V4 hi)"
    using assms(1,4) lo hi by (simp add: range_lawful addr_bits_def del: add_saturating.simps)
  moreover have fits: "unat a + ?k \<le> 2 ^ 32"
    using assms(4,5) by (rule network_fits)
  have "if ?n + 2 < ?k
     then unat b = unat a + 1 \<and> unat lo = unat b + 1 \<and> unat hi = unat b + ?n \<and>
          b \<in> host_addresses a p \<and> {lo..hi} \<subseteq> host_addresses a p \<and> b \<notin> {lo..hi} \<and> card {lo..hi} = ?n
     else hi \<notin> host_addresses a p"
  proof (cases "?n + 2 < ?k")
    case True
    then have u: "unat b = unat a + 1" "unat lo = unat a + 2" "unat hi = unat a + 1 + ?n" using sat fits by simp_all
    then have "card {lo..hi} = ?n" using card_word_interval [of lo hi] by simp
    then show ?thesis using True u n by (auto simp: host_address_iff [OF assms(5)] word_le_nat_alt)
  next
    case False
    then show ?thesis using sat fits n by (auto simp: host_address_iff [OF assms(5)] min_def)
  qed
  ultimately show ?thesis by blast
qed

theorem dhcp_pool_addresses_witness:
  "\<exists>b lo hi. calculate_bridge_addr sim_net (network_address sim_cli) = Inr \<lparr>ipnet_addr = V4 b, prefix_len = 24\<rparr> \<and>
     calculate_range_str sim_net \<lparr>ipnet_addr = V4 b, prefix_len = 24\<rparr> 20 = Inr (V4 lo, V4 hi) \<and>
     unat b = 3232261121 \<and> {lo..hi} \<subseteq> host_addresses 3232261120 24 \<and> card {lo..hi} = 20"
  using dhcp_pool_addresses [of sim_net sim_cli 3232261120 24] sim_net_lawful
  by (fastforce simp: cli_valid_def sim_cli_def)

text \<open>
  (C37) A tap device for a realm: when it was created on a host that had no link of that name, it
  is filed under the realm and is a port of the daemon's bridge, no other link changed; shutting
  it down again removes exactly that link, so that the links of the host are as before.
\<close>

theorem tap_round_trip:
  assumes "nl_lawful (ne_link E) links" and "unique_index (links w)" and "links w name = None"
    and "links w (br_name (nm_bridge s)) = Some (i, c)"
    and "nm_create_tap_device_for_realm E name rid (s, w) = (Inr (), (s1, w1))"
    and "nm_shutdown_tap_device_for_realm E rid (s1, w1) = (Inr (), (s2, w2))"
  shows "hm_get (nm_taps s1) rid = Some \<lparr>tap_name = name\<rparr> \<and>
         (\<exists>j. links w1 = (links w)(name \<mapsto> (j, Some i))) \<and>
         links w2 = links w \<and> hm_get (nm_taps s2) = (hm_get (nm_taps s))(rid := None)"
proof -
  obtain tap v where made: "TapDeviceFabric_create_tap (ne_link E) name w = (Inr tap, v)"
      "s1 = s\<lparr>nm_taps := hm_insert rid tap (nm_taps s)\<rparr>"
    using create_tap_run [OF assms(5)] by blast
  have tap: "tap = \<lparr>tap_name = name\<rparr>"
    using create_tap_links [OF assms(1) made(1)] by simp
  have "name \<noteq> br_name (nm_bridge s)" using assms(3,4) by auto
  then obtain j where w1: "links w1 = (links w)(name \<mapsto> (j, Some i))"
      and new: "new_index j (links w)" and U: "unique_index (links w1)"
    using create_tap_effect [OF assms(1,2,5)] assms(3,4) by auto
  have leaf: "links w1 n \<noteq> Some (k, Some j)" for n k
    using new assms(4) by (auto simp: w1 new_index_def)
  have get: "hm_get (nm_taps s1) rid = Some tap" by (simp add: made(2))
  have "links w2 = (links w1)(tap_name tap := None)"
    by (rule conjunct2 [OF shutdown_tap_effect [OF assms(1) U assms(6) get]]) (use leaf w1 tap in simp)
  moreover have "hm_get (nm_taps s2) = (hm_get (nm_taps s))(rid := None)"
    using shutdown_tap_run [OF assms(6)] by (auto simp: made(2))
  ultimately show ?thesis using assms(3) w1 get tap by (auto simp: fun_eq_iff)
qed

definition bridged_host :: NetHost where
  "bridged_host = net_host0\<lparr>nh_links := [(''lo'', 1, None), (''br'', 2, None)], nh_next := 3\<rparr>"

definition bridged_nat :: "unit DnsmasqServerHandler NetworkManagerHandler" where
  "bridged_nat = \<lparr>nm_config = sim_nat_config, nm_bridge = \<lparr>br_name = ''br''\<rparr>, nm_dhcp_server = sim_dhcp,
                  nm_taps = []\<rparr>"

definition tap_made where
  "tap_made = nm_create_tap_device_for_realm sim_nat_env ''tap0'' 7 (bridged_nat, bridged_host)"

definition tap_unmade where
  "tap_unmade = nm_shutdown_tap_device_for_realm sim_nat_env 7 (snd tap_made)"

theorem tap_round_trip_witness:
  "\<exists>j. sim_links (snd (snd tap_made)) = (sim_links bridged_host)(''tap0'' \<mapsto> (j, Some 2)) \<and>
       sim_links (snd (snd tap_unmade)) = sim_links bridged_host"
proof -
  have "fst tap_made = Inr ()" and "fst tap_unmade = Inr ()" by code_simp+
  then have runs:
      "nm_create_tap_device_for_realm sim_nat_env ''tap0'' 7 (bridged_nat, bridged_host)
         = (Inr (), (fst (snd tap_made), snd (snd tap_made)))"
      "nm_shutdown_tap_device_for_realm sim_nat_env 7 (fst (snd tap_made), snd (snd tap_made))
         = (Inr (), (fst (snd tap_unmade), snd (snd tap_unmade)))"
    by (simp_all add: tap_made_def tap_unmade_def prod_eq_iff)
  have pre: "nl_lawful (ne_link sim_nat_env) sim_links" "unique_index (sim_links bridged_host)"
      "sim_links bridged_host ''tap0'' = None" "sim_links bridged_host (br_name (nm_bridge bridged_nat)) = Some (2, None)"
    by (auto simp: sim_nat_env_def sim_link_lawful unique_index_def sim_links_def bridged_host_def
        net_host0_def bridged_nat_def split: if_splits)
  from tap_round_trip [OF pre runs] show ?thesis by blast
qed

text \<open>
  (C38) The accept loop of the Unix socket loses no client: at every moment the tasks that it
  holds, has joined or has aborted are exactly the clients accepted before the first
  cancellation or failing accept, each as often as it was accepted. It returns \<open>Ok\<close> only when
  all of them were joined; when it returns an error none is left running.
\<close>

theorem unix_server_tasks:
  "(\<forall>c. tasks_of (us_listen es) c = count_list (accepted_clients (takeWhile (\<lambda>e. \<not> stops e) es)) c) \<and>
   (case sv_phase (us_listen es) of
      Listening \<Rightarrow> sv_aborted (us_listen es) = []
    | Draining \<Rightarrow> sv_aborted (us_listen es) = [] \<and> sv_clients (us_listen es) \<noteq> []
    | Ended r \<Rightarrow> sv_clients (us_listen es) = [] \<and> (r = Inr () \<longrightarrow> sv_aborted (us_listen es) = []))"
  using us_listen_inv [of es] by (simp add: tasks_of_listen server_inv_def)

theorem unix_server_tasks_witness:
  "sv_joined (us_listen [ClientAccepted (1 :: nat), ClientAccepted 2, TokenCancelled, ClientExited 2,
     ClientExited 1]) = [2, 1] \<and>
   tasks_of (us_listen [ClientAccepted (1 :: nat), ClientAccepted 2, TokenCancelled, ClientExited 2,
     ClientExited 1]) 1 = 1"
  using unix_server_tasks [of "[ClientAccepted (1 :: nat), ClientAccepted 2, TokenCancelled, ClientExited 2,
     ClientExited 1]"]
  by (simp add: accepted_clients_def us_listen_def server_start_def handle_connection_def join_client_def
      drained_def)

text \<open>
  (C39) A daemon that cannot start does not leave its network up: the build reports the error of
  the step that failed, the network exists at that moment exactly when that step comes after
  its creation, and then the last thing the build does is the complete shutdown of the network
  on the state that the failing step left.
\<close>

theorem failed_build_shuts_network_down:
  assumes "(DaemonBuilder_build file_name E F U cli :: ('c, 'snd, 'l, 'w) build) (None, w) = (Inl e, (b', w'))"
  shows "\<exists>b w1. (build_daemon file_name E F U cli :: ('c, 'snd, 'l, 'w) build) (None, w) = (Inl e, (b, w1)) \<and>
           (needs_network e \<longleftrightarrow> b \<noteq> None) \<and>
           (case b of
              None \<Rightarrow> b' = None \<and> w' = w1
            | Some nm \<Rightarrow> (\<exists>nm'. b' = Some nm' \<and> shutdown_nat E (nm, w1) = (Inr (), (nm', w'))))"
proof -
  obtain b w1 where b: "(build_daemon file_name E F U cli :: ('c, 'snd, 'l, 'w) build) (None, w) = (Inl e, (b, w1))"
      "builder_cleanup E (b, w1) = (Inr (), (b', w'))"
    using build_failure_run [OF assms] by auto
  have "case b of None \<Rightarrow> b' = None \<and> w' = w1
        | Some nm \<Rightarrow> (\<exists>nm'. b' = Some nm' \<and> shutdown_nat E (nm, w1) = (Inr (), (nm', w')))"
  proof (cases b)
    case (Some nm)
    with b(2) shutdown_nat_ok [of E "(nm, w1)"] show ?thesis
      by (auto simp: builder_cleanup_run split: prod.splits)
  qed (use b(2) in \<open>simp add: builder_cleanup_run\<close>)
  with b(1) build_daemon_failure [OF b(1)] show ?thesis by blast
qed

theorem failed_build_shuts_network_down_witness:
  "\<exists>b w1. (build_daemon Some sim_nat_env ro_fabric ro_unix sim_cli :: (unit, Request, unit, NetHost) build)
            (None, net_host0) = (Inl (BuildWorkdir (sim_error ''Read-only file system'')), (b, w1)) \<and>
          b \<noteq> None"
proof -
  have "case fst (ro_build (None, net_host0)) of
          Inl e \<Rightarrow> e = BuildWorkdir (sim_error ''Read-only file system'') | Inr _ \<Rightarrow> False"
    by code_simp
  then have "fst (ro_build (None, net_host0)) = Inl (BuildWorkdir (sim_error ''Read-only file system''))"
    by (auto split: sum.splits)
  then have "(DaemonBuilder_build Some sim_nat_env ro_fabric ro_unix sim_cli :: (unit, Request, unit, NetHost) build)
       (None, net_host0) = (Inl (BuildWorkdir (sim_error ''Read-only file system'')),
         (fst (snd (ro_build (None, net_host0))), snd (snd (ro_build (None, net_host0)))))"
    by (simp add: ro_build_def prod_eq_iff)
  from failed_build_shuts_network_down [OF this] show ?thesis by (auto simp: needs_network_def)
qed

end
