(* ===== verification/Guest_Error.thy ===== *)
theory Guest_Error
  imports Protocol Json_Framed
begin

text \<open>
  The errors of the application manager that runs inside a realm
  (\<open>realm/app-manager/src/error.rs\<close> and the error types of its modules). Errors of crates
  are kept as their texts, an \<open>Errno\<close> as its number.
\<close>

type_synonym errno = int

datatype FsError =
    MkfsStartFailure io_error
  | MkfsFormatError io_error
  | MountError errno
  | UmountError errno
  | MknodError errno
  | MkdirpError io_error
  | ReadLinkError io_error
  | StatError io_error
  | FileReadError io_error
  | FsFileWriteError io_error
  | PathHasNoParent
  | RmRfError io_error
  | RenameError io_error

datatype DiskError = EmptyDeviceName | InvalidDiskSize

datatype OsError =
    RebootError errno
  | InsmodFileFail io_error
  | InsmodReadFail io_error
  | InsmodFail errno

datatype NetError = NetGetIfAddrsError errno

datatype CryptoError = PubKeyParsing string | SignatureParsing string | Verification string

datatype DeviceHandleError = TableLoad string | ResumeError string | SuspendError string | NoId

datatype KeyRingError = FailedToAttachtoKeyring string | FailedToSealKey string

datatype HkdfSealingError = StubbedIkmDecodingError string | IkmRsiReadingError string

datatype ApplicationHandlerError =
    EmptyArgv
  | SpawnError io_error
  | AppNotRunning
  | RequestChannelError
  | ResponseChannelError
  | ChannelClosed
  | AppHandlerInvalidResponse
  | AppThreadJoinError string
  | IOReadError io_error
  | FailedToSendSignal errno
  | WaitpidError io_error

datatype DummyLauncherError = FileCopyError io_error | DlFileWriteError io_error

datatype RsiTokenResolverError = RsiCallFailed string | InvalidChallengeLength

text \<open>The error of the \<open>ratls\<close> crate: the one variant that this program builds, and any other.\<close>

datatype RaTlsError = GenericTokenResolverError RsiTokenResolverError | OtherRaTlsError string

datatype OciLauncherError =
    RootCaLoading RaTlsError
  | TokenReadingError RaTlsError
  | RaTlsCertResolverCreation RaTlsError
  | OciClientCreation string
  | ImageInfoFetching string
  | InvalidVersion string string
  | UnpackError string
  | FailedToFindRequiredAnnotations string
  | FailedToHexDecodeAnnotation string string
  | AppImageLacksAnnotations
  | MetadataNotFound
  | RuntimeConfigMissing
  | EntryPointCmdMissing
  | InvalidUserOrGroup string
  | GetPwName errno

datatype GuestApplicationError = PartitionNotFound uuid

datatype ManagerError =
    ProvisionJoinError string
  | VsockConnectionError io_error
  | FramedJsonError JsonFramedError
  | RemExtensionError errno
  | AppHasNoMeasurements
  | AppNotFound uuid
  | AlreadyProvisioned
  | RaTlsIsNotSelected
  | RsiTokenFetch string
  | InvalidChallengeSize

datatype Error =
    EApplication GuestApplicationError
  | EConfig string
  | EManager ManagerError
  | EFs FsError
  | ESerde string
  | EDisk DiskError
  | ECstringConv
  | ECstringFromVecConv
  | EOs OsError
  | ENet NetError
  | EDeviceHandle DeviceHandleError
  | EDmOpen string
  | EDmInvalidName string string
  | EDmUuidConversion string
  | EDmCreate string string
  | EDmRemoveDevice string
  | EKeyRing KeyRingError
  | EHandler ApplicationHandlerError
  | EDummyLauncher DummyLauncherError
  | EOciLauncher OciLauncherError
  | EHkdfSealing HkdfSealingError
  | ERsiTokenResolver RsiTokenResolverError
  | ECrypto CryptoError

end
