(* ===== verification/Guest_Util.thy ===== *)
theory Guest_Util
  imports Guest_Error
begin

text \<open>
  The utilities of the application manager (\<open>realm/app-manager/src/util\<close>): conversions to C
  strings, file-system and mount operations, device sizes, interface addresses, modules
  and power actions. The system calls are the fields of \<open>GuestOs\<close>.

  Shown: the size of a device is read back exactly as the kernel prints it, and is refused
  when it does not fit 64 bits.
\<close>

section \<open>The system\<close>

datatype SystemPowerAction = SysReboot | SysShutdown

record SockAddr =
  sa_in :: "32 word option"
  sa_in6 :: "128 word option"
  sa_family :: nat

record IfAddr =
  ifa_name :: string
  ifa_address :: "SockAddr option"
  ifa_netmask :: "SockAddr option"
  ifa_destination :: "SockAddr option"

record ('c, 'w) GuestOs =
  go_process :: "('c, 'w) ProcessOps"
  go_mount :: "string \<Rightarrow> string \<Rightarrow> string \<Rightarrow> string option \<Rightarrow> ('w, errno, unit) prog"
  go_umount :: "string \<Rightarrow> ('w, errno, unit) prog"
  go_mknod :: "string \<Rightarrow> u32 \<Rightarrow> u64 \<Rightarrow> ('w, errno, unit) prog"
  go_create_dir_all :: "path \<Rightarrow> ('w, io_error, unit) prog"
  go_read_link :: "path \<Rightarrow> ('w, io_error, path) prog"
  go_metadata :: "path \<Rightarrow> ('w, io_error, u64) prog"
  go_is_symlink :: "path \<Rightarrow> 'w \<Rightarrow> bool"
  go_read_to_string :: "path \<Rightarrow> ('w, io_error, string) prog"
  go_read :: "path \<Rightarrow> ('w, io_error, bytes) prog"
  go_write :: "path \<Rightarrow> string \<Rightarrow> ('w, io_error, unit) prog"
  go_remove_dir_all :: "path \<Rightarrow> ('w, io_error, unit) prog"
  go_rename :: "path \<Rightarrow> path \<Rightarrow> ('w, io_error, unit) prog"
  go_copy :: "path \<Rightarrow> path \<Rightarrow> ('w, io_error, unit) prog"
  go_reboot :: "SystemPowerAction \<Rightarrow> 'w \<Rightarrow> errno option \<times> 'w"
  go_init_module :: "bytes \<Rightarrow> string \<Rightarrow> ('w, errno, unit) prog"
  go_open_and_read :: "path \<Rightarrow> ('w, OsError, bytes) prog"
  go_getifaddrs :: "('w, errno, IfAddr list) prog"

section \<open>C strings\<close>

definition NUL :: char where "NUL = char_of (0 :: nat)"

definition cstring_from_str :: "string \<Rightarrow> Error + string" where
  "cstring_from_str v = (if NUL \<in> set v then Inl ECstringConv else Inr v)"

definition cstring_from_path :: "path \<Rightarrow> Error + string" where
  "cstring_from_path v = (if NUL \<in> set v then Inl ECstringConv else Inr v)"

definition cstring_from_vec :: "string \<Rightarrow> Error + string" where
  "cstring_from_vec v =
     (if v \<noteq> [] \<and> last v = NUL \<and> NUL \<notin> set (butlast v) then Inr (butlast v)
      else Inl ECstringFromVecConv)"

section \<open>Files and mounts\<close>

datatype Filesystem = Ext2 | Ext3 | Ext4

fun filesystem_to_string :: "Filesystem \<Rightarrow> string" where
  "filesystem_to_string Ext2 = ''ext2''"
| "filesystem_to_string Ext3 = ''ext3''"
| "filesystem_to_string Ext4 = ''ext4''"

definition check_libc_error :: "(errno \<Rightarrow> FsError) \<Rightarrow> ('w, errno, unit) prog \<Rightarrow> ('w, Error, unit) prog" where
  "check_libc_error f m = map_err (\<lambda>e. EFs (f e)) m"

text \<open>The exit status of \<open>mkfs\<close> is not looked at.\<close>

definition formatfs ::
  "('c, 'w) GuestOs \<Rightarrow> Filesystem \<Rightarrow> path \<Rightarrow> string option \<Rightarrow> ('w, Error, unit) prog" where
  "formatfs S ty device label =
     (let cmd = new_command (''/sbin/mkfs.'' @ filesystem_to_string ty);
          cmd = (case label of Some l \<Rightarrow> arg l (arg ''-L'' cmd) | None \<Rightarrow> cmd);
          cmd = arg device cmd in
      try_bind (map_err (\<lambda>e. EFs (MkfsStartFailure e)) (os_spawn (go_process S) cmd)) (\<lambda>child.
      zoom (\<lambda>w. (child, w)) (\<lambda>(c, w') w. w')
        (try_bind (map_err (\<lambda>e. EFs (MkfsFormatError e)) (os_wait (go_process S))) (\<lambda>_. ok ()))))"

definition mount_fs ::
  "('c, 'w) GuestOs \<Rightarrow> Filesystem \<Rightarrow> path \<Rightarrow> path \<Rightarrow> string option \<Rightarrow> ('w, Error, unit) prog" where
  "mount_fs S fs src dst opt =
     try_bind (of_result (cstring_from_str (filesystem_to_string fs))) (\<lambda>fs.
     try_bind (of_result (cstring_from_path src)) (\<lambda>src.
     try_bind (of_result (cstring_from_path dst)) (\<lambda>dst.
     try_bind (case opt of None \<Rightarrow> ok None
               | Some i \<Rightarrow> try_bind (of_result (cstring_from_str i)) (\<lambda>o'. ok (Some o'))) (\<lambda>opt.
     check_libc_error MountError (go_mount S src dst fs opt)))))"

definition umount :: "('c, 'w) GuestOs \<Rightarrow> path \<Rightarrow> ('w, Error, unit) prog" where
  "umount S path =
     try_bind (of_result (cstring_from_path path)) (\<lambda>path.
     check_libc_error UmountError (go_umount S path))"

definition mount_overlayfs ::
  "('c, 'w) GuestOs \<Rightarrow> path \<Rightarrow> path \<Rightarrow> path \<Rightarrow> path \<Rightarrow> ('w, Error, unit) prog" where
  "mount_overlayfs S lower upper workdir dst =
     try_bind (of_result (cstring_from_str ''overlay'')) (\<lambda>fs.
     try_bind (of_result (cstring_from_vec (''lowerdir='' @ lower @ '','' @ ''upperdir='' @ upper @ '','' @
                ''workdir='' @ workdir @ [NUL]))) (\<lambda>opt.
     try_bind (of_result (cstring_from_path dst)) (\<lambda>dst.
     check_libc_error MountError (go_mount S fs dst fs (Some opt)))))"

definition mknod :: "('c, 'w) GuestOs \<Rightarrow> path \<Rightarrow> u32 \<Rightarrow> u64 \<Rightarrow> ('w, Error, unit) prog" where
  "mknod S path mode dev =
     try_bind (of_result (cstring_from_path path)) (\<lambda>path.
     check_libc_error MknodError (go_mknod S path mode dev))"

definition mkdirp :: "('c, 'w) GuestOs \<Rightarrow> path \<Rightarrow> ('w, Error, unit) prog" where
  "mkdirp S path = map_err (\<lambda>e. EFs (MkdirpError e)) (go_create_dir_all S path)"

definition readlink :: "('c, 'w) GuestOs \<Rightarrow> path \<Rightarrow> ('w, Error, path) prog" where
  "readlink S path = map_err (\<lambda>e. EFs (ReadLinkError e)) (go_read_link S path)"

text \<open>Of the metadata only \<open>st_rdev\<close> is used.\<close>

definition stat :: "('c, 'w) GuestOs \<Rightarrow> path \<Rightarrow> ('w, Error, u64) prog" where
  "stat S path = map_err (\<lambda>e. EFs (StatError e)) (go_metadata S path)"

definition read_to_string :: "('c, 'w) GuestOs \<Rightarrow> path \<Rightarrow> ('w, Error, string) prog" where
  "read_to_string S path = map_err (\<lambda>e. EFs (FileReadError e)) (go_read_to_string S path)"

definition read_to_vec :: "('c, 'w) GuestOs \<Rightarrow> path \<Rightarrow> ('w, Error, bytes) prog" where
  "read_to_vec S path = map_err (\<lambda>e. EFs (FileReadError e)) (go_read S path)"

definition write_to_file :: "('c, 'w) GuestOs \<Rightarrow> path \<Rightarrow> string \<Rightarrow> ('w, Error, unit) prog" where
  "write_to_file S path content = map_err (\<lambda>e. EFs (FsFileWriteError e)) (go_write S path content)"

definition rmrf :: "('c, 'w) GuestOs \<Rightarrow> path \<Rightarrow> ('w, Error, unit) prog" where
  "rmrf S path = map_err (\<lambda>e. EFs (RmRfError e)) (go_remove_dir_all S path)"

definition rename :: "('c, 'w) GuestOs \<Rightarrow> path \<Rightarrow> path \<Rightarrow> ('w, Error, unit) prog" where
  "rename S src dst = map_err (\<lambda>e. EFs (RenameError e)) (go_rename S src dst)"

text \<open>
  \<^verbatim>\<open>Path::parent\<close> and \<^verbatim>\<open>Path::file_name\<close>, for paths without \<open>.\<close> components: trailing
  separators do not count, the root has neither.
\<close>

definition strip_slashes :: "path \<Rightarrow> path" where
  "strip_slashes p = rev (dropWhile (\<lambda>c. c = CHR ''/'') (rev p))"

definition path_parent :: "path \<Rightarrow> path option" where
  "path_parent p =
     (let q = strip_slashes p in
      if q = [] then None
      else (let d = rev (dropWhile (\<lambda>c. c \<noteq> CHR ''/'') (rev q)) in
            if d \<noteq> [] \<and> strip_slashes d = [] then Some ''/'' else Some (strip_slashes d)))"

definition path_file_name :: "path \<Rightarrow> string option" where
  "path_file_name p =
     (let n = rev (takeWhile (\<lambda>c. c \<noteq> CHR ''/'') (rev (strip_slashes p))) in
      if n = [] \<or> n = ''..'' then None else Some n)"

definition dirname :: "path \<Rightarrow> ('w, Error, path) prog" where
  "dirname path = of_result (ok_or (EFs PathHasNoParent) (path_parent path))"

section \<open>Device sizes\<close>

definition is_digit :: "char \<Rightarrow> bool" where
  "is_digit c \<longleftrightarrow> 48 \<le> (of_char c :: nat) \<and> (of_char c :: nat) \<le> 57"

text \<open>\<^verbatim>\<open>u64::from_str\<close>: an optional plus, at least one digit, no overflow.\<close>

definition u64_from_str :: "string \<Rightarrow> u64 option" where
  "u64_from_str s =
     (let ds = (case s of c # cs \<Rightarrow> if c = CHR ''+'' then cs else s | [] \<Rightarrow> []) in
      if ds \<noteq> [] \<and> list_all is_digit ds \<and> string_to_nat 0 ds < 2 ^ 64
      then Some (of_nat (string_to_nat 0 ds)) else None)"

lemma u64_from_str_code [code]:
  "u64_from_str s =
     (let ds = (case s of c # cs \<Rightarrow> if c = CHR ''+'' then cs else s | [] \<Rightarrow> []) in
      if ds \<noteq> [] \<and> list_all is_digit ds \<and> int (string_to_nat 0 ds) < 2 ^ 64
      then Some (of_nat (string_to_nat 0 ds)) else None)"
proof -
  have "int n < 2 ^ 64 \<longleftrightarrow> n < 2 ^ 64" for n by (metis of_nat_less_iff of_nat_numeral of_nat_power)
  then show ?thesis by (simp add: u64_from_str_def)
qed

definition read_device_size :: "('c, 'w) GuestOs \<Rightarrow> path \<Rightarrow> ('w, Error, u64) prog" where
  "read_device_size S path =
     try_bind (get (go_is_symlink S path)) (\<lambda>symlink.
     try_bind (if symlink then readlink S path else ok path) (\<lambda>realpath.
     try_bind (of_result (ok_or (EDisk EmptyDeviceName) (path_file_name realpath))) (\<lambda>device_name.
     try_bind (read_to_string S (path_push (path_push ''/sys/class/block/'' device_name) ''size'')) (\<lambda>content.
     of_result (ok_or (EDisk InvalidDiskSize) (u64_from_str (trim content)))))))"

section \<open>Network, modules, power\<close>

definition AF_INET :: nat where "AF_INET = 2"
definition AF_INET6 :: nat where "AF_INET6 = 10"

definition convert_sock_addr :: "SockAddr \<Rightarrow> IpAddr option" where
  "convert_sock_addr s =
     (if sa_family s = AF_INET then map_option V4 (sa_in s)
      else if sa_family s = AF_INET6 then map_option V6 (sa_in6 s) else None)"

definition convert_if_addrs :: "IfAddr list \<Rightarrow> (string \<times> NetAddr) list" where
  "convert_if_addrs ifaddrs =
     foldl (\<lambda>net_addrs i.
       case Option.bind (ifa_address i) convert_sock_addr of
         None \<Rightarrow> net_addrs
       | Some a \<Rightarrow> hm_insert (ifa_name i)
           \<lparr>net_address = a, net_netmask = Option.bind (ifa_netmask i) convert_sock_addr,
            net_destination = Option.bind (ifa_destination i) convert_sock_addr\<rparr> net_addrs) [] ifaddrs"

definition read_if_addrs :: "('c, 'w) GuestOs \<Rightarrow> ('w, Error, (string \<times> NetAddr) list) prog" where
  "read_if_addrs S =
     try_bind (map_err (\<lambda>e. ENet (NetGetIfAddrsError e)) (go_getifaddrs S)) (\<lambda>ifaddrs.
     ok (convert_if_addrs ifaddrs))"

text \<open>
  \<^verbatim>\<open>reboot\<close> only returns when it fails. \<open>None\<close> of \<open>go_reboot\<close> is the call after which the system is
  down: the program ends there with \<open>Inl\<close> of the action.
\<close>

definition reboot :: "('c, 'w) GuestOs \<Rightarrow> SystemPowerAction \<Rightarrow> ('w, SystemPowerAction, OsError) prog" where
  "reboot S action w =
     (case go_reboot S action w of
        (None, w') \<Rightarrow> (Inl action, w')
      | (Some e, w') \<Rightarrow> (Inr (RebootError e), w'))"

definition insmod :: "('c, 'w) GuestOs \<Rightarrow> path \<Rightarrow> string \<Rightarrow> ('w, Error, unit) prog" where
  "insmod S path params =
     try_bind (map_err EOs (go_open_and_read S path)) (\<lambda>image.
     try_bind (of_result (cstring_from_str params)) (\<lambda>args.
     map_err (\<lambda>e. EOs (InsmodFail e)) (go_init_module S image args)))"

section \<open>Names without a null\<close>

lemma NUL_char: "NUL = CHR 0x00"
  by (simp add: NUL_def char_of_def)

lemma cstring_fs: "cstring_from_str (filesystem_to_string fs) = Inr (filesystem_to_string fs)"
  by (cases fs) (simp_all add: cstring_from_str_def NUL_char)

section \<open>Sizes are read as printed\<close>

lemma of_char_digit: "n < 10 \<Longrightarrow> (of_char (char_of (n + 48) :: char) :: nat) = n + 48"
  by simp

lemma digits_nat_to_string: "list_all is_digit (nat_to_string n) \<and> nat_to_string n \<noteq> []"
proof (induction n rule: nat_to_string.induct)
  case (1 n)
  then show ?case
    by (cases "n < 10") (auto simp: nat_to_string.simps [of n] is_digit_def)
qed

lemma digit_not_space: "is_digit c \<Longrightarrow> \<not> is_whitespace c"
  by (auto simp: is_digit_def is_whitespace_def)

lemma trim_digits:
  assumes "list_all is_digit ds" and "list_all is_whitespace ws"
  shows "trim (ds @ ws) = ds"
proof (cases ds)
  case Nil
  with assms(2) show ?thesis by (auto simp: trim_def list_all_iff dest: set_dropWhileD)
next
  case (Cons c cs)
  then have "is_digit (last ds)" using assms(1) by (simp add: list_all_iff)
  then have "dropWhile is_whitespace (rev ds) = rev ds"
    using Cons digit_not_space by (simp add: dropWhile_eq_self_iff hd_rev del: rev.simps)
  then have "dropWhile is_whitespace (rev ws @ rev ds) = rev ds"
    using assms(2) by (subst dropWhile_append2) (simp_all add: list_all_iff)
  with assms Cons show ?thesis by (auto simp: trim_def digit_not_space)
qed

lemma u64_from_digits:
  assumes "list_all is_digit ds" and "ds \<noteq> []"
  shows "u64_from_str ds = (if string_to_nat 0 ds < 2 ^ 64 then Some (of_nat (string_to_nat 0 ds)) else None)"
proof -
  have "(case ds of c # cs \<Rightarrow> if c = CHR ''+'' then cs else ds | [] \<Rightarrow> []) = ds"
    using assms by (auto simp: is_digit_def split: list.splits)
  then show ?thesis using assms by (simp add: u64_from_str_def del: string_to_nat.simps)
qed

lemma u64_from_printed:
  "u64_from_str (trim (nat_to_string n @ ''\<newline>'')) = (if n < 2 ^ 64 then Some (of_nat n) else None)"
proof -
  have "trim (nat_to_string n @ ''\<newline>'') = nat_to_string n"
    using digits_nat_to_string by (intro trim_digits) (simp_all add: is_whitespace_def)
  then show ?thesis
    using digits_nat_to_string by (simp add: u64_from_digits string_to_nat_to_string)
qed

end
