(* ===== verification/Guest_Keys.thy ===== *)
theory Guest_Keys
  imports Guest_Util
begin

text \<open>
  Key sealing in the realm (\<open>app-manager/src/key\<close>, the sealing part of \<open>config.rs\<close>): where
  the key material comes from, how it is bound to an application and how keys are derived
  from it. SHA-256, HKDF, hexadecimal decoding and the RSI calls are arguments.

  \<open>KeySealing\<close> is the interface of a sealing object; \<open>key_sealing\<close> is what its clients may
  rely on, and both implementations are interpretations of it.
\<close>

section \<open>Configuration\<close>

datatype RsiSealingKeyFlags = FlagKey | FlagRim | FlagRealmId

record RsiFlags =
  RSI_SEALING_KEY_FLAGS_KEY :: u64
  RSI_SEALING_KEY_FLAGS_RIM :: u64
  RSI_SEALING_KEY_FLAGS_REALM_ID :: u64
  RSI_SEALING_KEY_FLAGS_SVN :: u64

fun u64_from_flag :: "RsiFlags \<Rightarrow> RsiSealingKeyFlags \<Rightarrow> u64" where
  "u64_from_flag K FlagKey = RSI_SEALING_KEY_FLAGS_KEY K"
| "u64_from_flag K FlagRim = RSI_SEALING_KEY_FLAGS_RIM K"
| "u64_from_flag K FlagRealmId = RSI_SEALING_KEY_FLAGS_REALM_ID K"

datatype IkmSource =
    StubbedHex string
  | RsiSealingKey "RsiSealingKeyFlags list" "u64 option"

datatype KeySealingType = KsDummy | HkdfSha256 IkmSource

section \<open>Primitives\<close>

text \<open>
  \<open>hkdf_expand salt ikm info\<close> is the 32-byte expansion of \<^verbatim>\<open>Hkdf::<Sha256>::new(salt, ikm)\<close>;
  \<^verbatim>\<open>expand_multi_info\<close> is \<open>expand\<close> of the concatenation, as its documentation says. An
  output of one hash length never exceeds the limit of HKDF, so the \<^verbatim>\<open>expect\<close> does not fail.
\<close>

record 'w CryptoOps =
  sha256 :: "bytes \<Rightarrow> bytes"
  hkdf_expand :: "bytes option \<Rightarrow> bytes \<Rightarrow> bytes \<Rightarrow> bytes"
  hex_decode :: "string \<Rightarrow> string + bytes"
  rsi_sealing_key :: "u64 \<Rightarrow> u64 \<Rightarrow> ('w, string, bytes) prog"
  rsi_flags :: RsiFlags

definition APPLICATION_SLK_SALT :: bytes where
  "APPLICATION_SLK_SALT =
     [0x8a, 0x3b, 0xda, 0x84, 0xcd, 0xbc, 0x4b, 0x86, 0x2e, 0xdd, 0xd8, 0x32, 0x7a, 0x08, 0xe2, 0x7e,
      0xb6, 0xc8, 0xf0, 0x20, 0x96, 0x76, 0xff, 0x90, 0xd8, 0x86, 0x86, 0x23, 0x69, 0xbf, 0x87, 0x4c]"

section \<open>The interface\<close>

record 'k KeySealing =
  derive_key :: "'k \<Rightarrow> bytes list \<Rightarrow> Error + bytes"
  seal :: "'k \<Rightarrow> bytes list \<Rightarrow> bytes \<Rightarrow> Error + 'k"

section \<open>The stub\<close>

record DummyKeySealing =
  dummy_ikm :: bytes

definition DummyKeySealing_new :: "bytes \<Rightarrow> DummyKeySealing" where
  "DummyKeySealing_new ikm = \<lparr>dummy_ikm = ikm\<rparr>"

definition dummy_derive_key :: "'w CryptoOps \<Rightarrow> DummyKeySealing \<Rightarrow> bytes list \<Rightarrow> Error + bytes" where
  "dummy_derive_key C self infos = Inr (sha256 C (dummy_ikm self @ concat infos))"

definition dummy_seal ::
  "'w CryptoOps \<Rightarrow> DummyKeySealing \<Rightarrow> bytes list \<Rightarrow> bytes \<Rightarrow> Error + DummyKeySealing" where
  "dummy_seal C self infos image_hash =
     Inr (DummyKeySealing_new (sha256 C (dummy_ikm self @ concat infos)))"

section \<open>HKDF\<close>

record HkdfSealing =
  hk_ikm :: bytes
  hk_use_image_hash :: bool

definition hkdf_derive_key :: "'w CryptoOps \<Rightarrow> HkdfSealing \<Rightarrow> bytes list \<Rightarrow> Error + bytes" where
  "hkdf_derive_key C self infos = Inr (hkdf_expand C None (hk_ikm self) (concat infos))"

definition hkdf_seal :: "'w CryptoOps \<Rightarrow> HkdfSealing \<Rightarrow> bytes list \<Rightarrow> bytes \<Rightarrow> Error + HkdfSealing" where
  "hkdf_seal C self infos image_hash =
     (let info = concat infos;
          info = (if hk_use_image_hash self then info @ image_hash else info) in
      Inr \<lparr>hk_ikm = hkdf_expand C (Some APPLICATION_SLK_SALT) (hk_ikm self) info,
           hk_use_image_hash = hk_use_image_hash self\<rparr>)"

section \<open>Factories\<close>

datatype Sealing = SDummy DummyKeySealing | SHkdf HkdfSealing

datatype SealingFactory = FDummy bytes | FHkdf bytes bool

definition fetch_ikm_from_rsi ::
  "'w CryptoOps \<Rightarrow> RsiSealingKeyFlags list \<Rightarrow> u64 option \<Rightarrow> ('w, Error, bytes) prog" where
  "fetch_ikm_from_rsi C flags svn =
     (let flags = foldl (\<lambda>a b. or a (u64_from_flag (rsi_flags C) b)) 0 flags;
          (flags, svn) = (case svn of
             Some svn \<Rightarrow> (or flags (RSI_SEALING_KEY_FLAGS_SVN (rsi_flags C)), svn)
           | None \<Rightarrow> (flags, 0)) in
      map_err (\<lambda>e. EHkdfSealing (IkmRsiReadingError e)) (rsi_sealing_key C flags svn))"

definition HkdfSealingFactory_new :: "'w CryptoOps \<Rightarrow> IkmSource \<Rightarrow> ('w, Error, SealingFactory) prog" where
  "HkdfSealingFactory_new C ikm_source =
     try_bind (case ikm_source of
        StubbedHex hex \<Rightarrow> map_err (\<lambda>e. EHkdfSealing (StubbedIkmDecodingError e)) (of_result (hex_decode C hex))
      | RsiSealingKey flags svn \<Rightarrow> fetch_ikm_from_rsi C flags svn) (\<lambda>ikm.
     ok (FHkdf ikm (case ikm_source of
        StubbedHex _ \<Rightarrow> False | RsiSealingKey flags _ \<Rightarrow> FlagRim \<in> set flags)))"

fun create_sealing :: "SealingFactory \<Rightarrow> Sealing" where
  "create_sealing (FDummy ikm) = SDummy (DummyKeySealing_new ikm)"
| "create_sealing (FHkdf ikm use_image_hash) = SHkdf \<lparr>hk_ikm = ikm, hk_use_image_hash = use_image_hash\<rparr>"

text \<open>The boxed object: the method of the implementation it holds.\<close>

fun sealing_derive_key :: "'w CryptoOps \<Rightarrow> Sealing \<Rightarrow> bytes list \<Rightarrow> Error + bytes" where
  "sealing_derive_key C (SDummy k) infos = dummy_derive_key C k infos"
| "sealing_derive_key C (SHkdf k) infos = hkdf_derive_key C k infos"

fun sealing_seal :: "'w CryptoOps \<Rightarrow> Sealing \<Rightarrow> bytes list \<Rightarrow> bytes \<Rightarrow> Error + Sealing" where
  "sealing_seal C (SDummy k) infos image_hash = map_sum id SDummy (dummy_seal C k infos image_hash)"
| "sealing_seal C (SHkdf k) infos image_hash = map_sum id SHkdf (hkdf_seal C k infos image_hash)"

definition Sealing_ops :: "'w CryptoOps \<Rightarrow> Sealing KeySealing" where
  "Sealing_ops C = \<lparr>derive_key = sealing_derive_key C, seal = sealing_seal C\<rparr>"

section \<open>The contract\<close>

text \<open>
  What a client of a sealing object relies on: no operation fails; the material \<open>mat\<close> of a
  sealed object is a function \<open>kdf\<close> of the material before and of the bound data alone, and a key
  is a function of the material and the labels. \<open>bound\<close> says which data a seal binds.
\<close>

locale key_sealing =
  fixes K :: "'k KeySealing"
    and mat :: "'k \<Rightarrow> bytes"
    and key_of :: "'k \<Rightarrow> bytes \<Rightarrow> bytes"
    and kdf :: "'k \<Rightarrow> bytes \<Rightarrow> bytes"
    and bound :: "'k \<Rightarrow> bytes list \<Rightarrow> bytes \<Rightarrow> bytes"
  assumes derives: "derive_key K k infos = Inr (key_of k (concat infos))"
    and seals: "\<exists>k'. seal K k infos h = Inr k' \<and> mat k' = kdf k (bound k infos h)"
    and same_kind: "seal K k infos h = Inr k1 \<Longrightarrow> seal K k infos' h' = Inr k2 \<Longrightarrow> mat k1 = mat k2 \<Longrightarrow> k1 = k2"
begin

lemma sealed_key_function:
  assumes "seal K k infos h = Inr k1" and "seal K k infos' h' = Inr k2"
    and "bound k infos h = bound k infos' h'"
  shows "derive_key K k1 labels = derive_key K k2 labels"
proof -
  have "mat k1 = mat k2" using seals [of k infos h] seals [of k infos' h'] assms by auto
  with same_kind [OF assms(1,2)] show ?thesis by simp
qed

lemma sealed_key_binds:
  assumes "seal K k infos h = Inr k1" and "seal K k infos' h' = Inr k2"
    and "inj (kdf k)" and "bound k infos h \<noteq> bound k infos' h'"
  shows "mat k1 \<noteq> mat k2"
  using seals [of k infos h] seals [of k infos' h'] assms by (auto dest: injD)

end

fun sealing_mat :: "Sealing \<Rightarrow> bytes" where
  "sealing_mat (SDummy k) = dummy_ikm k"
| "sealing_mat (SHkdf k) = hk_ikm k"

fun sealing_key_of :: "'w CryptoOps \<Rightarrow> Sealing \<Rightarrow> bytes \<Rightarrow> bytes" where
  "sealing_key_of C (SDummy k) info = sha256 C (dummy_ikm k @ info)"
| "sealing_key_of C (SHkdf k) info = hkdf_expand C None (hk_ikm k) info"

fun sealing_kdf :: "'w CryptoOps \<Rightarrow> Sealing \<Rightarrow> bytes \<Rightarrow> bytes" where
  "sealing_kdf C (SDummy k) info = sha256 C (dummy_ikm k @ info)"
| "sealing_kdf C (SHkdf k) info = hkdf_expand C (Some APPLICATION_SLK_SALT) (hk_ikm k) info"

fun sealing_bound :: "Sealing \<Rightarrow> bytes list \<Rightarrow> bytes \<Rightarrow> bytes" where
  "sealing_bound (SDummy k) infos h = concat infos"
| "sealing_bound (SHkdf k) infos h = concat infos @ (if hk_use_image_hash k then h else [])"

interpretation ks: key_sealing "Sealing_ops C" sealing_mat "sealing_key_of C" "sealing_kdf C" sealing_bound
proof (unfold_locales, goal_cases)
  case (1 k infos)
  show ?case by (cases k) (simp_all add: Sealing_ops_def dummy_derive_key_def hkdf_derive_key_def)
next
  case (2 k infos h)
  show ?case
    by (cases k) (simp_all add: Sealing_ops_def dummy_seal_def hkdf_seal_def DummyKeySealing_new_def Let_def)
next
  case (3 k infos h k1 infos' h' k2)
  then show ?case
    by (cases k) (auto simp: Sealing_ops_def dummy_seal_def hkdf_seal_def DummyKeySealing_new_def Let_def)
qed

section \<open>The flags of the sealing key\<close>

lemma foldl_or_bit:
  "bit (foldl (\<lambda>a b. or a (f b)) (z :: u64) xs) n \<longleftrightarrow> bit z n \<or> (\<exists>x \<in> set xs. bit (f x) n)"
  by (induction xs arbitrary: z) (auto simp: bit_or_iff)

text \<open>The order in which the set of flags is visited does not matter.\<close>

lemma flags_order_irrelevant:
  assumes "set xs = set ys"
  shows "foldl (\<lambda>a b. or a (u64_from_flag K b)) 0 xs = foldl (\<lambda>a b. or a (u64_from_flag K b)) 0 ys"
  by (rule bit_word_eqI) (simp add: foldl_or_bit assms)

end
