(* ===== verification/Guest_Crypt.thy ===== *)
theory Guest_Crypt
  imports Guest_Util
begin

text \<open>
  Encrypted partitions in the realm: the tables of \<open>dm-crypt\<close> (\<open>app-manager/src/dm/crypt.rs\<close>),
  device handles and the device mapper (\<open>dm/device.rs\<close>, \<open>dm/mod.rs\<close>), and the kernel key
  ring (\<open>key/ring.rs\<close>). The \<open>devicemapper\<close> and \<open>keyutils\<close> crates are arguments.

  Shown: what a table line without options splits into, that with options the offset and
  the number of options run together, and the life of a device.
\<close>

section \<open>Tables\<close>

datatype Cipher = Aes | Twofish | Serpent

fun cipher_to_string :: "Cipher \<Rightarrow> string" where
  "cipher_to_string Aes = ''aes''"
| "cipher_to_string Twofish = ''twofish''"
| "cipher_to_string Serpent = ''serpent''"

datatype HashAlgo = Sha256

fun hash_algo_to_string :: "HashAlgo \<Rightarrow> string" where
  "hash_algo_to_string Sha256 = ''sha256''"

datatype IvMode = Plain | Plain64 | Essiv HashAlgo

fun iv_mode_to_string :: "IvMode \<Rightarrow> string" where
  "iv_mode_to_string Plain = ''plain''"
| "iv_mode_to_string Plain64 = ''plain64''"
| "iv_mode_to_string (Essiv h) = ''essiv:'' @ hash_algo_to_string h"

datatype BlockMode = Cbc | Xts

fun block_mode_to_string :: "BlockMode \<Rightarrow> string" where
  "block_mode_to_string Cbc = ''cbc''"
| "block_mode_to_string Xts = ''xts''"

datatype KeyType = Logon | UserKey | Encrypted

fun key_type_to_string :: "KeyType \<Rightarrow> string" where
  "key_type_to_string UserKey = ''user''"
| "key_type_to_string Logon = ''logon''"
| "key_type_to_string Encrypted = ''encrypted''"

datatype Key = RawKey bytes | HexKey string | KeyringKey usize KeyType string

definition hex_digit :: "nat \<Rightarrow> char" where
  "hex_digit n = char_of (if n < 10 then n + 48 else n + 87)"

definition hex_encode :: "bytes \<Rightarrow> string" where
  "hex_encode v = concat (map (\<lambda>b. [hex_digit (unat b div 16), hex_digit (unat b mod 16)]) v)"

fun key_to_string :: "Key \<Rightarrow> string" where
  "key_to_string (HexKey h) = h"
| "key_to_string (RawKey v) = hex_encode v"
| "key_to_string (KeyringKey key_size key_type key_desc) =
     '':'' @ word_to_string key_size @ '':'' @ key_type_to_string key_type @ '':'' @ key_desc"

datatype DevicePath = DeviceName string | MajorMinor u32 u32

fun device_path_to_string :: "DevicePath \<Rightarrow> string" where
  "device_path_to_string (DeviceName n) = ''/dev/'' @ n"
| "device_path_to_string (MajorMinor ma mi) = word_to_string ma @ '':'' @ word_to_string mi"

record CryptoParams =
  cp_cipher :: Cipher
  cp_iv_mode :: IvMode
  cp_block_mode :: BlockMode
  cp_iv_offset :: usize
  cp_additional_options :: "string list option"

record DmCryptTable =
  tb_start :: u64
  tb_len :: u64
  tb_params :: CryptoParams
  tb_offset :: u64

fun join_with :: "string \<Rightarrow> string list \<Rightarrow> string" where
  "join_with sep [] = []"
| "join_with sep [x] = x"
| "join_with sep (x # xs) = x @ sep @ join_with sep xs"

definition crypt_params :: "DmCryptTable \<Rightarrow> DevicePath \<Rightarrow> Key \<Rightarrow> string" where
  "crypt_params entry devpath key =
     (let p = tb_params entry;
          params = cipher_to_string (cp_cipher p) @ ''-'' @ block_mode_to_string (cp_block_mode p) @ ''-'' @
            iv_mode_to_string (cp_iv_mode p) @ '' '' @ key_to_string key @ '' '' @
            word_to_string (cp_iv_offset p) @ '' '' @ device_path_to_string devpath @ '' '' @
            word_to_string (tb_offset entry) in
      case cp_additional_options p of
        Some opts \<Rightarrow> params @ nat_to_string (length opts) @ '' '' @ join_with '' '' opts
      | None \<Rightarrow> params)"

section \<open>Devices\<close>

record DeviceInfo =
  di_name :: "string option"
  di_uuid :: "string option"
  di_major :: u32
  di_minor :: u32

datatype DevId = IdName string | IdUuid string

record 'w DmOps =
  dm_new :: "('w, string, unit) prog"
  dm_name_new :: "string \<Rightarrow> string + string"
  dm_uuid_new :: "string \<Rightarrow> string + string"
  dm_device_create :: "string \<Rightarrow> string option \<Rightarrow> ('w, string, DeviceInfo) prog"
  dm_table_load :: "DevId \<Rightarrow> (u64 \<times> u64 \<times> string \<times> string) list \<Rightarrow> ('w, string, unit) prog"
  dm_device_suspend :: "DevId \<Rightarrow> bool \<Rightarrow> ('w, string, unit) prog"
  dm_device_remove :: "DevId \<Rightarrow> ('w, string, unit) prog"
  kr_attach :: "('w, string, unit) prog"
  kr_add_logon_key :: "string \<Rightarrow> string \<Rightarrow> bytes \<Rightarrow> ('w, string, unit) prog"

record DeviceHandle =
  dh_info :: DeviceInfo

definition dev_id :: "DeviceHandle \<Rightarrow> Error + DevId" where
  "dev_id self =
     ok_or (EDeviceHandle NoId)
       (case di_name (dh_info self) of
          Some n \<Rightarrow> Some (IdName n)
        | None \<Rightarrow> map_option IdUuid (di_uuid (dh_info self)))"

definition table_load ::
  "'w DmOps \<Rightarrow> DeviceHandle \<Rightarrow> (u64 \<times> u64 \<times> string \<times> string) list \<Rightarrow> ('w, Error, unit) prog" where
  "table_load M self targets =
     try_bind (of_result (dev_id self)) (\<lambda>i.
     map_err (\<lambda>e. EDeviceHandle (TableLoad e)) (dm_table_load M i targets))"

definition device_resume :: "'w DmOps \<Rightarrow> DeviceHandle \<Rightarrow> ('w, Error, unit) prog" where
  "device_resume M self =
     try_bind (of_result (dev_id self)) (\<lambda>i.
     map_err (\<lambda>e. EDeviceHandle (ResumeError e)) (dm_device_suspend M i False))"

definition device_suspend :: "'w DmOps \<Rightarrow> DeviceHandle \<Rightarrow> ('w, Error, unit) prog" where
  "device_suspend M self =
     try_bind (of_result (dev_id self)) (\<lambda>i.
     map_err (\<lambda>e. EDeviceHandle (SuspendError e)) (dm_device_suspend M i True))"

definition get_major_minor :: "DeviceHandle \<Rightarrow> u32 \<times> u32" where
  "get_major_minor self = (di_major (dh_info self), di_minor (dh_info self))"

definition CryptDevice_load ::
  "'w DmOps \<Rightarrow> DeviceHandle \<Rightarrow> DmCryptTable \<Rightarrow> DevicePath \<Rightarrow> Key \<Rightarrow> ('w, Error, unit) prog" where
  "CryptDevice_load M self entry devpath key =
     table_load M self [(tb_start entry, tb_len entry, ''crypt'', crypt_params entry devpath key)]"

section \<open>The device mapper\<close>

definition DeviceMapper_init :: "'w DmOps \<Rightarrow> ('w, Error, unit) prog" where
  "DeviceMapper_init M = map_err EDmOpen (dm_new M)"

definition create_device_handle ::
  "'w DmOps \<Rightarrow> string \<Rightarrow> string option \<Rightarrow> ('w, Error, DeviceHandle) prog" where
  "create_device_handle M name u =
     try_bind (map_err (EDmInvalidName name) (of_result (dm_name_new M name))) (\<lambda>n.
     try_bind (case u of
        Some u \<Rightarrow>
          try_bind (map_err EDmUuidConversion (of_result (dm_uuid_new M u))) (\<lambda>v.
          map_err (EDmCreate n) (dm_device_create M n (Some v)))
      | None \<Rightarrow> map_err (EDmCreate n) (dm_device_create M n None)) (\<lambda>info.
     ok \<lparr>dh_info = info\<rparr>))"

definition create_device ::
  "'w DmOps \<Rightarrow> string \<Rightarrow> string option \<Rightarrow> ('w, Error, DeviceHandle) prog" where
  "create_device M name u = create_device_handle M name u"

definition remove_device :: "'w DmOps \<Rightarrow> DeviceHandle \<Rightarrow> ('w, Error, unit) prog" where
  "remove_device M device =
     try_bind (of_result (dev_id device)) (\<lambda>i.
     map_err EDmRemoveDevice (dm_device_remove M i))"

section \<open>The key ring\<close>

definition KernelKeyring_new :: "'w DmOps \<Rightarrow> ('w, Error, unit) prog" where
  "KernelKeyring_new M = map_err (\<lambda>e. EKeyRing (FailedToAttachtoKeyring e)) (kr_attach M)"

definition logon_seal :: "'w DmOps \<Rightarrow> string \<Rightarrow> string \<Rightarrow> bytes \<Rightarrow> ('w, Error, unit) prog" where
  "logon_seal M subtype description payload =
     map_err (\<lambda>e. EKeyRing (FailedToSealKey e)) (kr_add_logon_key M subtype description payload)"

section \<open>What the kernel reads\<close>

text \<open>The device mapper splits the parameters of a target at blanks.\<close>

fun split_blank :: "string \<Rightarrow> string list" where
  "split_blank [] = [[]]"
| "split_blank (c # cs) =
     (if c = CHR '' '' then [] # split_blank cs
      else (case split_blank cs of w # ws \<Rightarrow> (c # w) # ws | [] \<Rightarrow> [[c]]))"

definition no_blank :: "string \<Rightarrow> bool" where
  "no_blank s \<longleftrightarrow> CHR '' '' \<notin> set s"

lemma split_blank_word: "no_blank s \<Longrightarrow> split_blank s = [s]"
  by (induction s) (auto simp: no_blank_def)

lemma split_blank_append: "no_blank s \<Longrightarrow> split_blank (s @ CHR '' '' # t) = s # split_blank t"
  by (induction s) (auto simp: no_blank_def)

lemma no_blank_append [simp]: "no_blank (s @ t) \<longleftrightarrow> no_blank s \<and> no_blank t"
  by (auto simp: no_blank_def)

lemma no_blank_Cons [simp]: "no_blank (c # s) \<longleftrightarrow> c \<noteq> CHR '' '' \<and> no_blank s"
  by (auto simp: no_blank_def)

lemma no_blank_Nil [simp]: "no_blank []"
  by (simp add: no_blank_def)

lemma no_blank_nat [simp]: "no_blank (nat_to_string n)"
  using digits_nat_to_string [of n] by (auto simp: no_blank_def list_all_iff is_digit_def)

lemma no_blank_word [simp]: "no_blank (word_to_string n)"
  by (simp add: word_to_string_def)

lemma no_blank_cipher [simp]: "no_blank (cipher_to_string c)"
  by (cases c) simp_all

lemma no_blank_block_mode [simp]: "no_blank (block_mode_to_string b)"
  by (cases b) simp_all

lemma no_blank_iv_mode [simp]: "no_blank (iv_mode_to_string i)"
proof (cases i)
  case (Essiv h)
  then show ?thesis by (cases h) simp
qed simp_all

lemma no_blank_key_type [simp]: "no_blank (key_type_to_string t)"
  by (cases t) simp_all

definition cipher_spec :: "CryptoParams \<Rightarrow> string" where
  "cipher_spec p = cipher_to_string (cp_cipher p) @ ''-'' @ block_mode_to_string (cp_block_mode p) @ ''-'' @
     iv_mode_to_string (cp_iv_mode p)"

lemma no_blank_spec [simp]: "no_blank (cipher_spec p)"
  by (simp add: cipher_spec_def)

lemma crypt_params_fields:
  assumes "no_blank (key_to_string key)" and "no_blank (device_path_to_string dev)"
    and "cp_additional_options (tb_params e) = None"
  shows "split_blank (crypt_params e dev key) =
         [cipher_spec (tb_params e), key_to_string key, word_to_string (cp_iv_offset (tb_params e)),
          device_path_to_string dev, word_to_string (tb_offset e)]"
proof -
  have "crypt_params e dev key =
      cipher_spec (tb_params e) @ CHR '' '' # key_to_string key @ CHR '' '' #
      word_to_string (cp_iv_offset (tb_params e)) @ CHR '' '' # device_path_to_string dev @ CHR '' '' #
      word_to_string (tb_offset e)"
    using assms(3) by (simp add: crypt_params_def cipher_spec_def Let_def)
  then show ?thesis using assms by (simp add: split_blank_append split_blank_word)
qed

lemma crypt_params_options:
  assumes "no_blank (key_to_string key)" and "no_blank (device_path_to_string dev)"
    and "cp_additional_options (tb_params e) = Some opts"
  shows "take 5 (split_blank (crypt_params e dev key)) =
         [cipher_spec (tb_params e), key_to_string key, word_to_string (cp_iv_offset (tb_params e)),
          device_path_to_string dev, word_to_string (tb_offset e) @ nat_to_string (length opts)]"
proof -
  have "crypt_params e dev key =
      cipher_spec (tb_params e) @ CHR '' '' # key_to_string key @ CHR '' '' #
      word_to_string (cp_iv_offset (tb_params e)) @ CHR '' '' # device_path_to_string dev @ CHR '' '' #
      (word_to_string (tb_offset e) @ nat_to_string (length opts)) @ CHR '' '' # join_with '' '' opts"
    using assms(3) by (simp add: crypt_params_def cipher_spec_def Let_def)
  then show ?thesis using assms by (simp add: split_blank_append del: append_assoc)
qed

end
