(* ===== verification/Guest_Handler.thy ===== *)
theory Guest_Handler
  imports Guest_Util
begin

text \<open>
  Running an application in the realm (\<open>app-manager/src/launcher/handler.rs\<close>): the handler
  that the manager talks to and the task that watches the process. The task is a state
  machine; the two channels of capacity one carry one request and its response at a time.

  Which lines and which end of the process the task sees before it takes a request is the
  choice of the runtime, given as lists of events.
\<close>

section \<open>Configuration and processes\<close>

record ExecConfig =
  exec :: path
  argv :: "string list"
  envp :: "(string \<times> string) list"
  ec_uid :: u32
  ec_gid :: u32
  chroot :: "path option"
  chdir :: "path option"

datatype Signal = SIGTERM | SIGKILL

type_synonym ExitStatus = "32 word"

text \<open>What is passed to the operating system: program, arguments, environment, the closure
  that the child runs before \<open>exec\<close>.\<close>

record SpawnSpec =
  sp_program :: path
  sp_arg0 :: string
  sp_args :: "string list"
  sp_env :: "(string \<times> string) list"
  sp_config :: ExecConfig

text \<open>\<open>co_id\<close> is \<^verbatim>\<open>Child::id\<close>: \<open>None\<close> once the process has been waited for.\<close>

record ('c, 'w) ChildOps =
  co_spawn :: "SpawnSpec \<Rightarrow> ('w, io_error, 'c) prog"
  co_id :: "'c \<Rightarrow> u32 option"
  co_signal :: "u32 \<Rightarrow> Signal \<Rightarrow> ('w, errno, unit) prog"
  co_wait :: "('c \<times> 'w, io_error, ExitStatus) prog"
  co_try_wait :: "('c \<times> 'w, io_error, ExitStatus option) prog"
  co_kill :: "('c \<times> 'w, io_error, unit) prog"

text \<open>The closure that runs in the child.\<close>

record 'p PreExecOps =
  pe_chroot :: "path \<Rightarrow> ('p, io_error, unit) prog"
  pe_set_current_dir :: "path \<Rightarrow> ('p, io_error, unit) prog"
  pe_setuid :: "u32 \<Rightarrow> ('p, io_error, unit) prog"
  pe_setgid :: "u32 \<Rightarrow> ('p, io_error, unit) prog"

definition pre_exec :: "'p PreExecOps \<Rightarrow> ExecConfig \<Rightarrow> ('p, io_error, unit) prog" where
  "pre_exec P config =
     try_bind (case chroot config of
        Some dir \<Rightarrow> try_bind (pe_chroot P dir) (\<lambda>_. pe_set_current_dir P ''/'')
      | None \<Rightarrow> ok ()) (\<lambda>_.
     try_bind (case chdir config of
        Some dir \<Rightarrow> pe_set_current_dir P dir
      | None \<Rightarrow> ok ()) (\<lambda>_.
     try_bind (pe_setuid P (ec_uid config)) (\<lambda>_.
     pe_setgid P (ec_gid config))))"

section \<open>The watching task\<close>

datatype HRequest = HStop | HKill | HTryWait
datatype HResponse = MaybeExited "ExitStatus option" | Stopped

text \<open>
  \<open>Looping\<close>: in the event loop, with the flags of the two pipes. \<open>AwaitRequest\<close>: the process
  has ended by itself and the task waits for a request to answer. \<open>Finished\<close>: the task has
  returned; the child that it owned was dropped.
\<close>

datatype 'c WardenTask =
    Looping 'c bool bool
  | AwaitRequest 'c
  | Finished "Error + unit" 'c

datatype TaskEvent = StdoutLine "io_error + string" | StderrLine "io_error + string" | ProcessEnded

definition WardenThread_start :: "'c \<Rightarrow> 'c WardenTask" where
  "WardenThread_start process = Looping process True True"

definition read_line :: "io_error + string \<Rightarrow> Error + string" where
  "read_line source = map_sum (\<lambda>e. EHandler (IOReadError e)) id source"

text \<open>Operations on the process of the task.\<close>

definition on_process :: "'c \<Rightarrow> ('c \<times> 'w, 'e, 'a) prog \<Rightarrow> ('w, 'f, ('e + 'a) \<times> 'c) prog" where
  "on_process p m w = (case m (p, w) of (r, p', w') \<Rightarrow> (Inr (r, p'), w'))"

definition is_app_running :: "('c, 'w) ChildOps \<Rightarrow> 'c \<Rightarrow> bool" where
  "is_app_running CO p \<longleftrightarrow> co_id CO p \<noteq> None"

definition ensure_app_is_stopped :: "('c, 'w) ChildOps \<Rightarrow> 'c \<Rightarrow> ('w, Error, 'c) prog" where
  "ensure_app_is_stopped CO p =
     (if is_app_running CO p
      then try_bind (on_process p (co_kill CO)) (\<lambda>(_, p).
           try_bind (on_process p (co_wait CO)) (\<lambda>(_, p). ok p))
      else ok p)"

text \<open>Leaving the loop with \<open>break\<close>.\<close>

definition end_loop :: "('c, 'w) ChildOps \<Rightarrow> 'c \<Rightarrow> ('w, Error, 'c WardenTask) prog" where
  "end_loop CO p = try_bind (ensure_app_is_stopped CO p) (\<lambda>p. ok (Finished (Inr ()) p))"

text \<open>A branch of the \<open>select!\<close> other than a request; an ended process is waited for, whatever the
  result, before \<open>process_exited\<close>.\<close>

fun task_event :: "('c, 'w) ChildOps \<Rightarrow> TaskEvent \<Rightarrow> 'c WardenTask \<Rightarrow> ('w, Error, 'c WardenTask) prog" where
  "task_event CO (StdoutLine l) (Looping p out err) =
     (if \<not> out then ok (Looping p out err)
      else (case read_line l of
              Inl e \<Rightarrow> ok (Finished (Inl e) p)
            | Inr line \<Rightarrow> ok (Looping p (line \<noteq> []) err)))"
| "task_event CO (StderrLine l) (Looping p out err) =
     (if \<not> err then ok (Looping p out err)
      else (case read_line l of
              Inl e \<Rightarrow> ok (Finished (Inl e) p)
            | Inr line \<Rightarrow> ok (Looping p out (line \<noteq> []))))"
| "task_event CO ProcessEnded (Looping p out err) =
     try_bind (on_process p (co_wait CO)) (\<lambda>(_, p). ok (AwaitRequest p))"
| "task_event CO ev t = ok t"

primrec task_events :: "('c, 'w) ChildOps \<Rightarrow> TaskEvent list \<Rightarrow> 'c WardenTask \<Rightarrow> ('w, Error, 'c WardenTask) prog" where
  "task_events CO [] t = ok t"
| "task_events CO (ev # evs) t = try_bind (task_event CO ev t) (task_events CO evs)"

text \<open>
  \<open>after_exit\<close>: wait for the process and answer. The result is the answer, if one is sent,
  and the error that ends the task, if any.
\<close>

definition after_exit ::
  "('c, 'w) ChildOps \<Rightarrow> HRequest \<Rightarrow> 'c \<Rightarrow> ('w, Error, (Error + HResponse) \<times> 'c) prog" where
  "after_exit CO req p =
     try_bind (on_process p (co_wait CO)) (\<lambda>(status, p).
     ok (case status of
           Inl e \<Rightarrow> Inl (EHandler (WaitpidError e))
         | Inr st \<Rightarrow> Inr (case req of HStop \<Rightarrow> Stopped | HKill \<Rightarrow> Stopped
                                   | HTryWait \<Rightarrow> MaybeExited (Some st)), p))"

fun signal_of :: "HRequest \<Rightarrow> Signal option" where
  "signal_of HStop = Some SIGTERM"
| "signal_of HKill = Some SIGKILL"
| "signal_of HTryWait = None"

definition stop_and_respond ::
  "('c, 'w) ChildOps \<Rightarrow> HRequest \<Rightarrow> 'c \<Rightarrow> ('w, Error, (Error + HResponse) \<times> 'c) prog" where
  "stop_and_respond CO req p =
     (case (co_id CO p, signal_of req) of
        (Some pid, Some sig) \<Rightarrow>
          attempt (co_signal CO pid sig) (\<lambda>sent.
          case sent of
            Inl e \<Rightarrow> ok (Inl (EHandler (FailedToSendSignal e)), p)
          | Inr _ \<Rightarrow> after_exit CO req p)
      | _ \<Rightarrow> after_exit CO req p)"

definition task_try_wait ::
  "('c, 'w) ChildOps \<Rightarrow> 'c \<Rightarrow> ('w, Error, (Error + HResponse) \<times> 'c) prog" where
  "task_try_wait CO p =
     try_bind (on_process p (co_try_wait CO)) (\<lambda>(status, p).
     ok (case status of
           Inl e \<Rightarrow> Inl (EHandler (WaitpidError e))
         | Inr st \<Rightarrow> Inr (MaybeExited st), p))"

definition task_handle_request ::
  "('c, 'w) ChildOps \<Rightarrow> HRequest \<Rightarrow> 'c \<Rightarrow> ('w, Error, (Error + HResponse) \<times> 'c) prog" where
  "task_handle_request CO req p =
     (case req of HTryWait \<Rightarrow> task_try_wait CO p | _ \<Rightarrow> stop_and_respond CO req p)"

text \<open>
  The task takes a request: the answer it sends, if any, and its next state. An error ends the
  task at once, before \<open>ensure_app_is_stopped\<close>.
\<close>

definition task_request ::
  "('c, 'w) ChildOps \<Rightarrow> HRequest \<Rightarrow> 'c WardenTask \<Rightarrow> ('w, Error, HResponse option \<times> 'c WardenTask) prog" where
  "task_request CO req t =
     (case t of
        Looping p out err \<Rightarrow>
          try_bind (task_handle_request CO req p) (\<lambda>(res, p).
          case res of
            Inl e \<Rightarrow> ok (None, Finished (Inl e) p)
          | Inr resp \<Rightarrow>
              if \<not> is_app_running CO p then try_bind (end_loop CO p) (\<lambda>t. ok (Some resp, t))
              else ok (Some resp, Looping p out err))
      | AwaitRequest p \<Rightarrow>
          try_bind (after_exit CO req p) (\<lambda>(res, p).
          case res of
            Inl e \<Rightarrow> ok (None, Finished (Inl e) p)
          | Inr resp \<Rightarrow> try_bind (end_loop CO p) (\<lambda>t. ok (Some resp, t)))
      | Finished r p \<Rightarrow> ok (None, t))"

text \<open>The handler drops its ends of the channels: the task leaves its loop.\<close>

definition task_abandoned :: "('c, 'w) ChildOps \<Rightarrow> 'c WardenTask \<Rightarrow> ('w, Error, 'c WardenTask) prog" where
  "task_abandoned CO t =
     (case t of
        Looping p out err \<Rightarrow> end_loop CO p
      | AwaitRequest p \<Rightarrow> end_loop CO p
      | Finished r p \<Rightarrow> ok t)"

section \<open>The handler\<close>

record 'c SimpleApplicationHandler =
  sah_config :: ExecConfig
  sah_thread :: "'c WardenTask option"
  sah_channel :: bool

definition SimpleApplicationHandler_new :: "ExecConfig \<Rightarrow> 'c SimpleApplicationHandler" where
  "SimpleApplicationHandler_new config = \<lparr>sah_config = config, sah_thread = None, sah_channel = False\<rparr>"

text \<open>
  The runtime: the events of the task before the request is sent, and those between the
  sending and the moment at which the task takes it.
\<close>

record 'w Sched =
  before_send :: "'w \<Rightarrow> TaskEvent list"
  before_recv :: "'w \<Rightarrow> TaskEvent list"

definition set_thread :: "'c WardenTask \<Rightarrow> ('c SimpleApplicationHandler \<times> 'w, 'e, unit) prog" where
  "set_thread t = upd (\<lambda>(s, w). (s\<lparr>sah_thread := Some t\<rparr>, w))"

definition transaction ::
  "('c, 'w) ChildOps \<Rightarrow> 'w Sched \<Rightarrow> HRequest \<Rightarrow> ('c SimpleApplicationHandler \<times> 'w, Error, HResponse) prog" where
  "transaction CO S req =
     try_bind (get (\<lambda>(s, w). (sah_channel s, sah_thread s, before_send S w))) (\<lambda>(channel, thread, evs).
     case (channel, thread) of
       (True, Some t) \<Rightarrow>
         try_bind (in_world (task_events CO evs t)) (\<lambda>t.
         try_bind (set_thread t) (\<lambda>_.
         case t of
           Finished r p \<Rightarrow> fail (EHandler RequestChannelError)
         | _ \<Rightarrow>
             try_bind (get (\<lambda>(s, w). before_recv S w)) (\<lambda>evs.
             try_bind (in_world (task_events CO evs t)) (\<lambda>t.
             try_bind (in_world (task_request CO req t)) (\<lambda>(resp, t).
             try_bind (set_thread t) (\<lambda>_.
             of_result (ok_or (EHandler ChannelClosed) resp)))))))
     | _ \<Rightarrow> fail (EHandler AppNotRunning))"

text \<open>
  Joining is only reached with a task that has ended (\<open>transaction_stopped\<close> below); the last case
  stands for a wait without end.
\<close>

definition join_handler_thread :: "('c SimpleApplicationHandler \<times> 'w, Error, unit) prog" where
  "join_handler_thread =
     try_bind (get (\<lambda>(s, w). sah_thread s)) (\<lambda>thread.
     case thread of
       None \<Rightarrow> fail (EHandler AppNotRunning)
     | Some (Finished result p) \<Rightarrow>
         try_bind (upd (\<lambda>(s, w). (s\<lparr>sah_thread := None, sah_channel := False\<rparr>, w))) (\<lambda>_.
         of_result result)
     | Some _ \<Rightarrow> fail (EHandler (AppThreadJoinError ''pending'')))"

definition handler_start ::
  "('c, 'w) ChildOps \<Rightarrow> ('c SimpleApplicationHandler \<times> 'w, Error, unit) prog" where
  "handler_start CO =
     try_bind (get (\<lambda>(s, w). (sah_config s, sah_thread s))) (\<lambda>(config, old).
     case argv config of
       [] \<Rightarrow> fail (EHandler EmptyArgv)
     | arg0 # rest \<Rightarrow>
         try_bind (in_world (map_err (\<lambda>e. EHandler (SpawnError e))
            (co_spawn CO \<lparr>sp_program = exec config, sp_arg0 = arg0, sp_args = rest,
                         sp_env = envp config, sp_config = config\<rparr>))) (\<lambda>process.
         try_bind (upd (\<lambda>(s, w). (s\<lparr>sah_channel := True, sah_thread := Some (WardenThread_start process)\<rparr>, w))) (\<lambda>_.
         case old of
           None \<Rightarrow> ok ()
         | Some t \<Rightarrow> try_bind (in_world (task_abandoned CO t)) (\<lambda>_. ok ()))))"

definition stopped_answer :: "HResponse \<Rightarrow> Error + unit" where
  "stopped_answer resp =
     (case resp of Stopped \<Rightarrow> Inr () | _ \<Rightarrow> Inl (EHandler AppHandlerInvalidResponse))"

definition handler_stop ::
  "('c, 'w) ChildOps \<Rightarrow> 'w Sched \<Rightarrow> ('c SimpleApplicationHandler \<times> 'w, Error, unit) prog" where
  "handler_stop CO S =
     try_bind (transaction CO S HStop) (\<lambda>resp.
     try_bind join_handler_thread (\<lambda>_. of_result (stopped_answer resp)))"

definition handler_kill ::
  "('c, 'w) ChildOps \<Rightarrow> 'w Sched \<Rightarrow> ('c SimpleApplicationHandler \<times> 'w, Error, unit) prog" where
  "handler_kill CO S =
     try_bind (transaction CO S HKill) (\<lambda>resp.
     try_bind join_handler_thread (\<lambda>_. of_result (stopped_answer resp)))"

definition handler_try_wait ::
  "('c, 'w) ChildOps \<Rightarrow> 'w Sched \<Rightarrow> ('c SimpleApplicationHandler \<times> 'w, Error, ExitStatus option) prog" where
  "handler_try_wait CO S =
     try_bind (transaction CO S HTryWait) (\<lambda>resp.
     case resp of
       MaybeExited (Some status) \<Rightarrow> try_bind join_handler_thread (\<lambda>_. ok (Some status))
     | MaybeExited None \<Rightarrow> ok None
     | _ \<Rightarrow> fail (EHandler AppHandlerInvalidResponse))"

section \<open>Laws of processes\<close>

text \<open>
  \<open>pid\<close> names the process of a handle for good, \<open>live\<close> are the processes of the system that
  have not been waited for. A wait that succeeds has reaped the process, after which
  \<^verbatim>\<open>Child::id\<close> is \<open>None\<close>; only a spawn adds a process.
\<close>

definition child_lawful :: "('c, 'w) ChildOps \<Rightarrow> ('c \<Rightarrow> u32) \<Rightarrow> ('w \<Rightarrow> u32 set) \<Rightarrow> bool" where
  "child_lawful CO pid live \<longleftrightarrow>
     (\<forall>p w r p' w'. co_wait CO (p, w) = (r, p', w') \<longrightarrow>
        pid p' = pid p \<and> live w' \<subseteq> live w \<and> (isl r \<or> co_id CO p' = None \<and> pid p \<notin> live w')) \<and>
     (\<forall>p w r p' w'. co_try_wait CO (p, w) = (r, p', w') \<longrightarrow>
        pid p' = pid p \<and> live w' \<subseteq> live w \<and>
        (\<forall>st. r = Inr (Some st) \<longrightarrow> co_id CO p' = None \<and> pid p \<notin> live w')) \<and>
     (\<forall>p w r p' w'. co_kill CO (p, w) = (r, p', w') \<longrightarrow> pid p' = pid p \<and> live w' \<subseteq> live w) \<and>
     (\<forall>i sig w r w'. co_signal CO i sig w = (r, w') \<longrightarrow> live w' \<subseteq> live w) \<and>
     (\<forall>sp w r w'. co_spawn CO sp w = (r, w') \<longrightarrow>
        (case r of Inl e \<Rightarrow> live w' \<subseteq> live w | Inr p \<Rightarrow> live w' \<subseteq> insert (pid p) (live w)))"

fun task_process :: "'c WardenTask \<Rightarrow> 'c" where
  "task_process (Looping p out err) = p"
| "task_process (AwaitRequest p) = p"
| "task_process (Finished r p) = p"

definition sah_wf :: "'c SimpleApplicationHandler \<Rightarrow> bool" where
  "sah_wf s \<longleftrightarrow> (sah_channel s \<longleftrightarrow> sah_thread s \<noteq> None)"

definition ended :: "HResponse \<Rightarrow> bool" where
  "ended resp \<longleftrightarrow> resp \<noteq> MaybeExited None"

lemma on_process_iff:
  "on_process p m w = (x, w') \<longleftrightarrow> (\<exists>r p'. m (p, w) = (r, p', w') \<and> x = Inr (r, p'))"
  by (auto simp: on_process_def split: prod.splits)

text \<open>A step of the task on its process: the process stays the same one, no process appears.\<close>

definition same_process :: "('c \<Rightarrow> u32) \<Rightarrow> ('w \<Rightarrow> u32 set) \<Rightarrow> 'c \<Rightarrow> 'w \<Rightarrow> 'c \<Rightarrow> 'w \<Rightarrow> bool" where
  "same_process pid live p w p' w' \<longleftrightarrow> pid p' = pid p \<and> live w' \<subseteq> live w"

lemma same_process_refl [simp]: "same_process pid live p w p w"
  by (simp add: same_process_def)

lemma same_process_trans:
  "same_process pid live p w q v \<Longrightarrow> same_process pid live q v r u \<Longrightarrow> same_process pid live p w r u"
  by (auto simp: same_process_def)

lemma lawful_wait:
  assumes "child_lawful CO pid live" and "co_wait CO (p, w) = (r, p', w')"
  shows "same_process pid live p w p' w'" and "r = Inr st \<Longrightarrow> co_id CO p' = None \<and> pid p \<notin> live w'"
  using assms by (fastforce simp: child_lawful_def same_process_def)+

lemma lawful_try_wait:
  assumes "child_lawful CO pid live" and "co_try_wait CO (p, w) = (r, p', w')"
  shows "same_process pid live p w p' w'" and "r = Inr (Some st) \<Longrightarrow> co_id CO p' = None \<and> pid p \<notin> live w'"
  using assms by (fastforce simp: child_lawful_def same_process_def)+

lemma lawful_kill:
  "child_lawful CO pid live \<Longrightarrow> co_kill CO (p, w) = (r, p', w') \<Longrightarrow> same_process pid live p w p' w'"
  by (fastforce simp: child_lawful_def same_process_def)

lemma lawful_signal:
  "child_lawful CO pid live \<Longrightarrow> co_signal CO i sig w = (r, w') \<Longrightarrow> same_process pid live p w p w'"
  by (fastforce simp: child_lawful_def same_process_def)

lemma ensure_app_is_stopped_same:
  assumes "child_lawful CO pid live" and "ensure_app_is_stopped CO p w = (r, w')"
  obtains p' where "r = Inr p'" "same_process pid live p w p' w'" "\<not> is_app_running CO p \<Longrightarrow> p' = p"
proof (cases "is_app_running CO p")
  case True
  obtain r1 p1 w1 where k: "co_kill CO (p, w) = (r1, p1, w1)" by (cases "co_kill CO (p, w)") auto
  obtain r2 p2 w2 where v: "co_wait CO (p1, w1) = (r2, p2, w2)" by (cases "co_wait CO (p1, w1)") auto
  have "r = Inr p2 \<and> w' = w2"
    using assms(2) True k v by (simp add: ensure_app_is_stopped_def try_bind_def on_process_def ok_def)
  moreover have "same_process pid live p w p2 w2"
    using lawful_kill [OF assms(1) k] lawful_wait(1) [OF assms(1) v] by (rule same_process_trans)
  ultimately show thesis using that True by blast
next
  case False
  then show thesis using that assms(2) by (auto simp: ensure_app_is_stopped_def ok_def)
qed

lemma end_loop_same:
  assumes "child_lawful CO pid live" and "end_loop CO p w = (r, w')"
  obtains p' where "r = Inr (Finished (Inr ()) p')" "same_process pid live p w p' w'"
    "\<not> is_app_running CO p \<Longrightarrow> p' = p"
  using assms
  by (auto simp: end_loop_def try_bind_def ok_def split: prod.splits sum.splits elim!: ensure_app_is_stopped_same)

lemma task_event_same:
  assumes "child_lawful CO pid live" and "task_event CO ev t w = (r, w')"
  obtains t' where "r = Inr t'" "same_process pid live (task_process t) w (task_process t') w'"
  using assms
  by (cases "(CO, ev, t)" rule: task_event.cases)
    (auto simp: ok_def try_bind_def on_process_def read_line_def split: if_splits sum.splits prod.splits
      dest!: lawful_wait(1))

lemma task_events_same:
  assumes "child_lawful CO pid live" and "task_events CO evs t w = (r, w')"
  obtains t' where "r = Inr t'" "same_process pid live (task_process t) w (task_process t') w'"
  using assms(2)
proof (induction evs arbitrary: t w thesis)
  case Nil
  then show ?case by (auto simp: ok_def)
next
  case (Cons ev evs)
  obtain r1 w1 where e: "task_event CO ev t w = (r1, w1)" by (cases "task_event CO ev t w")
  from task_event_same [OF assms(1) e] obtain t1 where
    t1: "r1 = Inr t1" "same_process pid live (task_process t) w (task_process t1) w1" .
  with Cons.prems(2) e have "task_events CO evs t1 w1 = (r, w')" by (simp add: try_bind_def)
  then show ?case using Cons.IH Cons.prems(1) t1(2) same_process_trans by metis
qed

text \<open>A request: the process is still the same one; an answer that says it ended is true, and the task
  has then returned.\<close>

lemma after_exit_same:
  assumes "child_lawful CO pid live" and "after_exit CO req p w = (r, w')"
  obtains res p' where "r = Inr (res, p')" "same_process pid live p w p' w'"
    "\<forall>resp. res = Inr resp \<longrightarrow> co_id CO p' = None \<and> pid p \<notin> live w' \<and> ended resp"
proof -
  obtain s p1 w1 where v: "co_wait CO (p, w) = (s, p1, w1)" by (cases "co_wait CO (p, w)") auto
  show thesis
    using that assms(2) v lawful_wait [OF assms(1) v]
    by (cases s; cases req) (auto simp: after_exit_def try_bind_def on_process_def ok_def ended_def)
qed

lemma stop_and_respond_same:
  assumes "child_lawful CO pid live" and "stop_and_respond CO req p w = (r, w')"
  obtains res p' where "r = Inr (res, p')" "same_process pid live p w p' w'"
    "\<forall>resp. res = Inr resp \<longrightarrow> co_id CO p' = None \<and> pid p \<notin> live w' \<and> ended resp"
proof (cases "\<exists>i sig. co_id CO p = Some i \<and> signal_of req = Some sig")
  case True
  then obtain i sig where c: "co_id CO p = Some i" "signal_of req = Some sig" by blast
  obtain sent w1 where k: "co_signal CO i sig w = (sent, w1)" by (cases "co_signal CO i sig w")
  note s = lawful_signal [OF assms(1) k, of p]
  show thesis
  proof (cases sent)
    case (Inl e)
    then show thesis
      using that assms(2) c k s by (auto simp: stop_and_respond_def attempt_def ok_def)
  next
    case (Inr u)
    then have "after_exit CO req p w1 = (r, w')"
      using assms(2) c k by (simp add: stop_and_respond_def attempt_def)
    from after_exit_same [OF assms(1) this] show thesis using that same_process_trans [OF s] by metis
  qed
next
  case False
  then have "after_exit CO req p w = (r, w')"
    using assms(2) by (auto simp: stop_and_respond_def split: option.splits)
  from after_exit_same [OF assms(1) this] show thesis using that by metis
qed

lemma task_handle_request_same:
  assumes "child_lawful CO pid live" and "task_handle_request CO req p w = (r, w')"
  obtains res p' where "r = Inr (res, p')" "same_process pid live p w p' w'"
    "\<forall>resp. res = Inr resp \<longrightarrow> ended resp \<longrightarrow> co_id CO p' = None \<and> pid p \<notin> live w'"
proof (cases "req = HTryWait")
  case True
  obtain s p1 w1 where v: "co_try_wait CO (p, w) = (s, p1, w1)" by (cases "co_try_wait CO (p, w)") auto
  have "\<forall>st. s = Inr (Some st) \<longrightarrow> co_id CO p1 = None \<and> pid p \<notin> live w1"
    using lawful_try_wait(2) [OF assms(1) v] by blast
  then show thesis
    using that assms(2) v True lawful_try_wait(1) [OF assms(1) v]
    by (cases s) (auto simp: task_handle_request_def task_try_wait_def try_bind_def on_process_def ok_def ended_def)
next
  case False
  then have "stop_and_respond CO req p w = (r, w')"
    using assms(2) by (cases req) (auto simp: task_handle_request_def)
  from stop_and_respond_same [OF assms(1) this] show thesis using that by metis
qed

definition answer_true ::
  "('c \<Rightarrow> u32) \<Rightarrow> ('w \<Rightarrow> u32 set) \<Rightarrow> HResponse option \<Rightarrow> 'c WardenTask \<Rightarrow> 'w \<Rightarrow> bool" where
  "answer_true pid live resp t w \<longleftrightarrow>
     (\<forall>x. resp = Some x \<and> ended x \<longrightarrow> (\<exists>p. t = Finished (Inr ()) p \<and> pid p \<notin> live w))"

lemma task_request_same:
  assumes "child_lawful CO pid live" and "task_request CO req t w = (r, w')"
  obtains resp t' where "r = Inr (resp, t')" "same_process pid live (task_process t) w (task_process t') w'"
    "answer_true pid live resp t' w'"
proof (cases t)
  case (Finished x p)
  then show thesis using that assms(2) by (auto simp: task_request_def ok_def answer_true_def)
next
  case (Looping p out err)
  obtain r1 w1 where h: "task_handle_request CO req p w = (r1, w1)" by (cases "task_handle_request CO req p w")
  from task_handle_request_same [OF assms(1) h] obtain res p1 where
    p1: "r1 = Inr (res, p1)" "same_process pid live p w p1 w1"
    "\<forall>resp. res = Inr resp \<longrightarrow> ended resp \<longrightarrow> co_id CO p1 = None \<and> pid p \<notin> live w1" by blast
  obtain r2 w2 where e: "end_loop CO p1 w1 = (r2, w2)" by (cases "end_loop CO p1 w1" )
  from end_loop_same [OF assms(1) e] obtain p2 where
    p2: "r2 = Inr (Finished (Inr ()) p2)" "same_process pid live p1 w1 p2 w2"
    "\<not> is_app_running CO p1 \<Longrightarrow> p2 = p1" by blast
  have s: "same_process pid live p w p2 w2" using p1(2) p2(2) by (rule same_process_trans)
  show thesis
    using assms(2) Looping h e p1 p2 s
    by (cases res; cases "is_app_running CO p1"; intro that)
      (auto simp: task_request_def try_bind_def ok_def answer_true_def is_app_running_def same_process_def)
next
  case (AwaitRequest p)
  obtain r1 w1 where h: "after_exit CO req p w = (r1, w1)" by (cases "after_exit CO req p w")
  from after_exit_same [OF assms(1) h] obtain res p1 where
    p1: "r1 = Inr (res, p1)" "same_process pid live p w p1 w1"
    "\<forall>resp. res = Inr resp \<longrightarrow> co_id CO p1 = None \<and> pid p \<notin> live w1 \<and> ended resp" by blast
  obtain r2 w2 where e: "end_loop CO p1 w1 = (r2, w2)" by (cases "end_loop CO p1 w1")
  from end_loop_same [OF assms(1) e] obtain p2 where
    p2: "r2 = Inr (Finished (Inr ()) p2)" "same_process pid live p1 w1 p2 w2"
    "\<not> is_app_running CO p1 \<Longrightarrow> p2 = p1" by blast
  have s: "same_process pid live p w p2 w2" using p1(2) p2(2) by (rule same_process_trans)
  show thesis
    using assms(2) AwaitRequest h e p1 p2 s
    by (cases res; intro that)
      (auto simp: task_request_def try_bind_def ok_def answer_true_def is_app_running_def same_process_def)
qed

section \<open>The handler and its process\<close>

lemma set_thread_run [simp]: "set_thread t (s, w) = (Inr (), (s\<lparr>sah_thread := Some t\<rparr>, w))"
  by (simp add: set_thread_def upd_def)

definition sah_steps ::
  "('c \<Rightarrow> u32) \<Rightarrow> ('w \<Rightarrow> u32 set) \<Rightarrow> 'c SimpleApplicationHandler \<Rightarrow> 'w \<Rightarrow> HResponse option \<Rightarrow>
   'c SimpleApplicationHandler \<Rightarrow> 'w \<Rightarrow> bool" where
  "sah_steps pid live s w resp s' w' \<longleftrightarrow>
     (\<exists>t t'. sah_thread s = Some t \<and> s' = s\<lparr>sah_thread := Some t'\<rparr> \<and>
        same_process pid live (task_process t) w (task_process t') w' \<and> answer_true pid live resp t' w')"

lemma sah_stepsI:
  "sah_thread s = Some t \<Longrightarrow> same_process pid live (task_process t) w (task_process t') w' \<Longrightarrow>
   answer_true pid live resp t' w' \<Longrightarrow> sah_steps pid live s w resp (s\<lparr>sah_thread := Some t'\<rparr>) w'"
  by (auto simp: sah_steps_def)

lemma answer_true_None [simp]: "answer_true pid live None t w"
  by (simp add: answer_true_def)

lemma transaction_idle:
  "sah_wf s \<Longrightarrow> sah_thread s = None \<Longrightarrow> transaction CO S req (s, w) = (Inl (EHandler AppNotRunning), (s, w))"
  by (simp add: transaction_def sah_wf_def prog_defs)

lemma transaction_steps:
  assumes "child_lawful CO pid live" and "sah_wf s" and "sah_thread s = Some t"
    and "transaction CO S req (s, w) = (r, s', w')"
  shows "sah_steps pid live s w (case r of Inr x \<Rightarrow> Some x | Inl e \<Rightarrow> None) s' w'"
proof -
  obtain r1 w1 where e1: "task_events CO (before_send S w) t w = (r1, w1)" by (cases "task_events CO (before_send S w) t w")
  from task_events_same [OF assms(1) e1] obtain t1 where
    t1: "r1 = Inr t1" "same_process pid live (task_process t) w (task_process t1) w1" .
  show ?thesis
  proof (cases "\<exists>x p. t1 = Finished x p")
    case True
    then show ?thesis
      using assms(2-4) e1 t1
      by (auto simp: transaction_def sah_wf_def get_def fail_def try_bind_def in_world_run intro!: sah_stepsI)
  next
    case False
    obtain r2 w2 where e2: "task_events CO (before_recv S w1) t1 w1 = (r2, w2)"
      by (cases "task_events CO (before_recv S w1) t1 w1")
    from task_events_same [OF assms(1) e2] obtain t2 where
      t2: "r2 = Inr t2" "same_process pid live (task_process t1) w1 (task_process t2) w2" .
    obtain r3 w3 where e3: "task_request CO req t2 w2 = (r3, w3)" by (cases "task_request CO req t2 w2")
    from task_request_same [OF assms(1) e3] obtain resp t3 where
      t3: "r3 = Inr (resp, t3)" "same_process pid live (task_process t2) w2 (task_process t3) w3"
      "answer_true pid live resp t3 w3" .
    have "same_process pid live (task_process t) w (task_process t3) w3"
      using t1(2) t2(2) t3(2) same_process_trans by metis
    moreover have "s' = s\<lparr>sah_thread := Some t3\<rparr> \<and> w' = w3 \<and> r = ok_or (EHandler ChannelClosed) resp"
      using assms(2-4) False e1 t1(1) e2 t2(1) e3 t3(1)
      by (cases t1)
        (auto simp: transaction_def sah_wf_def get_def try_bind_def in_world_run of_result_def split: prod.splits)
    moreover have "(case ok_or (EHandler ChannelClosed) resp of Inr x \<Rightarrow> Some x | Inl e \<Rightarrow> None) = resp"
      by (cases resp) simp_all
    ultimately show ?thesis using sah_stepsI [OF assms(3) _ t3(3)] by simp
  qed
qed

lemma transaction_keeps_wf:
  assumes "child_lawful CO pid live" and "sah_wf s" and "transaction CO S req (s, w) = (r, s', w')"
  shows "sah_wf s'"
proof (cases "sah_thread s")
  case None
  then show ?thesis using transaction_idle [OF assms(2) None, of CO S req w] assms(2,3) by simp
next
  case (Some t)
  from transaction_steps [OF assms(1,2) Some assms(3)] show ?thesis
    using assms(2) by (auto simp: sah_steps_def sah_wf_def)
qed

lemma join_finished:
  "sah_thread s = Some (Finished x p) \<Longrightarrow>
   join_handler_thread (s, w) = (x, (s\<lparr>sah_thread := None, sah_channel := False\<rparr>, w))"
  by (simp add: join_handler_thread_def prog_defs)

text \<open>\<open>stop\<close> and \<open>kill\<close> send a different signal and are otherwise the same.\<close>

definition stop_with :: "('c, 'w) ChildOps \<Rightarrow> 'w Sched \<Rightarrow> HRequest \<Rightarrow> ('c SimpleApplicationHandler \<times> 'w, Error, unit) prog" where
  "stop_with CO S req =
     try_bind (transaction CO S req) (\<lambda>resp.
     try_bind join_handler_thread (\<lambda>_. of_result (stopped_answer resp)))"

lemma stop_kill_with: "handler_stop = (\<lambda>CO S. stop_with CO S HStop)" "handler_kill = (\<lambda>CO S. stop_with CO S HKill)"
  by (simp_all add: handler_stop_def handler_kill_def stop_with_def fun_eq_iff)

text \<open>A stop or kill that is answered is answered with \<open>Stopped\<close>.\<close>

lemma after_exit_stopped:
  "req \<noteq> HTryWait \<Longrightarrow> after_exit CO req p w = (Inr (Inr resp, p'), w') \<Longrightarrow> resp = Stopped"
  by (cases req) (auto simp: after_exit_def try_bind_def on_process_def ok_def split: prod.splits sum.splits)

lemma task_request_stopped:
  assumes "req \<noteq> HTryWait" and "task_request CO req t w = (Inr (Some resp, t'), w')"
  shows "resp = Stopped"
proof -
  have "stop_and_respond CO req p v = (Inr (Inr x, p'), v') \<Longrightarrow> x = Stopped" for p v x p' v'
    using assms(1) by (auto simp: stop_and_respond_def attempt_def ok_def split: option.splits prod.splits sum.splits
        dest: after_exit_stopped)
  moreover have "task_handle_request CO req = stop_and_respond CO req"
    using assms(1) by (cases req) (simp_all add: task_handle_request_def fun_eq_iff)
  ultimately show ?thesis
    using assms by (auto simp: task_request_def try_bind_def ok_def split: WardenTask.splits prod.splits sum.splits if_splits
        dest: after_exit_stopped)
qed

lemma transaction_stopped:
  assumes "req \<noteq> HTryWait" and "transaction CO S req (s, w) = (Inr resp, s', w')"
  shows "resp = Stopped"
  using assms(2)
  by (auto simp: transaction_def try_bind_def get_def fail_def of_result_def in_world_run
      split: option.splits prod.splits sum.splits WardenTask.splits bool.splits
      dest: task_request_stopped [OF assms(1)])

text \<open>The outcome of a stop: either the process has ended, or the handler still has its task.\<close>

lemma stop_with_outcome:
  assumes "child_lawful CO pid live" and "sah_wf s" and "sah_thread s = Some t" and "req \<noteq> HTryWait"
    and "stop_with CO S req (s, w) = (r, s', w')"
  shows "sah_wf s'" and
    "r = Inr () \<and> sah_thread s' = None \<and> pid (task_process t) \<notin> live w' \<or>
     isl r \<and> (\<exists>t'. sah_thread s' = Some t' \<and> pid (task_process t') = pid (task_process t))"
proof -
  obtain r1 s1 w1 where t: "transaction CO S req (s, w) = (r1, s1, w1)" by (cases "transaction CO S req (s, w)") auto
  note st = transaction_steps [OF assms(1-3) t] and wf = transaction_keeps_wf [OF assms(1,2) t]
  have "sah_wf s' \<and> (r = Inr () \<and> sah_thread s' = None \<and> pid (task_process t) \<notin> live w' \<or>
     isl r \<and> (\<exists>t'. sah_thread s' = Some t' \<and> pid (task_process t') = pid (task_process t)))"
  proof (cases r1)
    case (Inl e)
    then have "r = Inl e \<and> s' = s1 \<and> w' = w1" using assms(5) t by (simp add: stop_with_def try_bind_def)
    then show ?thesis using st wf Inl assms(3) by (auto simp: sah_steps_def same_process_def)
  next
    case (Inr resp)
    then have "resp = Stopped" using transaction_stopped [OF assms(4), of CO S s w resp s1 w1] t by simp
    with st Inr assms(3) obtain p where
      p: "sah_thread s1 = Some (Finished (Inr ()) p)" "pid p \<notin> live w1" "pid p = pid (task_process t)"
      by (auto simp: sah_steps_def answer_true_def ended_def same_process_def)
    from join_finished [OF p(1), of w1] show ?thesis
      using assms(5) t Inr p \<open>resp = Stopped\<close>
      by (auto simp: stop_with_def try_bind_def of_result_def stopped_answer_def sah_wf_def)
  qed
  then show "sah_wf s'" and
    "r = Inr () \<and> sah_thread s' = None \<and> pid (task_process t) \<notin> live w' \<or>
     isl r \<and> (\<exists>t'. sah_thread s' = Some t' \<and> pid (task_process t') = pid (task_process t))" by blast+
qed

lemma stop_with_idle:
  "sah_wf s \<Longrightarrow> sah_thread s = None \<Longrightarrow> stop_with CO S req (s, w) = (Inl (EHandler AppNotRunning), (s, w))"
  by (simp add: stop_with_def try_bind_def transaction_idle)

lemma try_wait_outcome:
  assumes "child_lawful CO pid live" and "sah_wf s" and "sah_thread s = Some t"
    and "handler_try_wait CO S (s, w) = (r, s', w')"
  shows "sah_wf s'" and
    "\<And>st. r = Inr (Some st) \<Longrightarrow> sah_thread s' = None \<and> pid (task_process t) \<notin> live w'" and
    "r = Inr None \<or> isl r \<Longrightarrow> \<exists>t'. sah_thread s' = Some t' \<and> pid (task_process t') = pid (task_process t)"
proof -
  obtain r1 s1 w1 where t: "transaction CO S HTryWait (s, w) = (r1, s1, w1)" by (cases "transaction CO S HTryWait (s, w)") auto
  note st = transaction_steps [OF assms(1-3) t] and wf = transaction_keeps_wf [OF assms(1,2) t]
  have "sah_wf s' \<and> (\<forall>st. r = Inr (Some st) \<longrightarrow> sah_thread s' = None \<and> pid (task_process t) \<notin> live w') \<and>
    (r = Inr None \<or> isl r \<longrightarrow> (\<exists>t'. sah_thread s' = Some t' \<and> pid (task_process t') = pid (task_process t)))"
  proof (cases "\<exists>x. r1 = Inr (MaybeExited (Some x))")
    case True
    then obtain x where x: "r1 = Inr (MaybeExited (Some x))" by blast
    with st assms(3) obtain p where
      p: "sah_thread s1 = Some (Finished (Inr ()) p)" "pid p \<notin> live w1" "pid p = pid (task_process t)"
      by (auto simp: sah_steps_def answer_true_def ended_def same_process_def)
    from join_finished [OF p(1), of w1] show ?thesis
      using assms(4) t x p by (auto simp: handler_try_wait_def try_bind_def ok_def sah_wf_def)
  next
    case False
    then have "s' = s1 \<and> w' = w1 \<and> (r = Inr None \<or> isl r)"
      using assms(4) t
      by (auto simp: handler_try_wait_def try_bind_def ok_def fail_def split: sum.splits HResponse.splits option.splits)
    then show ?thesis using st wf assms(3) by (auto simp: sah_steps_def same_process_def)
  qed
  then show "sah_wf s'" "\<And>st. r = Inr (Some st) \<Longrightarrow> sah_thread s' = None \<and> pid (task_process t) \<notin> live w'"
    "r = Inr None \<or> isl r \<Longrightarrow> \<exists>t'. sah_thread s' = Some t' \<and> pid (task_process t') = pid (task_process t)"
    by blast+
qed

lemma task_abandoned_live:
  assumes "child_lawful CO pid live" and "task_abandoned CO t w = (y, w')"
  shows "live w' \<subseteq> live w \<and> \<not> isl y"
proof (cases t)
  case (Looping p out err)
  then have "end_loop CO p w = (y, w')" using assms(2) by (simp add: task_abandoned_def)
  then show ?thesis by (rule end_loop_same [OF assms(1)]) (simp add: same_process_def)
next
  case (AwaitRequest p)
  then have "end_loop CO p w = (y, w')" using assms(2) by (simp add: task_abandoned_def)
  then show ?thesis by (rule end_loop_same [OF assms(1)]) (simp add: same_process_def)
next
  case (Finished r p)
  then show ?thesis using assms(2) by (auto simp: task_abandoned_def ok_def)
qed

lemma start_outcome:
  assumes "child_lawful CO pid live" and "handler_start CO (s, w) = (r, s', w')"
  shows "isl r \<Longrightarrow> s' = s \<and> live w' \<subseteq> live w"
    and "\<not> isl r \<Longrightarrow> \<exists>p. s' = s\<lparr>sah_channel := True, sah_thread := Some (Looping p True True)\<rparr> \<and>
           live w' \<subseteq> insert (pid p) (live w)"
proof -
  have "(isl r \<longrightarrow> s' = s \<and> live w' \<subseteq> live w) \<and>
    (\<not> isl r \<longrightarrow> (\<exists>p. s' = s\<lparr>sah_channel := True, sah_thread := Some (Looping p True True)\<rparr> \<and>
       live w' \<subseteq> insert (pid p) (live w)))"
  proof (cases "argv (sah_config s)")
    case Nil
    then show ?thesis using assms(2) by (auto simp: handler_start_def try_bind_def get_def fail_def)
  next
    case (Cons arg0 rest)
    define sp where "sp = \<lparr>sp_program = exec (sah_config s), sp_arg0 = arg0, sp_args = rest,
      sp_env = envp (sah_config s), sp_config = sah_config s\<rparr>"
    obtain x w1 where x: "co_spawn CO sp w = (x, w1)" by (cases "co_spawn CO sp w")
    then have l: "case x of Inl e \<Rightarrow> live w1 \<subseteq> live w | Inr p \<Rightarrow> live w1 \<subseteq> insert (pid p) (live w)"
      using assms(1) unfolding child_lawful_def by blast
    show ?thesis
    proof (cases x)
      case (Inl e)
      then show ?thesis
        using assms(2) Cons x l
        by (auto simp: handler_start_def try_bind_def get_def map_err_def in_world_run sp_def [symmetric])
    next
      case (Inr p)
      show ?thesis
        using assms(2) Cons x l Inr task_abandoned_live [OF assms(1)]
        by (cases "sah_thread s")
          (fastforce simp: handler_start_def try_bind_def get_def upd_def ok_def in_world_run WardenThread_start_def
            sp_def [symmetric] map_err_def split: prod.splits sum.splits)+
    qed
  qed
  then show "isl r \<Longrightarrow> s' = s \<and> live w' \<subseteq> live w"
    and "\<not> isl r \<Longrightarrow> \<exists>p. s' = s\<lparr>sah_channel := True, sah_thread := Some (Looping p True True)\<rparr> \<and>
           live w' \<subseteq> insert (pid p) (live w)" by blast+
qed

section \<open>The life of a handler\<close>

text \<open>Calls in any order; between them the world may change in any way.\<close>

inductive handler_reach ::
  "('c, 'w) ChildOps \<Rightarrow> 'w Sched \<Rightarrow> ExecConfig \<Rightarrow> 'c SimpleApplicationHandler \<Rightarrow> 'w \<Rightarrow> bool"
  for CO S config where
  handler_created: "handler_reach CO S config (SimpleApplicationHandler_new config) w"
| handler_env: "handler_reach CO S config s w \<Longrightarrow> handler_reach CO S config s w'"
| handler_started: "handler_reach CO S config s w \<Longrightarrow> handler_start CO (s, w) = (r, s', w') \<Longrightarrow>
    handler_reach CO S config s' w'"
| handler_stopped: "handler_reach CO S config s w \<Longrightarrow> handler_stop CO S (s, w) = (r, s', w') \<Longrightarrow>
    handler_reach CO S config s' w'"
| handler_killed: "handler_reach CO S config s w \<Longrightarrow> handler_kill CO S (s, w) = (r, s', w') \<Longrightarrow>
    handler_reach CO S config s' w'"
| handler_polled: "handler_reach CO S config s w \<Longrightarrow> handler_try_wait CO S (s, w) = (x, s', w') \<Longrightarrow>
    handler_reach CO S config s' w'"

lemma try_wait_idle:
  "sah_wf s \<Longrightarrow> sah_thread s = None \<Longrightarrow> handler_try_wait CO S (s, w) = (Inl (EHandler AppNotRunning), (s, w))"
  by (simp add: handler_try_wait_def try_bind_def transaction_idle)

lemma stop_with_wf:
  assumes "child_lawful CO pid live" and "sah_wf s" and "req \<noteq> HTryWait" and "stop_with CO S req (s, w) = (r, s', w')"
  shows "sah_wf s'"
proof (cases "sah_thread s")
  case None
  then show ?thesis using stop_with_idle [OF assms(2) None, of CO S req w] assms(2,4) by simp
next
  case (Some t)
  from stop_with_outcome(1) [OF assms(1,2) Some assms(3,4)] show ?thesis .
qed

lemma reach_wf:
  assumes "child_lawful CO pid live" and "handler_reach CO S config s w"
  shows "sah_wf s"
  using assms(2)
proof (induction rule: handler_reach.induct)
  case (handler_created w)
  show ?case by (simp add: SimpleApplicationHandler_new_def sah_wf_def)
next
  case (handler_started s w r s' w')
  then show ?case using start_outcome [OF assms(1) handler_started.hyps(2)] by (cases "isl r") (auto simp: sah_wf_def)
next
  case (handler_stopped s w r s' w')
  then show ?case by (auto simp: stop_kill_with intro: stop_with_wf [OF assms(1), of s HStop])
next
  case (handler_killed s w r s' w')
  then show ?case by (auto simp: stop_kill_with intro: stop_with_wf [OF assms(1), of s HKill])
next
  case (handler_polled s w x s' w')
  then show ?case
    using try_wait_idle [of s CO S w] try_wait_outcome(1) [OF assms(1), of s _ S w x s' w']
    by (cases "sah_thread s") auto
qed

section \<open>Output that is not text\<close>

text \<open>
  A line that cannot be read ends the task, and the child is dropped while it runs: the next
  stop sends no signal, and the next start runs a second copy beside the first.
\<close>

lemma unreadable_output:
  assumes "sah_wf s" and "sah_thread s = Some (Looping p True err)"
    and "before_send S w = [StdoutLine (Inl e)]"
  shows "handler_stop CO S (s, w) =
     (Inl (EHandler RequestChannelError),
      (s\<lparr>sah_thread := Some (Finished (Inl (EHandler (IOReadError e))) p)\<rparr>, w))"
  using assms
  by (simp add: handler_stop_def transaction_def sah_wf_def prog_defs in_world_run read_line_def)

lemma restart_after_unreadable_output:
  assumes "sah_thread s = Some (Finished (Inl e) p)" and "argv (sah_config s) = arg0 # rest"
    and "co_spawn CO \<lparr>sp_program = exec (sah_config s), sp_arg0 = arg0, sp_args = rest,
           sp_env = envp (sah_config s), sp_config = sah_config s\<rparr> w = (Inr q, w')"
  shows "handler_start CO (s, w) = (Inr (), (s\<lparr>sah_channel := True, sah_thread := Some (Looping q True True)\<rparr>, w'))"
  using assms by (simp add: handler_start_def prog_defs in_world_run WardenThread_start_def task_abandoned_def)

section \<open>Before the program runs\<close>

text \<open>
  \<open>setuid\<close> of the superuser gives up all privileges, and without them \<open>setgid\<close> only accepts one
  of the groups that the process already has: a configuration with both never runs.
\<close>

lemma pre_exec_setuid_first:
  assumes "\<And>p q. pe_setuid P (ec_uid config) p = (Inr (), q) \<Longrightarrow> \<not> privileged q \<and> gids q = gids p"
    and "\<And>p g. \<not> privileged p \<Longrightarrow> g \<notin> gids p \<Longrightarrow> pe_setgid P g p = (Inl eperm, p)"
    and "chroot config = None" and "chdir config = None"
    and "pe_setuid P (ec_uid config) p = (Inr (), q)" and "ec_gid config \<notin> gids p"
  shows "pre_exec P config p = (Inl eperm, q)"
  using assms by (simp add: pre_exec_def try_bind_def)

text \<open>A start that succeeds spawned the program of the configuration and lets go of what ran before.\<close>

lemma handler_start_run:
  assumes "handler_start CO (hn, w) = (Inr u, (hn', w'))"
  obtains arg0 rest p w1 where "argv (sah_config hn) = arg0 # rest"
    "co_spawn CO \<lparr>sp_program = exec (sah_config hn), sp_arg0 = arg0, sp_args = rest, sp_env = envp (sah_config hn),
       sp_config = sah_config hn\<rparr> w = (Inr p, w1)"
    "hn' = hn\<lparr>sah_channel := True, sah_thread := Some (WardenThread_start p)\<rparr>"
    "w' = (case sah_thread hn of None \<Rightarrow> w1 | Some t \<Rightarrow> snd (task_abandoned CO t w1))"
  using assms
  by (auto simp: handler_start_def run_iffs split: list.splits option.splits)

end
