(* ===== verification/Guest_Oci.thy ===== *)
theory Guest_Oci
  imports Guest_Handler
begin

text \<open>
  The launchers (\<open>app-manager/src/launcher\<close>): the OCI launcher, which fetches a signed image
  from the registry, and the dummy one; with them signatures (\<open>util/crypto.rs\<close>), JSON
  (\<open>util/serde.rs\<close>) and the attestation token for RA-TLS (\<open>util/token.rs\<close>).

  The crates (\<open>p384\<close>, \<open>ratls\<close>, \<open>ir_client\<close>, \<open>serde_json\<close>, \<open>oci_spec\<close>) and the user database are
  the fields of \<open>OciOps\<close>. \<open>'x\<close> stands for their values that are only passed on (keys,
  certificate stores, resolvers, clients, references), \<open>'i\<close> for \<^verbatim>\<open>ImageInfo\<close> and \<open>'ic\<close> for
  \<^verbatim>\<open>ImageConfiguration\<close>.
\<close>

section \<open>Configuration\<close>

datatype TokenResolver = TokenFile path | TokenRsi

datatype OciLauncherConfig = NoTLS | RusTLS path | RaTLS path TokenResolver

datatype 'x ClientTls = TlsNone | TlsNoAuth 'x | TlsRa 'x 'x

record RuntimeConfig =
  rc_entrypoint :: "string list option"
  rc_cmd :: "string list option"
  rc_env :: "string list option"
  rc_user :: "string option"
  rc_working_dir :: "string option"

record 'ic Metadata =
  vendor_cert :: "bytes list"
  config_hash :: bytes
  image_config :: 'ic

record ApplicationMetadata =
  vendor_data :: "bytes list"
  image_hash :: bytes

record ('x, 'i, 'ic, 'w) OciOps =
  key_from_der :: "bytes \<Rightarrow> string + 'x"
  sig_from_der :: "bytes \<Rightarrow> string + 'x"
  ecdsa_verify :: "'x \<Rightarrow> bytes \<Rightarrow> 'x \<Rightarrow> string + unit"
  sha384 :: "bytes \<Rightarrow> bytes"
  const_hex_decode :: "string \<Rightarrow> string + bytes"
  load_root_cert_store :: "path \<Rightarrow> ('w, RaTlsError, 'x) prog"
  token_from_file :: "path \<Rightarrow> ('w, RaTlsError, bytes \<Rightarrow> ('w, RaTlsError, bytes) prog) prog"
  cert_resolver :: "(bytes \<Rightarrow> ('w, RaTlsError, bytes) prog) \<Rightarrow> ('w, RaTlsError, 'x) prog"
  client_from_config :: "string \<Rightarrow> 'x ClientTls \<Rightarrow> string + 'x"
  reference_from :: "string \<Rightarrow> string + 'x"
  get_image_info :: "'x \<Rightarrow> string \<Rightarrow> 'x \<Rightarrow> ('w, string, 'i) prog"
  annotations :: "'i \<Rightarrow> (string \<times> string) list option"
  config_bytes :: "'i \<Rightarrow> bytes"
  unpack_image :: "'x \<Rightarrow> 'i \<Rightarrow> path \<Rightarrow> path \<Rightarrow> ('w, string, unit) prog"
  metadata_to_json :: "'ic Metadata \<Rightarrow> string + string"
  metadata_of_json :: "string \<Rightarrow> string + 'ic Metadata"
  image_config_of_json :: "bytes \<Rightarrow> string + 'ic"
  runtime_config :: "'ic \<Rightarrow> RuntimeConfig option"
  rsi_attestation_token :: "bytes \<Rightarrow> ('w, string, bytes) prog"
  user_from_name :: "string \<Rightarrow> ('w, errno, u32 option) prog"
  group_from_name :: "string \<Rightarrow> ('w, errno, u32 option) prog"
  getuid :: "'w \<Rightarrow> u32"
  getgid :: "'w \<Rightarrow> u32"
  env_vars :: "'w \<Rightarrow> (string \<times> string) list"

section \<open>Signatures, JSON, tokens\<close>

definition EcdsaKey_import :: "('x, 'i, 'ic, 'w) OciOps \<Rightarrow> bytes \<Rightarrow> Error + 'x" where
  "EcdsaKey_import X der = map_sum (\<lambda>e. ECrypto (PubKeyParsing e)) id (key_from_der X der)"

definition EcdsaKey_verify :: "('x, 'i, 'ic, 'w) OciOps \<Rightarrow> 'x \<Rightarrow> bytes \<Rightarrow> bytes \<Rightarrow> Error + unit" where
  "EcdsaKey_verify X key msg signature =
     (case sig_from_der X signature of
        Inl e \<Rightarrow> Inl (ECrypto (SignatureParsing e))
      | Inr s \<Rightarrow> map_sum (\<lambda>e. ECrypto (Verification e)) id (ecdsa_verify X key msg s))"

definition json_dump :: "('x, 'i, 'ic, 'w) OciOps \<Rightarrow> 'ic Metadata \<Rightarrow> Error + string" where
  "json_dump X obj = map_sum ESerde id (metadata_to_json X obj)"

definition json_load :: "('x, 'i, 'ic, 'w) OciOps \<Rightarrow> string \<Rightarrow> Error + 'ic Metadata" where
  "json_load X content = map_sum ESerde id (metadata_of_json X content)"

definition json_load_bytes :: "('x, 'i, 'ic, 'w) OciOps \<Rightarrow> bytes \<Rightarrow> Error + 'ic" where
  "json_load_bytes X content = map_sum ESerde id (image_config_of_json X content)"

definition ratls_error :: "RsiTokenResolverError \<Rightarrow> RaTlsError" where
  "ratls_error e = GenericTokenResolverError e"

definition RsiTokenResolver_resolve ::
  "('x, 'i, 'ic, 'w) OciOps \<Rightarrow> bytes \<Rightarrow> ('w, RaTlsError, bytes) prog" where
  "RsiTokenResolver_resolve X challenge =
     (if length challenge \<noteq> 64 then fail (ratls_error InvalidChallengeLength)
      else map_err (\<lambda>e. ratls_error (RsiCallFailed e)) (rsi_attestation_token X challenge))"

section \<open>The OCI launcher\<close>

definition METADATA :: string where "METADATA = ''metadata.json''"
definition ANNOTATION_SIGNATURE :: string where
  "ANNOTATION_SIGNATURE = ''com.samsung.islet.image.signature''"
definition ANNOTATION_VENDORPUB :: string where
  "ANNOTATION_VENDORPUB = ''com.samsung.islet.image.vendorpub''"
definition ANNOTATION_VENDORPUB_SIGNATURE :: string where
  "ANNOTATION_VENDORPUB_SIGNATURE = ''com.samsung.islet.image.vendorpub.signature''"

record 'x OciLauncher =
  launcher_config :: OciLauncherConfig
  ca_pub_key :: 'x

definition from_oci_config :: "OciLauncherConfig \<Rightarrow> 'x \<Rightarrow> 'x OciLauncher" where
  "from_oci_config cfg ca = \<lparr>launcher_config = cfg, ca_pub_key = ca\<rparr>"

record RequiredAnnotations =
  ra_signature :: bytes
  ra_vendor_pubkey :: bytes
  ra_vendor_pubkey_signature :: bytes

text \<open>Both errors name the signature, whichever annotation was asked for.\<close>

definition parse_annotation ::
  "('x, 'i, 'ic, 'w) OciOps \<Rightarrow> (string \<times> string) list \<Rightarrow> string \<Rightarrow> Error + bytes" where
  "parse_annotation X anns i =
     (case hm_get anns i of
        None \<Rightarrow> Inl (EOciLauncher (FailedToFindRequiredAnnotations ANNOTATION_SIGNATURE))
      | Some v \<Rightarrow>
          (case const_hex_decode X v of
             Inl e \<Rightarrow> Inl (EOciLauncher (FailedToHexDecodeAnnotation e ANNOTATION_SIGNATURE))
           | Inr b \<Rightarrow> Inr b))"

definition RequiredAnnotations_try_from ::
  "('x, 'i, 'ic, 'w) OciOps \<Rightarrow> (string \<times> string) list \<Rightarrow> Error + RequiredAnnotations" where
  "RequiredAnnotations_try_from X anns =
     (case parse_annotation X anns ANNOTATION_SIGNATURE of Inl e \<Rightarrow> Inl e | Inr s \<Rightarrow>
     (case parse_annotation X anns ANNOTATION_VENDORPUB of Inl e \<Rightarrow> Inl e | Inr v \<Rightarrow>
     (case parse_annotation X anns ANNOTATION_VENDORPUB_SIGNATURE of Inl e \<Rightarrow> Inl e | Inr vs \<Rightarrow>
        Inr \<lparr>ra_signature = s, ra_vendor_pubkey = v, ra_vendor_pubkey_signature = vs\<rparr>)))"

definition verify_signature ::
  "('x, 'i, 'ic, 'w) OciOps \<Rightarrow> 'x OciLauncher \<Rightarrow> RequiredAnnotations \<Rightarrow> bytes \<Rightarrow> Error + unit" where
  "verify_signature X self a config =
     (case EcdsaKey_verify X (ca_pub_key self) (ra_vendor_pubkey a) (ra_vendor_pubkey_signature a) of
        Inl e \<Rightarrow> Inl e
      | Inr _ \<Rightarrow>
          (case EcdsaKey_import X (ra_vendor_pubkey a) of
             Inl e \<Rightarrow> Inl e
           | Inr vendor_key \<Rightarrow> EcdsaKey_verify X vendor_key config (ra_signature a)))"

definition create_oci_client ::
  "('x, 'i, 'ic, 'w) OciOps \<Rightarrow> 'x OciLauncher \<Rightarrow> string \<Rightarrow> ('w, Error, 'x) prog" where
  "create_oci_client X self im_url =
     try_bind (case launcher_config self of
        NoTLS \<Rightarrow> ok (client_from_config X im_url TlsNone)
      | RusTLS root_ca \<Rightarrow>
          try_bind (map_err (\<lambda>e. EOciLauncher (RootCaLoading e)) (load_root_cert_store X root_ca)) (\<lambda>store.
          ok (client_from_config X im_url (TlsNoAuth store)))
      | RaTLS root_ca token_resolver \<Rightarrow>
          try_bind (case token_resolver of
             TokenFile p \<Rightarrow> map_err (\<lambda>e. EOciLauncher (TokenReadingError e)) (token_from_file X p)
           | TokenRsi \<Rightarrow> ok (RsiTokenResolver_resolve X)) (\<lambda>resolver.
          try_bind (map_err (\<lambda>e. EOciLauncher (RaTlsCertResolverCreation e)) (cert_resolver X resolver)) (\<lambda>cert.
          try_bind (map_err (\<lambda>e. EOciLauncher (RootCaLoading e)) (load_root_cert_store X root_ca)) (\<lambda>store.
          ok (client_from_config X im_url (TlsRa store cert)))))) (\<lambda>oci_client.
     map_err (\<lambda>e. EOciLauncher (OciClientCreation e)) (of_result oci_client))"

definition try_read_metadata ::
  "('c, 'w) GuestOs \<Rightarrow> ('x, 'i, 'ic, 'w) OciOps \<Rightarrow> path \<Rightarrow> ('w, Error, 'ic Metadata option) prog" where
  "try_read_metadata S X path =
     attempt (read_to_string S (path_push path METADATA)) (\<lambda>content.
     ok (case content of
           Inl e \<Rightarrow> None
         | Inr text \<Rightarrow> (case json_load X text of Inl e \<Rightarrow> None | Inr m \<Rightarrow> Some m)))"

definition save_metadata ::
  "('c, 'w) GuestOs \<Rightarrow> ('x, 'i, 'ic, 'w) OciOps \<Rightarrow> path \<Rightarrow> 'ic Metadata \<Rightarrow> ('w, Error, unit) prog" where
  "save_metadata S X path metadata =
     try_bind (of_result (json_dump X metadata)) (\<lambda>text. write_to_file S (path_push path METADATA) text)"

definition move_unpack_to_img :: "('c, 'w) GuestOs \<Rightarrow> path \<Rightarrow> path \<Rightarrow> ('w, Error, unit) prog" where
  "move_unpack_to_img S unpack img = attempt (rmrf S img) (\<lambda>_. rename S unpack img)"

definition split_once :: "char \<Rightarrow> string \<Rightarrow> (string \<times> string) option" where
  "split_once c s =
     (if c \<in> set s then Some (takeWhile (\<lambda>d. d \<noteq> c) s, tl (dropWhile (\<lambda>d. d \<noteq> c) s)) else None)"

definition parse_argv :: "RuntimeConfig \<Rightarrow> Error + string list" where
  "parse_argv config =
     (let av = concat (List.map_filter id [rc_entrypoint config, rc_cmd config]) in
      if av = [] then Inl (EOciLauncher EntryPointCmdMissing) else Inr av)"

definition parse_env :: "('x, 'i, 'ic, 'w) OciOps \<Rightarrow> RuntimeConfig \<Rightarrow> 'w \<Rightarrow> (string \<times> string) list" where
  "parse_env X config w =
     (case rc_env config of
        Some es \<Rightarrow> hm_collect (map (\<lambda>i. case split_once (CHR ''='') i of Some p \<Rightarrow> p | None \<Rightarrow> (i, [])) es)
      | None \<Rightarrow> hm_collect (env_vars X w))"

definition uid_from_str :: "('x, 'i, 'ic, 'w) OciOps \<Rightarrow> string \<Rightarrow> ('w, Error, u32) prog" where
  "uid_from_str X u =
     try_bind (map_err (\<lambda>e. EOciLauncher (GetPwName e)) (user_from_name X u)) (\<lambda>r.
     of_result (ok_or (EOciLauncher (InvalidUserOrGroup u)) r))"

definition gid_from_str :: "('x, 'i, 'ic, 'w) OciOps \<Rightarrow> string \<Rightarrow> ('w, Error, u32) prog" where
  "gid_from_str X g =
     try_bind (map_err (\<lambda>e. EOciLauncher (GetPwName e)) (group_from_name X g)) (\<lambda>r.
     of_result (ok_or (EOciLauncher (InvalidUserOrGroup g)) r))"

definition parse_uid_gid :: "('x, 'i, 'ic, 'w) OciOps \<Rightarrow> RuntimeConfig \<Rightarrow> ('w, Error, u32 \<times> u32) prog" where
  "parse_uid_gid X config =
     try_bind (get (\<lambda>w. (getuid X w, getgid X w))) (\<lambda>(current_uid, current_gid).
     case rc_user config of
       None \<Rightarrow> ok (current_uid, current_gid)
     | Some i \<Rightarrow>
         (case split_once (CHR '':'') i of
            None \<Rightarrow> try_bind (uid_from_str X i) (\<lambda>u. ok (u, current_gid))
          | Some (u, g) \<Rightarrow>
              try_bind (uid_from_str X u) (\<lambda>u. try_bind (gid_from_str X g) (\<lambda>g. ok (u, g)))))"

definition ExecConfig_try_from ::
  "('x, 'i, 'ic, 'w) OciOps \<Rightarrow> RuntimeConfig \<Rightarrow> ('w, Error, ExecConfig) prog" where
  "ExecConfig_try_from X config =
     try_bind (of_result (parse_argv config)) (\<lambda>av.
     try_bind (get (parse_env X config)) (\<lambda>ev.
     try_bind (parse_uid_gid X config) (\<lambda>(u, g).
     ok \<lparr>exec = hd av, argv = av, envp = ev, ec_uid = u, ec_gid = g, chroot = None,
         chdir = rc_working_dir config\<rparr>)))"

definition hash_config :: "('x, 'i, 'ic, 'w) OciOps \<Rightarrow> bytes \<Rightarrow> bytes" where
  "hash_config X config = sha384 X config"

datatype ('i, 'ic) Action = InstallAction 'i "bytes list" bytes | LaunchInstalled "'ic Metadata"

text \<open>What to do, given the answer of the registry and the metadata on disk.\<close>

definition choose_action ::
  "('x, 'i, 'ic, 'w) OciOps \<Rightarrow> 'x OciLauncher \<Rightarrow> string + 'i \<Rightarrow> 'ic Metadata option \<Rightarrow>
   Error + ('i, 'ic) Action" where
  "choose_action X self try_image_info try_metadata =
     (case try_image_info of
        Inr info \<Rightarrow>
          (case annotations X info of
             None \<Rightarrow> Inl (EOciLauncher AppImageLacksAnnotations)
           | Some anns \<Rightarrow>
          (case RequiredAnnotations_try_from X anns of
             Inl e \<Rightarrow> Inl e
           | Inr a \<Rightarrow>
               (let new_vendor_cert = [ra_vendor_pubkey a, ra_vendor_pubkey_signature a];
                    new_config_hash = hash_config X (config_bytes X info);
                    newest = Option.bind try_metadata (\<lambda>m.
                      if config_hash m = new_config_hash \<and> vendor_cert m = new_vendor_cert
                      then Some m else None) in
                case newest of
                  None \<Rightarrow>
                    (case verify_signature X self a (config_bytes X info) of
                       Inl e \<Rightarrow> Inl e
                     | Inr _ \<Rightarrow> Inr (InstallAction info new_vendor_cert new_config_hash))
                | Some m \<Rightarrow> Inr (LaunchInstalled m))))
      | Inl e \<Rightarrow>
          (case try_metadata of
             Some m \<Rightarrow> Inr (LaunchInstalled m)
           | None \<Rightarrow> Inl (EOciLauncher (ImageInfoFetching e))))"

definition perform_install ::
  "('c, 'w) GuestOs \<Rightarrow> ('x, 'i, 'ic, 'w) OciOps \<Rightarrow> 'x \<Rightarrow> path \<Rightarrow> 'i \<Rightarrow> bytes list \<Rightarrow> bytes \<Rightarrow>
   ('w, Error, ApplicationMetadata) prog" where
  "perform_install S X oci_client path image_info new_vendor_cert new_config_hash =
     (let img_dir = path_push path ''img''; temp_dir = path_push path ''temp'';
          unpack_dir = path_push path ''unpack'' in
      try_bind (mkdirp S temp_dir) (\<lambda>_.
      try_bind (mkdirp S unpack_dir) (\<lambda>_.
      attempt (unpack_image X oci_client image_info unpack_dir temp_dir) (\<lambda>result.
      attempt (case result of
           Inl e \<Rightarrow> fail (EOciLauncher (UnpackError e))
         | Inr _ \<Rightarrow> move_unpack_to_img S unpack_dir img_dir) (\<lambda>result.
      attempt (rmrf S temp_dir) (\<lambda>_.
      attempt (rmrf S unpack_dir) (\<lambda>_.
      try_bind (of_result result) (\<lambda>_.
      try_bind (of_result (json_load_bytes X (config_bytes X image_info))) (\<lambda>ic.
      try_bind (save_metadata S X path
         \<lparr>vendor_cert = new_vendor_cert, config_hash = new_config_hash, image_config = ic\<rparr>) (\<lambda>_.
      ok \<lparr>vendor_data = new_vendor_cert, image_hash = new_config_hash\<rparr>))))))))))"

definition oci_install ::
  "('c, 'w) GuestOs \<Rightarrow> ('x, 'i, 'ic, 'w) OciOps \<Rightarrow> 'x OciLauncher \<Rightarrow> path \<Rightarrow> string \<Rightarrow> string \<Rightarrow> string \<Rightarrow>
   ('w, Error, ApplicationMetadata) prog" where
  "oci_install S X self path im_url name version =
     try_bind (create_oci_client X self im_url) (\<lambda>oci_client.
     try_bind (map_err (\<lambda>e. EOciLauncher (InvalidVersion e version)) (of_result (reference_from X version)))
       (\<lambda>reference.
     attempt (get_image_info X oci_client name reference) (\<lambda>try_image_info.
     try_bind (try_read_metadata S X path) (\<lambda>try_current_metadata.
     try_bind (of_result (choose_action X self try_image_info try_current_metadata)) (\<lambda>action.
     case action of
       InstallAction info cert hash \<Rightarrow> perform_install S X oci_client path info cert hash
     | LaunchInstalled m \<Rightarrow> ok \<lparr>vendor_data = vendor_cert m, image_hash = config_hash m\<rparr>)))))"

definition oci_prepare ::
  "('c, 'w) GuestOs \<Rightarrow> ('x, 'i, 'ic, 'w) OciOps \<Rightarrow> path \<Rightarrow> ('w, Error, 'p SimpleApplicationHandler) prog" where
  "oci_prepare S X path =
     try_bind (try_read_metadata S X path) (\<lambda>m.
     try_bind (of_result (ok_or (EOciLauncher MetadataNotFound) m)) (\<lambda>metadata.
     try_bind (of_result (ok_or (EOciLauncher RuntimeConfigMissing) (runtime_config X (image_config metadata))))
       (\<lambda>config.
     try_bind (ExecConfig_try_from X config) (\<lambda>exec_config.
     ok (SimpleApplicationHandler_new (exec_config\<lparr>chroot := Some (path_push path ''img'')\<rparr>))))))"

section \<open>The dummy launcher\<close>

definition SCRIPT :: string where
  "SCRIPT = ''\<newline>while true; do echo \"I'' @ [CHR 0x27] @ ''m alive\"; sleep 1; done\<newline>''"

definition dummy_install :: "('c, 'w) GuestOs \<Rightarrow> path \<Rightarrow> ('w, Error, ApplicationMetadata) prog" where
  "dummy_install S path =
     try_bind (map_err (\<lambda>e. EDummyLauncher (FileCopyError e))
        (go_copy S ''/usr/bin/busybox'' (path_push path ''busybox''))) (\<lambda>_.
     try_bind (map_err (\<lambda>e. EDummyLauncher (DlFileWriteError e))
        (go_write S (path_push path ''script.sh'') SCRIPT)) (\<lambda>_.
     ok \<lparr>vendor_data = [[0x11, 0x22, 0x33]], image_hash = [1, 2, 3, 4]\<rparr>))"

definition dummy_prepare ::
  "('x, 'i, 'ic, 'w) OciOps \<Rightarrow> path \<Rightarrow> ('w, Error, 'p SimpleApplicationHandler) prog" where
  "dummy_prepare X path =
     try_bind (get (\<lambda>w. (hm_collect (env_vars X w), getuid X w, getgid X w))) (\<lambda>(ev, u, g).
     ok (SimpleApplicationHandler_new
       \<lparr>exec = ''/busybox'', argv = [''sh'', ''/script.sh''], envp = ev, ec_uid = u, ec_gid = g,
        chroot = Some path, chdir = Some ''/''\<rparr>))"

section \<open>The interface\<close>

datatype 'x LauncherBox = LDummy | LOci "'x OciLauncher"

fun launcher_install ::
  "('c, 'w) GuestOs \<Rightarrow> ('x, 'i, 'ic, 'w) OciOps \<Rightarrow> 'x LauncherBox \<Rightarrow> path \<Rightarrow> string \<Rightarrow> string \<Rightarrow> string \<Rightarrow>
   ('w, Error, ApplicationMetadata) prog" where
  "launcher_install S X LDummy path im_url name version = dummy_install S path"
| "launcher_install S X (LOci l) path im_url name version = oci_install S X l path im_url name version"

fun launcher_prepare ::
  "('c, 'w) GuestOs \<Rightarrow> ('x, 'i, 'ic, 'w) OciOps \<Rightarrow> 'x LauncherBox \<Rightarrow> path \<Rightarrow>
   ('w, Error, 'p SimpleApplicationHandler) prog" where
  "launcher_prepare S X LDummy path = dummy_prepare X path"
| "launcher_prepare S X (LOci l) path = oci_prepare S X path"

section \<open>Which images are installed\<close>

text \<open>
  \<open>trusted\<close>: the key of the certification authority signed the vendor key of the image, and
  the vendor key signed its configuration.
\<close>

definition signed_by :: "('x, 'i, 'ic, 'w) OciOps \<Rightarrow> 'x \<Rightarrow> bytes \<Rightarrow> bytes \<Rightarrow> bool" where
  "signed_by X key msg signature \<longleftrightarrow>
     (case sig_from_der X signature of Inr s \<Rightarrow> ecdsa_verify X key msg s = Inr () | Inl e \<Rightarrow> False)"

definition trusted :: "('x, 'i, 'ic, 'w) OciOps \<Rightarrow> 'x \<Rightarrow> RequiredAnnotations \<Rightarrow> bytes \<Rightarrow> bool" where
  "trusted X ca a config \<longleftrightarrow>
     signed_by X ca (ra_vendor_pubkey a) (ra_vendor_pubkey_signature a) \<and>
     (case key_from_der X (ra_vendor_pubkey a) of
        Inr vendor \<Rightarrow> signed_by X vendor config (ra_signature a)
      | Inl e \<Rightarrow> False)"

lemma EcdsaKey_verify_iff: "EcdsaKey_verify X key msg signature = Inr u \<longleftrightarrow> signed_by X key msg signature"
  by (auto simp: EcdsaKey_verify_def signed_by_def split: sum.splits)

lemma verify_signature_iff: "verify_signature X self a config = Inr u \<longleftrightarrow> trusted X (ca_pub_key self) a config"
proof -
  have "u = ()" by simp
  then show ?thesis
    unfolding trusted_def EcdsaKey_verify_iff [where u = "()", symmetric]
    by (auto simp: verify_signature_def EcdsaKey_import_def split: sum.splits)
qed

lemma choose_install:
  assumes "choose_action X self answer meta = Inr (InstallAction info cert hash)"
  obtains anns a where "answer = Inr info" "annotations X info = Some anns" "RequiredAnnotations_try_from X anns = Inr a"
    "trusted X (ca_pub_key self) a (config_bytes X info)"
    "cert = [ra_vendor_pubkey a, ra_vendor_pubkey_signature a]" "hash = sha384 X (config_bytes X info)"
  using assms
  by (auto simp: choose_action_def Let_def hash_config_def verify_signature_iff
      split: sum.splits option.splits)

lemma choose_launch:
  "choose_action X self answer meta = Inr (LaunchInstalled m) \<Longrightarrow> meta = Some m"
  by (auto simp: choose_action_def Let_def bind_eq_Some_conv split: sum.splits option.splits if_splits)

text \<open>An image whose chain does not verify is refused, unless it is the installed one.\<close>

lemma choose_refuses:
  assumes "annotations X info = Some anns" and "RequiredAnnotations_try_from X anns = Inr a"
    and "\<not> trusted X (ca_pub_key self) a (config_bytes X info)"
    and "\<And>m. meta = Some m \<Longrightarrow> \<not> (config_hash m = sha384 X (config_bytes X info) \<and>
       vendor_cert m = [ra_vendor_pubkey a, ra_vendor_pubkey_signature a])"
  shows "isl (choose_action X self (Inr info) meta)"
  using assms verify_signature_iff [of X self a "config_bytes X info"]
  by (cases meta; cases "verify_signature X self a (config_bytes X info)")
    (auto simp: choose_action_def Let_def hash_config_def)

lemma perform_install_result:
  "perform_install S X cl path info cert hash w = (Inr md, w') \<Longrightarrow> md = \<lparr>vendor_data = cert, image_hash = hash\<rparr>"
  by (auto simp: perform_install_def Let_def run_iffs)

lemma oci_install_Inr:
  assumes "oci_install S X self path im_url name version w = (Inr md, w')"
  obtains cl rf answer meta w1 w2 w3 where
    "create_oci_client X self im_url w = (Inr cl, w1)" "reference_from X version = Inr rf"
    "get_image_info X cl name rf w1 = (answer, w2)" "try_read_metadata S X path w2 = (Inr meta, w3)"
    "(\<exists>m. choose_action X self answer meta = Inr (LaunchInstalled m) \<and> w' = w3 \<and>
        md = \<lparr>vendor_data = vendor_cert m, image_hash = config_hash m\<rparr>) \<or>
     (\<exists>info cert hash. choose_action X self answer meta = Inr (InstallAction info cert hash) \<and>
        perform_install S X cl path info cert hash w3 = (Inr md, w'))"
proof -
  from assms obtain cl rf answer meta w1 w2 w3 act where run:
    "create_oci_client X self im_url w = (Inr cl, w1)" "reference_from X version = Inr rf"
    "get_image_info X cl name rf w1 = (answer, w2)" "try_read_metadata S X path w2 = (Inr meta, w3)"
    "choose_action X self answer meta = Inr act"
    "(case act of InstallAction info cert hash \<Rightarrow> perform_install S X cl path info cert hash
      | LaunchInstalled m \<Rightarrow> ok \<lparr>vendor_data = vendor_cert m, image_hash = config_hash m\<rparr>) w3 = (Inr md, w')"
    by (auto simp: oci_install_def run_iffs)
  from that [OF run(1-4)] run(5,6) show thesis by (cases act) (simp_all add: ok_iff)
qed

section \<open>Installing twice\<close>

text \<open>
  What is written is read back, and a decoded metadata file is the one that was encoded: the
  next installation finds this one and does not unpack again, with the same measurement.
\<close>

definition json_lawful :: "('x, 'i, 'ic, 'w) OciOps \<Rightarrow> bool" where
  "json_lawful X \<longleftrightarrow> (\<forall>m t. metadata_to_json X m = Inr t \<longrightarrow> metadata_of_json X t = Inr m)"

definition files_lawful :: "('c, 'w) GuestOs \<Rightarrow> bool" where
  "files_lawful S \<longleftrightarrow> (\<forall>p t w w'. go_write S p t w = (Inr (), w') \<longrightarrow> fst (go_read_to_string S p w') = Inr t)"

lemma saved_metadata_read:
  assumes "json_lawful X" and "files_lawful S" and "save_metadata S X path m w = (Inr (), w')"
  shows "fst (try_read_metadata S X path w') = Inr (Some m)"
proof -
  from assms(3) obtain t where t: "metadata_to_json X m = Inr t" "go_write S (path_push path METADATA) t w = (Inr (), w')"
    by (auto simp: save_metadata_def try_bind_Inr_iff of_result_iff json_dump_def write_to_file_def)
  have "fst (go_read_to_string S (path_push path METADATA) w') = Inr t"
    using assms(2) t(2) by (auto simp: files_lawful_def)
  moreover have "metadata_of_json X t = Inr m" using assms(1) t(1) by (simp add: json_lawful_def)
  ultimately show ?thesis
    by (auto simp: try_read_metadata_def attempt_def ok_def read_to_string_def map_err_def json_load_def
        split: prod.splits sum.splits)
qed

lemma perform_install_saves:
  assumes "json_lawful X" and "files_lawful S" and "perform_install S X cl path info cert hash w = (Inr md, w')"
  obtains ic where "image_config_of_json X (config_bytes X info) = Inr ic"
    "fst (try_read_metadata S X path w') =
       Inr (Some \<lparr>vendor_cert = cert, config_hash = hash, image_config = ic\<rparr>)"
proof -
  from assms(3) obtain ic v where
    "json_load_bytes X (config_bytes X info) = Inr ic"
    "save_metadata S X path \<lparr>vendor_cert = cert, config_hash = hash, image_config = ic\<rparr> v = (Inr (), w')"
    by (auto simp: perform_install_def Let_def run_iffs)
  then show thesis using that saved_metadata_read [OF assms(1,2)] by (auto simp: json_load_bytes_def)
qed

lemma choose_again:
  assumes "choose_action X self answer meta = Inr (InstallAction info cert hash)"
    and "vendor_cert m = cert" and "config_hash m = hash"
  shows "choose_action X self answer (Some m) = Inr (LaunchInstalled m)"
  using assms(1)
  by (rule choose_install) (use assms(2,3) in \<open>auto simp: choose_action_def Let_def hash_config_def\<close>)

section \<open>Applications stay in their directory\<close>

locale app_launcher =
  fixes prepare_app :: "path \<Rightarrow> ('w, Error, 'p SimpleApplicationHandler) prog"
  assumes prepare_confined: "prepare_app d w = (Inr h, w') \<Longrightarrow>
      sah_thread h = None \<and> \<not> sah_channel h \<and> (\<exists>sub. chroot (sah_config h) = Some (d @ sub)) \<and> argv (sah_config h) \<noteq> []"
begin

lemma prepared_wf: "prepare_app d w = (Inr h, w') \<Longrightarrow> sah_wf h"
  by (auto dest: prepare_confined simp: sah_wf_def)

lemma prepared_not_empty:
  "prepare_app d w = (Inr h, w') \<Longrightarrow> fst (handler_start CO (h, v)) \<noteq> Inl (EHandler EmptyArgv)"
  using prepare_confined [of d w h w']
  by (auto simp: handler_start_def try_bind_def get_def upd_def ok_def in_world_run map_err_def
      split: list.splits prod.splits sum.splits option.splits)

end

lemma path_push_relative: "\<exists>sub. path_push d (CHR ''i'' # q) = d @ sub"
  by (auto simp: path_push_def)

lemma parse_argv_nonempty: "parse_argv c = Inr av \<Longrightarrow> av \<noteq> []"
  by (auto simp: parse_argv_def Let_def split: if_splits)

lemma ExecConfig_argv: "ExecConfig_try_from X c w = (Inr ec, w') \<Longrightarrow> argv ec \<noteq> [] \<and> exec ec = hd (argv ec)"
  by (auto simp: ExecConfig_try_from_def run_iffs dest: parse_argv_nonempty)

interpretation launch: app_launcher "launcher_prepare S X l"
proof (unfold_locales, goal_cases)
  case (1 d w h w')
  show ?case
  proof (cases l)
    case LDummy
    then show ?thesis using 1 by (auto simp: dummy_prepare_def run_iffs SimpleApplicationHandler_new_def)
  next
    case (LOci o')
    from 1 LOci obtain rc c u u' where
      c: "ExecConfig_try_from X rc u = (Inr c, u')"
         "h = SimpleApplicationHandler_new (c\<lparr>chroot := Some (path_push d ''img'')\<rparr>)"
      by (auto simp: oci_prepare_def run_iffs)
    then show ?thesis
      using ExecConfig_argv [OF c(1)] path_push_relative [of d "''mg''"]
      by (simp add: SimpleApplicationHandler_new_def)
  qed
qed

end
