(* ===== verification/Guest_App.thy ===== *)
theory Guest_App
  imports Guest_Keys Guest_Crypt Guest_Oci
begin

text \<open>
  An application in the realm (\<open>app-manager/src/app.rs\<close>): its two encrypted partitions, the
  installation on the first, the measurement, the sealing of the key of the second, the
  overlay, and the removal of all of it.
\<close>

section \<open>State\<close>

text \<open>The printing of identifiers and the coding of device numbers (\<^verbatim>\<open>libc::major\<close>, \<^verbatim>\<open>minor\<close>, \<^verbatim>\<open>makedev\<close>).\<close>

record AppEnv =
  ae_uuid :: "uuid \<Rightarrow> string"
  ae_major :: "u64 \<Rightarrow> u32"
  ae_minor :: "u64 \<Rightarrow> u32"
  ae_makedev :: "u32 \<Rightarrow> u32 \<Rightarrow> u64"
  S_IFBLK :: u32

text \<open>The device mapper and the key ring are handles without state of their own.\<close>

record GuestApplication =
  app_info :: ApplicationInfo
  app_workdir :: path
  app_devices :: "DeviceHandle list"
  app_measurements :: bytes

definition as_bytes :: "string \<Rightarrow> bytes" where
  "as_bytes s = map of_char s"

definition Application_new :: "'w DmOps \<Rightarrow> ApplicationInfo \<Rightarrow> path \<Rightarrow> ('w, Error, GuestApplication) prog" where
  "Application_new M info workdir =
     try_bind (DeviceMapper_init M) (\<lambda>_.
     try_bind (KernelKeyring_new M) (\<lambda>_.
     ok \<lparr>app_info = info, app_workdir = workdir, app_devices = [], app_measurements = []\<rparr>))"

definition app_id :: "GuestApplication \<Rightarrow> uuid" where
  "app_id self = info_id (app_info self)"

section \<open>Partitions\<close>

definition partition_path :: "AppEnv \<Rightarrow> uuid \<Rightarrow> path" where
  "partition_path A u = path_push ''/dev/disk/by-partuuid/'' (ae_uuid A u)"

definition decrypt_partition ::
  "('c, 'w) GuestOs \<Rightarrow> 'w DmOps \<Rightarrow> AppEnv \<Rightarrow> uuid \<Rightarrow> CryptoParams \<Rightarrow> Key \<Rightarrow> path \<Rightarrow>
   ('w, Error, DeviceHandle) prog" where
  "decrypt_partition S M A part_uuid params key dst =
     (let uuid_str = ae_uuid A part_uuid;
          path = path_push ''/dev/disk/by-partuuid/'' uuid_str in
      try_bind (get (go_is_symlink S path)) (\<lambda>symlink.
      if \<not> symlink then fail (EApplication (PartitionNotFound part_uuid))
      else
        try_bind (stat S path) (\<lambda>st_rdev.
        try_bind (read_device_size S path) (\<lambda>size.
        try_bind (create_device M (''crypt_'' @ uuid_str) None) (\<lambda>device.
        try_bind (CryptDevice_load M device
           \<lparr>tb_start = 0, tb_len = size, tb_params = params, tb_offset = 0\<rparr>
           (MajorMinor (ae_major A st_rdev) (ae_minor A st_rdev)) key) (\<lambda>_.
        try_bind (device_resume M device) (\<lambda>_.
        try_bind (dirname dst) (\<lambda>dir.
        try_bind (mkdirp S dir) (\<lambda>_.
        (case get_major_minor device of
           (crypt_major, crypt_minor) \<Rightarrow>
             try_bind (mknod S dst (or 0x1B6 (S_IFBLK A)) (ae_makedev A crypt_major crypt_minor)) (\<lambda>_.
             ok device)))))))))))"

definition try_mount_or_format_partition ::
  "('c, 'w) GuestOs \<Rightarrow> path \<Rightarrow> path \<Rightarrow> Filesystem \<Rightarrow> string option \<Rightarrow> ('w, Error, unit) prog" where
  "try_mount_or_format_partition S src dst fs label =
     try_bind (mkdirp S dst) (\<lambda>_.
     attempt (mount_fs S fs src dst None) (\<lambda>result.
     if isl result
     then try_bind (formatfs S fs src label) (\<lambda>_. mount_fs S fs src dst None)
     else ok ()))"

definition SUBCLASS :: string where "SUBCLASS = ''app-manager''"

definition derive_key_for ::
  "'w DmOps \<Rightarrow> 'w CryptoOps \<Rightarrow> string \<Rightarrow> Sealing \<Rightarrow> bytes list \<Rightarrow> ('w, Error, Key) prog" where
  "derive_key_for M C label keyseal infos =
     try_bind (of_result (sealing_derive_key C keyseal infos)) (\<lambda>raw_key.
     try_bind (logon_seal M SUBCLASS label raw_key) (\<lambda>_.
     ok (KeyringKey (of_nat (length raw_key)) Logon (SUBCLASS @ '':'' @ label))))"

section \<open>Setting up\<close>

definition push_device :: "DeviceHandle \<Rightarrow> (GuestApplication \<times> 'w, Error, unit) prog" where
  "push_device d = upd (\<lambda>(a, w). (a\<lparr>app_devices := app_devices a @ [d]\<rparr>, w))"

text \<open>The measurement of an application: its vendor data, then the hash of its image.\<close>

definition measurement_of :: "ApplicationMetadata \<Rightarrow> bytes" where
  "measurement_of md = concat (vendor_data md) @ image_hash md"

definition extend_measurements :: "ApplicationMetadata \<Rightarrow> (GuestApplication \<times> 'w, Error, unit) prog" where
  "extend_measurements md =
     upd (\<lambda>(a, w). (a\<lparr>app_measurements :=
        foldl (@) (app_measurements a) (vendor_data md) @ image_hash md\<rparr>, w))"

definition app_setup ::
  "('c, 'w) GuestOs \<Rightarrow> 'w DmOps \<Rightarrow> 'w CryptoOps \<Rightarrow> ('x, 'i, 'ic, 'w) OciOps \<Rightarrow> AppEnv \<Rightarrow>
   CryptoParams \<Rightarrow> 'x LauncherBox \<Rightarrow> Sealing \<Rightarrow> (GuestApplication \<times> 'w, Error, 'p SimpleApplicationHandler) prog" where
  "app_setup S M C X A params launcher keyseal =
     try_bind (get (\<lambda>(a, w). (app_info a, app_workdir a))) (\<lambda>(info, workdir).
     let crypt_dir = path_push workdir ''crypt'' in
     try_bind (in_world (derive_key_for M C (ae_uuid A (info_image_part_uuid info)) keyseal
        [as_bytes ''App manager label''])) (\<lambda>app_image_key.
     let app_image_crypt_device = path_push crypt_dir ''image'' in
     try_bind (in_world (decrypt_partition S M A (info_image_part_uuid info) params app_image_key
        app_image_crypt_device)) (\<lambda>device.
     try_bind (push_device device) (\<lambda>_.
     let app_image_dir = path_push workdir ''image'' in
     try_bind (in_world (try_mount_or_format_partition S app_image_crypt_device app_image_dir Ext2
        (Some ''image''))) (\<lambda>_.
     let app_image_root_dir = path_push app_image_dir ''root'' in
     try_bind (in_world (mkdirp S app_image_root_dir)) (\<lambda>_.
     try_bind (in_world (launcher_install S X launcher app_image_root_dir (info_image_registry info)
        (info_name info) (info_version info))) (\<lambda>md.
     try_bind (extend_measurements md) (\<lambda>_.
     try_bind (of_result (sealing_seal C keyseal (vendor_data md) (image_hash md))) (\<lambda>keyseal.
     try_bind (in_world (derive_key_for M C (ae_uuid A (info_data_part_uuid info)) keyseal
        [as_bytes (info_name info)])) (\<lambda>app_data_key.
     let app_data_crypt_device = path_push crypt_dir ''data'' in
     try_bind (in_world (decrypt_partition S M A (info_data_part_uuid info) params app_data_key
        app_data_crypt_device)) (\<lambda>device.
     try_bind (push_device device) (\<lambda>_.
     let app_data_dir = path_push workdir ''data'' in
     try_bind (in_world (try_mount_or_format_partition S app_data_crypt_device app_data_dir Ext2
        (Some ''data''))) (\<lambda>_.
     let app_overlay_dir = path_push workdir ''overlay''; overlay_workdir = path_push app_data_dir ''workdir'';
         overlay_upper = path_push app_data_dir ''root'' in
     try_bind (in_world (mkdirp S app_overlay_dir)) (\<lambda>_.
     try_bind (in_world (mkdirp S overlay_workdir)) (\<lambda>_.
     try_bind (in_world (mkdirp S overlay_upper)) (\<lambda>_.
     try_bind (in_world (mount_overlayfs S app_image_root_dir overlay_upper overlay_workdir app_overlay_dir)) (\<lambda>_.
     in_world (launcher_prepare S X launcher app_overlay_dir))))))))))))))))))"

section \<open>Removing\<close>

text \<open>\<open>pop\<close> takes the device out of the list before it is suspended and removed.\<close>

definition remove_last_device :: "'w DmOps \<Rightarrow> DeviceHandle \<Rightarrow> (GuestApplication \<times> 'w, Error, unit) prog" where
  "remove_last_device M device =
     try_bind (upd (\<lambda>(a, w). (a\<lparr>app_devices := butlast (app_devices a)\<rparr>, w))) (\<lambda>_.
     try_bind (of_result (dev_id device)) (\<lambda>_.
     try_bind (in_world (device_suspend M device)) (\<lambda>_.
     in_world (remove_device M device))))"

definition app_cleanup :: "('c, 'w) GuestOs \<Rightarrow> 'w DmOps \<Rightarrow> (GuestApplication \<times> 'w, Error, unit) prog" where
  "app_cleanup S M =
     try_bind (get (\<lambda>(a, w). app_workdir a)) (\<lambda>workdir.
     try_bind (for_each (\<lambda>dir. in_world (umount S dir))
        [path_push workdir ''overlay'', path_push workdir ''data'', path_push workdir ''image'']) (\<lambda>_.
     try_bind (get (\<lambda>(a, w). app_devices a)) (\<lambda>devices.
     for_each (remove_last_device M) (rev devices))))"

section \<open>What a successful set-up did\<close>

definition set_up :: "GuestApplication \<Rightarrow> DeviceHandle list \<Rightarrow> ApplicationMetadata \<Rightarrow> GuestApplication" where
  "set_up a ds md =
     a\<lparr>app_devices := app_devices a @ ds, app_measurements := app_measurements a @ measurement_of md\<rparr>"

lemma push_device_run [simp]: "push_device d (a, w) = (Inr (), (a\<lparr>app_devices := app_devices a @ [d]\<rparr>, w))"
  by (simp add: push_device_def upd_def)

lemma foldl_append: "foldl (@) m xs = m @ concat xs"
  by (induction xs arbitrary: m) simp_all

lemma extend_measurements_run [simp]:
  "extend_measurements md (a, w) = (Inr (), (a\<lparr>app_measurements := app_measurements a @ measurement_of md\<rparr>, w))"
  by (simp add: extend_measurements_def upd_def measurement_of_def foldl_append)

lemma app_setup_run:
  assumes "app_setup S M C X A params l keyseal (a, w) = (Inr h, (a', w'))"
  obtains d1 d2 k1 k2 key' md w1 w2 w3 w4 w5 w6 w7 w8 w9 w10 w11 w12 where
    "derive_key_for M C (ae_uuid A (info_image_part_uuid (app_info a))) keyseal [as_bytes ''App manager label''] w = (Inr k1, w1)"
    "decrypt_partition S M A (info_image_part_uuid (app_info a)) params k1
       (path_push (path_push (app_workdir a) ''crypt'') ''image'') w1 = (Inr d1, w2)"
    "try_mount_or_format_partition S (path_push (path_push (app_workdir a) ''crypt'') ''image'')
       (path_push (app_workdir a) ''image'') Ext2 (Some ''image'') w2 = (Inr (), w3)"
    "mkdirp S (path_push (path_push (app_workdir a) ''image'') ''root'') w3 = (Inr (), w4)"
    "launcher_install S X l (path_push (path_push (app_workdir a) ''image'') ''root'') (info_image_registry (app_info a))
       (info_name (app_info a)) (info_version (app_info a)) w4 = (Inr md, w5)"
    "sealing_seal C keyseal (vendor_data md) (image_hash md) = Inr key'"
    "derive_key_for M C (ae_uuid A (info_data_part_uuid (app_info a))) key' [as_bytes (info_name (app_info a))] w5 = (Inr k2, w6)"
    "decrypt_partition S M A (info_data_part_uuid (app_info a)) params k2
       (path_push (path_push (app_workdir a) ''crypt'') ''data'') w6 = (Inr d2, w7)"
    "try_mount_or_format_partition S (path_push (path_push (app_workdir a) ''crypt'') ''data'')
       (path_push (app_workdir a) ''data'') Ext2 (Some ''data'') w7 = (Inr (), w8)"
    "mkdirp S (path_push (app_workdir a) ''overlay'') w8 = (Inr (), w9)"
    "mkdirp S (path_push (path_push (app_workdir a) ''data'') ''workdir'') w9 = (Inr (), w10)"
    "mkdirp S (path_push (path_push (app_workdir a) ''data'') ''root'') w10 = (Inr (), w11)"
    "mount_overlayfs S (path_push (path_push (app_workdir a) ''image'') ''root'')
       (path_push (path_push (app_workdir a) ''data'') ''root'') (path_push (path_push (app_workdir a) ''data'') ''workdir'')
       (path_push (app_workdir a) ''overlay'') w11 = (Inr (), w12)"
    "launcher_prepare S X l (path_push (app_workdir a) ''overlay'') w12 = (Inr h, w')"
    "a' = set_up a [d1, d2] md"
proof -
  have "set_up a [d1, d2] md =
      a\<lparr>app_devices := app_devices a @ [d1], app_measurements := app_measurements a @ measurement_of md,
        app_devices := app_devices a @ [d1, d2]\<rparr>" for d1 d2 md
    by (simp add: set_up_def)
  with assms that show thesis
    by (auto simp: app_setup_def Let_def try_bind_Inr_iff get_iff of_result_iff)
qed

text \<open>The key of the data partition: derived, for the name of the application, from the material that is sealed
  to what was installed.\<close>

lemma derive_key_for_run:
  assumes "derive_key_for M C label k infos w = (Inr key, w')"
  shows "kr_add_logon_key M SUBCLASS label (sealing_key_of C k (concat infos)) w = (Inr (), w')"
    and "key = KeyringKey (of_nat (length (sealing_key_of C k (concat infos)))) Logon (SUBCLASS @ '':'' @ label)"
  using assms ks.derives [of C k infos]
  by (auto simp: derive_key_for_def Sealing_ops_def run_iffs logon_seal_def)

section \<open>Mounts and mapped devices\<close>

text \<open>
  \<open>obs\<close> gives the stack of mount points and the set of mapped devices of a world. The calls
  that are there to change them do so when they succeed; every other call leaves them.
\<close>

definition keeps_obs :: "('w \<Rightarrow> 'o) \<Rightarrow> ('w, 'e, 'a) prog \<Rightarrow> bool" where
  "keeps_obs obs m \<longleftrightarrow> (\<forall>w. obs (snd (m w)) = obs w)"

definition app_world_lawful ::
  "('c, 'w) GuestOs \<Rightarrow> 'w DmOps \<Rightarrow> ('w \<Rightarrow> path list \<times> string set) \<Rightarrow> bool" where
  "app_world_lawful S M obs \<longleftrightarrow>
     (\<forall>src dst fs opt w r w'. go_mount S src dst fs opt w = (r, w') \<longrightarrow>
        obs w' = (if isl r then obs w else (dst # fst (obs w), snd (obs w)))) \<and>
     (\<forall>d w w'. go_umount S d w = (Inr (), w') \<longrightarrow> obs w' = (remove1 d (fst (obs w)), snd (obs w))) \<and>
     (\<forall>n w i w'. dm_device_create M n None w = (Inr i, w') \<longrightarrow>
        di_name i = Some n \<and> n \<notin> snd (obs w) \<and> obs w' = (fst (obs w), insert n (snd (obs w)))) \<and>
     (\<forall>n w w'. dm_device_remove M (IdName n) w = (Inr (), w') \<longrightarrow> obs w' = (fst (obs w), snd (obs w) - {n})) \<and>
     (\<forall>n m. dm_name_new M n = Inr m \<longrightarrow> m = n)"

definition dm_others_keep :: "'w DmOps \<Rightarrow> ('w \<Rightarrow> 'o) \<Rightarrow> bool" where
  "dm_others_keep M obs \<longleftrightarrow>
     (\<forall>i t. keeps_obs obs (dm_table_load M i t)) \<and> (\<forall>i b. keeps_obs obs (dm_device_suspend M i b)) \<and>
     (\<forall>s d k. keeps_obs obs (kr_add_logon_key M s d k))"

definition os_others_keep :: "('c, 'w) GuestOs \<Rightarrow> ('w \<Rightarrow> 'o) \<Rightarrow> bool" where
  "os_others_keep S obs \<longleftrightarrow>
     (\<forall>p. keeps_obs obs (go_create_dir_all S p)) \<and> (\<forall>p. keeps_obs obs (go_metadata S p)) \<and>
     (\<forall>p. keeps_obs obs (go_read_link S p)) \<and> (\<forall>p. keeps_obs obs (go_read_to_string S p)) \<and>
     (\<forall>p m d. keeps_obs obs (go_mknod S p m d)) \<and> (\<forall>p t. keeps_obs obs (go_write S p t)) \<and>
     (\<forall>p q. keeps_obs obs (go_copy S p q)) \<and> (\<forall>p. keeps_obs obs (go_remove_dir_all S p)) \<and>
     (\<forall>p q. keeps_obs obs (go_rename S p q)) \<and> (\<forall>c. keeps_obs obs (os_spawn (go_process S) c)) \<and>
     keeps_obs (\<lambda>(c, w). obs w) (os_wait (go_process S))"

definition oci_keep :: "('x, 'i, 'ic, 'w) OciOps \<Rightarrow> ('w \<Rightarrow> 'o) \<Rightarrow> bool" where
  "oci_keep X obs \<longleftrightarrow>
     (\<forall>p. keeps_obs obs (load_root_cert_store X p)) \<and> (\<forall>p. keeps_obs obs (token_from_file X p)) \<and>
     (\<forall>f. keeps_obs obs (cert_resolver X f)) \<and> (\<forall>c n r. keeps_obs obs (get_image_info X c n r)) \<and>
     (\<forall>c i u t. keeps_obs obs (unpack_image X c i u t)) \<and> (\<forall>u. keeps_obs obs (user_from_name X u)) \<and>
     (\<forall>g. keeps_obs obs (group_from_name X g))"

named_theorems obs_rules "operations that leave the mounts and the mapped devices"

lemma keeps_obsD: "keeps_obs obs m \<Longrightarrow> m w = (r, w') \<Longrightarrow> obs w' = obs w"
  by (metis keeps_obs_def snd_conv)

lemma obs_basic [obs_rules]:
  "keeps_obs obs (ok x)" "keeps_obs obs (fail e)" "keeps_obs obs (get g)" "keeps_obs obs (of_result r)"
  by (simp_all add: keeps_obs_def prog_defs)

lemma obs_try_bind [obs_rules]:
  "keeps_obs obs m \<Longrightarrow> (\<And>x. keeps_obs obs (f x)) \<Longrightarrow> keeps_obs obs (try_bind m f)"
  by (simp add: keeps_obs_def try_bind_def split: prod.splits sum.splits) (metis snd_conv)

lemma obs_attempt [obs_rules]:
  "keeps_obs obs m \<Longrightarrow> (\<And>x. keeps_obs obs (f x)) \<Longrightarrow> keeps_obs obs (attempt m f)"
  by (simp add: keeps_obs_def attempt_def split: prod.splits) (metis snd_conv)

lemma obs_map_err [obs_rules]: "keeps_obs obs m \<Longrightarrow> keeps_obs obs (map_err g m)"
  by (simp add: keeps_obs_def)

lemma obs_if [obs_rules]:
  "keeps_obs obs m \<Longrightarrow> keeps_obs obs n \<Longrightarrow> keeps_obs obs (if b then m else n)"
  by simp

lemmas obs_splits = option.split sum.split prod.split

lemma os_keepD:
  assumes "os_others_keep S obs"
  shows "keeps_obs obs (mkdirp S p)" "keeps_obs obs (stat S p)" "keeps_obs obs (readlink S p)"
    "keeps_obs obs (read_to_string S p)" "keeps_obs obs (mknod S p m d)" "keeps_obs obs (write_to_file S p t)"
    "keeps_obs obs (rmrf S p)" "keeps_obs obs (rename S p q)" "keeps_obs obs (go_copy S p q)" "keeps_obs obs (go_write S p t)"
    "keeps_obs obs (dirname p)"
  using assms
  by (simp_all add: os_others_keep_def mkdirp_def stat_def readlink_def read_to_string_def mknod_def write_to_file_def
      rmrf_def rename_def check_libc_error_def dirname_def obs_rules)

lemma obs_child:
  assumes "keeps_obs (\<lambda>(c, w). obs w) m"
  shows "keeps_obs obs (zoom (\<lambda>w. (c, w)) (\<lambda>(c, w') w. w') m)"
  unfolding keeps_obs_def
proof
  fix w
  obtain r c' w' where m: "m (c, w) = (r, c', w')" by (cases "m (c, w)") auto
  from keeps_obsD [OF assms m] show "obs (snd (zoom (\<lambda>w. (c, w)) (\<lambda>(c, w') w. w') m w)) = obs w"
    using m by (simp add: zoom_def)
qed

lemma formatfs_keeps: "os_others_keep S obs \<Longrightarrow> keeps_obs obs (formatfs S ty dev label)"
  by (auto simp: formatfs_def Let_def os_others_keep_def intro!: obs_rules obs_child)

lemma read_device_size_keeps: "os_others_keep S obs \<Longrightarrow> keeps_obs obs (read_device_size S p)"
  by (simp add: read_device_size_def os_keepD obs_rules)

lemma mounts_keep:
  assumes "os_others_keep S obs" and "\<And>src dst fs opt. keeps_obs obs (go_mount S src dst fs opt)"
  shows "keeps_obs obs (mount_fs S fs src dst opt)" and "keeps_obs obs (mount_overlayfs S lower upper work dst)"
    and "keeps_obs obs (try_mount_or_format_partition S src dst fs label)"
proof -
  have m: "keeps_obs obs (mount_fs S fs src dst opt)" for fs src dst opt
    using assms(2) by (auto simp: mount_fs_def check_libc_error_def intro!: obs_rules split: option.split)
  then show "keeps_obs obs (mount_fs S fs src dst opt)" .
  show "keeps_obs obs (mount_overlayfs S lower upper work dst)"
    using assms(2) by (auto simp: mount_overlayfs_def check_libc_error_def intro!: obs_rules)
  show "keeps_obs obs (try_mount_or_format_partition S src dst fs label)"
    by (auto simp: try_mount_or_format_partition_def m formatfs_keeps [OF assms(1)] os_keepD [OF assms(1)] intro!: obs_rules)
qed

lemma create_oci_client_keeps: "oci_keep X obs \<Longrightarrow> keeps_obs obs (create_oci_client X l u)"
  by (auto simp: create_oci_client_def oci_keep_def intro!: obs_rules split: OciLauncherConfig.split TokenResolver.split)

lemma try_read_metadata_keeps: "os_others_keep S obs \<Longrightarrow> keeps_obs obs (try_read_metadata S X p)"
  by (simp add: try_read_metadata_def os_keepD obs_rules)

lemma perform_install_keeps:
  "os_others_keep S obs \<Longrightarrow> oci_keep X obs \<Longrightarrow> keeps_obs obs (perform_install S X cl p info cert hash)"
  by (auto simp: perform_install_def Let_def oci_keep_def save_metadata_def move_unpack_to_img_def os_keepD
      intro!: obs_rules split: sum.split)

lemma launcher_install_keeps:
  "os_others_keep S obs \<Longrightarrow> oci_keep X obs \<Longrightarrow> keeps_obs obs (launcher_install S X l p u n v)"
proof (cases l)
  case LDummy
  assume "os_others_keep S obs"
  with LDummy show ?thesis by (simp add: dummy_install_def os_keepD obs_rules)
next
  case (LOci o')
  assume "os_others_keep S obs" "oci_keep X obs"
  moreover have "keeps_obs obs (get_image_info X cl n r)" for cl r
    using \<open>oci_keep X obs\<close> by (simp add: oci_keep_def)
  ultimately show ?thesis
    using LOci by (auto simp: oci_install_def create_oci_client_keeps try_read_metadata_keeps perform_install_keeps
        intro!: obs_rules split: Action.split)
qed

lemma launcher_prepare_keeps:
  "os_others_keep S obs \<Longrightarrow> oci_keep X obs \<Longrightarrow> keeps_obs obs (launcher_prepare S X l p)"
  by (cases l)
    (auto simp: dummy_prepare_def oci_prepare_def try_read_metadata_keeps ExecConfig_try_from_def parse_uid_gid_def
      uid_from_str_def gid_from_str_def oci_keep_def intro!: obs_rules split: prod.split option.split)

text \<open>The calls that change them.\<close>

lemma mount_fs_run:
  "mount_fs S fs src dst None w =
     (if NUL \<in> set src \<or> NUL \<in> set dst then (Inl ECstringConv, w)
      else check_libc_error MountError (go_mount S src dst (filesystem_to_string fs) None) w)"
  by (auto simp: mount_fs_def cstring_from_path_def cstring_fs try_bind_def of_result_def ok_def)

lemma mount_fs_obs:
  assumes "app_world_lawful S M obs" and "mount_fs S fs src dst None w = (r, w')"
  shows "obs w' = (if isl r then obs w else (dst # fst (obs w), snd (obs w)))"
proof (cases "NUL \<in> set src \<or> NUL \<in> set dst")
  case True
  then show ?thesis using assms(2) by (auto simp: mount_fs_run)
next
  case False
  then obtain r1 where "go_mount S src dst (filesystem_to_string fs) None w = (r1, w')" "isl r1 = isl r"
    using assms(2)
    by (cases "go_mount S src dst (filesystem_to_string fs) None w")
      (auto simp: mount_fs_run check_libc_error_def map_err_def split: sum.splits)
  then show ?thesis using assms(1) unfolding app_world_lawful_def by metis
qed

lemma mount_or_format_obs:
  assumes "app_world_lawful S M obs" and "os_others_keep S obs"
    and "try_mount_or_format_partition S src dst fs label w = (Inr u, w')"
  shows "obs w' = (dst # fst (obs w), snd (obs w))"
proof -
  from assms(3) obtain w1 r w2 where
    run: "mkdirp S dst w = (Inr (), w1)" "mount_fs S fs src dst None w1 = (r, w2)"
      "(if isl r then try_bind (formatfs S fs src label) (\<lambda>_. mount_fs S fs src dst None) else ok ()) w2 = (Inr u, w')"
    by (auto simp: try_mount_or_format_partition_def try_bind_Inr_iff attempt_iff)
  have 1: "obs w1 = obs w" using os_keepD(1) [OF assms(2)] run(1) by (rule keeps_obsD)
  note 2 = mount_fs_obs [OF assms(1) run(2)]
  show ?thesis
  proof (cases "isl r")
    case True
    then obtain w3 where "formatfs S fs src label w2 = (Inr (), w3)" "mount_fs S fs src dst None w3 = (Inr u, w')"
      using run(3) by (auto simp: try_bind_Inr_iff)
    then show ?thesis
      using True 1 2 mount_fs_obs [OF assms(1)] keeps_obsD [OF formatfs_keeps [OF assms(2)]] by fastforce
  next
    case False
    then show ?thesis using 1 2 run(3) by (simp add: ok_iff)
  qed
qed

lemma overlay_obs:
  assumes "app_world_lawful S M obs" and "mount_overlayfs S lower upper work dst w = (Inr u, w')"
  shows "obs w' = (dst # fst (obs w), snd (obs w))"
proof -
  from assms(2) obtain src fs opt where "go_mount S src dst fs opt w = (Inr u, w')"
    by (auto simp: mount_overlayfs_def try_bind_Inr_iff of_result_iff check_libc_error_def cstring_from_path_def
        split: if_splits)
  then show ?thesis using assms(1) unfolding app_world_lawful_def by (metis sum.disc(2))
qed

lemma umount_obs:
  assumes "app_world_lawful S M obs" and "umount S d w = (Inr u, w')"
  shows "obs w' = (remove1 d (fst (obs w)), snd (obs w))"
  using assms
  by (auto simp: umount_def try_bind_Inr_iff of_result_iff check_libc_error_def cstring_from_path_def app_world_lawful_def
      split: if_splits)

lemma dm_keepD:
  assumes "dm_others_keep M obs"
  shows "keeps_obs obs (CryptDevice_load M d t p k)" "keeps_obs obs (device_resume M d)" "keeps_obs obs (device_suspend M d)"
    "keeps_obs obs (derive_key_for M C label k' infos)"
  using assms
  by (auto simp: dm_others_keep_def CryptDevice_load_def table_load_def device_resume_def device_suspend_def
      derive_key_for_def logon_seal_def intro!: obs_rules)

lemma decrypt_run:
  assumes "decrypt_partition S M A u params key dst w = (Inr d, w')"
  obtains sz st dir w1 w2 w3 w4 w5 w6 w7 where
    "stat S (partition_path A u) w = (Inr st, w1)" "read_device_size S (partition_path A u) w1 = (Inr sz, w2)"
    "create_device M (''crypt_'' @ ae_uuid A u) None w2 = (Inr d, w3)"
    "CryptDevice_load M d \<lparr>tb_start = 0, tb_len = sz, tb_params = params, tb_offset = 0\<rparr>
       (MajorMinor (ae_major A st) (ae_minor A st)) key w3 = (Inr (), w4)"
    "device_resume M d w4 = (Inr (), w5)" "dirname dst w5 = (Inr dir, w6)" "mkdirp S dir w6 = (Inr (), w7)"
    "mknod S dst (or 0x1B6 (S_IFBLK A)) (ae_makedev A (di_major (dh_info d)) (di_minor (dh_info d))) w7 = (Inr (), w')"
  using assms
  by (auto simp: decrypt_partition_def partition_path_def Let_def try_bind_Inr_iff get_iff fail_iff ok_iff get_major_minor_def
      split: if_splits)

lemma decrypt_obs:
  assumes "app_world_lawful S M obs" and "os_others_keep S obs" and "dm_others_keep M obs"
    and "decrypt_partition S M A u params key dst w = (Inr d, w')"
  shows "di_name (dh_info d) = Some (''crypt_'' @ ae_uuid A u)" "''crypt_'' @ ae_uuid A u \<notin> snd (obs w)"
    "obs w' = (fst (obs w), insert (''crypt_'' @ ae_uuid A u) (snd (obs w)))"
proof -
  let ?n = "''crypt_'' @ ae_uuid A u"
  from decrypt_run [OF assms(4)] obtain sz st dir w1 w2 w3 w4 w5 w6 w7 where
    run: "stat S (partition_path A u) w = (Inr st, w1)" "read_device_size S (partition_path A u) w1 = (Inr sz, w2)"
      "create_device M ?n None w2 = (Inr d, w3)"
    and later: "CryptDevice_load M d \<lparr>tb_start = 0, tb_len = sz, tb_params = params, tb_offset = 0\<rparr>
       (MajorMinor (ae_major A st) (ae_minor A st)) key w3 = (Inr (), w4)"
    "device_resume M d w4 = (Inr (), w5)" "dirname dst w5 = (Inr dir, w6)" "mkdirp S dir w6 = (Inr (), w7)"
    "mknod S dst (or 0x1B6 (S_IFBLK A)) (ae_makedev A (di_major (dh_info d)) (di_minor (dh_info d))) w7 = (Inr (), w')"
    .
  have rest: "obs w' = obs w3"
    using keeps_obsD [OF dm_keepD(1) [OF assms(3)] later(1)] keeps_obsD [OF dm_keepD(2) [OF assms(3)] later(2)]
      keeps_obsD [OF os_keepD(11) [OF assms(2)] later(3)] keeps_obsD [OF os_keepD(1) [OF assms(2)] later(4)]
      keeps_obsD [OF os_keepD(5) [OF assms(2)] later(5)] by simp
  have "obs w2 = obs w"
    using run keeps_obsD [OF os_keepD(2) [OF assms(2)]] keeps_obsD [OF read_device_size_keeps [OF assms(2)]] by metis
  moreover obtain m i where "dm_name_new M ?n = Inr m" "dm_device_create M m None w2 = (Inr i, w3)" "d = \<lparr>dh_info = i\<rparr>"
    using run(3) by (auto simp: create_device_def create_device_handle_def run_iffs)
  ultimately show "di_name (dh_info d) = Some ?n" "?n \<notin> snd (obs w)" "obs w' = (fst (obs w), insert ?n (snd (obs w)))"
    using assms(1) rest unfolding app_world_lawful_def by (metis DeviceHandle.select_convs(1))+
qed

lemma app_setup_obs:
  assumes "app_world_lawful S M obs" and "os_others_keep S obs" and "dm_others_keep M obs" and "oci_keep X obs"
    and "app_setup S M C X A params l keyseal (a, w) = (Inr h, (a', w'))"
  obtains d1 d2 md n1 n2 where "a' = set_up a [d1, d2] md" "di_name (dh_info d1) = Some n1" "di_name (dh_info d2) = Some n2"
    "n1 \<notin> snd (obs w)" "n2 \<notin> insert n1 (snd (obs w))"
    "obs w' = (path_push (app_workdir a) ''overlay'' # path_push (app_workdir a) ''data'' # path_push (app_workdir a) ''image'' #
       fst (obs w), insert n2 (insert n1 (snd (obs w))))"
proof (rule app_setup_run [OF assms(5)], goal_cases)
  case (1 d1 d2 k1 k2 key' md w1 w2 w3 w4 w5 w6 w7 w8 w9 w10 w11 w12)
  note r = 1(2-16)
  note mk = keeps_obsD [OF os_keepD(1) [OF assms(2)]]
  note dk = keeps_obsD [OF dm_keepD(4) [OF assms(3)]]
  have e: "obs w1 = obs w" "obs w6 = obs w5" "obs w4 = obs w3" "obs w11 = obs w8"
    using dk [OF r(1)] dk [OF r(7)] mk [OF r(4)] mk [OF r(10)] mk [OF r(11)] mk [OF r(12)] by simp_all
  have i: "obs w5 = obs w4" "obs w' = obs w12"
    using keeps_obsD [OF launcher_install_keeps [OF assms(2,4)] r(5)] keeps_obsD [OF launcher_prepare_keeps [OF assms(2,4)] r(14)]
    by simp_all
  note d = decrypt_obs [OF assms(1-3) r(2)] decrypt_obs [OF assms(1-3) r(8)]
  note m = mount_or_format_obs [OF assms(1,2) r(3)] mount_or_format_obs [OF assms(1,2) r(9)] overlay_obs [OF assms(1) r(13)]
  show ?case by (rule 1(1) [OF r(15) d(1) d(4)]) (use d m e i in simp_all)
qed

lemma remove_last_device_obs:
  assumes "app_world_lawful S M obs" and "dm_others_keep M obs" and "di_name (dh_info d) = Some n"
    and "remove_last_device M d (a, w) = (Inr u, s)"
  obtains w' where "s = (a\<lparr>app_devices := butlast (app_devices a)\<rparr>, w')" "obs w' = (fst (obs w), snd (obs w) - {n})"
proof -
  from assms(3,4) obtain w1 w2 where run: "device_suspend M d w = (Inr (), w1)" "dm_device_remove M (IdName n) w1 = (Inr (), w2)"
    "s = (a\<lparr>app_devices := butlast (app_devices a)\<rparr>, w2)"
    by (auto simp: remove_last_device_def try_bind_Inr_iff upd_iff of_result_iff remove_device_def dev_id_def)
  have "obs w1 = obs w" using dm_keepD(3) [OF assms(2)] run(1) by (rule keeps_obsD)
  then show thesis using that run(2,3) assms(1) unfolding app_world_lawful_def by metis
qed

lemma setup_cleanup:
  assumes "app_world_lawful S M obs" and "os_others_keep S obs" and "dm_others_keep M obs" and "oci_keep X obs"
    and "app_devices a = []"
    and "app_setup S M C X A params l keyseal (a, w) = (Inr h, (a', w'))"
    and "obs v = obs w'" and "app_cleanup S M (a', v) = (Inr (), (a'', v'))"
  shows "obs v' = obs w" and "app_devices a'' = []"
proof -
  from app_setup_obs [OF assms(1-4,6)] obtain d1 d2 md n1 n2 where
    s: "a' = set_up a [d1, d2] md" "di_name (dh_info d1) = Some n1" "di_name (dh_info d2) = Some n2"
    "n1 \<notin> snd (obs w)" "n2 \<notin> insert n1 (snd (obs w))"
    "obs w' = (path_push (app_workdir a) ''overlay'' # path_push (app_workdir a) ''data'' # path_push (app_workdir a) ''image'' #
       fst (obs w), insert n2 (insert n1 (snd (obs w))))" .
  have a': "app_devices a' = [d1, d2]" "app_workdir a' = app_workdir a"
    using s(1) assms(5) by (simp_all add: set_up_def)
  from assms(8) a' obtain v1 v2 v3 s1 where u:
    "umount S (path_push (app_workdir a) ''overlay'') v = (Inr (), v1)"
    "umount S (path_push (app_workdir a) ''data'') v1 = (Inr (), v2)"
    "umount S (path_push (app_workdir a) ''image'') v2 = (Inr (), v3)"
    "remove_last_device M d2 (a', v3) = (Inr (), s1)" "remove_last_device M d1 s1 = (Inr (), (a'', v'))"
    by (auto simp: app_cleanup_def try_bind_Inr_iff get_iff ok_iff)
  from remove_last_device_obs [OF assms(1,3) s(3) u(4)] obtain v4 where
    v4: "s1 = (a'\<lparr>app_devices := butlast (app_devices a')\<rparr>, v4)" "obs v4 = (fst (obs v3), snd (obs v3) - {n2})" .
  from remove_last_device_obs [OF assms(1,3) s(2) u(5) [unfolded v4(1)]] obtain v5 where
    v5: "(a'', v') = (a'\<lparr>app_devices := butlast (app_devices a'), app_devices := butlast (butlast (app_devices a'))\<rparr>, v5)"
      "obs v5 = (fst (obs v4), snd (obs v4) - {n1})" by auto
  have "obs v3 = (fst (obs w), insert n2 (insert n1 (snd (obs w))))"
    using umount_obs [OF assms(1) u(1)] umount_obs [OF assms(1) u(2)] umount_obs [OF assms(1) u(3)] s(6) assms(7) by simp
  then show "obs v' = obs w" using v4(2) v5 s(4,5) by (auto simp: prod_eq_iff)
  show "app_devices a'' = []" using v5(1) a'(1) by simp
qed

section \<open>Keys and tables in the kernel\<close>

text \<open>
  \<open>ring\<close> gives the keys of the kernel by their description, \<open>opened\<close> the table that is loaded into each mapped
  device. A key that was added and a table that was loaded are there; the calls in between leave both alone.
\<close>

definition crypt_lawful ::
  "('c, 'w) GuestOs \<Rightarrow> 'w DmOps \<Rightarrow> ('w \<Rightarrow> string \<Rightarrow> bytes option) \<Rightarrow>
   ('w \<Rightarrow> DevId \<Rightarrow> (u64 \<times> u64 \<times> string \<times> string) list option) \<Rightarrow> bool" where
  "crypt_lawful S M ring opened \<longleftrightarrow>
     (\<forall>s d k w w'. kr_add_logon_key M s d k w = (Inr (), w') \<longrightarrow> ring w' = (ring w)(s @ '':'' @ d \<mapsto> k)) \<and>
     (\<forall>i t w w'. dm_table_load M i t w = (Inr (), w') \<longrightarrow> ring w' = ring w \<and> opened w' = (opened w)(i \<mapsto> t)) \<and>
     (\<forall>n w i w'. dm_device_create M n None w = (Inr i, w') \<longrightarrow> di_name i = Some n \<and> ring w' = ring w) \<and>
     (\<forall>n m. dm_name_new M n = Inr m \<longrightarrow> m = n) \<and>
     (\<forall>i b. keeps_obs (\<lambda>w. (ring w, opened w)) (dm_device_suspend M i b)) \<and>
     (\<forall>src dst fs opt. keeps_obs (\<lambda>w. (ring w, opened w)) (go_mount S src dst fs opt))"

lemma crypt_lawfulD:
  assumes "crypt_lawful S M ring opened"
  shows "kr_add_logon_key M s d k w = (Inr (), w') \<Longrightarrow> ring w' = (ring w)(s @ '':'' @ d \<mapsto> k)"
    and "dm_table_load M i t w = (Inr (), w') \<Longrightarrow> ring w' = ring w \<and> opened w' = (opened w)(i \<mapsto> t)"
    and "dm_device_create M n None w = (Inr info, w') \<Longrightarrow> di_name info = Some n \<and> ring w' = ring w"
    and "dm_name_new M n = Inr m \<Longrightarrow> m = n"
    and "keeps_obs (\<lambda>w. (ring w, opened w)) (dm_device_suspend M i b)"
    and "keeps_obs (\<lambda>w. (ring w, opened w)) (go_mount S src dst fs opt)"
  using assms unfolding crypt_lawful_def by simp_all

lemma derive_key_ring:
  assumes "crypt_lawful S M ring opened" and "derive_key_for M C label k infos w = (Inr key, w')"
  shows "ring w' (SUBCLASS @ '':'' @ label) = Some (sealing_key_of C k (concat infos))"
  using crypt_lawfulD(1) [OF assms(1) derive_key_for_run(1) [OF assms(2)]] by simp

text \<open>An opened partition: its mapped device has a table that names the key by which it was asked to be opened.\<close>

lemma decrypt_opened:
  assumes "crypt_lawful S M ring opened" and "os_others_keep S (\<lambda>w. (ring w, opened w))"
    and "decrypt_partition S M A u params key dst w = (Inr d, w')"
  obtains sz st v v' where "ring w' = ring w" "di_name (dh_info d) = Some (''crypt_'' @ ae_uuid A u)"
    "stat S (partition_path A u) v = (Inr st, v')"
    "opened w' (IdName (''crypt_'' @ ae_uuid A u)) = Some [(0, sz, ''crypt'',
       crypt_params \<lparr>tb_start = 0, tb_len = sz, tb_params = params, tb_offset = 0\<rparr>
         (MajorMinor (ae_major A st) (ae_minor A st)) key)]"
proof -
  let ?n = "''crypt_'' @ ae_uuid A u" and ?o = "\<lambda>w. (ring w, opened w)"
  from decrypt_run [OF assms(3)] obtain sz st dir w1 w2 w3 w4 w5 w6 w7 where
    run: "stat S (partition_path A u) w = (Inr st, w1)" "read_device_size S (partition_path A u) w1 = (Inr sz, w2)"
      "create_device M ?n None w2 = (Inr d, w3)"
      "CryptDevice_load M d \<lparr>tb_start = 0, tb_len = sz, tb_params = params, tb_offset = 0\<rparr>
         (MajorMinor (ae_major A st) (ae_minor A st)) key w3 = (Inr (), w4)"
    and later: "device_resume M d w4 = (Inr (), w5)" "dirname dst w5 = (Inr dir, w6)" "mkdirp S dir w6 = (Inr (), w7)"
      "mknod S dst (or 0x1B6 (S_IFBLK A)) (ae_makedev A (di_major (dh_info d)) (di_minor (dh_info d))) w7 = (Inr (), w')"
    .
  have "?o w2 = ?o w"
    using keeps_obsD [OF os_keepD(2) [OF assms(2)] run(1)] keeps_obsD [OF read_device_size_keeps [OF assms(2)] run(2)] by simp
  moreover obtain m i where i: "dm_name_new M ?n = Inr m" "dm_device_create M m None w2 = (Inr i, w3)" "d = \<lparr>dh_info = i\<rparr>"
    using run(3) by (auto simp: create_device_def create_device_handle_def run_iffs)
  then have n: "di_name (dh_info d) = Some ?n" "ring w3 = ring w2"
    using crypt_lawfulD(4) [OF assms(1) i(1)] crypt_lawfulD(3) [OF assms(1) i(2)] by simp_all
  then have "dm_table_load M (IdName ?n) [(0, sz, ''crypt'', crypt_params
       \<lparr>tb_start = 0, tb_len = sz, tb_params = params, tb_offset = 0\<rparr> (MajorMinor (ae_major A st) (ae_minor A st)) key)] w3
       = (Inr (), w4)"
    using run(4) by (auto simp: CryptDevice_load_def table_load_def dev_id_def run_iffs)
  then have "ring w4 = ring w3" "opened w4 (IdName ?n) = Some [(0, sz, ''crypt'', crypt_params
       \<lparr>tb_start = 0, tb_len = sz, tb_params = params, tb_offset = 0\<rparr> (MajorMinor (ae_major A st) (ae_minor A st)) key)]"
    using crypt_lawfulD(2) [OF assms(1)] by fastforce+
  moreover have resume: "keeps_obs ?o (device_resume M d)"
    using assms(1) by (auto simp: device_resume_def intro!: obs_rules crypt_lawfulD(5))
  have "?o w' = ?o w4"
    using keeps_obsD [OF resume later(1)] keeps_obsD [OF os_keepD(11) [OF assms(2)] later(2)]
      keeps_obsD [OF os_keepD(1) [OF assms(2)] later(3)] keeps_obsD [OF os_keepD(5) [OF assms(2)] later(4)] by simp
  ultimately show thesis using n run(1) by (intro that [of w st w1 sz]) simp_all
qed

text \<open>What the set-up leaves in the kernel for the data partition.\<close>

lemma app_setup_data_key:
  assumes "crypt_lawful S M ring opened" and "os_others_keep S (\<lambda>w. (ring w, opened w))" and "oci_keep X (\<lambda>w. (ring w, opened w))"
    and "app_setup S M C X A params l keyseal (a, w) = (Inr h, (a', w'))"
  obtains md k d1 d2 sz st u u' v v' where
    "launcher_install S X l (path_push (path_push (app_workdir a) ''image'') ''root'') (info_image_registry (app_info a))
       (info_name (app_info a)) (info_version (app_info a)) u = (Inr md, u')"
    "a' = set_up a [d1, d2] md" "di_name (dh_info d2) = Some (''crypt_'' @ ae_uuid A (info_data_part_uuid (app_info a)))"
    "sealing_seal C keyseal (vendor_data md) (image_hash md) = Inr k"
    "ring w' (SUBCLASS @ '':'' @ ae_uuid A (info_data_part_uuid (app_info a))) =
       Some (sealing_key_of C k (as_bytes (info_name (app_info a))))"
    "stat S (partition_path A (info_data_part_uuid (app_info a))) v = (Inr st, v')"
    "opened w' (IdName (''crypt_'' @ ae_uuid A (info_data_part_uuid (app_info a)))) = Some [(0, sz, ''crypt'',
       crypt_params \<lparr>tb_start = 0, tb_len = sz, tb_params = params, tb_offset = 0\<rparr> (MajorMinor (ae_major A st) (ae_minor A st))
         (KeyringKey (of_nat (length (sealing_key_of C k (as_bytes (info_name (app_info a)))))) Logon
            (SUBCLASS @ '':'' @ ae_uuid A (info_data_part_uuid (app_info a)))))]"
proof (rule app_setup_run [OF assms(4)], goal_cases)
  case (1 d1 d2 k1 k2 key' md w1 w2 w3 w4 w5 w6 w7 w8 w9 w10 w11 w12)
  let ?o = "\<lambda>w. (ring w, opened w)"
  note r = 1(2-16)
  have mount: "keeps_obs ?o (go_mount S src dst fs opt)" for src dst fs opt
    using assms(1) by (rule crypt_lawfulD(6))
  note mk = keeps_obsD [OF os_keepD(1) [OF assms(2)]]
  have later: "?o w' = ?o w7"
    using keeps_obsD [OF mounts_keep(3) [OF assms(2) mount] r(9)] mk [OF r(10)] mk [OF r(11)] mk [OF r(12)]
      keeps_obsD [OF mounts_keep(2) [OF assms(2) mount] r(13)]
      keeps_obsD [OF launcher_prepare_keeps [OF assms(2,3)] r(14)] by simp
  note k2 = derive_key_for_run(2) [OF r(7)]
  from decrypt_opened [OF assms(1,2) r(8)] obtain sz st v v' where d: "ring w7 = ring w6"
    "di_name (dh_info d2) = Some (''crypt_'' @ ae_uuid A (info_data_part_uuid (app_info a)))"
    "stat S (partition_path A (info_data_part_uuid (app_info a))) v = (Inr st, v')"
    "opened w7 (IdName (''crypt_'' @ ae_uuid A (info_data_part_uuid (app_info a)))) = Some [(0, sz, ''crypt'',
       crypt_params \<lparr>tb_start = 0, tb_len = sz, tb_params = params, tb_offset = 0\<rparr>
         (MajorMinor (ae_major A st) (ae_minor A st)) k2)]" .
  show thesis
    by (rule 1(1) [OF r(5) r(15) d(2) r(6) _ d(3), of sz])
      (use later d derive_key_ring [OF assms(1) r(7)] k2 in simp_all)
qed

end
