(* ===== verification/Guest_Manager.thy ===== *)
theory Guest_Manager
  imports Guest_App
begin

text \<open>
  The application manager of a realm (\<open>app-manager/src/manager.rs\<close>, with \<open>config.rs\<close> and the
  body of \<open>main.rs\<close>): provisioning, the attestation token, the measurements, the answers to
  the requests of the daemon and the loop that reads them.

  The system going down ends the program: it is the error \<open>Inl action\<close> of the handlers.
\<close>

section \<open>Configuration\<close>

datatype LauncherType = LauncherDummy | LauncherOci OciLauncherConfig

datatype ExtendREM = Rem0 | Rem1 | Rem2 | Rem3

fun rem_as_u32 :: "ExtendREM \<Rightarrow> u32" where
  "rem_as_u32 Rem0 = 1"
| "rem_as_u32 Rem1 = 2"
| "rem_as_u32 Rem2 = 3"
| "rem_as_u32 Rem3 = 4"

record Config =
  cfg_workdir :: path
  cfg_vsock_port :: u32
  cfg_crypto :: CryptoParams
  cfg_launcher :: LauncherType
  cfg_ca_pub :: path
  cfg_keysealing :: KeySealingType
  cfg_autostartall :: bool
  cfg_extend :: "ExtendREM option"

definition read_from_file ::
  "('c, 'w) GuestOs \<Rightarrow> (string \<Rightarrow> string + Config) \<Rightarrow> path \<Rightarrow> ('w, Error, Config) prog" where
  "read_from_file S yaml path =
     try_bind (read_to_string S path) (\<lambda>content. map_err EConfig (of_result (yaml content)))"

definition requires_rsi :: "Config \<Rightarrow> bool" where
  "requires_rsi self =
     (case (cfg_keysealing self, cfg_launcher self, cfg_extend self) of
        (HkdfSha256 (RsiSealingKey _ _), _, _) \<Rightarrow> True
      | (_, LauncherOci (RaTLS _ TokenRsi), _) \<Rightarrow> True
      | (_, _, Some _) \<Rightarrow> True
      | _ \<Rightarrow> False)"

section \<open>State\<close>

type_synonym 'p AppEntry = "GuestApplication \<times> 'p SimpleApplicationHandler"

record ('p, 'st) Manager =
  m_config :: Config
  m_apps :: "(uuid \<times> 'p AppEntry) list"
  m_conn :: 'st
  m_sealing_factory :: SealingFactory

text \<open>
  What the manager uses: the system, the crates and the runtime. \<open>join_order n w\<close> is the order in
  which \<open>n\<close> tasks finish, \<open>abort_tasks\<close> what the tasks that are dropped unfinished have done by
  then, \<open>dbg_error\<close> and \<open>dbg_os_error\<close> the derived \<open>Debug\<close> texts.
\<close>

record ('c, 'p, 'x, 'i, 'ic, 'st, 'w) GuestEnv =
  g_os :: "('c, 'w) GuestOs"
  g_dm :: "'w DmOps"
  g_crypto :: "'w CryptoOps"
  g_oci :: "('x, 'i, 'ic, 'w) OciOps"
  g_child :: "('p, 'w) ChildOps"
  g_sched :: "'w Sched"
  g_app :: AppEnv
  g_frame :: "('st, Request, Response, 'w) FrameOps"
  vsock_connect :: "u32 \<Rightarrow> ('w, io_error, 'st) prog"
  measurement_extend :: "u32 \<Rightarrow> bytes \<Rightarrow> ('w, errno, unit) prog"
  MAX_MEASUR_LEN :: nat
  join_order :: "nat \<Rightarrow> 'w \<Rightarrow> nat list"
  abort_tasks :: "uuid list \<Rightarrow> 'w \<Rightarrow> 'w"
  dbg_error :: "Error \<Rightarrow> string"
  dbg_os_error :: "OsError \<Rightarrow> string"

definition RSI_KO :: path where "RSI_KO = ''/lib/modules/rsi.ko''"

definition Manager_new ::
  "('c, 'p, 'x, 'i, 'ic, 'st, 'w) GuestEnv \<Rightarrow> Config \<Rightarrow> ('w, Error, ('p, 'st) Manager) prog" where
  "Manager_new E config =
     try_bind (if requires_rsi config then insmod (g_os E) RSI_KO [] else ok ()) (\<lambda>_.
     try_bind (map_err (\<lambda>e. EManager (VsockConnectionError e)) (vsock_connect E (cfg_vsock_port config))) (\<lambda>conn.
     try_bind (case cfg_keysealing config of
        KsDummy \<Rightarrow> ok (FDummy [0x11, 0x22, 0x33])
      | HkdfSha256 ikm_source \<Rightarrow> HkdfSealingFactory_new (g_crypto E) ikm_source) (\<lambda>factory.
     ok \<lparr>m_config = config, m_apps = [], m_conn = conn, m_sealing_factory = factory\<rparr>)))"

section \<open>Provisioning\<close>

definition make_launcher ::
  "('c, 'p, 'x, 'i, 'ic, 'st, 'w) GuestEnv \<Rightarrow> Config \<Rightarrow> ('w, Error, 'x LauncherBox) prog" where
  "make_launcher E config =
     (case cfg_launcher config of
        LauncherDummy \<Rightarrow> ok LDummy
      | LauncherOci cfg \<Rightarrow>
          try_bind (read_to_vec (g_os E) (cfg_ca_pub config)) (\<lambda>ca.
          try_bind (of_result (EcdsaKey_import (g_oci E) ca)) (\<lambda>ca_key.
          ok (LOci (from_oci_config cfg ca_key)))))"

definition make_keyseal :: "SealingFactory \<Rightarrow> Sealing" where
  "make_keyseal factory = create_sealing factory"

text \<open>
  A spawned task: what its closure captures. The tasks run beside each other, each on partitions
  and directories of its own; here a task runs as one step, at the moment it is joined.
\<close>

record 'x SetupTask =
  st_info :: ApplicationInfo
  st_dir :: path
  st_launcher :: "'x LauncherBox"
  st_keyseal :: Sealing

definition with_app ::
  "GuestApplication \<Rightarrow> (GuestApplication \<times> 'w, Error, 'h) prog \<Rightarrow> ('w, Error, GuestApplication \<times> 'h) prog" where
  "with_app app m w = (case m (app, w) of (r, (app', w')) \<Rightarrow> (map_sum id (Pair app') r, w'))"

definition run_setup_task ::
  "('c, 'p, 'x, 'i, 'ic, 'st, 'w) GuestEnv \<Rightarrow> CryptoParams \<Rightarrow> 'x SetupTask \<Rightarrow> ('w, Error, 'p AppEntry) prog" where
  "run_setup_task E params t =
     try_bind (Application_new (g_dm E) (st_info t) (st_dir t)) (\<lambda>app.
     with_app app (app_setup (g_os E) (g_dm E) (g_crypto E) (g_oci E) (g_app E) params (st_launcher t) (st_keyseal t)))"

fun spawn_tasks ::
  "('c, 'p, 'x, 'i, 'ic, 'st, 'w) GuestEnv \<Rightarrow> Config \<Rightarrow> SealingFactory \<Rightarrow> 'x SetupTask list \<Rightarrow>
   ApplicationInfo list \<Rightarrow> ('w, Error, 'x SetupTask list) prog" where
  "spawn_tasks E config factory spawned [] = ok spawned"
| "spawn_tasks E config factory spawned (info # rest) =
     attempt (make_launcher E config) (\<lambda>r.
     case r of
       Inl e \<Rightarrow>
         try_bind (upd (abort_tasks E (map (\<lambda>t. info_id (st_info t)) spawned))) (\<lambda>_. fail e)
     | Inr launcher \<Rightarrow>
         spawn_tasks E config factory
           (spawned @ [\<lparr>st_info = info, st_dir = path_push (cfg_workdir config) (ae_uuid (g_app E) (info_id info)),
                        st_launcher = launcher, st_keyseal = make_keyseal factory\<rparr>]) rest)"

fun join_setup_tasks ::
  "('c, 'p, 'x, 'i, 'ic, 'st, 'w) GuestEnv \<Rightarrow> CryptoParams \<Rightarrow> 'x SetupTask list \<Rightarrow>
   (('p, 'st) Manager \<times> 'w, Error, unit) prog" where
  "join_setup_tasks E params [] = ok ()"
| "join_setup_tasks E params (t # ts) =
     attempt (in_world (run_setup_task E params t)) (\<lambda>result.
     case result of
       Inl e \<Rightarrow>
         try_bind (in_world (upd (abort_tasks E (map (\<lambda>t. info_id (st_info t)) ts)))) (\<lambda>_. fail e)
     | Inr (app, handler) \<Rightarrow>
         try_bind (upd (\<lambda>(m, w). (m\<lparr>m_apps := hm_insert (app_id app) (app, handler) (m_apps m)\<rparr>, w))) (\<lambda>_.
         join_setup_tasks E params ts))"

text \<open>\<^verbatim>\<open>slice::chunks\<close>; with a size of zero the library panics, which \<open>MAX_MEASUR_LEN\<close> rules out.\<close>

function chunks :: "nat \<Rightarrow> 'a list \<Rightarrow> 'a list list" where
  "chunks n xs = (if xs = [] \<or> n = 0 then [] else take n xs # chunks n (drop n xs))"
  by pat_completeness auto
termination by (relation "measure (\<lambda>(n, xs). length xs)") auto

declare chunks.simps [simp del]

definition extend_rem ::
  "('c, 'p, 'x, 'i, 'ic, 'st, 'w) GuestEnv \<Rightarrow> Config \<Rightarrow> bytes \<Rightarrow> ('w, Error, unit) prog" where
  "extend_rem E config data =
     (case cfg_extend config of
        None \<Rightarrow> ok ()
      | Some rem \<Rightarrow>
          if data = [] then fail (EManager AppHasNoMeasurements)
          else for_each (\<lambda>chunk. map_err (\<lambda>e. EManager (RemExtensionError e))
                  (measurement_extend E (rem_as_u32 rem) chunk)) (chunks (MAX_MEASUR_LEN E) data))"

definition measure_app ::
  "('c, 'p, 'x, 'i, 'ic, 'st, 'w) GuestEnv \<Rightarrow> ApplicationInfo \<Rightarrow> (('p, 'st) Manager \<times> 'w, Error, unit) prog" where
  "measure_app E info =
     try_bind (get (\<lambda>(m, w). (m_config m, hm_get (m_apps m) (info_id info)))) (\<lambda>(config, entry).
     try_bind (of_result (ok_or (EManager (AppNotFound (info_id info))) entry)) (\<lambda>(app, _).
     in_world (extend_rem E config (app_measurements app))))"

text \<open>Running a method of the handler that is stored under an identifier.\<close>

definition with_handler ::
  "uuid \<Rightarrow> ('p SimpleApplicationHandler \<times> 'w, 'e, 'a) prog \<Rightarrow> (('p, 'st) Manager \<times> 'w, 'f, ('e + 'a) option) prog" where
  "with_handler i op s =
     (case s of (m, w) \<Rightarrow>
      (case hm_get (m_apps m) i of
         None \<Rightarrow> (Inr None, (m, w))
       | Some (app, h) \<Rightarrow>
           (case op (h, w) of
              (r, (h', w')) \<Rightarrow> (Inr (Some r), (m\<lparr>m_apps := hm_insert i (app, h') (m_apps m)\<rparr>, w')))))"

definition autostart ::
  "('c, 'p, 'x, 'i, 'ic, 'st, 'w) GuestEnv \<Rightarrow> uuid \<Rightarrow> (('p, 'st) Manager \<times> 'w, Error, unit) prog" where
  "autostart E i =
     try_bind (with_handler i (handler_start (g_child E))) (\<lambda>r.
     case r of Some (Inl e) \<Rightarrow> fail e | _ \<Rightarrow> ok ())"

definition provision ::
  "('c, 'p, 'x, 'i, 'ic, 'st, 'w) GuestEnv \<Rightarrow> ApplicationInfo list \<Rightarrow> (('p, 'st) Manager \<times> 'w, Error, unit) prog" where
  "provision E apps_info =
     try_bind (get (\<lambda>(m, w). (m_apps m, m_config m, m_sealing_factory m))) (\<lambda>(apps, config, factory).
     if apps \<noteq> [] then fail (EManager AlreadyProvisioned)
     else
       try_bind (in_world (spawn_tasks E config factory [] apps_info)) (\<lambda>tasks.
       try_bind (get (\<lambda>(m, w). join_order E (length tasks) w)) (\<lambda>order.
       try_bind (join_setup_tasks E (cfg_crypto config) (map (nth tasks) order)) (\<lambda>_.
       try_bind (for_each (measure_app E) apps_info) (\<lambda>_.
       if cfg_autostartall config
       then try_bind (get (\<lambda>(m, w). hm_keys (m_apps m))) (for_each (autostart E))
       else ok ())))))"

section \<open>Requests\<close>

definition read_attestation_token ::
  "('c, 'p, 'x, 'i, 'ic, 'st, 'w) GuestEnv \<Rightarrow> bytes \<Rightarrow> (('p, 'st) Manager \<times> 'w, Error, bytes) prog" where
  "read_attestation_token E challenge =
     try_bind (get (\<lambda>(m, w). cfg_launcher (m_config m))) (\<lambda>launcher.
     case launcher of
       LauncherOci (RaTLS _ TokenRsi) \<Rightarrow>
         if length challenge \<noteq> 64 then fail (EManager InvalidChallengeSize)
         else in_world (map_err (\<lambda>e. EManager (RsiTokenFetch e)) (rsi_attestation_token (g_oci E) challenge))
     | LauncherOci (RaTLS _ (TokenFile path)) \<Rightarrow> in_world (read_to_vec (g_os E) path)
     | _ \<Rightarrow> fail (EManager RaTlsIsNotSelected))"

fun shutdown_apps ::
  "('c, 'p, 'x, 'i, 'ic, 'st, 'w) GuestEnv \<Rightarrow> (uuid \<times> 'p AppEntry) list \<Rightarrow> 'w \<Rightarrow> (uuid \<times> 'p AppEntry) list \<times> 'w" where
  "shutdown_apps E [] w = ([], w)"
| "shutdown_apps E ((i, (app, h)) # rest) w =
     (case handler_stop (g_child E) (g_sched E) (h, w) of (_, (h', w)) \<Rightarrow>
     (case app_cleanup (g_os E) (g_dm E) (app, w) of (_, (app', w)) \<Rightarrow>
     (case shutdown_apps E rest w of (rest', w) \<Rightarrow> ((i, (app', h')) # rest', w))))"

definition shutdown_all_apps ::
  "('c, 'p, 'x, 'i, 'ic, 'st, 'w) GuestEnv \<Rightarrow> (('p, 'st) Manager \<times> 'w, 'e, unit) prog" where
  "shutdown_all_apps E =
     upd (\<lambda>(m, w). case shutdown_apps E (m_apps m) w of (apps, w') \<Rightarrow> (m\<lparr>m_apps := apps\<rparr>, w'))"

definition perform_reboot ::
  "('c, 'p, 'x, 'i, 'ic, 'st, 'w) GuestEnv \<Rightarrow> SystemPowerAction \<Rightarrow>
   (('p, 'st) Manager \<times> 'w, SystemPowerAction, ProtocolError + Response) prog" where
  "perform_reboot E action =
     try_bind (shutdown_all_apps E) (\<lambda>_.
     try_bind (in_world (reboot (g_os E) action)) (\<lambda>e.
     ok (Inl (SystemPowerActionFailed (dbg_os_error E e)))))"

text \<open>An operation on the handler of an application, and the response to its result.\<close>

definition handler_request ::
  "uuid \<Rightarrow> ('p SimpleApplicationHandler \<times> 'w, Error, 'a) prog \<Rightarrow> (Error + 'a \<Rightarrow> ProtocolError + Response) \<Rightarrow>
   (('p, 'st) Manager \<times> 'w, 'f, ProtocolError + Response) prog" where
  "handler_request i op respond =
     try_bind (with_handler i op) (\<lambda>r.
     ok (case r of None \<Rightarrow> Inl ApplicationNotFound | Some r \<Rightarrow> respond r))"

definition status_response ::
  "('c, 'p, 'x, 'i, 'ic, 'st, 'w) GuestEnv \<Rightarrow> Error + u32 option \<Rightarrow> ProtocolError + Response" where
  "status_response E r =
     (case r of
        Inr (Some status) \<Rightarrow> Inr (ApplicationExited status)
      | Inr None \<Rightarrow> Inr ApplicationIsRunning
      | Inl (EHandler AppNotRunning) \<Rightarrow> Inr ApplicationNotStarted
      | Inl e \<Rightarrow> Inl (ApplicationCheckStatusFailed (dbg_error E e)))"

definition unit_response :: "(Error \<Rightarrow> ProtocolError) \<Rightarrow> Error + unit \<Rightarrow> ProtocolError + Response" where
  "unit_response f r = map_sum f (\<lambda>_. Success) r"

fun guest_handle_request ::
  "('c, 'p, 'x, 'i, 'ic, 'st, 'w) GuestEnv \<Rightarrow> Request \<Rightarrow>
   (('p, 'st) Manager \<times> 'w, SystemPowerAction, ProtocolError + Response) prog" where
  "guest_handle_request E (ProvisionInfo apps_info) =
     attempt (provision E apps_info) (\<lambda>r. ok (unit_response (\<lambda>e. ProvisioningError (dbg_error E e)) r))"
| "guest_handle_request E (GetAttestationToken challenge) =
     attempt (read_attestation_token E challenge) (\<lambda>r.
     ok (map_sum (\<lambda>e. AttestationTokenReadingError (dbg_error E e)) AttestationToken r))"
| "guest_handle_request E GetIfAddrs =
     attempt (in_world (read_if_addrs (g_os E))) (\<lambda>r.
     ok (map_sum (\<lambda>e. GetIfAddrsError (dbg_error E e)) IfAddrs r))"
| "guest_handle_request E (StartApp i) =
     handler_request i (handler_start (g_child E)) (unit_response (\<lambda>e. ApplicationLaunchFailed (dbg_error E e)))"
| "guest_handle_request E (StopApp i) =
     handler_request i (handler_stop (g_child E) (g_sched E)) (unit_response (\<lambda>e. ApplicationStopFailed (dbg_error E e)))"
| "guest_handle_request E (KillApp i) =
     handler_request i (handler_kill (g_child E) (g_sched E)) (unit_response (\<lambda>e. ApplicationKillFailed (dbg_error E e)))"
| "guest_handle_request E (CheckStatus i) =
     handler_request i (handler_try_wait (g_child E) (g_sched E)) (status_response E)"
| "guest_handle_request E Shutdown = perform_reboot E SysShutdown"
| "guest_handle_request E Reboot = perform_reboot E SysReboot"

definition handle_received_request ::
  "('c, 'p, 'x, 'i, 'ic, 'st, 'w) GuestEnv \<Rightarrow> Request \<Rightarrow> (('p, 'st) Manager \<times> 'w, SystemPowerAction, Response) prog" where
  "handle_received_request E request =
     try_bind (guest_handle_request E request) (\<lambda>r.
     ok (case r of Inr response \<Rightarrow> response | Inl e \<Rightarrow> ResponseError e))"

section \<open>The loop\<close>

definition on_conn :: "('st \<times> 'w, 'e, 'a) prog \<Rightarrow> (('p, 'st) Manager \<times> 'w, 'e, 'a) prog" where
  "on_conn op = zoom (\<lambda>(m, w). (m_conn m, w)) (\<lambda>(c, w') (m, w). (m\<lparr>m_conn := c\<rparr>, w')) op"

definition recv_msg ::
  "('c, 'p, 'x, 'i, 'ic, 'st, 'w) GuestEnv \<Rightarrow> (('p, 'st) Manager \<times> 'w, Error, Request) prog" where
  "recv_msg E = map_err (\<lambda>e. EManager (FramedJsonError e)) (on_conn (json_recv (g_frame E)))"

definition send_msg ::
  "('c, 'p, 'x, 'i, 'ic, 'st, 'w) GuestEnv \<Rightarrow> Response \<Rightarrow> (('p, 'st) Manager \<times> 'w, Error, unit) prog" where
  "send_msg E resp =
     map_err (\<lambda>e. EManager (FramedJsonError e)) (on_conn (json_send (g_frame E) resp))"

datatype LoopEnd = LoopRunning | LoopDown SystemPowerAction | LoopPanic

text \<open>One turn of the loop: \<open>LoopRunning\<close> goes on; \<open>LoopPanic\<close> is the \<^verbatim>\<open>unreachable!\<close> at its end.\<close>

definition handle_event ::
  "('c, 'p, 'x, 'i, 'ic, 'st, 'w) GuestEnv \<Rightarrow> ('p, 'st) Manager \<times> 'w \<Rightarrow> LoopEnd \<times> (('p, 'st) Manager \<times> 'w)" where
  "handle_event E s =
     (case recv_msg E s of (request, s) \<Rightarrow>
     (case (case request of
              Inr r \<Rightarrow> handle_received_request E r s
            | Inl e \<Rightarrow> (Inr (ResponseError (InvalidRequest (dbg_error E e))), s)) of
        (Inl action, s) \<Rightarrow> (LoopDown action, s)
      | (Inr response, s) \<Rightarrow>
          (case send_msg E response s of
             (Inr _, s) \<Rightarrow> (LoopRunning, s)
           | (Inl e, s) \<Rightarrow>
               (case perform_reboot E SysShutdown s of
                  (Inl action, s) \<Rightarrow> (LoopDown action, s)
                | (Inr _, s) \<Rightarrow> (LoopPanic, s)))))"

text \<open>At most \<open>n\<close> turns.\<close>

fun handle_events ::
  "('c, 'p, 'x, 'i, 'ic, 'st, 'w) GuestEnv \<Rightarrow> nat \<Rightarrow> ('p, 'st) Manager \<times> 'w \<Rightarrow> LoopEnd \<times> (('p, 'st) Manager \<times> 'w)" where
  "handle_events E 0 s = (LoopRunning, s)"
| "handle_events E (Suc n) s =
     (case handle_event E s of
        (LoopRunning, s') \<Rightarrow> handle_events E n s'
      | (e, s') \<Rightarrow> (e, s'))"

text \<open>\<open>main\<close>: an error before the loop ends the program with that error.\<close>

definition guest_main ::
  "('c, 'p, 'x, 'i, 'ic, 'st, 'w) GuestEnv \<Rightarrow> (string \<Rightarrow> string + Config) \<Rightarrow> path \<Rightarrow> nat \<Rightarrow> ('w, Error, LoopEnd) prog" where
  "guest_main E yaml path n =
     try_bind (read_from_file (g_os E) yaml path) (\<lambda>config.
     try_bind (Manager_new E config) (\<lambda>manager w.
     case handle_events E n (manager, w) of (r, (m, w')) \<Rightarrow> (Inr r, w')))"

section \<open>Measurements\<close>

lemma concat_chunks: "0 < n \<Longrightarrow> concat (chunks n xs) = xs"
  by (induction n xs rule: chunks.induct) (simp add: chunks.simps)

lemma chunks_size: "c \<in> set (chunks n xs) \<Longrightarrow> c \<noteq> [] \<and> length c \<le> n"
  by (induction n xs rule: chunks.induct) (subst (asm) (2) chunks.simps, auto split: if_splits)

text \<open>\<open>log\<close> is the history of a measurement register: an extension that succeeds adds its data at the end.\<close>

definition rem_lawful :: "('c, 'p, 'x, 'i, 'ic, 'st, 'w) GuestEnv \<Rightarrow> ('w \<Rightarrow> (u32 \<times> bytes) list) \<Rightarrow> bool" where
  "rem_lawful E log \<longleftrightarrow>
     (\<forall>r c w x w'. measurement_extend E r c w = (x, w') \<longrightarrow> log w' = (if isl x then log w else log w @ [(r, c)]))"

lemma extend_chunks_log:
  assumes "rem_lawful E log"
    and "for_each (\<lambda>chunk. map_err f (measurement_extend E r chunk)) cs w = (Inr u, w')"
  shows "log w' = log w @ map (Pair r) cs"
  using assms(2)
proof (induction cs arbitrary: w)
  case Nil
  then show ?case by (simp add: ok_iff)
next
  case (Cons c cs)
  then obtain w1 where "measurement_extend E r c w = (Inr (), w1)" "log w' = log w1 @ map (Pair r) cs"
    by (auto simp: try_bind_Inr_iff)
  then show ?case using assms(1) by (auto simp: rem_lawful_def)
qed

definition extension :: "('c, 'p, 'x, 'i, 'ic, 'st, 'w) GuestEnv \<Rightarrow> Config \<Rightarrow> bytes \<Rightarrow> (u32 \<times> bytes) list" where
  "extension E config data =
     (case cfg_extend config of
        None \<Rightarrow> []
      | Some rem \<Rightarrow> map (Pair (rem_as_u32 rem)) (chunks (MAX_MEASUR_LEN E) data))"

lemma extend_rem_log:
  assumes "rem_lawful E log" and "extend_rem E config data w = (Inr u, w')"
  shows "log w' = log w @ extension E config data"
  using assms
  by (auto simp: extend_rem_def extension_def ok_iff fail_iff dest: extend_chunks_log split: option.splits if_splits)

text \<open>Only the registers change: the operations of the set-up leave the history.\<close>

definition log_kept :: "('c, 'p, 'x, 'i, 'ic, 'st, 'w) GuestEnv \<Rightarrow> ('w \<Rightarrow> 'o) \<Rightarrow> bool" where
  "log_kept E log \<longleftrightarrow>
     os_others_keep (g_os E) log \<and> dm_others_keep (g_dm E) log \<and> oci_keep (g_oci E) log \<and>
     (\<forall>a b c d. keeps_obs log (go_mount (g_os E) a b c d)) \<and>
     (\<forall>n u. keeps_obs log (dm_device_create (g_dm E) n u)) \<and> keeps_obs log (dm_new (g_dm E)) \<and>
     keeps_obs log (kr_attach (g_dm E)) \<and> (\<forall>p. keeps_obs log (go_read (g_os E) p)) \<and>
     (\<forall>sp. keeps_obs log (co_spawn (g_child E) sp)) \<and>
     keeps_obs (\<lambda>(p, w). log w) (co_wait (g_child E)) \<and> keeps_obs (\<lambda>(p, w). log w) (co_kill (g_child E)) \<and>
     (\<forall>is w. log (abort_tasks E is w) = log w)"

lemma obs_in_world [obs_rules]: "keeps_obs log m \<Longrightarrow> keeps_obs (\<lambda>(x, w). log w) (in_world m)"
  by (auto simp: keeps_obs_def in_world_def zoom_def split: prod.splits) (metis snd_conv)

lemma obs_upd: "(\<And>s. obs (f s) = obs s) \<Longrightarrow> keeps_obs obs (upd f)"
  by (simp add: keeps_obs_def upd_def)

lemma obs_for_each [obs_rules]: "(\<And>x. keeps_obs obs (f x)) \<Longrightarrow> keeps_obs obs (for_each f xs)"
  by (induction xs) (auto intro!: obs_rules)

lemma app_setup_log:
  assumes "log_kept E log"
  shows "keeps_obs (\<lambda>(a, w). log w)
    (app_setup (g_os E) (g_dm E) (g_crypto E) (g_oci E) (g_app E) params l k)"
proof -
  have os: "os_others_keep (g_os E) log" and dm: "dm_others_keep (g_dm E) log" and oci: "oci_keep (g_oci E) log"
    using assms by (simp_all add: log_kept_def)
  have mounts: "keeps_obs log (go_mount (g_os E) src dst fs opt)" for src dst fs opt
    using assms by (simp add: log_kept_def)
  note mount = mounts_keep [OF os mounts]
  have create: "keeps_obs log (create_device (g_dm E) n u)" for n u
    using assms
    by (auto simp: create_device_def create_device_handle_def log_kept_def intro!: obs_rules split: option.split)
  have decrypt: "keeps_obs log (decrypt_partition (g_os E) (g_dm E) (g_app E) u params key dst)" for u key dst
    by (auto simp: decrypt_partition_def Let_def create os_keepD [OF os] dm_keepD [OF dm] read_device_size_keeps [OF os]
        intro!: obs_rules split: prod.split)
  show ?thesis
    unfolding app_setup_def Let_def
    by (auto simp: push_device_def extend_measurements_def mount decrypt os_keepD [OF os] dm_keepD [OF dm]
        launcher_install_keeps [OF os oci] launcher_prepare_keeps [OF os oci] intro!: obs_rules obs_upd split: prod.split)
qed

lemma with_app_iff: "with_app a m w = (Inr (a', h), w') \<longleftrightarrow> m (a, w) = (Inr h, (a', w'))"
  by (auto simp: with_app_def split: prod.splits)

lemma obs_with_app:
  assumes "keeps_obs (\<lambda>(a, w). log w) m"
  shows "keeps_obs log (with_app app m)"
  unfolding keeps_obs_def
proof
  fix w
  obtain r a' w' where run: "m (app, w) = (r, (a', w'))" by (metis surj_pair)
  from keeps_obsD [OF assms run] run show "log (snd (with_app app m w)) = log w" by (simp add: with_app_def)
qed

lemma run_setup_task_log:
  assumes "log_kept E log"
  shows "keeps_obs log (run_setup_task E params t)"
proof -
  have "keeps_obs log (Application_new (g_dm E) info d)" for info d
    using assms
    by (auto simp: Application_new_def DeviceMapper_init_def KernelKeyring_new_def log_kept_def intro!: obs_rules)
  then show ?thesis
    unfolding run_setup_task_def by (auto intro!: obs_rules obs_with_app app_setup_log [OF assms])
qed

section \<open>The manager keeps its applications in order\<close>

text \<open>
  An entry is stored under the identifier of its application, works in the directory of that
  identifier, has a handler that is consistent, and runs nothing outside its overlay.
\<close>

definition entry_ok :: "('c, 'p, 'x, 'i, 'ic, 'st, 'w) GuestEnv \<Rightarrow> Config \<Rightarrow> uuid \<times> 'p AppEntry \<Rightarrow> bool" where
  "entry_ok E config entry \<longleftrightarrow>
     (case entry of (i, (app, h)) \<Rightarrow>
        app_id app = i \<and> app_workdir app = path_push (cfg_workdir config) (ae_uuid (g_app E) i) \<and> sah_wf h \<and>
        argv (sah_config h) \<noteq> [] \<and> (\<exists>sub. chroot (sah_config h) = Some (path_push (app_workdir app) ''overlay'' @ sub)))"

definition mgr_inv :: "('c, 'p, 'x, 'i, 'ic, 'st, 'w) GuestEnv \<Rightarrow> Config \<Rightarrow> ('p, 'st) Manager \<times> 'w \<Rightarrow> bool" where
  "mgr_inv E config s \<longleftrightarrow>
     m_config (fst s) = config \<and> hm_wf (m_apps (fst s)) \<and> (\<forall>x \<in> set (m_apps (fst s)). entry_ok E config x)"

lemma set_hm_insert: "set (hm_insert k v m) \<subseteq> insert (k, v) (set m)"
  by (induction m) auto

lemma mgr_inv_insert:
  assumes "mgr_inv E config (m, w)" and "entry_ok E config (i, x)"
  shows "mgr_inv E config (m\<lparr>m_apps := hm_insert i x (m_apps m)\<rparr>, w')"
  using assms set_hm_insert [of i x "m_apps m"] by (auto simp: mgr_inv_def)

lemma run_setup_task_entry:
  assumes "run_setup_task E params t w = (Inr (app, h), w')"
    and "st_dir t = path_push (cfg_workdir config) (ae_uuid (g_app E) (info_id (st_info t)))"
  shows "entry_ok E config (app_id app, (app, h))" and "app_id app = info_id (st_info t)"
proof -
  from assms(1) obtain a w1 where
    new: "a = \<lparr>app_info = st_info t, app_workdir = st_dir t, app_devices = [], app_measurements = []\<rparr>"
    and run: "app_setup (g_os E) (g_dm E) (g_crypto E) (g_oci E) (g_app E) params (st_launcher t) (st_keyseal t) (a, w1) =
      (Inr h, (app, w'))"
    by (auto simp: run_setup_task_def Application_new_def with_app_iff run_iffs)
  from run show "entry_ok E config (app_id app, (app, h))" and "app_id app = info_id (st_info t)"
  proof (atomize (full), rule app_setup_run, goal_cases)
    case (1 d1 d2 k1 k2 key' md w1 w2 w3 w4 w5 w6 w7 w8 w9 w10 w11 w12)
    then show ?case
      using launch.prepare_confined [OF 1(14)] launch.prepared_wf [OF 1(14)] new assms(2)
      by (auto simp: entry_ok_def set_up_def app_id_def)
  qed
qed

lemma spawn_tasks_Inr:
  assumes "spawn_tasks E config factory spawned infos w = (Inr ts, w')"
    and "\<forall>t \<in> set spawned. st_dir t = path_push (cfg_workdir config) (ae_uuid (g_app E) (info_id (st_info t)))"
  shows "map st_info ts = map st_info spawned @ infos"
    and "\<forall>t \<in> set ts. st_dir t = path_push (cfg_workdir config) (ae_uuid (g_app E) (info_id (st_info t)))"
proof -
  from assms have "map st_info ts = map st_info spawned @ infos \<and>
    (\<forall>t \<in> set ts. st_dir t = path_push (cfg_workdir config) (ae_uuid (g_app E) (info_id (st_info t))))"
  proof (induction E config factory spawned infos arbitrary: w rule: spawn_tasks.induct)
    case (1 E config factory spawned)
    then show ?case by (auto simp: ok_iff)
  next
    case (2 E config factory spawned info rest)
    obtain r w1 where r: "make_launcher E config w = (r, w1)" by (cases "make_launcher E config w")
    show ?case
    proof (cases r)
      case (Inl e)
      then show ?thesis using 2(2) r by (simp add: attempt_def prog_defs)
    next
      case (Inr l)
      let ?t = "\<lparr>st_info = info, st_dir = path_push (cfg_workdir config) (ae_uuid (g_app E) (info_id info)),
                 st_launcher = l, st_keyseal = make_keyseal factory\<rparr>"
      have "spawn_tasks E config factory (spawned @ [?t]) rest w1 = (Inr ts, w')"
        using 2(2) r Inr by (simp add: attempt_def)
      from 2(1) [OF this] 2(3) show ?thesis by simp
    qed
  qed
  then show "map st_info ts = map st_info spawned @ infos"
    and "\<forall>t \<in> set ts. st_dir t = path_push (cfg_workdir config) (ae_uuid (g_app E) (info_id (st_info t)))" by blast+
qed

lemma join_setup_tasks_step:
  "join_setup_tasks E params (t # ts) (m, w) =
     (case run_setup_task E params t w of
        (Inl e, w') \<Rightarrow> (Inl e, (m, abort_tasks E (map (\<lambda>t. info_id (st_info t)) ts) w'))
      | (Inr (app, h), w') \<Rightarrow>
          join_setup_tasks E params ts (m\<lparr>m_apps := hm_insert (app_id app) (app, h) (m_apps m)\<rparr>, w'))"
  by (auto simp: attempt_def in_world_run try_bind_def upd_def fail_def split: prod.splits sum.splits)

lemma join_setup_tasks_keeps:
  assumes "\<forall>t \<in> set ts. st_dir t = path_push (cfg_workdir config) (ae_uuid (g_app E) (info_id (st_info t)))"
    and "mgr_inv E config (m, w)" and "join_setup_tasks E params ts (m, w) = (r, s)"
  shows "mgr_inv E config s"
  using assms
proof (induction ts arbitrary: m w)
  case Nil
  then show ?case by (simp add: ok_iff)
next
  case (Cons t ts)
  obtain x w1 where x: "run_setup_task E params t w = (x, w1)" by (cases "run_setup_task E params t w")
  show ?case
  proof (cases x)
    case (Inl e)
    then show ?thesis using Cons.prems(2,3) x by (simp add: join_setup_tasks_step mgr_inv_def del: join_setup_tasks.simps) auto
  next
    case (Inr y)
    obtain app h where y: "y = (app, h)" by (cases y)
    from run_setup_task_entry(1) [of E params t w app h w1 config] Cons.prems(1) x Inr y
    have "entry_ok E config (app_id app, (app, h))" by simp
    then have "mgr_inv E config (m\<lparr>m_apps := hm_insert (app_id app) (app, h) (m_apps m)\<rparr>, w1)"
      by (rule mgr_inv_insert [OF Cons.prems(2)])
    then show ?thesis
      using Cons.IH Cons.prems(1,3) x Inr y by (simp add: join_setup_tasks_step del: join_setup_tasks.simps)
  qed
qed

text \<open>Calls of a handler keep its configuration and its consistency.\<close>

definition handler_safe :: "('p SimpleApplicationHandler \<times> 'w, 'e, 'a) prog \<Rightarrow> bool" where
  "handler_safe op \<longleftrightarrow>
     (\<forall>h w r h' w'. op (h, w) = (r, (h', w')) \<longrightarrow> sah_wf h \<longrightarrow> sah_wf h' \<and> sah_config h' = sah_config h)"

lemma handler_safeD:
  "handler_safe op \<Longrightarrow> op (h, w) = (r, (h', w')) \<Longrightarrow> sah_wf h \<longrightarrow> sah_wf h' \<and> sah_config h' = sah_config h"
  unfolding handler_safe_def by blast

lemma config_kept:
  "keeps (\<lambda>(h, w). sah_config h = c) (transaction CO S req)"
  "keeps (\<lambda>(h, w). sah_config h = c) join_handler_thread"
  unfolding transaction_def join_handler_thread_def set_thread_def
  by (auto intro!: keeps_rules keeps_upd split: option.split bool.split WardenTask.split)

lemma config_kept_ops:
  "keeps (\<lambda>(h, w). sah_config h = c) (handler_stop CO S)" "keeps (\<lambda>(h, w). sah_config h = c) (handler_kill CO S)"
  "keeps (\<lambda>(h, w). sah_config h = c) (handler_try_wait CO S)" "keeps (\<lambda>(h, w). sah_config h = c) (handler_start CO)"
  unfolding handler_stop_def handler_kill_def handler_try_wait_def handler_start_def
  by (auto intro!: keeps_rules keeps_upd config_kept split: HResponse.split option.split list.split)

lemma handler_safeI:
  assumes "\<And>c. keeps (\<lambda>(h, w). sah_config h = c) op"
    and "\<And>h w r h' w'. sah_wf h \<Longrightarrow> op (h, w) = (r, (h', w')) \<Longrightarrow> sah_wf h'"
  shows "handler_safe op"
  unfolding handler_safe_def using assms(2) keepsD [OF assms(1)] by fastforce

lemma handler_ops_safe:
  assumes "child_lawful CO pid live"
  shows "handler_safe (handler_start CO)" "handler_safe (handler_stop CO S)" "handler_safe (handler_kill CO S)"
    "handler_safe (handler_try_wait CO S)"
proof -
  show "handler_safe (handler_start CO)"
  proof (rule handler_safeI [OF config_kept_ops(4)])
    fix h w r h' w'
    assume "sah_wf h" and run: "handler_start CO (h, w) = (r, (h', w'))"
    then show "sah_wf h'" using start_outcome [OF assms run] by (cases "isl r") (auto simp: sah_wf_def)
  qed
  show "handler_safe (handler_stop CO S)"
    by (rule handler_safeI [OF config_kept_ops(1)]) (auto simp: stop_kill_with intro: stop_with_wf [OF assms, of _ HStop])
  show "handler_safe (handler_kill CO S)"
    by (rule handler_safeI [OF config_kept_ops(2)]) (auto simp: stop_kill_with intro: stop_with_wf [OF assms, of _ HKill])
  show "handler_safe (handler_try_wait CO S)"
  proof (rule handler_safeI [OF config_kept_ops(3)])
    fix h w r h' w'
    assume "sah_wf h" and run: "handler_try_wait CO S (h, w) = (r, (h', w'))"
    then show "sah_wf h'"
      using try_wait_idle [of h CO S w] try_wait_outcome(1) [OF assms, of h _ S w r h' w'] by (cases "sah_thread h") auto
  qed
qed

text \<open>Every request keeps the invariant, on every path.\<close>

lemma with_handler_keeps:
  assumes "handler_safe op"
  shows "keeps (mgr_inv E config) (with_handler i op)"
proof (rule keepsI)
  fix s r t
  assume inv: "mgr_inv E config s" and run: "with_handler i op s = (r, t)"
  obtain m w where s: "s = (m, w)" by (cases s)
  show "mgr_inv E config t"
  proof (cases "hm_get (m_apps m) i")
    case None
    then show ?thesis using run inv s by (simp add: with_handler_def)
  next
    case (Some e)
    obtain app h where e: "e = (app, h)" by (cases e)
    obtain x h' w' where op: "op (h, w) = (x, (h', w'))" by (metis surj_pair)
    have "entry_ok E config (i, (app, h))"
      using inv s Some e by (auto simp: mgr_inv_def dest: map_of_SomeD)
    moreover have "sah_wf h \<longrightarrow> sah_wf h' \<and> sah_config h' = sah_config h" using assms op by (rule handler_safeD)
    ultimately have "entry_ok E config (i, (app, h'))" by (auto simp: entry_ok_def)
    then show ?thesis using run s Some e op mgr_inv_insert [OF inv [unfolded s]] by (auto simp: with_handler_def)
  qed
qed

lemma mgr_inv_world: "mgr_inv E config (m, w) \<Longrightarrow> mgr_inv E config (m, w')"
  by (simp add: mgr_inv_def)

lemma keeps_world [keeps_rules]: "keeps (mgr_inv E config) (in_world m)"
  by (rule keeps_in_world) (rule mgr_inv_world)

lemma autostart_keeps: "child_lawful (g_child E) pid live \<Longrightarrow> keeps (mgr_inv E config) (autostart E i)"
  unfolding autostart_def
  by (auto intro!: keeps_rules with_handler_keeps handler_ops_safe split: option.split sum.split)

lemma provision_keeps:
  assumes "child_lawful (g_child E) pid live"
    and "\<And>n w. set (join_order E n w) \<subseteq> {..<n}"
  shows "keeps (mgr_inv E config) (provision E infos)"
proof (rule keepsI)
  fix s r t
  assume inv: "mgr_inv E config s" and run: "provision E infos s = (r, t)"
  obtain m w where s: "s = (m, w)" by (cases s)
  have c: "m_config m = config" using inv s by (simp add: mgr_inv_def)
  define final where "final = (if cfg_autostartall config
       then try_bind (get (\<lambda>(m, w). hm_keys (m_apps m))) (for_each (autostart E)) else ok ())"
  have rest: "keeps (mgr_inv E config) (try_bind (for_each (measure_app E) infos) (\<lambda>_. final))"
    unfolding final_def measure_app_def
    by (auto intro!: keeps_rules autostart_keeps [OF assms(1)] split: prod.split)
  show "mgr_inv E config t"
  proof (cases "m_apps m = []")
    case False
    then show ?thesis using run inv s by (simp add: provision_def prog_defs)
  next
    case True
    obtain x w1 where x: "spawn_tasks E config (m_sealing_factory m) [] infos w = (x, w1)"
      by (cases "spawn_tasks E config (m_sealing_factory m) [] infos w")
    have inv1: "mgr_inv E config (m, w1)" using inv [unfolded s] by (rule mgr_inv_world)
    show ?thesis
    proof (cases x)
      case (Inl e)
      then show ?thesis
        using run s True x c inv1 by (simp add: provision_def try_bind_def get_def in_world_run)
    next
      case (Inr ts)
      let ?ord = "map (nth ts) (join_order E (length ts) w1)"
      obtain y s2 where y: "join_setup_tasks E (cfg_crypto config) ?ord (m, w1) = (y, s2)"
        by (cases "join_setup_tasks E (cfg_crypto config) ?ord (m, w1)")
      have "\<forall>t \<in> set ?ord. st_dir t = path_push (cfg_workdir config) (ae_uuid (g_app E) (info_id (st_info t)))"
        using spawn_tasks_Inr(2) [OF x [unfolded Inr]] assms(2) [of "length ts" w1] by auto
      from join_setup_tasks_keeps [OF this inv1 y] have inv2: "mgr_inv E config s2" .
      show ?thesis
      proof (cases y)
        case (Inl e)
        then show ?thesis
          using run s True x Inr c y inv2 by (simp add: provision_def try_bind_def get_def in_world_run)
      next
        case (Inr u)
        then have "try_bind (for_each (measure_app E) infos) (\<lambda>_. final) s2 = (r, t)"
          using run s True x \<open>x = Inr ts\<close> c y
          by (simp add: provision_def final_def try_bind_def [of "get _"] try_bind_def [of "in_world _"]
              try_bind_def [of "join_setup_tasks _ _ _"] get_def [of "\<lambda>(m, w). (m_apps m, m_config m, m_sealing_factory m)"]
              get_def [of "\<lambda>(m, w). join_order E (length ts) w"] in_world_run)
        then show ?thesis using keepsD [OF rest inv2] by blast
      qed
    qed
  qed
qed

lemma cleanup_keeps:
  "app_cleanup S M (app, w) = (r, (app', w')) \<Longrightarrow> app_info app' = app_info app \<and> app_workdir app' = app_workdir app"
proof -
  have "keeps (\<lambda>(a, w). app_info a = app_info app \<and> app_workdir a = app_workdir app) (app_cleanup S M)"
    unfolding app_cleanup_def remove_last_device_def by (auto intro!: keeps_rules keeps_upd)
  then show "app_cleanup S M (app, w) = (r, (app', w')) \<Longrightarrow> app_info app' = app_info app \<and> app_workdir app' = app_workdir app"
    by (auto dest: keepsD)
qed

lemma shutdown_apps_ok:
  assumes "child_lawful (g_child E) pid live" and "\<forall>x \<in> set xs. entry_ok E config x"
    and "shutdown_apps E xs w = (ys, w')"
  shows "map fst ys = map fst xs \<and> (\<forall>x \<in> set ys. entry_ok E config x)"
  using assms(2,3)
proof (induction xs arbitrary: ys w w')
  case Nil
  then show ?case by simp
next
  case (Cons x xs)
  obtain i app h where x: "x = (i, (app, h))" by (metis surj_pair)
  obtain r h' w1 where h': "handler_stop (g_child E) (g_sched E) (h, w) = (r, (h', w1))" by (metis surj_pair)
  obtain r2 app' w2 where a': "app_cleanup (g_os E) (g_dm E) (app, w1) = (r2, (app', w2))" by (metis surj_pair)
  obtain zs w3 where z: "shutdown_apps E xs w2 = (zs, w3)" by (cases "shutdown_apps E xs w2")
  have "entry_ok E config (i, (app, h))" using Cons.prems(1) x by simp
  moreover have "sah_wf h \<longrightarrow> sah_wf h' \<and> sah_config h' = sah_config h"
    using handler_ops_safe(2) [OF assms(1)] h' by (rule handler_safeD)
  ultimately have "entry_ok E config (i, (app', h'))"
    using cleanup_keeps [OF a'] by (auto simp: entry_ok_def app_id_def)
  moreover have "ys = (i, (app', h')) # zs" using Cons.prems(2) x h' a' z by simp
  ultimately show ?case using Cons.IH [OF _ z] Cons.prems(1) x by simp
qed

lemma shutdown_all_keeps:
  assumes "child_lawful (g_child E) pid live"
  shows "keeps (mgr_inv E config) (shutdown_all_apps E)"
proof (rule keepsI)
  fix s r t
  assume inv: "mgr_inv E config s" and run: "shutdown_all_apps E s = (r, t)"
  obtain m w where s: "s = (m, w)" by (cases s)
  obtain ys w' where y: "shutdown_apps E (m_apps m) w = (ys, w')" by (cases "shutdown_apps E (m_apps m) w")
  have "map fst ys = map fst (m_apps m) \<and> (\<forall>x \<in> set ys. entry_ok E config x)"
    using inv s by (intro shutdown_apps_ok [OF assms _ y]) (simp add: mgr_inv_def)
  then show "mgr_inv E config t"
    using run inv s y by (auto simp: shutdown_all_apps_def upd_def mgr_inv_def hm_wf_def)
qed

lemma handle_request_keeps:
  assumes "child_lawful (g_child E) pid live" and "\<And>n w. set (join_order E n w) \<subseteq> {..<n}"
  shows "keeps (mgr_inv E config) (guest_handle_request E req)"
proof (cases req)
  case (ProvisionInfo infos)
  show ?thesis unfolding ProvisionInfo
    by (simp del: guest_handle_request.simps add: guest_handle_request.simps(1))
      (intro keeps_rules provision_keeps [OF assms])
next
  case (GetAttestationToken challenge)
  then show ?thesis
    by (auto simp: read_attestation_token_def intro!: keeps_rules
        split: LauncherType.split OciLauncherConfig.split TokenResolver.split)
next
  case GetIfAddrs
  then show ?thesis by (auto intro!: keeps_rules)
next
  case Reboot
  then show ?thesis by (auto simp: perform_reboot_def intro!: keeps_rules shutdown_all_keeps [OF assms(1)])
next
  case Shutdown
  then show ?thesis by (auto simp: perform_reboot_def intro!: keeps_rules shutdown_all_keeps [OF assms(1)])
qed (auto simp: handler_request_def intro!: keeps_rules with_handler_keeps handler_ops_safe [OF assms(1)])

lemma received_request_keeps:
  assumes "child_lawful (g_child E) pid live" and "\<And>n w. set (join_order E n w) \<subseteq> {..<n}"
  shows "keeps (mgr_inv E config) (handle_received_request E req)"
  unfolding handle_received_request_def by (intro keeps_rules handle_request_keeps [OF assms])

section \<open>What provisioning measured\<close>

definition measured :: "('p, 'st) Manager \<Rightarrow> uuid \<Rightarrow> bytes" where
  "measured m i = (case hm_get (m_apps m) i of Some (app, h) \<Rightarrow> app_measurements app | None \<Rightarrow> [])"

lemma run_setup_task_id:
  "run_setup_task E params t w = (Inr (app, h), w') \<Longrightarrow> app_id app = info_id (st_info t)"
  by (auto simp: run_setup_task_def Application_new_def with_app_iff run_iffs app_id_def set_up_def elim!: app_setup_run)

lemma join_setup_tasks_apps:
  assumes "join_setup_tasks E params ts (m, w) = (Inr u, (m', w'))"
  shows "m_config m' = m_config m" and "dom (hm_get (m_apps m')) = dom (hm_get (m_apps m)) \<union> (\<lambda>t. info_id (st_info t)) ` set ts"
    and "log_kept E log \<Longrightarrow> log w' = log w"
proof -
  from assms have "m_config m' = m_config m \<and>
    dom (hm_get (m_apps m')) = dom (hm_get (m_apps m)) \<union> (\<lambda>t. info_id (st_info t)) ` set ts \<and>
    (log_kept E log \<longrightarrow> log w' = log w)"
  proof (induction ts arbitrary: m w)
    case Nil
    then show ?case by (auto simp: ok_iff)
  next
    case (Cons t ts)
    obtain x w1 where x: "run_setup_task E params t w = (x, w1)" by (cases "run_setup_task E params t w")
    with Cons.prems obtain app h where a: "x = Inr (app, h)"
      by (cases x) (auto simp: join_setup_tasks_step simp del: join_setup_tasks.simps)
    have "join_setup_tasks E params ts (m\<lparr>m_apps := hm_insert (app_id app) (app, h) (m_apps m)\<rparr>, w1) = (Inr u, (m', w'))"
      using Cons.prems x a by (simp add: join_setup_tasks_step del: join_setup_tasks.simps)
    from Cons.IH [OF this] show ?case
      using run_setup_task_id [OF x [unfolded a]] keeps_obsD [OF run_setup_task_log x, of log] by auto
  qed
  then show "m_config m' = m_config m" and "dom (hm_get (m_apps m')) = dom (hm_get (m_apps m)) \<union> (\<lambda>t. info_id (st_info t)) ` set ts"
    and "log_kept E log \<Longrightarrow> log w' = log w" by blast+
qed

lemma measure_apps_log:
  assumes "rem_lawful E log" and "for_each (measure_app E) infos (m, w) = (Inr u, (m', w'))"
  shows "m' = m" and "log w' = log w @ concat (map (\<lambda>info. extension E (m_config m) (measured m (info_id info))) infos)"
proof -
  from assms(2) have "m' = m \<and> log w' = log w @ concat (map (\<lambda>info. extension E (m_config m) (measured m (info_id info))) infos)"
  proof (induction infos arbitrary: w)
    case Nil
    then show ?case by (simp add: ok_iff)
  next
    case (Cons info infos)
    then obtain s1 where 1: "measure_app E info (m, w) = (Inr (), s1)" "for_each (measure_app E) infos s1 = (Inr u, (m', w'))"
      by (auto simp: try_bind_Inr_iff)
    from 1(1) obtain app h w1 where
      "hm_get (m_apps m) (info_id info) = Some (app, h)" "extend_rem E (m_config m) (app_measurements app) w = (Inr (), w1)"
      "s1 = (m, w1)"
      by (auto simp: measure_app_def try_bind_Inr_iff get_iff of_result_iff)
    then show ?case
      using Cons.IH [of w1] 1(2) extend_rem_log [OF assms(1), of "m_config m" "app_measurements app" w "()" w1]
      by (simp add: measured_def)
  qed
  then show "m' = m" and "log w' = log w @ concat (map (\<lambda>info. extension E (m_config m) (measured m (info_id info))) infos)"
    by blast+
qed

text \<open>Starting the applications changes handlers only.\<close>

definition same_apps :: "('p, 'st) Manager \<Rightarrow> ('w \<Rightarrow> 'o) \<Rightarrow> 'o \<Rightarrow> ('p, 'st) Manager \<times> 'w \<Rightarrow> bool" where
  "same_apps m log l s \<longleftrightarrow>
     m_config (fst s) = m_config m \<and> dom (hm_get (m_apps (fst s))) = dom (hm_get (m_apps m)) \<and>
     measured (fst s) = measured m \<and> log (snd s) = l"

lemma handler_start_log:
  assumes "log_kept E log"
  shows "keeps_obs (\<lambda>(h, w). log w) (handler_start (g_child E))"
proof -
  have c: "keeps_obs log (on_process p m)" if "keeps_obs (\<lambda>(p, w). log w) m" for p and m :: "('b \<times> 'g, 'q, 'r) prog"
    unfolding keeps_obs_def
  proof
    fix w
    obtain r p' w' where run: "m (p, w) = (r, (p', w'))" by (metis surj_pair)
    from keeps_obsD [OF that run] run show "log (snd (on_process p m w)) = log w" by (simp add: on_process_def)
  qed
  have "keeps_obs log (task_abandoned (g_child E) t)" for t
    using assms unfolding task_abandoned_def end_loop_def ensure_app_is_stopped_def log_kept_def
    by (auto intro!: obs_rules c split: WardenTask.split prod.split)
  then show ?thesis
    using assms unfolding handler_start_def log_kept_def
    by (auto intro!: obs_rules obs_upd split: list.split option.split prod.split)
qed

lemma autostart_same:
  assumes "log_kept E log"
  shows "keeps (same_apps m log l) (autostart E i)"
proof (rule keepsI)
  fix s r t
  assume inv: "same_apps m log l s" and run: "autostart E i s = (r, t)"
  obtain m1 w where s: "s = (m1, w)" by (cases s)
  show "same_apps m log l t"
  proof (cases "hm_get (m_apps m1) i")
    case None
    then show ?thesis using run inv s by (simp add: autostart_def with_handler_def try_bind_def ok_def)
  next
    case (Some e)
    obtain app h where e: "e = (app, h)" by (cases e)
    obtain x h' w' where op: "handler_start (g_child E) (h, w) = (x, (h', w'))" by (metis surj_pair)
    have t: "t = (m1\<lparr>m_apps := hm_insert i (app, h') (m_apps m1)\<rparr>, w')"
      using run s Some e op
      by (auto simp: autostart_def with_handler_def try_bind_def ok_def fail_def split: sum.splits)
    moreover have "measured (m1\<lparr>m_apps := hm_insert i (app, h') (m_apps m1)\<rparr>) = measured m1"
      using Some e by (auto simp: measured_def fun_eq_iff)
    ultimately show ?thesis
      using inv s Some keeps_obsD [OF handler_start_log [OF assms] op] by (auto simp: same_apps_def)
  qed
qed

lemma provision_run:
  assumes "provision E infos (m, w) = (Inr u, (m', w'))"
  obtains ts w1 m2 w2 s3 where "m_apps m = []"
    "spawn_tasks E (m_config m) (m_sealing_factory m) [] infos w = (Inr ts, w1)"
    "join_setup_tasks E (cfg_crypto (m_config m)) (map (nth ts) (join_order E (length ts) w1)) (m, w1) = (Inr (), (m2, w2))"
    "for_each (measure_app E) infos (m2, w2) = (Inr (), s3)"
    "(if cfg_autostartall (m_config m) then try_bind (get (\<lambda>(m, w). hm_keys (m_apps m))) (for_each (autostart E)) else ok ()) s3
       = (Inr u, (m', w'))"
  using assms by (auto simp: provision_def try_bind_Inr_iff get_iff fail_iff split: if_splits)

lemma spawn_tasks_log:
  assumes "log_kept E log"
  shows "keeps_obs log (spawn_tasks E config factory spawned infos)"
proof (induction infos arbitrary: spawned)
  case Nil
  show ?case by (simp add: obs_rules)
next
  case (Cons info infos)
  have "keeps_obs log (make_launcher E config)"
    using assms by (auto simp: make_launcher_def read_to_vec_def log_kept_def intro!: obs_rules split: LauncherType.split)
  moreover have "keeps_obs log (upd (abort_tasks E is))" for "is"
    using assms by (auto simp: log_kept_def intro: obs_upd)
  ultimately show ?case using Cons.IH by (auto intro!: obs_rules split: sum.split)
qed

lemma autostart_all_same:
  assumes "log_kept E log" and "same_apps m log l s"
    and "(if b then try_bind (get (\<lambda>(m, w). hm_keys (m_apps m))) (for_each (autostart E)) else ok ()) s = (r, t)"
  shows "same_apps m log l t"
proof -
  have "keeps (same_apps m log l)
      (if b then try_bind (get (\<lambda>(m, w). hm_keys (m_apps m))) (for_each (autostart E)) else ok ())"
    by (auto intro!: keeps_rules autostart_same [OF assms(1)])
  from keepsD [OF this assms(2,3)] show ?thesis .
qed

lemma provision_measures:
  assumes "log_kept E log" and "rem_lawful E log" and "provision E infos (m, w) = (Inr u, (m', w'))"
    and "\<And>v. set (join_order E (length infos) v) = {..<length infos}"
  shows "dom (hm_get (m_apps m')) = info_id ` set infos"
    and "log w' = log w @ concat (map (\<lambda>info. extension E (m_config m) (measured m' (info_id info))) infos)"
proof -
  from provision_run [OF assms(3)] obtain ts w1 m2 w2 s3 where run: "m_apps m = []"
    "spawn_tasks E (m_config m) (m_sealing_factory m) [] infos w = (Inr ts, w1)"
    "join_setup_tasks E (cfg_crypto (m_config m)) (map (nth ts) (join_order E (length ts) w1)) (m, w1) = (Inr (), (m2, w2))"
    "for_each (measure_app E) infos (m2, w2) = (Inr (), s3)"
    "(if cfg_autostartall (m_config m) then try_bind (get (\<lambda>(m, w). hm_keys (m_apps m))) (for_each (autostart E)) else ok ()) s3
       = (Inr u, (m', w'))" .
  obtain m3 w3 where s3: "s3 = (m3, w3)" by (cases s3)
  have ts: "map st_info ts = infos" using spawn_tasks_Inr(1) [OF run(2)] by simp
  then have l: "length ts = length infos" by (metis length_map)
  have "set (map (nth ts) (join_order E (length ts) w1)) = set ts"
    using assms(4) [of w1] l arg_cong [OF map_nth [of ts], of set] by (simp add: lessThan_atLeast0)
  then have d: "dom (hm_get (m_apps m2)) = info_id ` set infos"
    using join_setup_tasks_apps(2) [OF run(3)] run(1) by (simp add: ts [symmetric] image_image)
  note j = join_setup_tasks_apps(1,3) [OF run(3)]
  have m3: "m3 = m2" "log w3 = log w2 @ concat (map (\<lambda>info. extension E (m_config m2) (measured m2 (info_id info))) infos)"
    using measure_apps_log [OF assms(2)] run(4) s3 by simp_all
  have "same_apps m2 log (log w3) (m', w')"
    by (rule autostart_all_same [OF assms(1) _ run(5)]) (simp add: s3 m3(1) same_apps_def)
  then have "dom (hm_get (m_apps m')) = dom (hm_get (m_apps m2))" "measured m' = measured m2" "log w' = log w3"
    by (simp_all add: same_apps_def)
  moreover have "log w1 = log w" using keeps_obsD [OF spawn_tasks_log [OF assms(1)] run(2)] .
  ultimately show "dom (hm_get (m_apps m')) = info_id ` set infos"
    and "log w' = log w @ concat (map (\<lambda>info. extension E (m_config m) (measured m' (info_id info))) infos)"
    using d m3(2) j(1) j(2) [OF assms(1)] by simp_all
qed

section \<open>Answers\<close>

text \<open>The answers that the protocol allows for a request.\<close>

fun response_ok :: "Request \<Rightarrow> Response \<Rightarrow> bool" where
  "response_ok (ProvisionInfo is) r = (case r of Success \<Rightarrow> True | ResponseError (ProvisioningError _) \<Rightarrow> True | _ \<Rightarrow> False)"
| "response_ok (GetAttestationToken c) r =
     (case r of AttestationToken _ \<Rightarrow> True | ResponseError (AttestationTokenReadingError _) \<Rightarrow> True | _ \<Rightarrow> False)"
| "response_ok GetIfAddrs r = (case r of IfAddrs _ \<Rightarrow> True | ResponseError (GetIfAddrsError _) \<Rightarrow> True | _ \<Rightarrow> False)"
| "response_ok (CheckStatus i) r =
     (case r of ApplicationExited _ \<Rightarrow> True | ApplicationIsRunning \<Rightarrow> True | ApplicationNotStarted \<Rightarrow> True
      | ResponseError ApplicationNotFound \<Rightarrow> True | ResponseError (ApplicationCheckStatusFailed _) \<Rightarrow> True | _ \<Rightarrow> False)"
| "response_ok (StartApp i) r =
     (case r of Success \<Rightarrow> True | ResponseError ApplicationNotFound \<Rightarrow> True
      | ResponseError (ApplicationLaunchFailed _) \<Rightarrow> True | _ \<Rightarrow> False)"
| "response_ok (StopApp i) r =
     (case r of Success \<Rightarrow> True | ResponseError ApplicationNotFound \<Rightarrow> True
      | ResponseError (ApplicationStopFailed _) \<Rightarrow> True | _ \<Rightarrow> False)"
| "response_ok (KillApp i) r =
     (case r of Success \<Rightarrow> True | ResponseError ApplicationNotFound \<Rightarrow> True
      | ResponseError (ApplicationKillFailed _) \<Rightarrow> True | _ \<Rightarrow> False)"
| "response_ok Reboot r = (case r of ResponseError (SystemPowerActionFailed _) \<Rightarrow> True | _ \<Rightarrow> False)"
| "response_ok Shutdown r = (case r of ResponseError (SystemPowerActionFailed _) \<Rightarrow> True | _ \<Rightarrow> False)"

lemma handler_request_Inr:
  "handler_request i op respond s = (Inr r, t) \<Longrightarrow> r = Inl ApplicationNotFound \<or> (\<exists>x. r = respond x)"
  by (auto simp: handler_request_def run_iffs split: option.splits)

lemma status_response_Inl:
  "status_response E (Inl e) =
     (if e = EHandler AppNotRunning then Inr ApplicationNotStarted
      else Inl (ApplicationCheckStatusFailed (dbg_error E e)))"
proof (cases "\<exists>x. e = EHandler x")
  case True
  then obtain x where "e = EHandler x" by blast
  then show ?thesis by (cases x) (simp_all add: status_response_def)
next
  case False
  then show ?thesis by (cases e) (simp_all add: status_response_def)
qed

lemma status_response_Inr:
  "status_response E (Inr x) = Inr (case x of Some st \<Rightarrow> ApplicationExited st | None \<Rightarrow> ApplicationIsRunning)"
  by (cases x) (simp_all add: status_response_def)

lemma handler_request_unit:
  assumes "handler_request i op (unit_response f) s = (Inr r, t)"
  shows "r = Inl ApplicationNotFound \<or> r = Inr Success \<or> (\<exists>e. r = Inl (f e))"
proof -
  have "unit_response f x = Inr Success \<or> (\<exists>e. unit_response f x = Inl (f e))" for x
    by (cases x) (auto simp: unit_response_def)
  then show ?thesis using handler_request_Inr [OF assms] by metis
qed

lemma answer_ok:
  assumes "handle_received_request E req s = (Inr resp, t)"
  shows "response_ok req resp"
proof -
  from assms obtain r where r: "guest_handle_request E req s = (Inr r, t)"
    "resp = (case r of Inr response \<Rightarrow> response | Inl e \<Rightarrow> ResponseError e)"
    by (auto simp: handle_received_request_def run_iffs)
  show ?thesis
  proof (cases req)
    case (ProvisionInfo infos)
    then show ?thesis using r by (auto simp: run_iffs unit_response_def split: sum.splits)
  next
    case (GetAttestationToken c)
    then show ?thesis using r by (auto simp: run_iffs split: sum.splits)
  next
    case GetIfAddrs
    then show ?thesis using r by (auto simp: run_iffs split: sum.splits)
  next
    case (CheckStatus i)
    then consider "r = Inl ApplicationNotFound" | x where "r = status_response E x"
      using r(1) handler_request_Inr [of i _ "status_response E" s r t] by auto
    then show ?thesis
    proof cases
      case 1
      then show ?thesis using CheckStatus r(2) by simp
    next
      case (2 x)
      then show ?thesis
        using CheckStatus r(2) by (cases x) (simp_all add: status_response_Inl status_response_Inr split: option.split)
    qed
  next
    case (StartApp i)
    then show ?thesis using r by (auto dest!: handler_request_unit)
  next
    case (StopApp i)
    then show ?thesis using r by (auto dest!: handler_request_unit)
  next
    case (KillApp i)
    then show ?thesis using r by (auto dest!: handler_request_unit)
  next
    case Reboot
    then show ?thesis using r by (auto simp: perform_reboot_def run_iffs)
  next
    case Shutdown
    then show ?thesis using r by (auto simp: perform_reboot_def run_iffs)
  qed
qed

text \<open>A reboot that goes through has first stopped and cleaned up every application.\<close>

lemma perform_reboot_run:
  "perform_reboot E action (m, w) =
     (case shutdown_apps E (m_apps m) w of (apps, w1) \<Rightarrow>
     (case go_reboot (g_os E) action w1 of
        (None, w2) \<Rightarrow> (Inl action, (m\<lparr>m_apps := apps\<rparr>, w2))
      | (Some e, w2) \<Rightarrow> (Inr (Inl (SystemPowerActionFailed (dbg_os_error E (RebootError e)))), (m\<lparr>m_apps := apps\<rparr>, w2))))"
  by (auto simp: perform_reboot_def shutdown_all_apps_def reboot_def in_world_run prog_defs split: prod.splits option.splits)

section \<open>The life of the manager\<close>

text \<open>Requests in any order with any outcome; between them the world may change in any way.\<close>

inductive guest_reach ::
  "('c, 'p, 'x, 'i, 'ic, 'st, 'w) GuestEnv \<Rightarrow> Config \<Rightarrow> ('p, 'st) Manager \<times> 'w \<Rightarrow> bool" for E config where
  guest_new: "Manager_new E config w = (Inr m, w') \<Longrightarrow> guest_reach E config (m, w')"
| guest_world: "guest_reach E config (m, w) \<Longrightarrow> guest_reach E config (m, w')"
| guest_request: "guest_reach E config s \<Longrightarrow> handle_received_request E req s = (r, s') \<Longrightarrow> guest_reach E config s'"

inductive_cases guest_reachE: "guest_reach E config s"

lemma guest_reach_inv:
  assumes "child_lawful (g_child E) pid live" and "\<And>n w. set (join_order E n w) \<subseteq> {..<n}"
    and "guest_reach E config s"
  shows "mgr_inv E config s"
  using assms(3)
proof (induction rule: guest_reach.induct)
  case (guest_new w m w')
  then show ?case by (auto simp: Manager_new_def mgr_inv_def run_iffs)
next
  case (guest_world m w w')
  show ?case using guest_world.IH by (rule mgr_inv_world)
next
  case (guest_request s req r s')
  from received_request_keeps [OF assms(1,2)] guest_request.IH guest_request.hyps(2) show ?case by (rule keepsD)
qed

end
