(* ===== verification/Guest_Link.thy ===== *)
theory Guest_Link
  imports Guest_Manager Realm_Client
begin

text \<open>
  The daemon and the manager of a realm together: the daemon's \<open>RealmClientHandler\<close> over a
  connection that delivers every message, with the manager at the other end. The state of the
  connection is the responses that were not read yet and whether the realm is down; a request
  is handled when it is sent. A realm that is down resets the connection.

  Shown: what the daemon reports about an application is what happened in the realm.
\<close>

section \<open>The connection\<close>

record Link =
  pending :: "Response list"
  link_down :: bool

definition reset_error :: io_error where
  "reset_error = \<lparr>io_kind = ConnectionReset, io_text = []\<rparr>"

definition link_send ::
  "('c, 'p, 'x, 'i, 'ic, 'st, 'w) GuestEnv \<Rightarrow> Request \<Rightarrow>
   (Link \<times> (('p, 'st) Manager \<times> 'w), RealmSenderError, unit) prog" where
  "link_send G req = (\<lambda>(l, s).
     if link_down l then (Inl (SendFail (SerdeWriteError reset_error)), (l, s))
     else (case handle_received_request G req s of
             (Inl action, s') \<Rightarrow> (Inr (), (l\<lparr>link_down := True\<rparr>, s'))
           | (Inr resp, s') \<Rightarrow> (Inr (), (l\<lparr>pending := pending l @ [resp]\<rparr>, s'))))"

definition link_receive ::
  "duration \<Rightarrow> (Link \<times> (('p, 'st) Manager \<times> 'w), RealmSenderError, Response) prog" where
  "link_receive t = (\<lambda>(l, s).
     case pending l of
       resp # rest \<Rightarrow> (Inr resp, (l\<lparr>pending := rest\<rparr>, s))
     | [] \<Rightarrow> (Inl (if link_down l then Disconnection else Timeout), (l, s)))"

definition realm_link ::
  "('c, 'p, 'x, 'i, 'ic, 'st, 'w) GuestEnv \<Rightarrow> (Link, ('p, 'st) Manager \<times> 'w) RealmSender" where
  "realm_link G = \<lparr>send = link_send G, receive_response = link_receive\<rparr>"

definition idle_link :: Link where
  "idle_link = \<lparr>pending = [], link_down = False\<rparr>"

definition down_link :: Link where
  "down_link = \<lparr>pending = [], link_down = True\<rparr>"

section \<open>One exchange\<close>

lemma link_command:
  assumes "senders C = realm_link G" and "sender h = Some idle_link"
  shows "send_command C req (h, s) =
    (case handle_received_request G req s of
       (Inl action, s') \<Rightarrow> (Inr (), (h\<lparr>sender := Some down_link\<rparr>, s'))
     | (Inr resp, s') \<Rightarrow> (Inr (), (h\<lparr>sender := Some \<lparr>pending = [resp], link_down = False\<rparr>\<rparr>, s')))"
  using assms
  by (auto simp: send_command_def with_sender_def realm_link_def link_send_def idle_link_def down_link_def
      map_err_def zoom_def split: prod.splits sum.splits)

lemma link_response:
  assumes "senders C = realm_link G" and "sender h = Some \<lparr>pending = [resp], link_down = False\<rparr>"
  shows "read_response C t (h, s) = (Inr resp, (h\<lparr>sender := Some idle_link\<rparr>, s))"
  using assms
  by (simp add: read_response_def with_sender_def realm_link_def link_receive_def idle_link_def map_err_def zoom_def)

lemma link_reset:
  assumes "senders C = realm_link G" and "sender h = Some down_link"
  shows "read_response C t (h, s) = (Inl RealmDisconnection, (h, s))"
  using assms
  by (simp add: read_response_def with_sender_def realm_link_def link_receive_def down_link_def map_err_def zoom_def
      RealmClientHandler.surjective [symmetric])

lemma link_self: "sender h = Some l \<Longrightarrow> h\<lparr>sender := Some l\<rparr> = h"
  by (cases h) simp

lemma link_exchange:
  assumes "senders C = realm_link G" and "sender h = Some idle_link"
    and "handle_received_request G req s = (Inr resp, s')"
  shows "success_exchange C req timeout (h, s) = (handle_success_command C resp, (h, s'))"
  using assms(2,3)
  by (simp add: success_exchange_def try_bind_def link_command [OF assms(1,2)] get_def of_result_def
      link_response [OF assms(1)] link_self)

lemma only_power_requests_end:
  assumes "handle_received_request G req s = (Inl action, s')"
  shows "req = Reboot \<or> req = Shutdown"
  using assms
  by (cases req) (auto simp: handle_received_request_def handler_request_def with_handler_def run_iffs
      split: prod.splits option.splits)

section \<open>Applications\<close>

definition put_handler ::
  "uuid \<Rightarrow> GuestApplication \<Rightarrow> 'p SimpleApplicationHandler \<Rightarrow> ('p, 'st) Manager \<Rightarrow> ('p, 'st) Manager" where
  "put_handler i app h m = m\<lparr>m_apps := hm_insert i (app, h) (m_apps m)\<rparr>"

lemma received_handler_request:
  assumes "hm_get (m_apps m) i = Some (app, hn)" and "op (hn, w) = (r, (hn', w'))"
  shows "handler_request i op respond (m, w) = (Inr (respond r), (put_handler i app hn' m, w'))"
  using assms by (simp add: handler_request_def with_handler_def put_handler_def try_bind_def ok_def)

lemma received_stop:
  assumes "hm_get (m_apps m) i = Some (app, hn)"
    and "handler_stop (g_child G) (g_sched G) (hn, w) = (r, (hn', w'))"
  shows "handle_received_request G (StopApp i) (m, w) =
     (Inr (case r of Inr _ \<Rightarrow> Success | Inl e \<Rightarrow> ResponseError (ApplicationStopFailed (dbg_error G e))),
      (put_handler i app hn' m, w'))"
  by (simp add: handle_received_request_def try_bind_def received_handler_request [where op = "handler_stop _ _", OF assms] ok_def
      unit_response_def split: sum.split)

lemma received_kill:
  assumes "hm_get (m_apps m) i = Some (app, hn)"
    and "handler_kill (g_child G) (g_sched G) (hn, w) = (r, (hn', w'))"
  shows "handle_received_request G (KillApp i) (m, w) =
     (Inr (case r of Inr _ \<Rightarrow> Success | Inl e \<Rightarrow> ResponseError (ApplicationKillFailed (dbg_error G e))),
      (put_handler i app hn' m, w'))"
  by (simp add: handle_received_request_def try_bind_def received_handler_request [where op = "handler_kill _ _", OF assms] ok_def
      unit_response_def split: sum.split)

lemma handler_gone:
  assumes "child_lawful CO pid live" and "sah_wf hn" and "sah_thread hn = Some t" and "req \<noteq> HTryWait"
    and "stop_with CO S req (hn, w) = (Inr u, (hn', w'))"
  shows "sah_thread hn' = None" and "pid (task_process t) \<notin> live w'"
  using stop_with_outcome(2) [OF assms] by auto

text \<open>A stop that the daemon reports as done, by the first request or by the kill it falls back to.\<close>

lemma daemon_stop_cases:
  assumes "senders C = realm_link G" and "sender h = Some idle_link" and "hm_get (m_apps m) i = Some (app, hn)"
    and "rch_stop_application C i (h, (m, w)) = (Inr (), (h', (m', w')))"
  obtains (stopped) hn' where "handler_stop (g_child G) (g_sched G) (hn, w) = (Inr (), (hn', w'))"
      "h' = h" "m' = put_handler i app hn' m"
    | (killed) e hn1 w1 hn' where "handler_stop (g_child G) (g_sched G) (hn, w) = (Inl e, (hn1, w1))"
      "handler_kill (g_child G) (g_sched G) (hn1, w1) = (Inr (), (hn', w'))" "h' = h"
      "m' = put_handler i app hn' (put_handler i app hn1 m)"
proof -
  obtain r hn1 w1 where st: "handler_stop (g_child G) (g_sched G) (hn, w) = (r, (hn1, w1))" by (metis surj_pair)
  let ?m1 = "put_handler i app hn1 m"
  obtain q hn2 w2 where ki: "handler_kill (g_child G) (g_sched G) (hn1, w1) = (q, (hn2, w2))" by (metis surj_pair)
  have get1: "hm_get (m_apps ?m1) i = Some (app, hn1)" by (simp add: put_handler_def)
  note cmd = link_command [OF assms(1,2), of "StopApp i" "(m, w)", unfolded received_stop [OF assms(3) st]]
  show thesis
  proof (cases r)
    case (Inr u)
    then have "h' = h \<and> m' = ?m1 \<and> w' = w1"
      using assms(2,4) cmd
      by (simp add: rch_stop_application_def try_bind_def get_def link_response [OF assms(1)] link_self ok_def
          handle_success_command_def)
    then show thesis using stopped st Inr by auto
  next
    case (Inl e)
    have "kill_application C i (h, (?m1, w1)) = (Inr (), (h', (m', w')))"
      using assms(2,4) cmd Inl
      by (simp add: rch_stop_application_def try_bind_def get_def link_response [OF assms(1)] link_self ok_def
          handle_success_command_def)
    then have "(handle_success_command C (case q of Inr _ \<Rightarrow> Success | Inl e \<Rightarrow> ResponseError (ApplicationKillFailed (dbg_error G e))),
        (h, (put_handler i app hn2 ?m1, w2))) = (Inr (), (h', (m', w')))"
      unfolding kill_application_def link_exchange [OF assms(1,2) received_kill [OF get1 ki]] .
    then have "q = Inr ()" "h' = h" "m' = put_handler i app hn2 ?m1" "w' = w2"
      by (auto simp: handle_success_command_def split: sum.splits)
    then show thesis using killed st ki Inl by simp
  qed
qed

lemma daemon_stop:
  assumes "senders C = realm_link G" and "sender h = Some idle_link" and "child_lawful (g_child G) pid live"
    and "hm_get (m_apps m) i = Some (app, hn)" and "sah_wf hn" and "sah_thread hn = Some t"
    and "rch_stop_application C i (h, (m, w)) = (Inr (), (h', (m', w')))"
  shows "pid (task_process t) \<notin> live w'" and "\<exists>hn'. hm_get (m_apps m') i = Some (app, hn') \<and> sah_thread hn' = None"
    and "h' = h"
proof -
  have "pid (task_process t) \<notin> live w' \<and> (\<exists>hn'. hm_get (m_apps m') i = Some (app, hn') \<and> sah_thread hn' = None) \<and> h' = h"
  proof (rule daemon_stop_cases [OF assms(1,2,4,7)], goal_cases)
    case (1 hn')
    then show ?case
      using handler_gone [OF assms(3,5,6), of HStop "g_sched G" w "()" hn' w'] by (simp add: stop_kill_with put_handler_def)
  next
    case (2 e hn1 w1 hn')
    from stop_with_outcome [OF assms(3,5,6), of HStop "g_sched G" w "Inl e" hn1 w1] 2(1) obtain t1 where
      t1: "sah_wf hn1" "sah_thread hn1 = Some t1" "pid (task_process t1) = pid (task_process t)"
      by (auto simp: stop_kill_with)
    show ?case
      using 2 t1 handler_gone [OF assms(3) t1(1,2), of HKill "g_sched G" w1 "()" hn' w']
      by (simp add: stop_kill_with put_handler_def)
  qed
  then show "pid (task_process t) \<notin> live w'" and "\<exists>hn'. hm_get (m_apps m') i = Some (app, hn') \<and> sah_thread hn' = None"
    and "h' = h" by blast+
qed

lemma received_start:
  assumes "hm_get (m_apps m) i = Some (app, hn)"
    and "handler_start (g_child G) (hn, w) = (r, (hn', w'))"
  shows "handle_received_request G (StartApp i) (m, w) =
     (Inr (case r of Inr _ \<Rightarrow> Success | Inl e \<Rightarrow> ResponseError (ApplicationLaunchFailed (dbg_error G e))),
      (put_handler i app hn' m, w'))"
  by (simp add: handle_received_request_def try_bind_def received_handler_request [where op = "handler_start _", OF assms] ok_def
      unit_response_def split: sum.split)

lemma daemon_start:
  assumes "senders C = realm_link G" and "sender h = Some idle_link" and "hm_get (m_apps m) i = Some (app, hn)"
    and "rch_start_application C i (h, (m, w)) = (Inr (), (h', (m', w')))"
  obtains hn' where "handler_start (g_child G) (hn, w) = (Inr (), (hn', w'))" "m' = put_handler i app hn' m" "h' = h"
proof -
  obtain r hn' w1 where st: "handler_start (g_child G) (hn, w) = (r, (hn', w1))" by (metis surj_pair)
  have "(handle_success_command C (case r of Inr _ \<Rightarrow> Success | Inl e \<Rightarrow> ResponseError (ApplicationLaunchFailed (dbg_error G e))),
      (h, (put_handler i app hn' m, w1))) = (Inr (), (h', (m', w')))"
    using assms(4) unfolding rch_start_application_def link_exchange [OF assms(1,2) received_start [OF assms(3) st]] .
  then show thesis using that st by (auto simp: handle_success_command_def split: sum.splits)
qed

section \<open>Provisioning and shutdown\<close>

lemma received_provision:
  "handle_received_request G (ProvisionInfo infos) s =
     (case provision G infos s of (r, s') \<Rightarrow>
        (Inr (case r of Inr _ \<Rightarrow> Success | Inl e \<Rightarrow> ResponseError (ProvisioningError (dbg_error G e))), s'))"
  by (auto simp: handle_received_request_def attempt_def try_bind_def ok_def unit_response_def split: prod.split sum.split)

lemma daemon_provision:
  assumes "senders C = realm_link G" and "sender h = Some idle_link"
  shows "provision_applications C cfg (h, s) = (Inr (), (h', s')) \<longleftrightarrow>
    provision G (application_infos_from cfg) s = (Inr (), s') \<and> h' = h"
proof -
  obtain r s1 where r: "provision G (application_infos_from cfg) s = (r, s1)" by (metis surj_pair)
  have "handle_received_request G (ProvisionInfo (application_infos_from cfg)) s =
      (Inr (case r of Inr _ \<Rightarrow> Success | Inl e \<Rightarrow> ResponseError (ProvisioningError (dbg_error G e))), s1)"
    by (simp add: received_provision r)
  from link_exchange [OF assms this] r show ?thesis
    by (cases r) (auto simp: provision_applications_def handle_success_command_def)
qed

lemma received_shutdown:
  "handle_received_request G Shutdown (m, w) =
     (case shutdown_apps G (m_apps m) w of (apps, w1) \<Rightarrow>
     (case go_reboot (g_os G) SysShutdown w1 of
        (None, w2) \<Rightarrow> (Inl SysShutdown, (m\<lparr>m_apps := apps\<rparr>, w2))
      | (Some e, w2) \<Rightarrow> (Inr (ResponseError (SystemPowerActionFailed (dbg_os_error G (RebootError e)))), (m\<lparr>m_apps := apps\<rparr>, w2))))"
  by (auto simp: handle_received_request_def perform_reboot_run try_bind_def ok_def split: prod.split option.split)

lemma daemon_shutdown:
  assumes "senders C = realm_link G" and "sender h = Some idle_link"
    and "rch_shutdown_realm C (h, (m, w)) = (r, (h', s'))"
  shows "r = Inr () \<longleftrightarrow> (\<exists>apps w1 w2. shutdown_apps G (m_apps m) w = (apps, w1) \<and>
           go_reboot (g_os G) SysShutdown w1 = (None, w2) \<and> s' = (m\<lparr>m_apps := apps\<rparr>, w2) \<and> sender h' = None)"
proof -
  obtain apps w1 where a: "shutdown_apps G (m_apps m) w = (apps, w1)" by (metis surj_pair)
  obtain e w2 where e: "go_reboot (g_os G) SysShutdown w1 = (e, w2)" by (metis surj_pair)
  show ?thesis
  proof (cases e)
    case None
    then have "rch_shutdown_realm C (h, (m, w)) = (Inr (), (h\<lparr>sender := None\<rparr>, (m\<lparr>m_apps := apps\<rparr>, w2)))"
      using a e
      by (simp add: rch_shutdown_realm_def try_bind_def link_command [OF assms(1,2)] received_shutdown
          handle_shutdown_response_run [OF link_reset [OF assms(1)]])
    then show ?thesis using assms(3) a e None by auto
  next
    case (Some x)
    then have "isl (fst (rch_shutdown_realm C (h, (m, w))))"
      using a e
      by (simp add: rch_shutdown_realm_def try_bind_def link_command [OF assms(1,2)] received_shutdown
          handle_shutdown_response_run [OF link_response [OF assms(1)]])
    then show ?thesis using assms(3) a e Some by auto
  qed
qed

end
