(* ===== verification/Guest_Simulation.thy ===== *)
theory Guest_Simulation
  imports Guest_Link
begin

text \<open>
  A small concrete realm: a world with mounts, mapped devices, files, a measurement register,
  processes and keys, and operations on it that satisfy every law of the development. The
  theorems are applied to it with concrete inputs.
\<close>

record GW =
  gw_mounts :: "path list"
  gw_maps :: "string list"
  gw_files :: "(path \<times> string) list"
  gw_log :: "(u32 \<times> bytes) list"
  gw_live :: "u32 list"
  gw_next :: u32
  gw_keys :: "(string \<times> bytes) list"
  gw_tables :: "(DevId \<times> (u64 \<times> u64 \<times> string \<times> string) list) list"

type_synonym SimProcess = "u32 \<times> bool"

definition gw0 :: GW where
  "gw0 = \<lparr>gw_mounts = [], gw_maps = [], gw_files = [(''/sys/class/block/vda1/size'', ''8'' @ [CHR 0x0A])],
          gw_log = [], gw_live = [], gw_next = 7, gw_keys = [], gw_tables = []\<rparr>"

definition sim_err :: io_error where
  "sim_err = \<lparr>io_kind = OtherKind, io_text = ''missing''\<rparr>"

definition sim_process :: "(unit, GW) ProcessOps" where
  "sim_process = \<lparr>os_spawn = (\<lambda>c. ok ()), os_try_wait = ok None, os_kill = ok (), os_wait = ok ''0'',
     os_take_stdout = (\<lambda>s. (True, s)), os_take_stderr = (\<lambda>s. (True, s))\<rparr>"

text \<open>The overlay shows the metadata file of the image below it.\<close>

definition sim_lookup :: "path \<Rightarrow> (path \<times> string) list \<Rightarrow> string option" where
  "sim_lookup p fs =
     (case hm_get fs p of
        Some t \<Rightarrow> Some t
      | None \<Rightarrow>
          if path_file_name p = Some METADATA
          then map_option snd (List.find (\<lambda>(q, t). path_file_name q = Some METADATA) fs) else None)"

definition sim_guest_os :: "(unit, GW) GuestOs" where
  "sim_guest_os =
     \<lparr>go_process = sim_process,
      go_mount = (\<lambda>src dst fs opt. upd (\<lambda>w. w\<lparr>gw_mounts := dst # gw_mounts w\<rparr>)),
      go_umount = (\<lambda>d. upd (\<lambda>w. w\<lparr>gw_mounts := remove1 d (gw_mounts w)\<rparr>)),
      go_mknod = (\<lambda>p m d. ok ()),
      go_create_dir_all = (\<lambda>p. ok ()),
      go_read_link = (\<lambda>p. ok ''../../vda1''),
      go_metadata = (\<lambda>p. ok 0),
      go_is_symlink = (\<lambda>p w. True),
      go_read_to_string = (\<lambda>p w. (ok_or sim_err (sim_lookup p (gw_files w)), w)),
      go_read = (\<lambda>p. ok (as_bytes ''a'')),
      go_write = (\<lambda>p t. upd (\<lambda>w. w\<lparr>gw_files := hm_insert p t (gw_files w)\<rparr>)),
      go_remove_dir_all = (\<lambda>p. ok ()),
      go_rename = (\<lambda>p q. ok ()),
      go_copy = (\<lambda>p q. ok ()),
      go_reboot = (\<lambda>a w. (None, w)),
      go_init_module = (\<lambda>b a. ok ()),
      go_open_and_read = (\<lambda>p. ok []),
      go_getifaddrs = ok []\<rparr>"

definition sim_dm :: "GW DmOps" where
  "sim_dm =
     \<lparr>dm_new = ok (), dm_name_new = Inr, dm_uuid_new = Inr,
      dm_device_create = (\<lambda>n u w.
        if n \<in> set (gw_maps w) then (Inl ''busy'', w)
        else (Inr \<lparr>di_name = Some n, di_uuid = None, di_major = 253, di_minor = 0\<rparr>, w\<lparr>gw_maps := n # gw_maps w\<rparr>)),
      dm_table_load = (\<lambda>i t. upd (\<lambda>w. w\<lparr>gw_tables := hm_insert i t (gw_tables w)\<rparr>)), dm_device_suspend = (\<lambda>i b. ok ()),
      dm_device_remove = (\<lambda>i. upd (\<lambda>w. case i of
          IdName n \<Rightarrow> w\<lparr>gw_maps := removeAll n (gw_maps w)\<rparr> | IdUuid u \<Rightarrow> w)),
      kr_attach = ok (),
      kr_add_logon_key = (\<lambda>s d k. upd (\<lambda>w. w\<lparr>gw_keys := hm_insert (s @ '':'' @ d) k (gw_keys w)\<rparr>))\<rparr>"

definition sim_crypto :: "GW CryptoOps" where
  "sim_crypto =
     \<lparr>sha256 = (\<lambda>b. b), hkdf_expand = (\<lambda>salt ikm info. (case salt of None \<Rightarrow> [0] | Some s \<Rightarrow> [1]) @ ikm @ info),
      hex_decode = (\<lambda>s. Inr (map of_char s)), rsi_sealing_key = (\<lambda>f v. ok [9]),
      rsi_flags = \<lparr>RSI_SEALING_KEY_FLAGS_KEY = 1, RSI_SEALING_KEY_FLAGS_RIM = 2,
                   RSI_SEALING_KEY_FLAGS_REALM_ID = 4, RSI_SEALING_KEY_FLAGS_SVN = 8\<rparr>\<rparr>"

text \<open>A signature is the key followed by the message; the registry serves one image.\<close>

definition sim_image :: "(string \<times> string) list \<times> bytes" where
  "sim_image = ([(ANNOTATION_SIGNATURE, ''vc''), (ANNOTATION_VENDORPUB, ''v''), (ANNOTATION_VENDORPUB_SIGNATURE, ''av'')],
                as_bytes ''c'')"

definition sim_runtime :: RuntimeConfig where
  "sim_runtime = \<lparr>rc_entrypoint = Some [''/app''], rc_cmd = Some [''-v''], rc_env = Some [''A=1''], rc_user = None,
                  rc_working_dir = None\<rparr>"

definition sim_metadata :: "unit Metadata" where
  "sim_metadata = \<lparr>vendor_cert = [as_bytes ''v'', as_bytes ''av''], config_hash = as_bytes ''c'', image_config = ()\<rparr>"

definition sim_oci :: "(bytes, (string \<times> string) list \<times> bytes, unit, GW) OciOps" where
  "sim_oci =
     \<lparr>key_from_der = Inr, sig_from_der = Inr,
      ecdsa_verify = (\<lambda>k m s. if s = k @ m then Inr () else Inl ''bad''),
      sha384 = (\<lambda>b. b), const_hex_decode = (\<lambda>s. Inr (as_bytes s)),
      load_root_cert_store = (\<lambda>p. ok []), token_from_file = (\<lambda>p. ok (\<lambda>c. ok c)), cert_resolver = (\<lambda>f. ok []),
      client_from_config = (\<lambda>u t. Inr []), reference_from = (\<lambda>v. Inr []),
      get_image_info = (\<lambda>c n r. ok sim_image), annotations = (\<lambda>i. Some (fst i)), config_bytes = snd,
      unpack_image = (\<lambda>c i u t. ok ()),
      metadata_to_json = (\<lambda>m. if vendor_cert m = vendor_cert sim_metadata \<and> config_hash m = config_hash sim_metadata
                             then Inr ''{}'' else Inl ''json''),
      metadata_of_json = (\<lambda>t. if t = ''{}'' then Inr sim_metadata else Inl ''json''),
      image_config_of_json = (\<lambda>b. Inr ()), runtime_config = (\<lambda>i. Some sim_runtime),
      rsi_attestation_token = (\<lambda>c. ok c), user_from_name = (\<lambda>u. ok (Some 1)), group_from_name = (\<lambda>g. ok (Some 1)),
      getuid = (\<lambda>w. 0), getgid = (\<lambda>w. 0), env_vars = (\<lambda>w. [])\<rparr>"

definition sim_child :: "(SimProcess, GW) ChildOps" where
  "sim_child =
     \<lparr>co_spawn = (\<lambda>sp w. (Inr (gw_next w, False), w\<lparr>gw_live := gw_next w # gw_live w, gw_next := gw_next w + 1\<rparr>)),
      co_id = (\<lambda>(p, reaped). if reaped then None else Some p),
      co_signal = (\<lambda>i sig. ok ()),
      co_wait = (\<lambda>((p, reaped), w). (Inr 0, ((p, True), w\<lparr>gw_live := removeAll p (gw_live w)\<rparr>))),
      co_try_wait = ok None,
      co_kill = ok ()\<rparr>"

definition sim_sched :: "GW Sched" where
  "sim_sched = \<lparr>before_send = (\<lambda>w. [StdoutLine (Inr ''hello'')]), before_recv = (\<lambda>w. [])\<rparr>"

definition sim_app_env :: AppEnv where
  "sim_app_env = \<lparr>ae_uuid = word_to_string, ae_major = (\<lambda>d. 8), ae_minor = (\<lambda>d. 1),
                  ae_makedev = (\<lambda>a b. 0), S_IFBLK = 0x6000\<rparr>"

definition sim_frame :: "(bool, Request, Response, GW) FrameOps" where
  "sim_frame = \<lparr>try_next = ok None, frame_send = (\<lambda>v. fail sim_err)\<rparr>"

text \<open>Tasks finish in the reverse of the order in which they were spawned.\<close>

definition sim_guest ::
  "(unit, SimProcess, bytes, (string \<times> string) list \<times> bytes, unit, bool, GW) GuestEnv" where
  "sim_guest =
     \<lparr>g_os = sim_guest_os, g_dm = sim_dm, g_crypto = sim_crypto, g_oci = sim_oci, g_child = sim_child,
      g_sched = sim_sched, g_app = sim_app_env, g_frame = sim_frame, vsock_connect = (\<lambda>p. ok True),
      measurement_extend = (\<lambda>r c. upd (\<lambda>w. w\<lparr>gw_log := gw_log w @ [(r, c)]\<rparr>)), MAX_MEASUR_LEN = 2,
      join_order = (\<lambda>n w. rev [0..<n]), abort_tasks = (\<lambda>is w. w), dbg_error = (\<lambda>e. []), dbg_os_error = (\<lambda>e. [])\<rparr>"

definition sim_params :: CryptoParams where
  "sim_params = \<lparr>cp_cipher = Aes, cp_iv_mode = Plain, cp_block_mode = Xts, cp_iv_offset = 0, cp_additional_options = None\<rparr>"

definition sim_config :: Config where
  "sim_config = \<lparr>cfg_workdir = ''/w'', cfg_vsock_port = 80, cfg_crypto = sim_params, cfg_launcher = LauncherOci NoTLS,
     cfg_ca_pub = ''/ca'', cfg_keysealing = KsDummy, cfg_autostartall = True, cfg_extend = Some Rem0\<rparr>"

definition sim_mgr :: "(SimProcess, bool) Manager" where
  "sim_mgr = \<lparr>m_config = sim_config, m_apps = [], m_conn = True, m_sealing_factory = FDummy [5]\<rparr>"

definition sim_info :: "uuid \<Rightarrow> uuid \<Rightarrow> uuid \<Rightarrow> ApplicationInfo" where
  "sim_info i p d = \<lparr>info_id = i, info_name = ''n'', info_version = ''1'', info_image_registry = ''r'',
     info_image_part_uuid = p, info_data_part_uuid = d\<rparr>"

definition sim_ca :: bytes where "sim_ca = as_bytes ''a''"

definition sim_launcher :: "bytes LauncherBox" where
  "sim_launcher = LOci (from_oci_config NoTLS sim_ca)"

section \<open>The laws hold here\<close>

lemmas sim_defs = sim_guest_os_def sim_dm_def sim_oci_def sim_child_def sim_process_def sim_guest_def

definition sim_live :: "GW \<Rightarrow> u32 set" where
  "sim_live w = set (gw_live w)"

definition sim_obs :: "GW \<Rightarrow> path list \<times> string set" where
  "sim_obs w = (gw_mounts w, set (gw_maps w))"

lemma sim_child_lawful: "child_lawful sim_child fst sim_live"
  by (auto simp: child_lawful_def sim_child_def sim_live_def ok_def)

lemma sim_app_world: "app_world_lawful sim_guest_os sim_dm sim_obs"
  by (auto simp: app_world_lawful_def sim_guest_os_def sim_dm_def sim_obs_def upd_def split: if_splits)

lemma sim_keeps:
  "os_others_keep sim_guest_os sim_obs" "dm_others_keep sim_dm sim_obs" "oci_keep sim_oci sim_obs"
  by (simp_all add: os_others_keep_def dm_others_keep_def oci_keep_def sim_guest_os_def sim_dm_def sim_oci_def sim_process_def
      keeps_obs_def sim_obs_def prog_defs split: prod.split)

definition sim_ring :: "GW \<Rightarrow> string \<Rightarrow> bytes option" where
  "sim_ring w = hm_get (gw_keys w)"

definition sim_opened :: "GW \<Rightarrow> DevId \<Rightarrow> (u64 \<times> u64 \<times> string \<times> string) list option" where
  "sim_opened w = hm_get (gw_tables w)"

lemma sim_crypt_lawful: "crypt_lawful sim_guest_os sim_dm sim_ring sim_opened"
  by (auto simp: crypt_lawful_def sim_guest_os_def sim_dm_def sim_ring_def sim_opened_def keeps_obs_def fun_eq_iff prog_defs
      split: if_splits)

lemma sim_crypt_keeps:
  "os_others_keep sim_guest_os (\<lambda>w. (sim_ring w, sim_opened w))" "oci_keep sim_oci (\<lambda>w. (sim_ring w, sim_opened w))"
  by (simp_all add: os_others_keep_def oci_keep_def sim_guest_os_def sim_oci_def sim_process_def
      keeps_obs_def sim_ring_def sim_opened_def prog_defs split: prod.split)

lemma sim_log_kept: "log_kept sim_guest gw_log"
  by (simp add: log_kept_def os_others_keep_def dm_others_keep_def oci_keep_def sim_defs keeps_obs_def prog_defs
      split: prod.split)

lemma sim_rem_lawful: "rem_lawful sim_guest gw_log"
  by (auto simp: rem_lawful_def sim_guest_def upd_def)

lemma sim_join_order: "set (join_order sim_guest n w) = {..<n}"
  by (auto simp: sim_guest_def)

lemma sim_json_lawful: "json_lawful sim_oci"
  by (auto simp: json_lawful_def sim_oci_def sim_metadata_def split: if_splits)

lemma sim_guest_files_lawful: "files_lawful sim_guest_os"
  by (auto simp: files_lawful_def sim_guest_os_def sim_lookup_def upd_def)

section \<open>A realm that was provisioned\<close>

definition sim_infos :: "ApplicationInfo list" where
  "sim_infos = [sim_info 1 2 3, sim_info 4 5 6]"

lemma sim_new: "Manager_new sim_guest sim_config gw0 = (Inr (sim_mgr\<lparr>m_sealing_factory := FDummy [0x11, 0x22, 0x33]\<rparr>), gw0)"
  by (simp add: Manager_new_def sim_config_def requires_rsi_def sim_guest_def sim_mgr_def insmod_def sim_guest_os_def
      prog_defs cstring_from_str_def)

definition sim_mgr2 :: "(SimProcess, bool) Manager" where
  "sim_mgr2 = sim_mgr\<lparr>m_sealing_factory := FDummy [0x11, 0x22, 0x33]\<rparr>"

definition sim_life :: "(SystemPowerAction + Response) \<times> (SimProcess, bool) Manager \<times> GW" where
  "sim_life = handle_received_request sim_guest (ProvisionInfo sim_infos) (sim_mgr2, gw0)"

lemma sim_reach: "guest_reach sim_guest sim_config (fst (snd sim_life), snd (snd sim_life))"
proof (rule guest_reach.guest_request [where r = "fst sim_life" and req = "ProvisionInfo sim_infos"])
  show "guest_reach sim_guest sim_config (sim_mgr2, gw0)"
    by (rule guest_reach.guest_new [of _ _ gw0]) (simp add: sim_new sim_mgr2_def)
qed (simp add: sim_life_def)

lemma sim_guest_lawful: "child_lawful (g_child sim_guest) fst sim_live"
  using sim_child_lawful by (simp add: sim_guest_def)

lemma sim_order_bound: "set (join_order sim_guest n w) \<subseteq> {..<n}"
  by (simp add: sim_join_order)

lemma sim_life_facts:
  "map_option (\<lambda>(app, h). (app_workdir app, sah_channel h, map_option (\<lambda>t. fst (task_process t)) (sah_thread h)))
     (hm_get (m_apps (fst (snd sim_life))) 4) = Some (''/w/4'', True, Some 7)"
  by code_simp

end
