(* ===== verification/Guest_Loop.thy ===== *)
theory Guest_Loop
  imports Guest_Link
begin

text \<open>
  The event loop of the manager inside a realm (\<open>Manager::handle_events\<close>) over a connection whose other
  end sends some requests and closes: the loop answers them in order and ends with the system going down.
\<close>

section \<open>A connection that ends\<close>

text \<open>
  The requests still to be read, the responses written and whether the end was seen. Reading past the last
  request reports the end of the stream, and nothing can be written from then on.
\<close>

type_synonym Stream = "Request list \<times> Response list \<times> bool"

definition stream_frames :: "io_error \<Rightarrow> (Stream, Request, Response, 'w) FrameOps" where
  "stream_frames e =
     \<lparr>try_next = (\<lambda>((is, os, closed), w). case is of [] \<Rightarrow> (Inr None, (([], os, True), w))
                               | i # is' \<Rightarrow> (Inr (Some i), ((is', os, closed), w))),
      frame_send = (\<lambda>x ((is, os, closed), w).
        if closed then (Inl e, ((is, os, closed), w)) else (Inr (), ((is, os @ [x], closed), w)))\<rparr>"

lemma stream_recv:
  assumes "g_frame E = stream_frames e" and "m_conn m = (is, os, closed)"
  shows "recv_msg E (m, w) =
     (case is of [] \<Rightarrow> (Inl (EManager (FramedJsonError StreamIsClosed)), (m\<lparr>m_conn := ([], os, True)\<rparr>, w))
      | i # is' \<Rightarrow> (Inr i, (m\<lparr>m_conn := (is', os, closed)\<rparr>, w)))"
  using assms
  by (simp add: recv_msg_def on_conn_def json_recv_def stream_frames_def zoom_def prog_defs split: list.split)

lemma stream_send:
  assumes "g_frame E = stream_frames e" and "m_conn m = (is, os, closed)"
  shows "send_msg E resp (m, w) =
     (if closed then (Inl (EManager (FramedJsonError (SerdeWriteError e))), (m, w))
      else (Inr (), (m\<lparr>m_conn := (is, os @ [resp], closed)\<rparr>, w)))"
  using assms
  by (simp add: send_msg_def on_conn_def json_send_def stream_frames_def zoom_def prog_defs)

section \<open>Requests leave the connection alone\<close>

definition conn_is :: "'st \<Rightarrow> ('p, 'st) Manager \<times> 'w \<Rightarrow> bool" where
  "conn_is c s \<longleftrightarrow> m_conn (fst s) = c"

lemma conn_world [keeps_rules]: "keeps (conn_is c) (in_world m)"
  by (rule keeps_in_world) (simp add: conn_is_def)

lemma conn_with_handler [keeps_rules]: "keeps (conn_is c) (with_handler i op)"
  by (rule keepsI) (auto simp: with_handler_def conn_is_def split: prod.splits option.splits)

lemma conn_setup_tasks [keeps_rules]: "keeps (conn_is c) (join_setup_tasks E params ts)"
  by (induction ts)
    (auto simp: conn_is_def [abs_def] intro!: keeps_rules keeps_upd keeps_in_world split: sum.split prod.split)

lemma conn_provision [keeps_rules]: "keeps (conn_is c) (provision E infos)"
  unfolding provision_def measure_app_def autostart_def
  by (auto intro!: keeps_rules split: prod.split option.split sum.split)

lemma conn_reboot [keeps_rules]: "keeps (conn_is c) (perform_reboot E action)"
  by (rule keepsI) (auto simp: conn_is_def perform_reboot_run split: prod.splits option.splits)

lemma conn_request: "keeps (conn_is c) (handle_received_request E req)"
proof -
  have "keeps (conn_is c) (guest_handle_request E req)"
    by (cases req) (auto simp: handler_request_def read_attestation_token_def intro!: keeps_rules
        split: LauncherType.split OciLauncherConfig.split TokenResolver.split)
  then show ?thesis unfolding handle_received_request_def by (auto intro!: keeps_rules)
qed

lemma request_conn:
  "handle_received_request E req (m, w) = (r, (m', w')) \<Longrightarrow> m_conn m' = m_conn m"
  using keepsD [OF conn_request [of "m_conn m" E req], of "(m, w)" r "(m', w')"] by (simp add: conn_is_def)

section \<open>Turns of the loop\<close>

fun power_action :: "Request \<Rightarrow> SystemPowerAction option" where
  "power_action Shutdown = Some SysShutdown"
| "power_action Reboot = Some SysReboot"
| "power_action _ = None"

text \<open>The requests before the first one that takes the system down, and how it goes down in the end.\<close>

definition answered :: "Request list \<Rightarrow> Request list" where
  "answered reqs = takeWhile (\<lambda>q. power_action q = None) reqs"

definition last_action :: "Request list \<Rightarrow> SystemPowerAction" where
  "last_action reqs =
     (case dropWhile (\<lambda>q. power_action q = None) reqs of [] \<Rightarrow> SysShutdown | q # _ \<Rightarrow> the (power_action q))"

text \<open>
  Every application is asked to stop and is then cleaned up, one after the other, whatever comes of it. Going down is
  this followed by the power action.
\<close>

inductive taken_down ::
  "('c, 'p, 'x, 'i, 'ic, 'st, 'w) GuestEnv \<Rightarrow> (uuid \<times> 'p AppEntry) list \<Rightarrow> 'w \<Rightarrow> (uuid \<times> 'p AppEntry) list \<Rightarrow> 'w \<Rightarrow> bool"
  for E where
  down_none: "taken_down E [] w [] w"
| down_app: "handler_stop (g_child E) (g_sched E) (h, w) = (r, (h', w1)) \<Longrightarrow>
    app_cleanup (g_os E) (g_dm E) (app, w1) = (q, (app', w2)) \<Longrightarrow> taken_down E rest w2 rest' w' \<Longrightarrow>
    taken_down E ((i, (app, h)) # rest) w ((i, (app', h')) # rest') w'"

lemma shutdown_apps_down: "shutdown_apps E apps w = (apps', w') \<Longrightarrow> taken_down E apps w apps' w'"
  by (induction E apps w arbitrary: apps' w' rule: shutdown_apps.induct)
    (auto intro: taken_down.intros split: prod.splits)

definition went_down ::
  "('c, 'p, 'x, 'i, 'ic, 'st, 'w) GuestEnv \<Rightarrow> SystemPowerAction \<Rightarrow> ('p, 'st) Manager \<times> 'w \<Rightarrow> ('p, 'st) Manager \<times> 'w \<Rightarrow> bool" where
  "went_down E action s t \<longleftrightarrow>
     (case (s, t) of ((m, w), (m', w')) \<Rightarrow>
        \<exists>w1. taken_down E (m_apps m) w (m_apps m') w1 \<and> go_reboot (g_os E) action w1 = (None, w'))"

lemma perform_reboot_granted:
  assumes "\<And>a w. fst (go_reboot (g_os E) a w) = None"
  obtains m' w' where "perform_reboot E action (m, w) = (Inl action, (m', w'))"
    "went_down E action (m, w) (m', w')" "m_conn m' = m_conn m"
proof -
  obtain apps w1 where s: "shutdown_apps E (m_apps m) w = (apps, w1)" by (cases "shutdown_apps E (m_apps m) w")
  obtain w2 where g: "go_reboot (g_os E) action w1 = (None, w2)"
    using assms [of action w1] by (cases "go_reboot (g_os E) action w1") simp
  show thesis
    by (rule that [of "m\<lparr>m_apps := apps\<rparr>" w2]) (use shutdown_apps_down [OF s] g in \<open>auto simp: perform_reboot_run s went_down_def\<close>)
qed

lemma power_request:
  "power_action q = Some a \<Longrightarrow> handle_received_request E q s =
     (case perform_reboot E a s of (Inl a, t) \<Rightarrow> (Inl a, t) | (Inr r, t) \<Rightarrow> (Inr (case r of Inr x \<Rightarrow> x | Inl e \<Rightarrow> ResponseError e), t))"
  by (cases q) (auto simp: handle_received_request_def try_bind_def ok_def split: prod.split sum.split)

lemma ordinary_request:
  assumes "power_action q = None"
  obtains resp m' w' where "handle_received_request E q (m, w) = (Inr resp, (m', w'))" "response_ok q resp"
    "m_conn m' = m_conn m"
proof -
  obtain r m' w' where r: "handle_received_request E q (m, w) = (r, (m', w'))" by (metis surj_pair)
  then obtain resp where "r = Inr resp"
    using only_power_requests_end [of E q "(m, w)"] assms by (cases r) auto
  then show thesis using that r answer_ok request_conn by metis
qed

lemma turn_end:
  assumes "g_frame E = stream_frames e" and "m_conn m = ([], os, closed)" and "\<And>a w. fst (go_reboot (g_os E) a w) = None"
  obtains m' w' where "handle_event E (m, w) = (LoopDown SysShutdown, (m', w'))"
    "went_down E SysShutdown (m, w) (m', w')" "m_conn m' = ([], os, True)"
proof -
  let ?m = "m\<lparr>m_conn := ([], os, True)\<rparr>"
  obtain m' w' where p: "perform_reboot E SysShutdown (?m, w) = (Inl SysShutdown, (m', w'))"
    "went_down E SysShutdown (?m, w) (m', w')" "m_conn m' = m_conn ?m"
    using perform_reboot_granted [OF assms(3)] by blast
  show thesis
    by (rule that [of m' w']) (use p in \<open>simp_all add: handle_event_def stream_recv [OF assms(1,2)]
        stream_send [OF assms(1)] Let_def went_down_def\<close>)
qed

lemma turn_power:
  assumes "g_frame E = stream_frames e" and "m_conn m = (q # qs, os, False)" and "\<And>a w. fst (go_reboot (g_os E) a w) = None"
    and "power_action q = Some a"
  obtains m' w' where "handle_event E (m, w) = (LoopDown a, (m', w'))"
    "went_down E a (m, w) (m', w')" "m_conn m' = (qs, os, False)"
proof -
  let ?m = "m\<lparr>m_conn := (qs, os, False)\<rparr>"
  obtain m' w' where p: "perform_reboot E a (?m, w) = (Inl a, (m', w'))"
    "went_down E a (?m, w) (m', w')" "m_conn m' = m_conn ?m"
    using perform_reboot_granted [OF assms(3)] by blast
  show thesis
    by (rule that [of m' w']) (use p in \<open>simp_all add: handle_event_def stream_recv [OF assms(1,2)]
        power_request [OF assms(4)] Let_def went_down_def\<close>)
qed

lemma turn_answered:
  assumes "g_frame E = stream_frames e" and "m_conn m = (q # qs, os, False)" and "power_action q = None"
  obtains resp m' w' where "handle_event E (m, w) = (LoopRunning, (m', w'))" "response_ok q resp"
    "m_conn m' = (qs, os @ [resp], False)"
proof -
  let ?m = "m\<lparr>m_conn := (qs, os, False)\<rparr>"
  obtain resp m' w' where r: "handle_received_request E q (?m, w) = (Inr resp, (m', w'))" "response_ok q resp"
    "m_conn m' = m_conn ?m" by (rule ordinary_request [OF assms(3)])
  have c: "m_conn m' = (qs, os, False)" using r(3) by simp
  show thesis
    by (rule that [of "m'\<lparr>m_conn := (qs, os @ [resp], False)\<rparr>" w' resp])
      (simp_all add: handle_event_def stream_recv [OF assms(1,2)] r(1,2) stream_send [OF assms(1) c] Let_def)
qed

lemma loop_ends:
  assumes "g_frame E = stream_frames e" and "\<And>a w. fst (go_reboot (g_os E) a w) = None"
    and "m_conn m = (reqs, os, False)"
  shows "\<exists>rs s1 m' w'. handle_events E (Suc (length (answered reqs)) + n) (m, w) = (LoopDown (last_action reqs), (m', w')) \<and>
    handle_events E (length (answered reqs)) (m, w) = (LoopRunning, s1) \<and>
    list_all2 response_ok (answered reqs) rs \<and> went_down E (last_action reqs) s1 (m', w') \<and> fst (snd (m_conn m')) = os @ rs"
  using assms(3)
proof (induction reqs arbitrary: m w os)
  case Nil
  from turn_end [OF assms(1) Nil assms(2), of w] obtain m' w' where "handle_event E (m, w) = (LoopDown SysShutdown, (m', w'))"
    "went_down E SysShutdown (m, w) (m', w')" "m_conn m' = ([], os, True)" by blast
  then show ?case by (intro exI [of _ "[]"] exI [of _ "(m, w)"] exI [of _ m'] exI [of _ w']) (simp add: answered_def last_action_def)
next
  case (Cons q reqs)
  show ?case
  proof (cases "power_action q")
    case (Some a)
    from turn_power [OF assms(1) Cons.prems assms(2) Some, of w] obtain m' w' where
      "handle_event E (m, w) = (LoopDown a, (m', w'))" "went_down E a (m, w) (m', w')" "m_conn m' = (reqs, os, False)" by blast
    then show ?thesis using Some
      by (intro exI [of _ "[]"] exI [of _ "(m, w)"] exI [of _ m'] exI [of _ w']) (simp add: answered_def last_action_def)
  next
    case None
    from turn_answered [OF assms(1) Cons.prems None, of w] obtain resp m1 w1 where
      t: "handle_event E (m, w) = (LoopRunning, (m1, w1))" "response_ok q resp" "m_conn m1 = (reqs, os @ [resp], False)" by blast
    have "answered (q # reqs) = q # answered reqs" "last_action (q # reqs) = last_action reqs"
      using None by (simp_all add: answered_def last_action_def)
    with Cons.IH [OF t(3), of w1] t(1,2) show ?thesis
      by (elim exE conjE) (rule exI [of _ "resp # _"], intro exI conjI, auto)
  qed
qed

end
