(* ===== verification/Guest_Properties.thy ===== *)
theory Guest_Properties
  imports Guest_Simulation Guest_Loop
begin

text \<open>
  What is shown of the manager inside a realm, alone and together with the daemon. Each theorem
  with hypotheses is applied to the simulated realm.
\<close>

section \<open>The simulated run\<close>

definition sim_client :: "(unit, Link, (SimProcess, bool) Manager \<times> GW) ClientEnv" where
  "sim_client =
     \<lparr>connector = \<lparr>acquire_realm_sender = (\<lambda>cid w. ((), w)), select_sender = (\<lambda>t rx w. (Received idle_link, w))\<rparr>,
      senders = realm_link sim_guest, dbg_response = (\<lambda>r. []), dbg_protocol_error = (\<lambda>e. []), dbg_sender_error = (\<lambda>e. [])\<rparr>"

definition sim_handler :: "Link RealmClientHandler" where
  "sim_handler = \<lparr>connection_wait_time = 5, response_timeout = 5, sender = Some idle_link\<rparr>"

section \<open>Invariant of the manager\<close>

text \<open>
  (C17) In every state that the manager of a realm can reach, by requests in any order and with any
  outcome, every application is filed under its own identifier, works in the directory of that
  identifier, has a program to run, and its handler would run it only inside its own overlay; the
  two halves of the handler (task and channel) are there together or not at all.
\<close>

theorem guest_reachable_inv:
  assumes "child_lawful (g_child E) pid live" and "\<And>n w. set (join_order E n w) \<subseteq> {..<n}"
    and "guest_reach E config (m, w)" and "hm_get (m_apps m) i = Some (app, h)"
  shows "app_id app = i \<and> app_workdir app = path_push (cfg_workdir config) (ae_uuid (g_app E) i) \<and> sah_wf h \<and>
    argv (sah_config h) \<noteq> [] \<and> (\<exists>sub. chroot (sah_config h) = Some (path_push (app_workdir app) ''overlay'' @ sub))"
  using guest_reach_inv [OF assms(1-3)] map_of_SomeD [OF assms(4)] by (auto simp: mgr_inv_def entry_ok_def)

theorem guest_reachable_inv_witness:
  "\<exists>app h. hm_get (m_apps (fst (snd sim_life))) 4 = Some (app, h) \<and> sah_thread h \<noteq> None \<and>
     (\<exists>sub. chroot (sah_config h) = Some (''/w/4/overlay'' @ sub))"
proof -
  from sim_life_facts obtain app h where e: "hm_get (m_apps (fst (snd sim_life))) 4 = Some (app, h)" "sah_channel h"
      "app_workdir app = ''/w/4''"
    by (auto split: prod.splits)
  from guest_reachable_inv [OF sim_guest_lawful sim_order_bound sim_reach e(1)] show ?thesis
    using e by (auto simp: sah_wf_def path_push_def)
qed

section \<open>The daemon and the realm\<close>

text \<open>
  (C5) When the daemon reports that a realm was provisioned, the realm has exactly the applications
  that the daemon listed, and its measurement register was extended with their measurements in the
  order of that list, whatever the order in which the installations finished. The pieces that went
  into the register are no longer than the hardware takes and together are the measurement.
\<close>

theorem daemon_provision_measured:
  assumes "senders C = realm_link G" and "sender h = Some idle_link" and "log_kept G log" and "rem_lawful G log"
    and "\<And>n v. set (join_order G n v) = {..<n}" and "0 < MAX_MEASUR_LEN G" and "cfg_extend (m_config m) = Some rem"
    and "provision_applications C cfg (h, (m, w)) = (Inr (), (h', (m', w')))"
  shows "dom (hm_get (m_apps m')) = info_id ` set (application_infos_from cfg) \<and>
    log w' = log w @ concat (map (\<lambda>info. map (Pair (rem_as_u32 rem)) (chunks (MAX_MEASUR_LEN G) (measured m' (info_id info))))
      (application_infos_from cfg)) \<and>
    (\<forall>i. concat (chunks (MAX_MEASUR_LEN G) (measured m' i)) = measured m' i \<and>
      list_all (\<lambda>c. c \<noteq> [] \<and> length c \<le> MAX_MEASUR_LEN G) (chunks (MAX_MEASUR_LEN G) (measured m' i)))"
proof -
  have "provision G (application_infos_from cfg) (m, w) = (Inr (), (m', w'))"
    using daemon_provision [OF assms(1,2)] assms(8) by blast
  from provision_measures [OF assms(3,4) this assms(5)] show ?thesis
    using assms(6,7) by (auto simp: extension_def concat_chunks list_all_iff dest: chunks_size)
qed

definition sim_provisioning :: RealmProvisioningConfig where
  "sim_provisioning = \<lparr>applications_data =
     [\<lparr>data_id = 1, data_name = ''n'', data_version = ''1'', data_image_registry = ''r'', data_image_part_uuid = 2, data_data_part_uuid = 3\<rparr>,
      \<lparr>data_id = 4, data_name = ''n'', data_version = ''1'', data_image_registry = ''r'', data_image_part_uuid = 5, data_data_part_uuid = 6\<rparr>]\<rparr>"

definition sim_provisioned :: "(RealmClientError + unit) \<times> Link RealmClientHandler \<times> (SimProcess, bool) Manager \<times> GW" where
  "sim_provisioned = provision_applications sim_client sim_provisioning (sim_handler, (sim_mgr2, gw0))"

lemma sim_provisioned_ok: "fst sim_provisioned = Inr ()"
  by code_simp

theorem daemon_provision_measured_witness:
  "dom (hm_get (m_apps (fst (snd (snd sim_provisioned))))) = {1, 4} \<and>
   gw_log (snd (snd (snd sim_provisioned))) =
     map (Pair 1) (chunks 2 (measured (fst (snd (snd sim_provisioned))) 1)) @
     map (Pair 1) (chunks 2 (measured (fst (snd (snd sim_provisioned))) 4))"
proof -
  have r: "provision_applications sim_client sim_provisioning (sim_handler, (sim_mgr2, gw0)) =
      (Inr (), (fst (snd sim_provisioned), (fst (snd (snd sim_provisioned)), snd (snd (snd sim_provisioned)))))"
    using sim_provisioned_ok by (simp add: sim_provisioned_def prod_eq_iff)
  have "0 < MAX_MEASUR_LEN sim_guest" "cfg_extend (m_config sim_mgr2) = Some Rem0"
    by (simp_all add: sim_guest_def sim_mgr2_def sim_mgr_def sim_config_def)
  from daemon_provision_measured [OF _ _ sim_log_kept sim_rem_lawful sim_join_order this r] show ?thesis
    by (simp add: sim_client_def sim_handler_def application_infos_from_def application_info_from_def
        sim_provisioning_def gw0_def sim_guest_def)
qed

section \<open>Images\<close>

text \<open>
  (C7) An installation that succeeds either launches what the metadata file on the encrypted partition
  describes, without having changed anything, or installs an image whose chain of signatures was
  checked: the key of the certification authority signed the vendor key of the image, and that vendor
  key signed its configuration. The measurement is then the vendor key with its signature and the
  hash of the configuration.
\<close>

theorem installed_image_trusted:
  assumes "oci_install S X self path im_url name version w = (Inr md, w')"
  shows "\<exists>cl rf answer meta w1 w2 w3. create_oci_client X self im_url w = (Inr cl, w1) \<and>
    get_image_info X cl name rf w1 = (answer, w2) \<and> try_read_metadata S X path w2 = (Inr meta, w3) \<and>
    ((\<exists>m. meta = Some m \<and> w' = w3 \<and> md = \<lparr>vendor_data = vendor_cert m, image_hash = config_hash m\<rparr>) \<or>
     (\<exists>info anns a. answer = Inr info \<and> annotations X info = Some anns \<and> RequiredAnnotations_try_from X anns = Inr a \<and>
        trusted X (ca_pub_key self) a (config_bytes X info) \<and>
        md = \<lparr>vendor_data = [ra_vendor_pubkey a, ra_vendor_pubkey_signature a],
              image_hash = sha384 X (config_bytes X info)\<rparr>))"
proof (rule oci_install_Inr [OF assms], elim disjE exE conjE, goal_cases)
  case (1 cl rf answer meta w1 w2 w3 m)
  then show ?case using choose_launch [OF 1(5)] by blast
next
  case (2 cl rf answer meta w1 w2 w3 info cert hash)
  show ?case
  proof (rule choose_install [OF 2(5)])
    fix anns a
    assume "answer = Inr info" "annotations X info = Some anns" "RequiredAnnotations_try_from X anns = Inr a"
      "trusted X (ca_pub_key self) a (config_bytes X info)" "cert = [ra_vendor_pubkey a, ra_vendor_pubkey_signature a]"
      "hash = sha384 X (config_bytes X info)"
    then show ?case using 2(1,3,4) perform_install_result [OF 2(6)] by blast
  qed
qed

definition sim_install :: "(Error + ApplicationMetadata) \<times> GW" where
  "sim_install = oci_install sim_guest_os sim_oci (from_oci_config NoTLS sim_ca) ''/w/image/root'' ''r'' ''n'' ''1'' gw0"

lemma sim_install_run:
  "fst sim_install = Inr \<lparr>vendor_data = [as_bytes ''v'', as_bytes ''av''], image_hash = as_bytes ''c''\<rparr>"
  by code_simp

theorem installed_image_trusted_witness: "\<exists>a. trusted sim_oci sim_ca a (as_bytes ''c'')"
proof -
  have r: "oci_install sim_guest_os sim_oci (from_oci_config NoTLS sim_ca) ''/w/image/root'' ''r'' ''n'' ''1'' gw0 =
      (Inr \<lparr>vendor_data = [as_bytes ''v'', as_bytes ''av''], image_hash = as_bytes ''c''\<rparr>, snd sim_install)"
    using sim_install_run by (simp add: sim_install_def prod_eq_iff)
  have c: "create_oci_client sim_oci (from_oci_config NoTLS sim_ca) ''r'' gw0 = (Inr [], gw0)"
    by (simp add: create_oci_client_def from_oci_config_def sim_oci_def prog_defs)
  have g: "get_image_info sim_oci cl n rf v = (Inr sim_image, v)" for cl n rf v
    by (simp add: sim_oci_def ok_def)
  have m: "fst (try_read_metadata sim_guest_os sim_oci ''/w/image/root'' gw0) = Inr None"
    by code_simp
  have b: "config_bytes sim_oci sim_image = as_bytes ''c''" "ca_pub_key (from_oci_config NoTLS sim_ca) = sim_ca"
    by (simp_all add: sim_oci_def sim_image_def from_oci_config_def)
  from installed_image_trusted [OF r] show ?thesis using c g m b by auto
qed

text \<open>
  (C19) An image whose chain of signatures does not check out, and which is not the installed one (the same
  configuration from the same vendor key with the same signature), is refused with an error, and nothing was done beyond asking the registry and reading the metadata:
  no directory is made, nothing is unpacked, the installed image and its metadata stay.
\<close>

theorem untrusted_image_refused:
  assumes "create_oci_client X self im_url w = (Inr cl, w1)" and "reference_from X version = Inr rf"
    and "get_image_info X cl name rf w1 = (Inr info, w2)" and "try_read_metadata S X path w2 = (Inr meta, w3)"
    and "annotations X info = Some anns" and "RequiredAnnotations_try_from X anns = Inr a"
    and "\<not> trusted X (ca_pub_key self) a (config_bytes X info)"
    and "\<And>m. meta = Some m \<Longrightarrow> \<not> (config_hash m = sha384 X (config_bytes X info) \<and>
       vendor_cert m = [ra_vendor_pubkey a, ra_vendor_pubkey_signature a])"
  shows "\<exists>e. oci_install S X self path im_url name version w = (Inl e, w3)"
proof -
  from choose_refuses [OF assms(5-8)] obtain e where "choose_action X self (Inr info) meta = Inl e"
    by (auto simp: isl_def)
  with assms(1-4) show ?thesis by (simp add: oci_install_def prog_defs)
qed

text \<open>The registry offers the image to a realm that trusts another authority.\<close>

definition sim_annotations :: RequiredAnnotations where
  "sim_annotations = \<lparr>ra_signature = as_bytes ''vc'', ra_vendor_pubkey = as_bytes ''v'',
     ra_vendor_pubkey_signature = as_bytes ''av''\<rparr>"

lemma sim_annotations_read: "RequiredAnnotations_try_from sim_oci (fst sim_image) = Inr sim_annotations"
  by code_simp

lemma sim_untrusted: "\<not> trusted sim_oci (as_bytes ''b'') sim_annotations (as_bytes ''c'')"
  by code_simp

lemma sim_no_metadata: "try_read_metadata sim_guest_os sim_oci ''/w'' gw0 = (Inr None, gw0)"
proof -
  have "fst (try_read_metadata sim_guest_os sim_oci ''/w'' gw0) = Inr None" by code_simp
  moreover have "snd (try_read_metadata sim_guest_os sim_oci ''/w'' gw0) = gw0"
    by (simp add: try_read_metadata_def read_to_string_def sim_guest_os_def prog_defs split: prod.split sum.split)
  ultimately show ?thesis by (simp add: prod_eq_iff)
qed

theorem untrusted_image_refused_witness:
  "\<exists>e. oci_install sim_guest_os sim_oci (from_oci_config NoTLS (as_bytes ''b'')) ''/w'' ''r'' ''n'' ''1'' gw0 = (Inl e, gw0)"
proof (rule untrusted_image_refused [where cl = "[]" and rf = "[]" and info = sim_image and ?w1.0 = gw0 and ?w2.0 = gw0 and meta = None
      and anns = "fst sim_image" and a = sim_annotations])
  show "create_oci_client sim_oci (from_oci_config NoTLS (as_bytes ''b'')) ''r'' gw0 = (Inr [], gw0)"
    by (simp add: create_oci_client_def from_oci_config_def sim_oci_def prog_defs)
  show "\<not> trusted sim_oci (ca_pub_key (from_oci_config NoTLS (as_bytes ''b''))) sim_annotations (config_bytes sim_oci sim_image)"
    using sim_untrusted by (simp add: from_oci_config_def sim_oci_def sim_image_def)
qed (simp_all add: sim_no_metadata sim_annotations_read, simp_all add: sim_oci_def ok_def)

section \<open>Partitions\<close>

text \<open>
  (C16) Setting an application up and cleaning it up again, when both succeed, leaves the mounts and
  the mapped devices of the realm as they were, whatever the application did to other things in
  between, and leaves no device in the hands of the manager.
\<close>

theorem setup_cleanup_restores:
  assumes "app_world_lawful S M obs" and "os_others_keep S obs" and "dm_others_keep M obs" and "oci_keep X obs"
    and "Application_new M info workdir u = (Inr a, w)"
    and "app_setup S M C X A params l keyseal (a, w) = (Inr h, (a', w'))"
    and "obs v = obs w'" and "app_cleanup S M (a', v) = (Inr (), (a'', v'))"
  shows "obs v' = obs w \<and> app_devices a'' = []"
proof -
  have "app_devices a = []" using assms(5) by (auto simp: Application_new_def run_iffs)
  from setup_cleanup [OF assms(1-4) this assms(6-8)] show ?thesis by blast
qed

definition sim_app :: GuestApplication where
  "sim_app = \<lparr>app_info = sim_info 1 2 3, app_workdir = ''/w/1'', app_devices = [], app_measurements = []\<rparr>"

definition sim_setup :: "(Error + SimProcess SimpleApplicationHandler) \<times> GuestApplication \<times> GW" where
  "sim_setup = app_setup sim_guest_os sim_dm sim_crypto sim_oci sim_app_env sim_params sim_launcher
     (SDummy (DummyKeySealing_new [5])) (sim_app, gw0)"

definition sim_cleanup :: "(Error + unit) \<times> GuestApplication \<times> GW" where
  "sim_cleanup = app_cleanup sim_guest_os sim_dm (snd sim_setup)"

lemma sim_setup_ok: "\<not> isl (fst sim_setup)" "sim_obs (snd (snd sim_setup)) \<noteq> sim_obs gw0"
  by code_simp+

lemma sim_cleanup_ok: "fst sim_cleanup = Inr ()"
  by code_simp

lemma sim_new_app: "Application_new sim_dm (sim_info 1 2 3) ''/w/1'' gw0 = (Inr sim_app, gw0)"
  by (simp add: Application_new_def DeviceMapper_init_def KernelKeyring_new_def sim_dm_def sim_app_def prog_defs)

theorem setup_cleanup_restores_witness:
  "sim_obs (snd (snd sim_setup)) \<noteq> sim_obs gw0 \<and> sim_obs (snd (snd sim_cleanup)) = sim_obs gw0"
proof -
  obtain h where "fst sim_setup = Inr h" using sim_setup_ok(1) by (cases "fst sim_setup") auto
  then have s: "app_setup sim_guest_os sim_dm sim_crypto sim_oci sim_app_env sim_params sim_launcher
     (SDummy (DummyKeySealing_new [5])) (sim_app, gw0) = (Inr h, (fst (snd sim_setup), snd (snd sim_setup)))"
    by (simp add: sim_setup_def prod_eq_iff)
  have c: "app_cleanup sim_guest_os sim_dm (fst (snd sim_setup), snd (snd sim_setup)) =
      (Inr (), (fst (snd sim_cleanup), snd (snd sim_cleanup)))"
    using sim_cleanup_ok by (simp add: sim_cleanup_def prod_eq_iff)
  from setup_cleanup_restores [OF sim_app_world sim_keeps sim_new_app s refl c] sim_setup_ok(2) show ?thesis by blast
qed

text \<open>
  (C18) The data partition of an application that was set up is opened with a key that is sealed to the image: the mapped device
  of the partition has a table over that partition which names one key of the kernel's ring, and under that name the ring
  holds the key derived for the name of the application from key material that was sealed to the vendor data (and, when
  the realm uses a key bound to its initial measurement, the image hash) of exactly the image that was installed and measured.
\<close>

theorem data_key_sealed:
  assumes "crypt_lawful S M ring opened" and "os_others_keep S (\<lambda>w. (ring w, opened w))" and "oci_keep X (\<lambda>w. (ring w, opened w))"
    and "app_setup S M C X A params l keyseal (a, w) = (Inr h, (a', w'))"
  shows "\<exists>md k key sz st d u u' v v'.
    launcher_install S X l (path_push (path_push (app_workdir a) ''image'') ''root'') (info_image_registry (app_info a))
      (info_name (app_info a)) (info_version (app_info a)) u = (Inr md, u') \<and>
    app_measurements a' = app_measurements a @ concat (vendor_data md) @ image_hash md \<and>
    sealing_seal C keyseal (vendor_data md) (image_hash md) = Inr k \<and>
    sealing_mat k = sealing_kdf C keyseal (sealing_bound keyseal (vendor_data md) (image_hash md)) \<and>
    key = sealing_key_of C k (as_bytes (info_name (app_info a))) \<and>
    ring w' (''app-manager:'' @ ae_uuid A (info_data_part_uuid (app_info a))) = Some key \<and>
    last (app_devices a') = d \<and> di_name (dh_info d) = Some (''crypt_'' @ ae_uuid A (info_data_part_uuid (app_info a))) \<and>
    stat S (partition_path A (info_data_part_uuid (app_info a))) v = (Inr st, v') \<and>
    opened w' (IdName (''crypt_'' @ ae_uuid A (info_data_part_uuid (app_info a)))) = Some [(0, sz, ''crypt'',
      crypt_params \<lparr>tb_start = 0, tb_len = sz, tb_params = params, tb_offset = 0\<rparr> (MajorMinor (ae_major A st) (ae_minor A st))
        (KeyringKey (of_nat (length key)) Logon (''app-manager:'' @ ae_uuid A (info_data_part_uuid (app_info a)))))]"
proof (rule app_setup_data_key [OF assms], goal_cases)
  case (1 md k d1 d2 sz st u u' v v')
  have "sealing_mat k = sealing_kdf C keyseal (sealing_bound keyseal (vendor_data md) (image_hash md))"
    using ks.seals [of C keyseal "vendor_data md" "image_hash md"] 1(4) by (simp add: Sealing_ops_def)
  moreover have "app_measurements a' = app_measurements a @ concat (vendor_data md) @ image_hash md" "last (app_devices a') = d2"
    using 1(2) by (simp_all add: set_up_def measurement_of_def)
  moreover have "SUBCLASS @ '':'' @ x = ''app-manager:'' @ x" for x by (simp add: SUBCLASS_def)
  ultimately show ?case
    using 1(1,3-7)
    by (intro exI [of _ md] exI [of _ k] exI [of _ "sealing_key_of C k (as_bytes (info_name (app_info a)))"]
        exI [of _ sz] exI [of _ st] exI [of _ d2] exI [of _ u] exI [of _ u'] exI [of _ v] exI [of _ v']) (simp only: simp_thms)
qed

theorem data_key_sealed_witness:
  "\<exists>(md :: ApplicationMetadata) k. app_measurements (fst (snd sim_setup)) = concat (vendor_data md) @ image_hash md \<and>
    sealing_seal sim_crypto (SDummy (DummyKeySealing_new [5])) (vendor_data md) (image_hash md) = Inr k \<and>
    sim_ring (snd (snd sim_setup)) ''app-manager:3'' = Some (sealing_key_of sim_crypto k (as_bytes ''n'')) \<and>
    sim_opened (snd (snd sim_setup)) (IdName ''crypt_3'') \<noteq> None"
proof -
  obtain h where "fst sim_setup = Inr h" using sim_setup_ok(1) by (cases "fst sim_setup") auto
  then have s: "app_setup sim_guest_os sim_dm sim_crypto sim_oci sim_app_env sim_params sim_launcher
     (SDummy (DummyKeySealing_new [5])) (sim_app, gw0) = (Inr h, (fst (snd sim_setup), snd (snd sim_setup)))"
    by (simp add: sim_setup_def prod_eq_iff)
  have m: "app_measurements sim_app = []" "ae_uuid sim_app_env (info_data_part_uuid (app_info sim_app)) = ''3''"
      "info_name (app_info sim_app) = ''n''"
    by (simp add: sim_app_def, code_simp+)
  from data_key_sealed [OF sim_crypt_lawful sim_crypt_keeps s, unfolded m] show ?thesis
    by (elim exE conjE) (intro exI conjI, assumption?, auto)
qed

section \<open>Answers and the loop\<close>

text \<open>
  (C30) Whatever a request asks and however it fails, the manager answers with a response that the protocol
  has for that request: the matching success, or the matching error; only a shutdown or a reboot
  that goes through leaves a request without an answer.
\<close>

theorem answers_allowed:
  assumes "handle_received_request E req s = (r, s')"
  shows "case r of Inr resp \<Rightarrow> response_ok req resp | Inl action \<Rightarrow> req = Shutdown \<or> req = Reboot"
proof (cases r)
  case (Inl action)
  then show ?thesis using only_power_requests_end [of E req s action s'] assms by auto
next
  case (Inr resp)
  then show ?thesis using answer_ok [of E req s resp s'] assms by simp
qed

theorem answers_allowed_witness: "response_ok (CheckStatus 9) (ResponseError ApplicationNotFound)"
proof -
  have "handle_received_request sim_guest (CheckStatus 9) (sim_mgr, gw0) =
      (Inr (ResponseError ApplicationNotFound), (sim_mgr, gw0))"
    by (simp add: handle_received_request_def handler_request_def with_handler_def sim_mgr_def prog_defs)
  from answers_allowed [OF this] show ?thesis by simp
qed

text \<open>
  (C31) On a connection on which the other end sends some requests and then closes, the loop of the manager comes to an
  end: it answers every request before the first one that takes the system down, once and in order, each with an answer that the
  protocol has for it, and in the turn after the last answer (not before) it goes down, the way that request
  asks for or, at the end of the stream, by a shutdown. Before that every application it has then was in turn asked to stop and cleaned up (what fails there is
  passed over, as the power goes off), and the
  \<^verbatim>\<open>unreachable!\<close> behind the power-off is not reached as long as the power-off is granted.
\<close>

theorem guest_loop_ends:
  assumes "g_frame E = stream_frames e" and "\<And>a w. fst (go_reboot (g_os E) a w) = None"
    and "m_conn m = (reqs, [], False)"
  shows "\<exists>rs s1 m' w'. handle_events E (length (answered reqs)) (m, w) = (LoopRunning, s1) \<and>
    handle_events E (Suc (length (answered reqs)) + n) (m, w) = (LoopDown (last_action reqs), (m', w')) \<and>
    list_all2 response_ok (answered reqs) rs \<and> fst (snd (m_conn m')) = rs \<and>
    went_down E (last_action reqs) s1 (m', w')"
  using loop_ends [OF assms, of n w] by simp blast

definition stream_guest ::
  "(unit, SimProcess, bytes, (string \<times> string) list \<times> bytes, unit, Stream, GW) GuestEnv" where
  "stream_guest =
     \<lparr>g_os = sim_guest_os, g_dm = sim_dm, g_crypto = sim_crypto, g_oci = sim_oci, g_child = sim_child,
      g_sched = sim_sched, g_app = sim_app_env, g_frame = stream_frames sim_err, vsock_connect = (\<lambda>p. ok ([], [], False)),
      measurement_extend = (\<lambda>r c. upd (\<lambda>w. w\<lparr>gw_log := gw_log w @ [(r, c)]\<rparr>)), MAX_MEASUR_LEN = 2,
      join_order = (\<lambda>n w. rev [0..<n]), abort_tasks = (\<lambda>is w. w), dbg_error = (\<lambda>e. []), dbg_os_error = (\<lambda>e. [])\<rparr>"

definition stream_mgr :: "(SimProcess, Stream) Manager" where
  "stream_mgr = \<lparr>m_config = sim_config, m_apps = [],
     m_conn = ([ProvisionInfo sim_infos, StopApp 4, Reboot, StartApp 4], [], False), m_sealing_factory = FDummy [5]\<rparr>"

theorem guest_loop_ends_witness:
  "\<exists>a b m' w'. handle_events stream_guest 3 (stream_mgr, gw0) = (LoopDown SysReboot, (m', w')) \<and>
     fst (snd (m_conn m')) = [a, b] \<and> response_ok (ProvisionInfo sim_infos) a \<and> response_ok (StopApp 4) b"
proof -
  have "answered [ProvisionInfo sim_infos, StopApp 4, Reboot, StartApp 4] = [ProvisionInfo sim_infos, StopApp 4]"
    "last_action [ProvisionInfo sim_infos, StopApp 4, Reboot, StartApp 4] = SysReboot"
    by (simp_all add: answered_def last_action_def)
  with guest_loop_ends [of stream_guest sim_err stream_mgr "[ProvisionInfo sim_infos, StopApp 4, Reboot, StartApp 4]" gw0 0]
  show ?thesis
    by (auto simp: stream_guest_def stream_mgr_def sim_guest_os_def prog_defs list_all2_Cons1 numeral_3_eq_3
        simp del: response_ok.simps handle_events.simps)
qed

section \<open>Output that is not text\<close>

text \<open>
  (C40) When an application prints something that is not valid text, the task that watches it ends and lets go
  of the process: the next stop fails without sending a signal, and the next start launches a second
  process beside the first one, which nobody stops any more.
\<close>

theorem unreadable_output_orphans:
  assumes "sah_wf s" and "sah_thread s = Some (Looping p True err)" and "before_send S w = [StdoutLine (Inl e)]"
    and "argv (sah_config s) = arg0 # rest"
    and "co_spawn CO \<lparr>sp_program = exec (sah_config s), sp_arg0 = arg0, sp_args = rest,
           sp_env = envp (sah_config s), sp_config = sah_config s\<rparr> w = (Inr q, w')"
  shows "\<exists>s1 s2. handler_stop CO S (s, w) = (Inl (EHandler RequestChannelError), (s1, w)) \<and>
    handler_start CO (s1, w) = (Inr (), (s2, w')) \<and> sah_thread s2 = Some (Looping q True True)"
proof -
  define s1 where "s1 = s\<lparr>sah_thread := Some (Finished (Inl (EHandler (IOReadError e))) p)\<rparr>"
  have "handler_start CO (s1, w) = (Inr (), (s1\<lparr>sah_channel := True, sah_thread := Some (Looping q True True)\<rparr>, w'))"
    using assms(4,5) by (intro restart_after_unreadable_output) (simp_all add: s1_def)
  then show ?thesis using unreadable_output [OF assms(1-3), of CO] by (simp add: s1_def)
qed

definition sim_exec :: ExecConfig where
  "sim_exec = \<lparr>exec = ''/app'', argv = [''/app''], envp = [], ec_uid = 0, ec_gid = 0, chroot = None, chdir = None\<rparr>"

definition sim_noise :: "GW Sched" where
  "sim_noise = \<lparr>before_send = (\<lambda>w. [StdoutLine (Inl sim_err)]), before_recv = (\<lambda>w. [])\<rparr>"

definition sim_running :: "SimProcess SimpleApplicationHandler" where
  "sim_running = \<lparr>sah_config = sim_exec, sah_thread = Some (Looping (6, False) True True), sah_channel = True\<rparr>"

theorem unreadable_output_orphans_witness:
  "\<exists>s1 s2 w'. handler_stop sim_child sim_noise (sim_running, gw0\<lparr>gw_live := [6]\<rparr>) =
      (Inl (EHandler RequestChannelError), (s1, gw0\<lparr>gw_live := [6]\<rparr>)) \<and>
    handler_start sim_child (s1, gw0\<lparr>gw_live := [6]\<rparr>) = (Inr (), (s2, w')) \<and> sim_live w' = {6, 7}"
proof -
  have "\<exists>s1 s2. handler_stop sim_child sim_noise (sim_running, gw0\<lparr>gw_live := [6]\<rparr>) =
      (Inl (EHandler RequestChannelError), (s1, gw0\<lparr>gw_live := [6]\<rparr>)) \<and>
    handler_start sim_child (s1, gw0\<lparr>gw_live := [6]\<rparr>) = (Inr (), (s2, gw0\<lparr>gw_live := [7, 6], gw_next := 8\<rparr>)) \<and>
    sah_thread s2 = Some (Looping (7, False) True True)"
    by (rule unreadable_output_orphans)
      (auto simp: sim_running_def sim_noise_def sim_exec_def sah_wf_def sim_child_def gw0_def)
  then obtain s1 s2 where "handler_stop sim_child sim_noise (sim_running, gw0\<lparr>gw_live := [6]\<rparr>) =
      (Inl (EHandler RequestChannelError), (s1, gw0\<lparr>gw_live := [6]\<rparr>))"
    "handler_start sim_child (s1, gw0\<lparr>gw_live := [6]\<rparr>) = (Inr (), (s2, gw0\<lparr>gw_live := [7, 6], gw_next := 8\<rparr>))" by blast
  moreover have "sim_live (gw0\<lparr>gw_live := [7, 6], gw_next := 8\<rparr>) = {6, 7}" by (auto simp: sim_live_def)
  ultimately show ?thesis by blast
qed

section \<open>Keys\<close>

text \<open>
  The sealing factory does not depend on the order in which the set of flags in the configuration
  is visited: two lists of the same flags ask the hardware for the same key and give the same factory.
\<close>

lemma sealing_factory_order:
  assumes "set xs = set ys"
  shows "HkdfSealingFactory_new C (RsiSealingKey xs svn) = HkdfSealingFactory_new C (RsiSealingKey ys svn)"
  using flags_order_irrelevant [OF assms, of "rsi_flags C"] assms
  by (simp add: HkdfSealingFactory_new_def fetch_ikm_from_rsi_def)

lemma sealing_factory_order_witness:
  "HkdfSealingFactory_new sim_crypto (RsiSealingKey [FlagKey, FlagRim] None) =
   HkdfSealingFactory_new sim_crypto (RsiSealingKey [FlagRim, FlagKey] None)"
  by (rule sealing_factory_order) auto

end
