(* ===== verification/Site.thy ===== *)
theory Site
  imports Guest_Link Daemon Client_Lib
begin

text \<open>
  The whole installation: the host with the daemon, and behind every vsock context identifier the
  manager of the realm that runs there. A connection of the daemon is the context identifier together with
  the state of the link (\<open>Guest_Link\<close>); sending on it runs the manager of that realm and no other.

  \<open>lifts\<close> carries a program of the daemon's \<open>RealmClientHandler\<close> over one link to the same program
  over the whole installation, so everything shown of the daemon and one realm in \<open>Guest_Link\<close> holds of every
  realm of the installation. The last two sections follow a client command through the command
  handler, the Warden, the realm and the link to the manager inside the realm.
\<close>

section \<open>Connections to one of many realms\<close>

record ('g, 'w) Site =
  site_guests :: "u32 \<Rightarrow> 'g"
  site_host :: 'w

definition at_site ::
  "u32 \<Rightarrow> ('l \<times> 'g, 'e, 'a) prog \<Rightarrow> ((u32 \<times> 'l) \<times> ('g, 'w) Site, 'e, 'a) prog" where
  "at_site cid m =
     zoom (\<lambda>((c, l), s). (l, site_guests s cid))
       (\<lambda>(l', g') ((c, l), s). ((c, l'), s\<lparr>site_guests := (site_guests s)(cid := g')\<rparr>)) m"

definition site_sender ::
  "(u32 \<Rightarrow> ('l, 'g) RealmSender) \<Rightarrow> (u32 \<times> 'l, ('g, 'w) Site) RealmSender" where
  "site_sender S =
     \<lparr>send = (\<lambda>req (x, s). at_site (fst x) (send (S (fst x)) req) (x, s)),
      receive_response = (\<lambda>t (x, s). at_site (fst x) (receive_response (S (fst x)) t) (x, s))\<rparr>"

text \<open>The handler and its environment as one realm sees them; what they connect to plays no role.\<close>

definition local_env :: "(u32 \<Rightarrow> ('l, 'g) RealmSender) \<Rightarrow> ('rx, 'snd, 'v) ClientEnv \<Rightarrow> u32 \<Rightarrow> (unit, 'l, 'g) ClientEnv" where
  "local_env S C cid =
     \<lparr>connector = \<lparr>acquire_realm_sender = (\<lambda>c w. ((), w)), select_sender = (\<lambda>t rx w. (TimedOut, w))\<rparr>,
      senders = S cid, dbg_response = dbg_response C, dbg_protocol_error = dbg_protocol_error C,
      dbg_sender_error = dbg_sender_error C\<rparr>"

definition local_handler :: "(u32 \<times> 'l) RealmClientHandler \<Rightarrow> 'l RealmClientHandler" where
  "local_handler h =
     \<lparr>connection_wait_time = connection_wait_time h, response_timeout = response_timeout h,
      sender = map_option snd (sender h)\<rparr>"

definition global_handler :: "u32 \<Rightarrow> 'l RealmClientHandler \<Rightarrow> (u32 \<times> 'l) RealmClientHandler" where
  "global_handler cid h =
     \<lparr>connection_wait_time = connection_wait_time h, response_timeout = response_timeout h,
      sender = map_option (Pair cid) (sender h)\<rparr>"

definition at_guest ::
  "u32 \<Rightarrow> ('l RealmClientHandler \<times> 'g, 'e, 'a) prog \<Rightarrow>
     ((u32 \<times> 'l) RealmClientHandler \<times> ('g, 'w) Site, 'e, 'a) prog" where
  "at_guest cid m =
     zoom (\<lambda>(h, s). (local_handler h, site_guests s cid))
       (\<lambda>(h', g') (h, s). (global_handler cid h', s\<lparr>site_guests := (site_guests s)(cid := g')\<rparr>)) m"

definition on_cid :: "u32 \<Rightarrow> (u32 \<times> 'l) RealmClientHandler \<Rightarrow> bool" where
  "on_cid cid h \<longleftrightarrow> (\<forall>x. sender h = Some x \<longrightarrow> fst x = cid)"

definition lifts ::
  "u32 \<Rightarrow> ((u32 \<times> 'l) RealmClientHandler \<times> ('g, 'w) Site, 'e, 'a) prog \<Rightarrow>
     ('l RealmClientHandler \<times> 'g, 'e, 'a) prog \<Rightarrow> bool" where
  "lifts cid p q \<longleftrightarrow> (\<forall>h s. on_cid cid h \<longrightarrow> p (h, s) = at_guest cid q (h, s))"

named_theorems lift_rules

lemma local_global [simp]: "local_handler (global_handler cid h) = h"
  by (cases h) (simp add: local_handler_def global_handler_def option.map_comp comp_def option.map_ident)

lemma on_cid_global [simp]: "on_cid cid (global_handler cid h)"
  by (auto simp: on_cid_def global_handler_def)

lemma global_local: "on_cid cid h \<Longrightarrow> global_handler cid (local_handler h) = h"
  by (cases h; cases "sender h") (auto simp: on_cid_def global_handler_def local_handler_def)

lemma guests_same [simp]: "s\<lparr>site_guests := (site_guests s)(cid := site_guests s cid)\<rparr> = s"
  by simp

lemma at_guest_run:
  "at_guest cid q (h, s) = (case q (local_handler h, site_guests s cid) of (r, (h', g')) \<Rightarrow>
     (r, (global_handler cid h', s\<lparr>site_guests := (site_guests s)(cid := g')\<rparr>)))"
  by (simp add: at_guest_def zoom_def split: prod.split)

lemma lifts_ok [lift_rules]: "lifts cid (ok x) (ok x)"
  by (simp add: lifts_def at_guest_run ok_def global_local)

lemma lifts_fail [lift_rules]: "lifts cid (fail e) (fail e)"
  by (simp add: lifts_def at_guest_run fail_def global_local)

lemma lifts_of_result [lift_rules]: "lifts cid (of_result r) (of_result r)"
  by (simp add: lifts_def at_guest_run of_result_def global_local)

lemma lifts_timeout [lift_rules]:
  "lifts cid (get (\<lambda>(h, w). response_timeout h)) (get (\<lambda>(h, w). response_timeout h))"
  "lifts cid (get (\<lambda>(h, w). connection_wait_time h)) (get (\<lambda>(h, w). connection_wait_time h))"
  by (simp_all add: lifts_def at_guest_run get_def global_local) (simp_all add: local_handler_def)

lemma lifts_disconnect [lift_rules]:
  "lifts cid (upd (\<lambda>(h, w). (h\<lparr>sender := None\<rparr>, w))) (upd (\<lambda>(h, w). (h\<lparr>sender := None\<rparr>, w)))"
  by (simp add: lifts_def at_guest_run upd_def global_handler_def local_handler_def)

lemma lifts_try_bind [lift_rules]:
  assumes "lifts cid p q" and "\<And>x. lifts cid (f x) (g x)"
  shows "lifts cid (try_bind p f) (try_bind q g)"
  using assms
  by (auto simp: lifts_def at_guest_run try_bind_def split: prod.split sum.split)

lemma lifts_attempt [lift_rules]:
  assumes "lifts cid p q" and "\<And>x. lifts cid (f x) (g x)"
  shows "lifts cid (attempt p f) (attempt q g)"
  using assms by (auto simp: lifts_def at_guest_run attempt_def split: prod.split)

lemma lifts_case_sum [lift_rules]:
  assumes "\<And>x. lifts cid (f x) (f' x)" and "\<And>x. lifts cid (g x) (g' x)"
  shows "lifts cid (case r of Inl x \<Rightarrow> f x | Inr x \<Rightarrow> g x) (case r of Inl x \<Rightarrow> f' x | Inr x \<Rightarrow> g' x)"
  using assms by (cases r) simp_all

lemma lifts_with_sender:
  assumes "\<And>x s. fst x = cid \<Longrightarrow> m (x, s) = at_site cid n (x, s)"
  shows "lifts cid (with_sender m f) (with_sender n f)"
  unfolding lifts_def
proof (intro allI impI)
  fix h :: "(u32 \<times> 'a) RealmClientHandler" and s :: "('b, 'c) Site"
  assume h: "on_cid cid h"
  show "with_sender m f (h, s) = at_guest cid (with_sender n f) (h, s)"
  proof (cases "sender h")
    case None
    with h show ?thesis by (simp add: with_sender_def at_guest_run local_handler_def [of h] global_local)
       (simp add: global_handler_def)
  next
    case (Some x)
    then obtain l where x: "x = (cid, l)" using h by (cases x) (auto simp: on_cid_def)
    show ?thesis
      using Some x assms [of x s]
      by (auto simp: with_sender_def at_guest_run at_site_def map_err_def zoom_def local_handler_def global_handler_def
          split: prod.split sum.split)
  qed
qed

lemma lifts_exchange [lift_rules]:
  assumes "senders C = site_sender S"
  shows "lifts cid (send_command C req) (send_command (local_env S C cid) req)"
    and "lifts cid (read_response C t) (read_response (local_env S C cid) t)"
  unfolding send_command_def read_response_def local_env_def ClientEnv.select_convs assms site_sender_def
    RealmSender.select_convs
  by (auto intro!: lifts_with_sender)

text \<open>The checks of a response use only the printers.\<close>

lemma local_checks:
  "handle_success_command (local_env S C cid) = handle_success_command C"
  "handle_invalid_response (local_env S C cid) = handle_invalid_response C"
  by (simp_all add: fun_eq_iff handle_success_command_def handle_invalid_response_def local_env_def split: Response.split)

lemma lifts_success_exchange [lift_rules]:
  assumes "senders C = site_sender S" and "timeout = response_timeout \<and> timeout' = response_timeout \<or>
    timeout = connection_wait_time \<and> timeout' = connection_wait_time"
  shows "lifts cid (success_exchange C req timeout) (success_exchange (local_env S C cid) req timeout')"
  unfolding success_exchange_def local_checks
  using assms(2) by (auto intro!: lift_rules assms(1))

lemma lifts_operations:
  assumes "senders C = site_sender S"
  shows "lifts cid (rch_start_application C i) (rch_start_application (local_env S C cid) i)"
    and "lifts cid (rch_stop_application C i) (rch_stop_application (local_env S C cid) i)"
    and "lifts cid (provision_applications C cfg) (provision_applications (local_env S C cid) cfg)"
  unfolding rch_start_application_def rch_stop_application_def kill_application_def provision_applications_def local_checks
  by (auto intro!: lift_rules assms)

lemma lifts_run:
  assumes "lifts cid p q" and "on_cid cid h" and "p (h, s) = (r, (h', s'))"
  obtains k g where "q (local_handler h, site_guests s cid) = (r, (k, g))" "h' = global_handler cid k"
    "s' = s\<lparr>site_guests := (site_guests s)(cid := g)\<rparr>"
  using assms unfolding lifts_def at_guest_run by (auto split: prod.splits)

section \<open>From a command for an application to its process\<close>

text \<open>A command for an application of a realm that runs reaches the handler of that realm's connection.\<close>

lemma application_command_run:
  assumes "try_bind (ch_get_application E u a) (\<lambda>app.
      try_bind (on_application_of u (m app)) (\<lambda>_. ok WOk)) (d, w) = (Inr x, (d', w'))"
    and "\<And>r. r_get_application (we_realm E) r a = rm_get_application r a"
  obtains r app r' where "hm_get (realms_managers d) u = Some r" "hm_get (rm_applications r) a = Some app"
    "m app (r, w) = (Inr (), (r', w'))" "d' = d\<lparr>realms_managers := hm_insert u r' (realms_managers d)\<rparr>"
proof -
  from assms(1) obtain app d1 w1 where g: "ch_get_application E u a (d, w) = (Inr app, (d1, w1))"
      and o: "on_application_of u (m app) (d1, w1) = (Inr (), (d', w'))"
    by (auto simp: try_bind_Inr_iff ok_def)
  show thesis
    using that with_realm_run [OF g [unfolded ch_get_application_def]] o assms(2)
    by (auto simp: on_application_of_def warden_iffs rm_get_application_def split: option.splits if_splits sum.splits)
qed

lemma daemon_get_application:
  "r_get_application (we_realm (daemon_warden_env F P C new_v4 order late join cli)) r a = rm_get_application r a"
  by (simp add: daemon_warden_env_def RealmManager_ops_def)

lemma client_application_command:
  assumes "try_bind (communicate (daemon_frames E) c) k ([], (d, s)) = (Inr x, (q, (d', s')))"
    and "\<And>r. answers c r \<Longrightarrow> k r = ok ()" and "\<And>e. k (WError e) = fail (WardenOperationFail e)"
  obtains r where "handle_command E c (d, s) = (Inr r, (d', s'))"
proof -
  have "try_bind (communicate (daemon_frames E) c) k ([], (d, s)) = daemon_answer E c (\<lambda>_. ()) (d, s)"
    by (rule request_daemon) (simp_all add: assms)
  with assms(1) that show thesis
    by (auto simp: daemon_answer_def client_view_def split: prod.splits sum.splits abort.splits)
qed

lemma application_on_connection:
  fixes F P C new_v4 order late join cli
  defines "E \<equiv> daemon_warden_env F P C new_v4 order late join cli"
  assumes "handle_command E c = try_bind (ch_get_application E u a) (\<lambda>app. try_bind (on_application_of u (op app)) (\<lambda>_. ok WOk))"
    and "\<And>app r'. am_uuid app = a \<Longrightarrow> op app (r, s) = (Inr (), (r', s')) \<Longrightarrow>
       \<exists>h. p (rm_client r, s) = (Inr (), (h, s')) \<and> r' = r\<lparr>rm_client := h\<rparr>"
    and "lifts cid p q" and "on_cid cid (rm_client r)"
    and "hm_get (realms_managers d) u = Some r" and "apps_ok am_uuid (rm_applications r)"
    and "handle_command E c (d, s) = (Inr y, (d', s'))"
  obtains k g where "q (local_handler (rm_client r), site_guests s cid) = (Inr (), (k, g))"
    "s' = s\<lparr>site_guests := (site_guests s)(cid := g)\<rparr>"
    "d' = d\<lparr>realms_managers := hm_insert u (r\<lparr>rm_client := global_handler cid k\<rparr>) (realms_managers d)\<rparr>"
proof -
  have "r_get_application (we_realm E) v a = rm_get_application v a" for v
    by (simp add: E_def daemon_get_application)
  with assms(8) [unfolded assms(2)] obtain app r' where
    app: "hm_get (rm_applications r) a = Some app" "op app (r, s) = (Inr (), (r', s'))"
      "d' = d\<lparr>realms_managers := hm_insert u r' (realms_managers d)\<rparr>"
    by (rule application_command_run) (use assms(6) in auto)
  from assms(3) [OF apps_okD [OF assms(7) app(1)] app(2)] obtain h where
    h: "p (rm_client r, s) = (Inr (), (h, s'))" "r' = r\<lparr>rm_client := h\<rparr>" by blast
  show thesis
    by (rule lifts_run [OF assms(4,5) h(1)]) (use that app(3) h(2) in blast)
qed

lemmas application_ops = daemon_warden_env_def RealmManager_ops_def daemon_realm_env_def ApplicationManager_ops_def
  am_stop_def am_start_def RealmClientHandler_ops_def on_client_iff map_err_Inr_iff

lemma client_stop_run:
  fixes F P C new_v4 order late join cli
  defines "E \<equiv> daemon_warden_env F P C new_v4 order late join cli"
  assumes "senders C = site_sender S" and "hm_get (realms_managers d) u = Some r" and "apps_ok am_uuid (rm_applications r)"
    and "on_cid cid (rm_client r)"
    and "cl_stop_application (daemon_frames E) u a ([], (d, s)) = (Inr x, (q, (d', s')))"
  obtains k g where "rch_stop_application (local_env S C cid) a (local_handler (rm_client r), site_guests s cid) = (Inr (), (k, g))"
    "s' = s\<lparr>site_guests := (site_guests s)(cid := g)\<rparr>"
    "d' = d\<lparr>realms_managers := hm_insert u (r\<lparr>rm_client := global_handler cid k\<rparr>) (realms_managers d)\<rparr>"
proof -
  obtain y where "handle_command E (StopApplication u a) (d, s) = (Inr y, (d', s'))"
    by (rule client_application_command [OF assms(6) [unfolded cl_stop_application_def]]) auto
  note run = this [unfolded E_def]
  show thesis
    by (rule application_on_connection [OF handle_command.simps(11) _ lifts_operations(2) [OF assms(2)] assms(5,3,4) run])
      (use that in \<open>auto simp: application_ops\<close>)
qed

lemma client_start_application_run:
  fixes F P C new_v4 order late join cli
  defines "E \<equiv> daemon_warden_env F P C new_v4 order late join cli"
  assumes "senders C = site_sender S" and "hm_get (realms_managers d) u = Some r" and "apps_ok am_uuid (rm_applications r)"
    and "on_cid cid (rm_client r)"
    and "cl_start_application (daemon_frames E) u a ([], (d, s)) = (Inr x, (q, (d', s')))"
  obtains k g where "rch_start_application (local_env S C cid) a (local_handler (rm_client r), site_guests s cid) = (Inr (), (k, g))"
    "s' = s\<lparr>site_guests := (site_guests s)(cid := g)\<rparr>"
    "d' = d\<lparr>realms_managers := hm_insert u (r\<lparr>rm_client := global_handler cid k\<rparr>) (realms_managers d)\<rparr>"
proof -
  obtain y where "handle_command E (StartApplication u a) (d, s) = (Inr y, (d', s'))"
    by (rule client_application_command [OF assms(6) [unfolded cl_start_application_def]]) auto
  note run = this [unfolded E_def]
  show thesis
    by (rule application_on_connection [OF handle_command.simps(10) _ lifts_operations(1) [OF assms(2)] assms(5,3,4) run])
      (use that in \<open>auto simp: application_ops\<close>)
qed

section \<open>From a start command to the provisioned realm\<close>

text \<open>A connection that the daemon waited for comes from the realm with that context identifier, and is fresh.\<close>

definition connector_lawful :: "('rx, u32 \<times> Link, 'w) ClientEnv \<Rightarrow> bool" where
  "connector_lawful C \<longleftrightarrow> (\<forall>cid t w rx w1 x w2. acquire_realm_sender (connector C) cid w = (rx, w1) \<longrightarrow>
     select_sender (connector C) t rx w1 = (Received x, w2) \<longrightarrow> x = (cid, idle_link))"

text \<open>The state of the installation at the moment in which the connection of a starting realm was accepted.\<close>

definition accepted_connection ::
  "('vm, 'snd RealmClientHandler, 'app, 'fab, 'w) RealmEnv \<Rightarrow> ('rx, 'snd, 'w) ClientEnv \<Rightarrow>
   ('vm, 'snd RealmClientHandler, 'app, 'fab) RealmManager \<Rightarrow> 'w \<Rightarrow> 'w option" where
  "accepted_connection E C r s =
     (case launch_with_applications E (r, s) of
        (Inr _, (r1, s1)) \<Rightarrow>
          (case create_provisioning_config E (r1\<lparr>rm_state := Provisioning\<rparr>) s1 of
             (Inr _, s2) \<Rightarrow>
               (case try_connect C (realm_cid r1) (rm_client r1, s2) of
                  (Inr _, (_, s3)) \<Rightarrow> Some s3
                | _ \<Rightarrow> None)
           | _ \<Rightarrow> None)
      | _ \<Rightarrow> None)"

lemma start_provisioned:
  assumes "rm_start (daemon_realm_env F P C new_v4 order late join) (r, w) = (Inr x, (r', w'))"
    and "apps_ok am_uuid (rm_applications r)"
  obtains cfg w1 where
    "rch_try_connect_and_provision_apps C (realm_cid r) cfg (rm_client r, w1) = (Inr (), (rm_client r', w'))"
    "\<And>h s. try_connect C (realm_cid r) (rm_client r, w1) = (Inr (), (h, s)) \<Longrightarrow>
       accepted_connection (daemon_realm_env F P C new_v4 order late join) C r w = Some s"
    "map info_id (application_infos_from cfg) = realm_app_keys r"
proof -
  let ?E = "daemon_realm_env F P C new_v4 order late join"
  have h: "rm_state r = Halted"
    using assms(1) by (cases "rm_state r = Halted") (auto simp: refused_not_halted)
  from start_cases [OF assms(1) h] obtain s u u0 c u1 resp cfg
    where l: "launch_with_applications ?E (r, w) = (Inr (), (s, u))"
      and p: "create_provisioning_config ?E (s\<lparr>rm_state := Provisioning\<rparr>) u = (Inr cfg, u0)"
      and t: "try_connect_and_provision_apps (re_client ?E) (realm_cid s) cfg (rm_client s, u0) = (resp, (c, u1))"
      and hs: "handle_start_response ?E resp (s\<lparr>rm_state := Provisioning, rm_client := c\<rparr>, u1) = (Inr x, (r', w'))"
    by auto
  from handle_start_run [OF hs] have "resp = Inr ()" by (cases resp) auto
  with hs have "w' = u1" "rm_client r' = c" by (auto simp: handle_start_response_def set_state_iff)
  moreover have "map data_id (applications_data cfg) = hm_keys (rm_applications r)"
    using dr.provisioning_config_ids [OF p] dr.launch_run [OF l] dr.launch_apps_ok [OF l assms(2)] by simp
  moreover have "realm_cid s = realm_cid r" "rm_client s = rm_client r"
    using dr.launch_run [OF l] by (simp_all add: realm_cid_def)
  moreover from l p this have "try_connect C (realm_cid r) (rm_client r, u0) = (Inr (), (h, v)) \<Longrightarrow>
      accepted_connection ?E C r w = Some v" for h v
    by (simp add: accepted_connection_def)
  ultimately show thesis
    using t that \<open>resp = Inr ()\<close>
    by (auto simp: daemon_realm_env_def RealmClientHandler_ops_def application_infos_from_def
        application_info_from_def realm_app_keys_def comp_def)
qed

lemma connected_provisioned:
  assumes "connector_lawful C" and "senders C = site_sender (\<lambda>cid. realm_link (G cid))"
    and "rch_try_connect_and_provision_apps C cid cfg (h, s) = (Inr (), (h', s'))"
  obtains h1 s1 where "try_connect C cid (h, s) = (Inr (), (h1, s1))" "provision (G cid) (application_infos_from cfg) (site_guests s1 cid) = (Inr (), site_guests s' cid)"
    "s' = s1\<lparr>site_guests := (site_guests s1)(cid := site_guests s' cid)\<rparr>" "sender h' = Some (cid, idle_link)"
proof -
  from assms(3) obtain h1 s1 where c: "try_connect C cid (h, s) = (Inr (), (h1, s1))"
      and p: "provision_applications C cfg (h1, s1) = (Inr (), (h', s'))"
    by (auto simp: rch_try_connect_and_provision_apps_def try_bind_Inr_iff ok_def)
  have h1: "sender h1 = Some (cid, idle_link)"
    using c assms(1) unfolding connector_lawful_def try_connect_def by (fastforce split: prod.splits Selected.splits)
  then have "on_cid cid h1" by (simp add: on_cid_def)
  from lifts_operations(3) [OF assms(2)] this p obtain k g where
    k: "provision_applications (local_env (\<lambda>cid. realm_link (G cid)) C cid) cfg (local_handler h1, site_guests s1 cid) = (Inr (), (k, g))"
      "h' = global_handler cid k" "s' = s1\<lparr>site_guests := (site_guests s1)(cid := g)\<rparr>"
    by (rule lifts_run)
  have "provision (G cid) (application_infos_from cfg) (site_guests s1 cid) = (Inr (), g) \<and> k = local_handler h1"
    using k(1) daemon_provision [where G = "G cid" and h = "local_handler h1"
        and C = "local_env (\<lambda>cid. realm_link (G cid)) C cid"] h1
    by (simp add: local_env_def local_handler_def [of h1])
  with k h1 c show thesis by (intro that [of h1 s1]) (auto simp: local_handler_def global_handler_def)
qed

lemma client_start_run:
  fixes F P C new_v4 order late join cli
  defines "E \<equiv> daemon_warden_env F P C new_v4 order late join cli"
  assumes "cl_start_realm (daemon_frames E) u ([], (d, w)) = (Inr x, (q, (d', w')))"
  obtains r r' where "hm_get (realms_managers d) u = Some r"
    "rm_start (daemon_realm_env F P C new_v4 order late join) (r, w) = (Inr (), (r', w'))"
    "d' = d\<lparr>realms_managers := hm_insert u r' (realms_managers d)\<rparr>" "rm_state r = Halted"
proof -
  obtain y where "handle_command E (StartRealm u) (d, w) = (Inr y, (d', w'))"
    by (rule client_application_command [OF assms(2) [unfolded cl_start_realm_def]]) auto
  then obtain z where "with_realm u (r_start (we_realm E)) (d, w) = (Inr z, (d', w'))"
    by (auto simp: run_iffs)
  from with_realm_run [OF this] obtain r r' where r: "hm_get (realms_managers d) u = Some r"
    "rm_start (daemon_realm_env F P C new_v4 order late join) (r, w) = (Inr (), (r', w'))"
    "d' = d\<lparr>realms_managers := hm_insert u r' (realms_managers d)\<rparr>"
    by (auto simp: E_def daemon_warden_env_def RealmManager_ops_def split: option.splits)
  moreover have "rm_state r = Halted"
    using r(2) by (cases "rm_state r = Halted") (auto simp: refused_not_halted)
  ultimately show thesis using that by blast
qed

end
