(* ===== verification/Site_Simulation.thy ===== *)
theory Site_Simulation
  imports Site Simulation Guest_Simulation
begin

text \<open>
  A concrete installation: the host of \<open>Simulation\<close> with the daemon, and the realm of \<open>Guest_Simulation\<close>
  behind every context identifier. The operations of the host are carried over to the installation.
\<close>

section \<open>The host as a part of the installation\<close>

definition in_host :: "('w, 'e, 'a) prog \<Rightarrow> (('g, 'w) Site, 'e, 'a) prog" where
  "in_host = zoom site_host (\<lambda>h s. s\<lparr>site_host := h\<rparr>)"

definition in_host_with :: "('c \<times> 'w, 'e, 'a) prog \<Rightarrow> ('c \<times> ('g, 'w) Site, 'e, 'a) prog" where
  "in_host_with = zoom (\<lambda>(c, s). (c, site_host s)) (\<lambda>(c, h) (_, s). (c, s\<lparr>site_host := h\<rparr>))"

text \<open>Evaluated only where the state of the installation is known.\<close>

lemma in_host_code [code]:
  "in_host m \<lparr>site_guests = g, site_host = h\<rparr> = (case m h of (r, h') \<Rightarrow> (r, \<lparr>site_guests = g, site_host = h'\<rparr>))"
  by (simp add: in_host_def zoom_def)

lemma in_host_with_code [code]:
  "in_host_with m (c, \<lparr>site_guests = g, site_host = h\<rparr>) =
     (case m (c, h) of (r, (c', h')) \<Rightarrow> (r, (c', \<lparr>site_guests = g, site_host = h'\<rparr>)))"
  by (simp add: in_host_with_def zoom_def split: prod.split)

lemma at_site_code [code]:
  "at_site cid m ((c, l), \<lparr>site_guests = g, site_host = h\<rparr>) =
     (case m (l, g cid) of (r, (l', x)) \<Rightarrow> (r, ((c, l'), \<lparr>site_guests = g(cid := x), site_host = h\<rparr>)))"
  by (simp add: at_site_def zoom_def split: prod.split)

definition host_files :: "('f, 'w) FileOps \<Rightarrow> ('f, ('g, 'w) Site) FileOps" where
  "host_files Fo =
     \<lparr>file_create = (\<lambda>p. in_host (file_create Fo p)), file_open = (\<lambda>p. in_host (file_open Fo p)),
      file_write_all = (\<lambda>f t. in_host (file_write_all Fo f t)), file_flush = (\<lambda>f. in_host (file_flush Fo f)),
      file_read_to_string = (\<lambda>f. in_host (file_read_to_string Fo f))\<rparr>"

definition host_disk :: "('f, 'p, 'w) DiskEnv \<Rightarrow> ('f, 'p, ('g, 'w) Site) DiskEnv" where
  "host_disk D =
     \<lparr>disk_open = (\<lambda>p. in_host (disk_open D p)), disk_seek = (\<lambda>f n. in_host (disk_seek D f n)),
      disk_write_all = (\<lambda>f b. in_host (disk_write_all D f b)), disk_sync_all = (\<lambda>f. in_host (disk_sync_all D f)),
      disk_close = (\<lambda>f. in_host (disk_close D f)), mbr_overwrite_lba0 = (\<lambda>f n. in_host (mbr_overwrite_lba0 D f n)),
      gpt_create_from_device = (\<lambda>f n. in_host (gpt_create_from_device D f n)),
      gpt_clear_partitions = (\<lambda>g. in_host (gpt_clear_partitions D g)),
      gpt_add_partition = (\<lambda>g n z. in_host (gpt_add_partition D g n z)), gpt_write = (\<lambda>g. in_host (gpt_write D g)),
      gpt_read = (\<lambda>p. in_host (gpt_read D p)), bytes_len = bytes_len D\<rparr>"

definition host_process :: "('c, 'w) ProcessOps \<Rightarrow> ('c, ('g, 'w) Site) ProcessOps" where
  "host_process P =
     \<lparr>os_spawn = (\<lambda>c. in_host (os_spawn P c)), os_try_wait = in_host_with (os_try_wait P),
      os_kill = in_host_with (os_kill P), os_wait = in_host_with (os_wait P),
      os_take_stdout = (\<lambda>(c, s). case os_take_stdout P (c, site_host s) of (b, (c', h)) \<Rightarrow> (b, (c', s\<lparr>site_host := h\<rparr>))),
      os_take_stderr = (\<lambda>(c, s). case os_take_stderr P (c, site_host s) of (b, (c', h)) \<Rightarrow> (b, (c', s\<lparr>site_host := h\<rparr>)))\<rparr>"

definition host_fabric :: "('h, 'f, 'p, 'w) FabricEnv \<Rightarrow> ('h, 'f, 'p, ('g, 'w) Site) FabricEnv" where
  "host_fabric F =
     \<lparr>fe_us = fe_us F, fe_parse = fe_parse F, fe_files = host_files (fe_files F),
      fe_create_dir = (\<lambda>p. in_host (fe_create_dir F p)), fe_create_dir_all = (\<lambda>p. in_host (fe_create_dir_all F p)),
      fe_remove_dir_all = (\<lambda>p. in_host (fe_remove_dir_all F p)), fe_read_dir = (\<lambda>p. in_host (fe_read_dir F p)),
      fe_app_yaml = fe_app_yaml F, fe_realm_yaml = fe_realm_yaml F, fe_disk = host_disk (fe_disk F),
      fe_network = \<lparr>create_tap_device_for_realm = (\<lambda>n u. in_host (create_tap_device_for_realm (fe_network F) n u)),
                    shutdown_tap_device_for_realm = (\<lambda>u. in_host (shutdown_tap_device_for_realm (fe_network F) u))\<rparr>\<rparr>"

section \<open>The daemon of the installation\<close>

type_synonym SimSite = "((SimProcess, bool) Manager \<times> GW, Host) Site"

text \<open>The link of \<open>Guest_Link\<close>, evaluated only on a given state.\<close>

fun sim_send ::
  "Request \<Rightarrow> (Link \<times> ((SimProcess, bool) Manager \<times> GW), RealmSenderError, unit) prog" where
  "sim_send req (l, s) = link_send sim_guest req (l, s)"

definition sim_link :: "(Link, (SimProcess, bool) Manager \<times> GW) RealmSender" where
  "sim_link = \<lparr>send = sim_send, receive_response = link_receive\<rparr>"

lemma sim_link_realm: "sim_link = realm_link sim_guest"
proof -
  have "sim_send = link_send sim_guest" by (auto simp: fun_eq_iff)
  then show ?thesis by (simp add: sim_link_def realm_link_def)
qed

definition site_client :: "(u32, u32 \<times> Link, SimSite) ClientEnv" where
  "site_client =
     \<lparr>connector = \<lparr>acquire_realm_sender = (\<lambda>cid s. (cid, s)), select_sender = (\<lambda>t cid s. (Received (cid, idle_link), s))\<rparr>,
      senders = site_sender (\<lambda>cid. sim_link),
      dbg_response = (\<lambda>r. []), dbg_protocol_error = (\<lambda>e. []), dbg_sender_error = (\<lambda>e. [])\<rparr>"

definition site_new_v4 :: "SimSite \<Rightarrow> uuid \<times> SimSite" where
  "site_new_v4 s = (case sim_new_v4 (site_host s) of (u, h) \<Rightarrow> (u, s\<lparr>site_host := h\<rparr>))"

definition site_warden_env ::
  "((unit VmRunner, u32 \<times> Link) BuiltRealm, ApplicationManager, SimSite) WardenEnv" where
  "site_warden_env =
     daemon_warden_env (host_fabric sim_fabric_env) (host_process Simulation.sim_process) site_client site_new_v4
       (\<lambda>us w. us) (\<lambda>w. 0) (\<lambda>w. (Inr (), w)) sim_cli"

definition site0 :: SimSite where
  "site0 = \<lparr>site_guests = (\<lambda>cid. (sim_mgr2, gw0)), site_host = host0\<rparr>"

text \<open>The realm 7, created with one application by the commands of a client.\<close>

definition site_created :: "(unit VmRunner, u32 \<times> Link) BuiltRealm WardenDaemon \<times> SimSite" where
  "site_created =
     snd (handle_command site_warden_env
       (CreateApplication 7 \<lparr>c_app_name = ''app'', c_app_version = ''1'', c_image_registry = ''registry'',
          c_image_storage_size_mb = 2, c_data_storage_size_mb = 1\<rparr>)
       (snd (wd_create_realm site_warden_env (Some 7) sim_realm_config (WardenDaemon_new [], site0))))"

text \<open>The realm 7 while it runs the applications of \<open>sim_life\<close>.\<close>

definition site_running :: "(unit VmRunner, u32 \<times> Link) BuiltRealm" where
  "site_running =
     (RealmManager_new \<lparr>repo_data = sim_realm_config, repo_path = ''config.yaml''\<rparr>
       [(4, \<lparr>am_uuid = 4, am_config = \<lparr>repo_data = sim_app_config, repo_path = ''config.yaml''\<rparr>, am_disk = sim_adm\<rparr>)]
       (VmRunner_new (LkvmRunner_new ''lkvm'' sim_realm_config) 7 ''warden/7'')
       \<lparr>connection_wait_time = 60, response_timeout = 10, sender = Some (3, idle_link)\<rparr> \<lparr>realm_workdir_path = ''warden/7''\<rparr>)
     \<lparr>rm_state := Running\<rparr>"

definition site_serving :: SimSite where
  "site_serving = site0\<lparr>site_guests := (\<lambda>cid. snd sim_life)\<rparr>"

lemma site_client_lawful: "connector_lawful site_client"
  by (simp add: connector_lawful_def site_client_def)

lemma site_client_link: "senders site_client = site_sender (\<lambda>cid. realm_link sim_guest)"
  by (simp add: site_client_def sim_link_realm)

lemma site_running_apps: "apps_ok am_uuid (rm_applications site_running)"
  unfolding apps_ok_list by code_simp

lemma site_running_state:
  "hm_get (realms_managers (WardenDaemon_new [(7, site_running)])) 7 = Some site_running"
  "sender (rm_client site_running) = Some (3, idle_link)"
  "site_guests site_serving 3 = (fst (snd sim_life), snd (snd sim_life))"
  by (simp_all add: WardenDaemon_new_def site_running_def RealmManager_new_def site_serving_def)

lemmas site_running_facts = site_running_state(1) site_running_apps site_running_state(2,3)

end
