(* ===== verification/Site_Properties.thy ===== *)
theory Site_Properties
  imports Site_Simulation
begin

text \<open>
  What a client of the daemon can rely on inside the realms: the properties of the whole chain from
  the client library through the daemon and a realm's connection to the manager inside the realm.
\<close>

text \<open>
  (C6) When a client is told that it stopped an application of a realm, the process that the application
  ran as is gone from that realm, the handler of the application is idle again and the connection is ready for the next
  request; no other realm of the daemon and no manager inside another realm was touched, and nothing on the host changed.
\<close>

theorem client_stop_ends_process:
  fixes F P C new_v4 order late join cli
  defines "E \<equiv> daemon_warden_env F P C new_v4 order late join cli"
  assumes "senders C = site_sender (\<lambda>cid. realm_link (G cid))"
    and "hm_get (realms_managers d) u = Some r" and "apps_ok am_uuid (rm_applications r)"
    and "sender (rm_client r) = Some (cid, idle_link)" and "site_guests s cid = (m, w)"
    and "child_lawful (g_child (G cid)) pid live" and "\<And>n v. set (join_order (G cid) n v) \<subseteq> {..<n}"
    and "guest_reach (G cid) config (m, w)" and "hm_get (m_apps m) a = Some (app, hn)" and "sah_thread hn = Some t"
    and "cl_stop_application (daemon_frames E) u a ([], (d, s)) = (Inr x, (q, (d', s')))"
  shows "pid (task_process t) \<notin> live (snd (site_guests s' cid)) \<and>
    (\<exists>hn'. hm_get (m_apps (fst (site_guests s' cid))) a = Some (app, hn') \<and> sah_thread hn' = None) \<and>
    (\<forall>c. c \<noteq> cid \<longrightarrow> site_guests s' c = site_guests s c) \<and> site_host s' = site_host s \<and>
    hm_get (realms_managers d') = hm_get (realms_managers d)"
proof -
  let ?S = "\<lambda>cid. realm_link (G cid)" and ?h = "local_handler (rm_client r)"
  have "on_cid cid (rm_client r)" using assms(5) by (simp add: on_cid_def)
  from client_stop_run [OF assms(2-4) this assms(12) [unfolded E_def]] obtain k g where
    run: "rch_stop_application (local_env ?S C cid) a (?h, (m, w)) = (Inr (), (k, g))"
      "s' = s\<lparr>site_guests := (site_guests s)(cid := g)\<rparr>"
      "d' = d\<lparr>realms_managers := hm_insert u (r\<lparr>rm_client := global_handler cid k\<rparr>) (realms_managers d)\<rparr>"
    using assms(6) by auto
  have link: "senders (local_env ?S C cid) = realm_link (G cid)" "sender ?h = Some idle_link"
    using assms(5) by (simp_all add: local_env_def local_handler_def)
  have wf: "sah_wf hn"
    using guest_reach_inv [OF assms(7-9)] map_of_SomeD [OF assms(10)] by (auto simp: mgr_inv_def entry_ok_def)
  from run(1) have "rch_stop_application (local_env ?S C cid) a (?h, (m, w)) = (Inr (), (k, (fst g, snd g)))" by simp
  from daemon_stop [OF link assms(7,10) wf assms(11) this]
  have stopped: "pid (task_process t) \<notin> live (snd g)" "k = ?h"
    "\<exists>hn'. hm_get (m_apps (fst g)) a = Some (app, hn') \<and> sah_thread hn' = None" by simp_all
  have "r\<lparr>rm_client := global_handler cid k\<rparr> = r"
    using stopped(2) global_local [OF \<open>on_cid cid (rm_client r)\<close>] by simp
  with run stopped assms(3) show ?thesis by (auto simp: fun_eq_iff)
qed

definition site_stop ::
  "(WardenClientError + unit) \<times> WardenResponse list \<times> (unit VmRunner, u32 \<times> Link) BuiltRealm WardenDaemon \<times> SimSite" where
  "site_stop = cl_stop_application (daemon_frames site_warden_env) 7 4 ([], (WardenDaemon_new [(7, site_running)], site_serving))"

lemma site_stop_ok: "fst site_stop = Inr ()"
  by code_simp

theorem client_stop_ends_process_witness:
  "7 \<notin> sim_live (snd (site_guests (snd (snd (snd site_stop))) 3)) \<and>
   site_guests (snd (snd (snd site_stop))) 5 = snd sim_life"
proof -
  from sim_life_facts obtain app hn t where e: "hm_get (m_apps (fst (snd sim_life))) 4 = Some (app, hn)"
    "sah_thread hn = Some t" "fst (task_process t) = 7" by (auto split: prod.splits)
  have c: "senders site_client = site_sender (\<lambda>cid. realm_link sim_guest)" by (rule site_client_link)
  have s: "cl_stop_application (daemon_frames site_warden_env) 7 4 ([], (WardenDaemon_new [(7, site_running)], site_serving)) =
     (Inr (), (fst (snd site_stop), (fst (snd (snd site_stop)), snd (snd (snd site_stop)))))"
    using site_stop_ok by (simp add: site_stop_def prod_eq_iff)
  from client_stop_ends_process [where G = "\<lambda>cid. sim_guest", OF c site_running_facts sim_guest_lawful
      sim_order_bound sim_reach e(1,2) s [unfolded site_warden_env_def]] e(3)
  show ?thesis by (simp add: site_serving_def)
qed

text \<open>
  (C4) When a client is told that it started a realm, the manager inside that realm was provisioned with
  exactly the applications of the realm: it had none when its connection was accepted, and from that moment on its
  measurement register was extended with their measurements, in the order of the realm's map and in the pieces and the
  register that its configuration asks for, and with nothing else; the daemon is connected to that manager. Since the connection was
  accepted no manager inside another realm and nothing on the host was touched, and no other realm of the daemon at all.
\<close>

theorem client_start_provisions:
  fixes F P C new_v4 order late join cli
  defines "E \<equiv> daemon_warden_env F P C new_v4 order late join cli"
  assumes "connector_lawful C" and "senders C = site_sender (\<lambda>cid. realm_link (G cid))"
    and "hm_get (realms_managers d) u = Some r" and "apps_ok am_uuid (rm_applications r)"
    and "log_kept (G (realm_cid r)) log" and "rem_lawful (G (realm_cid r)) log"
    and "\<And>n v. set (join_order (G (realm_cid r)) n v) = {..<n}"
    and "cl_start_realm (daemon_frames E) u ([], (d, s)) = (Inr x, (q, (d', s')))"
  shows "\<exists>s1 r' m w m' w'.
    accepted_connection (daemon_realm_env F P C new_v4 order late join) C r s = Some s1 \<and>
    site_guests s1 (realm_cid r) = (m, w) \<and> m_apps m = [] \<and>
    site_guests s' = (site_guests s1)(realm_cid r := (m', w')) \<and> site_host s' = site_host s1 \<and>
    dom (hm_get (m_apps m')) = dom (hm_get (rm_applications r)) \<and>
    log w' = log w @ concat (map (\<lambda>i. extension (G (realm_cid r)) (m_config m) (measured m' i)) (realm_app_keys r)) \<and>
    hm_get (realms_managers d') = (hm_get (realms_managers d))(u \<mapsto> r') \<and> rm_state r' = Running \<and>
    sender (rm_client r') = Some (realm_cid r, idle_link)"
proof -
  let ?cid = "realm_cid r"
  from assms(4) obtain r' where r: "rm_start (daemon_realm_env F P C new_v4 order late join) (r, s) = (Inr (), (r', s'))"
      "d' = d\<lparr>realms_managers := hm_insert u r' (realms_managers d)\<rparr>" "rm_state r = Halted"
    using client_start_run [OF assms(9) [unfolded E_def]] by (metis option.inject)
  from start_provisioned [OF r(1) assms(5)] obtain cfg w1 where
    p: "rch_try_connect_and_provision_apps C ?cid cfg (rm_client r, w1) = (Inr (), (rm_client r', s'))"
      "\<And>h v. try_connect C ?cid (rm_client r, w1) = (Inr (), (h, v)) \<Longrightarrow>
         accepted_connection (daemon_realm_env F P C new_v4 order late join) C r s = Some v"
      "map info_id (application_infos_from cfg) = realm_app_keys r" by blast
  from connected_provisioned [OF assms(2,3) p(1)] obtain h1 s1 where
    s1: "try_connect C ?cid (rm_client r, w1) = (Inr (), (h1, s1))"
      "provision (G ?cid) (application_infos_from cfg) (site_guests s1 ?cid) = (Inr (), site_guests s' ?cid)"
      "s' = s1\<lparr>site_guests := (site_guests s1)(?cid := site_guests s' ?cid)\<rparr>" "sender (rm_client r') = Some (?cid, idle_link)" .
  obtain m w m' w' where g: "site_guests s1 ?cid = (m, w)" "site_guests s' ?cid = (m', w')" by (metis prod.exhaust)
  note pr = s1(2) [unfolded g]
  note measured = provision_measures [OF assms(6,7) pr assms(8)]
  have "info_id ` set (application_infos_from cfg) = dom (hm_get (rm_applications r))"
    using arg_cong [OF p(3), of set] by (auto simp: realm_app_keys_def hm_keys_def dom_map_of_conv_image_fst)
  moreover have "map (\<lambda>info. extension (G ?cid) (m_config m) (measured m' (info_id info))) (application_infos_from cfg) =
      map (\<lambda>i. extension (G ?cid) (m_config m) (measured m' i)) (realm_app_keys r)"
    unfolding p(3) [symmetric] by simp
  moreover have "m_apps m = []" using pr by (rule provision_run)
  moreover have "site_guests s' = (site_guests s1)(?cid := (m', w'))" "site_host s' = site_host s1"
    using arg_cong [OF s1(3), of site_guests] arg_cong [OF s1(3), of site_host] g(2) by simp_all
  moreover have "rm_state r' = Running" using dr.start_run [OF r(1,3)] by simp
  ultimately show ?thesis
    using measured g r(2) s1(4) p(2) [OF s1(1)]
    by (intro exI [of _ s1] exI [of _ r'] exI [of _ m] exI [of _ w] exI [of _ m'] exI [of _ w']) simp
qed

definition site_start ::
  "(WardenClientError + unit) \<times> WardenResponse list \<times> (unit VmRunner, u32 \<times> Link) BuiltRealm WardenDaemon \<times> SimSite" where
  "site_start = cl_start_realm (daemon_frames site_warden_env) 7 ([], site_created)"

lemma site_start_facts:
  "(case site_created of (d, s) \<Rightarrow>
      (map_option (\<lambda>r. (realm_app_keys r, realm_cid r, map (\<lambda>(u, a). am_uuid a) (rm_applications r))) (hm_get (realms_managers d) 7),
       fst (cl_start_realm (daemon_frames site_warden_env) 7 ([], (d, s))))) = (Some ([2], 3, [2]), Inr ())"
  by code_simp

theorem client_start_provisions_witness:
  "dom (hm_get (m_apps (fst (site_guests (snd (snd (snd site_start))) 3)))) = {2} \<and>
   (\<exists>r. hm_get (realms_managers (fst (snd (snd site_start)))) 7 = Some r \<and> rm_state r = Running)"
proof -
  obtain d s where c: "site_created = (d, s)" by (cases site_created)
  from site_start_facts [unfolded c prod.case] obtain r where
    r: "hm_get (realms_managers d) 7 = Some r" "realm_app_keys r = [2]" "realm_cid r = 3"
      "map (\<lambda>(u, a). am_uuid a) (rm_applications r) = [2]"
    and ok: "fst (cl_start_realm (daemon_frames site_warden_env) 7 ([], (d, s))) = Inr ()" by auto
  have apps: "apps_ok am_uuid (rm_applications r)" "dom (hm_get (rm_applications r)) = {2}"
    using r(2,4) by (auto simp: apps_ok_list realm_app_keys_def hm_keys_def map_eq_Cons_conv split: if_splits)
  have cl: "senders site_client = site_sender (\<lambda>cid. realm_link sim_guest)" by (rule site_client_link)
  have run: "cl_start_realm (daemon_frames site_warden_env) 7 ([], (d, s)) =
     (Inr (), (fst (snd site_start), (fst (snd (snd site_start)), snd (snd (snd site_start)))))"
    using ok by (simp add: site_start_def c prod_eq_iff)
  from client_start_provisions [where G = "\<lambda>cid. sim_guest", OF site_client_lawful cl r(1) apps(1) sim_log_kept
      sim_rem_lawful sim_join_order run [unfolded site_warden_env_def]] apps(2) r(3)
  show ?thesis by (elim exE conjE) simp
qed

end
