(* ===== verification/Spec2Isabelle.thy ===== *)
theory Spec2Isabelle
  imports Realm_Properties Storage_Properties Warden_Properties Client_Properties
    Network_Properties Guest_Properties Site_Properties
begin

text \<open>
  Verification of the realm manager: a daemon (the Warden) that runs confidential virtual machines
  (realms) on a host, the manager of applications that runs inside every realm, and the clients that
  command the daemon. This theory has the properties that span the whole chain; what follows says what
  the other theories hold.

  \<^bold>\<open>The program.\<close> A client (\<open>src/warden/client_lib\<close>, or the terminal \<open>src/warden/cmd_client\<close> on top of
  it) sends \<open>WardenCommand\<close>s as framed JSON over a Unix socket to the daemon
  (\<open>src/warden/warden_daemon\<close>). The daemon has one task per connection, which executes each command on
  the shared \<open>Warden\<close>; the Warden keeps the realms by identifier and hands out clones of them. A realm
  (\<open>RealmManager\<close>) owns a virtual machine runner (qemu or lkvm), a handler for the vsock connection
  to the realm's own manager, its applications with a configuration file and a raw disk each, and its own
  configuration file. The daemon also owns the network of the realms: a bridge, a tap device per realm, firewall rules
  and a dnsmasq process. The manager inside a realm (\<open>src/realm/app-manager\<close>) connects back over
  vsock, is provisioned with the list of applications, decrypts and mounts their partitions with keys that are
  sealed to the image, installs signed OCI images, extends the measurement register, and starts, stops and
  watches the application processes.

  \<^bold>\<open>How it is modelled.\<close> A Rust function that returns a \<open>Result\<close> and changes what it borrows is a
  \<open>prog\<close>: a function from the state to the result and the new state (\<open>Prelude\<close>). The state of an
  object is a record with the fields of its struct; a method on a field is run through \<open>zoom\<close>. Panics are a
  separate outcome where the code can panic. What comes from outside the repository (the kernel, tokio, the
  crates, the clocks) is an argument: a record of operations over a world of an arbitrary type (\<open>Os\<close>,
  \<open>FrameOps\<close>, \<open>GuestOs\<close>, \<open>DmOps\<close>, \<open>OciOps\<close>, \<open>IpTablesOps\<close> and the like), with the documented behaviour that a
  theorem needs as a named hypothesis. What \<open>select!\<close> picks, the order in which tasks finish, the order of a
  \<open>HashMap\<close> and the moment at which a timeout fires are decided by such arguments too, so a theorem holds for every choice.
  Integers keep their width (\<open>u8\<close>, \<open>u32\<close>, \<open>u64\<close>, \<open>usize\<close> of a 64-bit target); identifiers are 128 bits.

  \<^bold>\<open>Shared theories.\<close>
  \<^item> \<open>Prelude\<close>: machine types, \<open>prog\<close> with a small program logic (\<open>triple\<close>, \<open>keeps\<close>), hash maps, paths,
    numbers. \<open>Os\<close>: processes and errors of the operating system.
  \<^item> \<open>Protocol\<close> (\<open>src/protocol\<close>), \<open>Json_Framed\<close> (\<open>src/utils/src/serde\<close>), \<open>Managers\<close> (the data and errors of
    \<open>managers/\<close>, \<open>virtualization/network.rs\<close>), \<open>Client_Helper\<close> (the conversions between them).
  \<^item> \<open>Interfaces\<close>: the traits \<open>VmManager\<close>, \<open>RealmClient\<close>, \<open>Application\<close>, \<open>Realm\<close> and \<open>RealmCreator\<close> as tables of
    operations, with a locale for the contract of each.

  \<^bold>\<open>The daemon.\<close>
  \<^item> \<open>Vm_Runner\<close> (\<open>virtualization/vm_runner\<close>): the command lines of both virtualizers, the process
    handler, the log task, the runner; it interprets \<open>vm_manager\<close>.
  \<^item> \<open>App_Disk\<close> (\<open>storage/app_disk_manager.rs\<close>): sizes in 64 bits, the protective MBR in 32 bits, creating,
    checking and resizing the two partitions.
  \<^item> \<open>Storage\<close> (\<open>fs_repository.rs\<close>, \<open>storage/\<close>): YAML configurations and working directories.
  \<^item> \<open>Application_Manager\<close>, \<open>Realm_Manager\<close>, \<open>Warden_Manager\<close> (\<open>managers/\<close>): all operations of the three
    levels. \<open>Realm_Manager\<close> has the concurrent disk preparation (\<open>join_tasks\<close>, with the tasks that still run after
    a failure) and the locale \<open>realm\<close>, proved over the contracts only; \<open>Warden_Manager\<close> has the
    reference counts of the clones and the step relation of the client tasks.
  \<^item> \<open>Realm_Client\<close> (\<open>client_handler/realm_client_handler.rs\<close>) and \<open>Vsock_Server\<close> (\<open>socket/vsocket_server.rs\<close>).
  \<^item> \<open>Fabric\<close> (\<open>fabric/\<close>): building and loading realms, applications and the Warden; here the locale \<open>realm\<close>
    is interpreted on the daemon's own parts.
  \<^item> \<open>Client_Handler\<close> (\<open>client_command_handler.rs\<close>), \<open>Client_Lib\<close> (\<open>client_lib\<close>), \<open>Cmd_Client\<close> (\<open>cmd_client\<close>),
    \<open>Unix_Server\<close> (\<open>socket/unix_socket_server.rs\<close>).
  \<^item> \<open>Dnsmasq\<close>, \<open>Ip_Tables\<close>, \<open>Net_Devices\<close>, \<open>Nat_Manager\<close> (\<open>virtualization/dhcp.rs\<close>,
    \<open>dnsmasq_server_handler.rs\<close>, \<open>nat_manager\<close>): the address pool, the rules of the three firewall tables, bridges and
    taps over netlink, and the network manager over them.
  \<^item> \<open>Daemon\<close>, \<open>Daemon_Builder\<close> (\<open>daemon.rs\<close>, \<open>cli.rs\<close>): how the parts are put together, started and taken down.

  \<^bold>\<open>The manager inside a realm\<close> (\<open>src/realm/app-manager/src\<close>).
  \<^item> \<open>Guest_Error\<close>, \<open>Guest_Util\<close> (\<open>error.rs\<close>, \<open>util/\<close>): errors, C strings, files, mounts, device sizes, power, network addresses.
  \<^item> \<open>Guest_Keys\<close> (\<open>key/\<close>): the sealing factories and keys, with the locale \<open>key_sealing\<close>. \<open>Guest_Crypt\<close> (\<open>dm/\<close>,
    \<open>key/ring.rs\<close>): device mapper, dm-crypt tables, the kernel keyring.
  \<^item> \<open>Guest_Handler\<close> (\<open>launcher/handler.rs\<close>): the process of an application and the task that watches it, a state machine
    driven by requests and by what the process prints.
  \<^item> \<open>Guest_Oci\<close> (\<open>launcher/\<close>): the OCI and the dummy launcher, with the locale \<open>app_launcher\<close>.
  \<^item> \<open>Guest_App\<close> (\<open>app.rs\<close>): setting up and cleaning up one application. \<open>Guest_Manager\<close> (\<open>manager.rs\<close>,
    \<open>config.rs\<close>, \<open>main.rs\<close>): provisioning, requests, the event loop.
  \<^item> \<open>Guest_Link\<close>: the daemon's \<open>RealmClientHandler\<close> over a link at whose other end the model of the manager runs.
    \<open>Guest_Loop\<close>: the event loop over a connection that ends.

  \<^bold>\<open>The whole installation.\<close>
  \<^item> \<open>Site\<close>: a host with a manager behind every vsock context identifier, and the daemon's own operations over it: what the
    daemon does on one realm's connection is what it would do alone with that manager (\<open>lifts\<close>), so that what is
    proved of one link holds for a client command that goes through the library, the command handler and the realm.

  \<^bold>\<open>What is shown.\<close>
  \<^item> \<open>Realm_Properties\<close>: the reachable-state invariant and the state machine of a realm; what start, stop,
    reboot, an update and a token fetch achieve and what they refuse; what the disk files hold when the machine is launched; two ways in which a failed start leaves a realm stuck.
  \<^item> \<open>Storage_Properties\<close>: exact disk sizes and their limits, what a created and a resized disk is, that an updated
    configuration is read back, and that the machine is given the disks that were formatted.
  \<^item> \<open>Warden_Properties\<close>: creating, destroying, listing and loading realms, and the safety of destroying
    under every interleaving of client tasks.
  \<^item> \<open>Client_Properties\<close>: a command touches only its realm and is answered with its own response; a
    connection is served to its end; the client library and the terminal refine the command handler; vsock connections reach who waits for them.
  \<^item> \<open>Network_Properties\<close>: the firewall and the links are restored, the address pool lies in its network exactly when it fits, no client task is
    lost, a failed start takes the network down.
  \<^item> \<open>Guest_Properties\<close>: the invariant of the manager, the trust in installed images, keys sealed to the measured image,
    set-up undone by clean-up, answers that fit the requests, the end of the loop; and, over the link, that a
    provisioning reported by the daemon measured exactly the listed applications.
  \<^item> \<open>Site_Properties\<close>: from the client down into the realm: a start told to a client provisioned and measured exactly the
    applications of the realm, and a stop told to a client ended the process, both without touching another realm.
  \<^item> \<open>Simulation\<close>, \<open>Network_Simulation\<close>, \<open>Guest_Simulation\<close>, \<open>Site_Simulation\<close>: concrete worlds that satisfy every law assumed, on which
    each theorem with a hypothesis is applied.

  \<^bold>\<open>Bounds.\<close> Loops over data are structural recursions. Loops that wait for the outside take the number of
  turns, or the list of events of the first turns, as an argument: \<open>handle_client_requests\<close> and \<open>handle_events\<close> (the theorems
  give the fuel that is enough: one turn per command and one for the end), \<open>cmd_turns\<close>, \<open>listen_loop\<close>,
  \<open>us_listen\<close>, \<open>gather_output\<close>. The statements about them hold for every number of turns. The list of open
  vsock waiters, the file system and the processes are not bounded.

  \<^bold>\<open>Not modelled.\<close> \<open>virtualization/udhcp_server_handler.rs\<close> is not part of the module tree. Logging is only
  modelled where a user reads the result from it (the terminal, the output of a machine). The
  codecs (serde, YAML, JSON), clap, the gpt, iptables, rtnetlink, OCI, RSI, ECDSA and HKDF crates are arguments. The
  installation tasks of one provisioning run one after the other, in an order chosen outside; their
  interleaving inside one installation is not modelled, as they share no state of the manager. Tests, the mocked host, the example application and the build
  scripts are left out. \<open>str::trim\<close> is modelled on the characters up to 127.
\<close>

section \<open>From the library to the process\<close>

text \<open>
  (C33) When a client that calls \<open>start_application\<close> of the library is told that it succeeded, exactly one process
  was spawned, in the realm that it named and nowhere else: it runs the program with the arguments and the
  environment that the application was installed with, with the root of its file system inside the overlay of that application, and the handler
  of the application watches it from then on. What the handler watched before is let go of the way the watching task
  does when its channel closes. No other realm and no manager inside another realm was touched, nothing on the host
  changed, and the connection of the realm is ready for the next request.
\<close>

theorem library_start_application:
  fixes F P C new_v4 order late join cli
  defines "E \<equiv> daemon_warden_env F P C new_v4 order late join cli"
  assumes "senders C = site_sender (\<lambda>cid. realm_link (G cid))"
    and "hm_get (realms_managers d) u = Some r" and "apps_ok am_uuid (rm_applications r)"
    and "sender (rm_client r) = Some (cid, idle_link)" and "site_guests s cid = (m, w)"
    and "child_lawful (g_child (G cid)) pid live" and "\<And>n v. set (join_order (G cid) n v) \<subseteq> {..<n}"
    and "guest_reach (G cid) config (m, w)" and "hm_get (m_apps m) a = Some (app, hn)"
    and "cl_start_application (daemon_frames E) u a ([], (d, s)) = (Inr x, (q, (d', s')))"
  shows "\<exists>arg0 rest sub p w1 hn'. argv (sah_config hn) = arg0 # rest \<and>
    chroot (sah_config hn) = Some (path_push (path_push (cfg_workdir config) (ae_uuid (g_app (G cid)) a)) ''overlay'' @ sub) \<and>
    co_spawn (g_child (G cid)) \<lparr>sp_program = exec (sah_config hn), sp_arg0 = arg0, sp_args = rest,
      sp_env = envp (sah_config hn), sp_config = sah_config hn\<rparr> w = (Inr p, w1) \<and>
    sah_channel hn' \<and> sah_thread hn' = Some (WardenThread_start p) \<and> sah_config hn' = sah_config hn \<and>
    site_guests s' = (site_guests s)(cid := (m\<lparr>m_apps := hm_insert a (app, hn') (m_apps m)\<rparr>,
      case sah_thread hn of None \<Rightarrow> w1 | Some t \<Rightarrow> snd (task_abandoned (g_child (G cid)) t w1))) \<and>
    site_host s' = site_host s \<and> hm_get (realms_managers d') = hm_get (realms_managers d)"
proof -
  let ?S = "\<lambda>cid. realm_link (G cid)" and ?h = "local_handler (rm_client r)"
  have cid: "on_cid cid (rm_client r)" using assms(5) by (simp add: on_cid_def)
  from client_start_application_run [OF assms(2-4) this assms(11) [unfolded E_def]] obtain k g where
    run: "rch_start_application (local_env ?S C cid) a (?h, (m, w)) = (Inr (), (k, g))"
      "s' = s\<lparr>site_guests := (site_guests s)(cid := g)\<rparr>"
      "d' = d\<lparr>realms_managers := hm_insert u (r\<lparr>rm_client := global_handler cid k\<rparr>) (realms_managers d)\<rparr>"
    using assms(6) by auto
  have link: "senders (local_env ?S C cid) = realm_link (G cid)" "sender ?h = Some idle_link"
    using assms(5) by (simp_all add: local_env_def local_handler_def)
  obtain m' w' where g: "g = (m', w')" by (cases g)
  from daemon_start [OF link assms(10) run(1) [unfolded g]] obtain hn' where
    st: "handler_start (g_child (G cid)) (hn, w) = (Inr (), (hn', w'))" "m' = put_handler a app hn' m" "k = ?h" .
  have inv: "entry_ok (G cid) config (a, (app, hn))"
    using guest_reach_inv [OF assms(7-9)] map_of_SomeD [OF assms(10)] by (auto simp: mgr_inv_def)
  have same: "r\<lparr>rm_client := global_handler cid k\<rparr> = r" using st(3) global_local [OF cid] by simp
  obtain sub where sub: "chroot (sah_config hn) =
      Some (path_push (path_push (cfg_workdir config) (ae_uuid (g_app (G cid)) a)) ''overlay'' @ sub)"
    using inv by (auto simp: entry_ok_def)
  obtain arg0 rest p w1 where sp: "argv (sah_config hn) = arg0 # rest"
    "co_spawn (g_child (G cid)) \<lparr>sp_program = exec (sah_config hn), sp_arg0 = arg0, sp_args = rest,
       sp_env = envp (sah_config hn), sp_config = sah_config hn\<rparr> w = (Inr p, w1)"
    "hn' = hn\<lparr>sah_channel := True, sah_thread := Some (WardenThread_start p)\<rparr>"
    "w' = (case sah_thread hn of None \<Rightarrow> w1 | Some t \<Rightarrow> snd (task_abandoned (g_child (G cid)) t w1))"
    by (rule handler_start_run [OF st(1)])
  have "hm_get (realms_managers d') = hm_get (realms_managers d)" using run(3) same assms(3) by (auto simp: fun_eq_iff)
  then show ?thesis
    using sub sp run(2) g st(2)
    by (intro exI [of _ arg0] exI [of _ rest] exI [of _ sub] exI [of _ p] exI [of _ w1] exI [of _ hn']) (simp add: put_handler_def)
qed

definition site_restart ::
  "(WardenClientError + unit) \<times> WardenResponse list \<times> (unit VmRunner, u32 \<times> Link) BuiltRealm WardenDaemon \<times> SimSite" where
  "site_restart = cl_start_application (daemon_frames site_warden_env) 7 4 ([], (WardenDaemon_new [(7, site_running)], site_serving))"

lemma site_restart_ok: "fst site_restart = Inr ()"
  by code_simp

theorem library_start_application_witness:
  "\<exists>app hn. hm_get (m_apps (fst (site_guests (snd (snd (snd site_restart))) 3))) 4 = Some (app, hn) \<and>
     sah_channel hn \<and> site_guests (snd (snd (snd site_restart))) 5 = snd sim_life"
proof -
  from sim_life_facts obtain app hn where e: "hm_get (m_apps (fst (snd sim_life))) 4 = Some (app, hn)"
    by (auto split: prod.splits)
  have c: "senders site_client = site_sender (\<lambda>cid. realm_link sim_guest)" by (rule site_client_link)
  have s: "cl_start_application (daemon_frames site_warden_env) 7 4 ([], (WardenDaemon_new [(7, site_running)], site_serving)) =
     (Inr (), (fst (snd site_restart), (fst (snd (snd site_restart)), snd (snd (snd site_restart)))))"
    using site_restart_ok by (simp add: site_restart_def prod_eq_iff)
  from library_start_application [where G = "\<lambda>cid. sim_guest", OF c site_running_facts sim_guest_lawful
      sim_order_bound sim_reach e s [unfolded site_warden_env_def]]
  show ?thesis by (elim exE conjE) (simp add: site_serving_def)
qed

end
